(* ===== verification/Go_Prelude.thy ===== *)
theory Go_Prelude
  imports Main "HOL-Library.Finite_Map" "HOL-Library.Word" "HOL-Library.List_Lexorder"
    "HOL-Library.Char_ord" "HOL-Library.Sublist"
begin

text \<open>
  The part of Go and of its standard library that the control plane uses, as HOL definitions
  shared by every component.

  \<^item> A Go map is a finite map (\<open>fmap\<close>), so that two maps with the same entries are equal;
    where the code distinguishes a nil map from an empty one the field is an \<open>option\<close>.
  \<^item> A \<open>range\<close> statement over a map visits every entry once, in an order the language leaves
    open: every definition with such a statement takes the order as the parameter \<open>ord\<close>, a
    function from the set of keys to a list of them, and its theorems hold for every \<open>ord\<close>
    that satisfies \<open>range_order\<close>.
  \<^item> An \<open>error\<close> is its message. A function that returns a value or an error is an
    \<open>error + 'a\<close>; a function whose value is used beside its error returns the pair.
  \<^item> A function that may panic returns a \<open>go\<close> value.
  \<^item> A \<open>for\<close> loop is a \<open>fold\<close>, or \<open>go_loop\<close> when its body can return early.
\<close>

section \<open>Types and results\<close>

named_theorems go_simps \<open>equations that unfold the Go primitives in component proofs\<close>

type_synonym int64 = "64 word"

type_synonym range_ord = "string fset \<Rightarrow> string list"

datatype 'a go = Ok 'a | Err string | Panic string

fun go_bind :: "'a go \<Rightarrow> ('a \<Rightarrow> 'b go) \<Rightarrow> 'b go" where
  "go_bind (Ok a) f = f a"
| "go_bind (Err e) f = Err e"
| "go_bind (Panic p) f = Panic p"

lemma go_bind_Ok_iff: "go_bind r f = Ok b \<longleftrightarrow> (\<exists>a. r = Ok a \<and> f a = Ok b)"
  by (cases r) auto

lemma go_bind_split:
  "P (go_bind r f) \<longleftrightarrow>
     ((\<forall>a. r = Ok a \<longrightarrow> P (f a)) \<and> (\<forall>e. r = Err e \<longrightarrow> P (Err e)) \<and> (\<forall>p. r = Panic p \<longrightarrow> P (Panic p)))"
  by (cases r) auto

lemma case_sum_eq_iff:
  "(case a of Inl e \<Rightarrow> f e | Inr b \<Rightarrow> g b) = x \<longleftrightarrow>
     (\<exists>e. a = Inl e \<and> f e = x) \<or> (\<exists>b. a = Inr b \<and> g b = x)"
  by (cases a) auto

section \<open>Loops with an early return\<close>

text \<open>
  The body of a loop either returns from the enclosing function (\<open>Inl\<close>) or goes on to the
  next element with a new state (\<open>Inr\<close>; a \<open>continue\<close> statement is an \<open>Inr\<close> as well).
\<close>

fun go_loop :: "('a \<Rightarrow> 's \<Rightarrow> 'r + 's) \<Rightarrow> 'a list \<Rightarrow> 's \<Rightarrow> 'r + 's" where
  "go_loop body [] s = Inr s"
| "go_loop body (x # xs) s =
     (case body x s of Inl r \<Rightarrow> Inl r | Inr s' \<Rightarrow> go_loop body xs s')"

lemma go_loop_append:
  "go_loop body (xs @ ys) s =
     (case go_loop body xs s of Inl r \<Rightarrow> Inl r | Inr s' \<Rightarrow> go_loop body ys s')"
  by (induction xs arbitrary: s) (auto split: sum.splits)

lemma go_loop_invariant:
  assumes "P s" and "\<And>x s s'. x \<in> set xs \<Longrightarrow> P s \<Longrightarrow> body x s = Inr s' \<Longrightarrow> P s'"
    and "go_loop body xs s = Inr t"
  shows "P t"
  using assms
proof (induction xs arbitrary: s)
  case Nil
  then show ?case by simp
next
  case (Cons x xs)
  from Cons.prems(3) obtain s' where s': "body x s = Inr s'" and t: "go_loop body xs s' = Inr t"
    by (auto split: sum.splits)
  from Cons.prems(2) [OF _ Cons.prems(1) s'] have "P s'" by simp
  then show ?case
    using Cons.IH [of s'] Cons.prems(2) t by (meson list.set_intros(2))
qed

lemma go_loop_early:
  assumes "go_loop body xs s = Inl r"
  shows "\<exists>x s'. x \<in> set xs \<and> body x s' = Inl r"
  using assms
proof (induction xs arbitrary: s)
  case Nil
  then show ?case by simp
next
  case (Cons x xs)
  show ?case
  proof (cases "body x s")
    case (Inl r')
    with Cons.prems have "body x s = Inl r" by simp
    then show ?thesis by (meson list.set_intros(1))
  next
    case (Inr s')
    with Cons.prems have "go_loop body xs s' = Inl r" by simp
    then show ?thesis using Cons.IH by (meson list.set_intros(2))
  qed
qed

lemma go_loop_concat: "go_loop (go_loop body) xss s = go_loop body (concat xss) s"
  by (induction xss arbitrary: s) (auto simp: go_loop_append split: sum.splits)

text \<open>A loop whose body may panic or fail.\<close>

fun go_fold :: "('a \<Rightarrow> 's \<Rightarrow> 's go) \<Rightarrow> 'a list \<Rightarrow> 's \<Rightarrow> 's go" where
  "go_fold f [] s = Ok s"
| "go_fold f (x # xs) s = go_bind (f x s) (go_fold f xs)"

lemma go_fold_invariant:
  assumes "P s" and "\<And>x s s'. x \<in> set xs \<Longrightarrow> P s \<Longrightarrow> f x s = Ok s' \<Longrightarrow> P s'"
    and "go_fold f xs s = Ok t"
  shows "P t"
  using assms
proof (induction xs arbitrary: s)
  case Nil
  then show ?case by simp
next
  case (Cons x xs)
  from Cons.prems(3) obtain s' where s': "f x s = Ok s'" and t: "go_fold f xs s' = Ok t"
    by (auto simp: go_bind_Ok_iff)
  from Cons.prems(2) [OF _ Cons.prems(1) s'] have "P s'" by simp
  then show ?case
    using Cons.IH [of s'] Cons.prems(2) t by (meson list.set_intros(2))
qed

lemma go_fold_total:
  assumes "P s" and "\<And>x s. x \<in> set xs \<Longrightarrow> P s \<Longrightarrow> \<exists>s'. f x s = Ok s' \<and> P s'"
  shows "\<exists>t. go_fold f xs s = Ok t \<and> P t"
  using assms
proof (induction xs arbitrary: s)
  case Nil
  then show ?case by simp
next
  case (Cons x xs)
  from Cons.prems(2) [OF _ Cons.prems(1)] obtain s' where "f x s = Ok s'" "P s'" by auto
  with Cons.IH [of s'] Cons.prems(2) show ?case by auto
qed

lemma fold_invariant_set:
  assumes "P s" and "\<And>x s. x \<in> set xs \<Longrightarrow> P s \<Longrightarrow> P (f x s)"
  shows "P (fold f xs s)"
  using assms by (induction xs arbitrary: s) auto

section \<open>Range over a map\<close>

definition range_order :: "range_ord \<Rightarrow> bool" where
  "range_order ord \<longleftrightarrow> (\<forall>S. distinct (ord S) \<and> fset_of_list (ord S) = S)"

definition fmrange :: "range_ord \<Rightarrow> (string, 'v) fmap \<Rightarrow> (string \<times> 'v) list" where
  "fmrange ord m = List.map_filter (\<lambda>k. map_option (Pair k) (fmlookup m k)) (ord (fmdom m))"

lemma range_orderD:
  assumes "range_order ord"
  shows "distinct (ord S)" and "set (ord S) = fset S"
proof -
  from assms have *: "distinct (ord S) \<and> fset_of_list (ord S) = S"
    by (auto simp: range_order_def)
  then show "distinct (ord S)" by blast
  from * show "set (ord S) = fset S" by (metis fset_of_list.rep_eq)
qed

lemma range_order_sorted: "range_order sorted_list_of_fset"
  by (simp add: range_order_def sorted_list_of_fset_simps(2))
    (simp add: sorted_list_of_fset.rep_eq)

lemma range_order_rev: "range_order ord \<Longrightarrow> range_order (\<lambda>S. rev (ord S))"
  by (auto simp: range_order_def fset_of_list.abs_eq)

lemma map_filter_pair_fst:
  assumes "\<And>k. k \<in> set ks \<Longrightarrow> fmlookup m k \<noteq> None"
  shows "map fst (List.map_filter (\<lambda>k. map_option (Pair k) (fmlookup m k)) ks) = ks"
  using assms by (induction ks) (auto simp: map_filter_simps split: option.splits)

lemma fmrange_fst:
  assumes "range_order ord"
  shows "map fst (fmrange ord m) = ord (fmdom m)"
  unfolding fmrange_def
  by (rule map_filter_pair_fst) (simp add: range_orderD [OF assms] fmdom_notI fmlookup_dom_iff)

lemma map_filter_pair_set:
  "(k, v) \<in> set (List.map_filter (\<lambda>k. map_option (Pair k) (fmlookup m k)) ks) \<longleftrightarrow>
     k \<in> set ks \<and> fmlookup m k = Some v"
  by (induction ks) (auto simp: map_filter_simps split: option.splits)

lemma fmrange_set:
  assumes "range_order ord"
  shows "(k, v) \<in> set (fmrange ord m) \<longleftrightarrow> fmlookup m k = Some v"
  by (auto simp: fmrange_def map_filter_pair_set range_orderD [OF assms] fmlookup_dom_iff)

lemma fmrange_distinct_fst:
  assumes "range_order ord"
  shows "distinct (map fst (fmrange ord m))"
  by (simp add: fmrange_fst [OF assms] range_orderD [OF assms])

lemma fmrange_keys:
  assumes "range_order ord"
  shows "fst ` set (fmrange ord m) = fset (fmdom m)"
  unfolding set_map [symmetric] fmrange_fst [OF assms] by (rule range_orderD [OF assms])

lemma fmrange_empty [simp]: "range_order ord \<Longrightarrow> fmrange ord fmempty = []"
  using fmrange_fst [of ord fmempty] range_orderD(2) [of ord "{||}"] by simp

section \<open>Wrapped errors\<close>

text \<open>The message of \<open>errors.WithMessage\<close> and \<open>errors.Wrap\<close> around an error.\<close>

definition with_message :: "string \<Rightarrow> string \<Rightarrow> string" where
  "with_message msg err = msg @ '': '' @ err"

section \<open>Lookup with a zero value\<close>

text \<open>Reading a missing key of a Go map gives the zero value of the element type.\<close>

definition fmget :: "'v \<Rightarrow> ('k, 'v) fmap \<Rightarrow> 'k \<Rightarrow> 'v" where
  "fmget z m k = (case fmlookup m k of None \<Rightarrow> z | Some v \<Rightarrow> v)"

lemma fmget_upd [simp]: "fmget z (fmupd k v m) k' = (if k' = k then v else fmget z m k')"
  by (simp add: fmget_def)

lemma fmget_empty [simp]: "fmget z fmempty k = z"
  by (simp add: fmget_def)

lemma fmget_Some: "fmlookup m k = Some v \<Longrightarrow> fmget z m k = v"
  by (simp add: fmget_def)

lemma fmlookup_fold_upd:
  "fmlookup (fold (\<lambda>(k, v). fmupd k v) kvs m) j =
     (case map_of (rev kvs) j of Some v \<Rightarrow> Some v | None \<Rightarrow> fmlookup m j)"
proof (induction kvs arbitrary: m)
  case Nil
  then show ?case by simp
next
  case (Cons kv kvs)
  obtain k v where kv: "kv = (k, v)" by (cases kv)
  show ?case by (simp add: Cons.IH kv map_add_def split: option.split)
qed

section \<open>Strings\<close>

fun split_on :: "char \<Rightarrow> string \<Rightarrow> string list" where
  "split_on c [] = [[]]"
| "split_on c (x # xs) =
     (if x = c then [] # split_on c xs
      else (case split_on c xs of [] \<Rightarrow> [[x]] | w # ws \<Rightarrow> (x # w) # ws))"

lemma split_on_nonempty [simp]: "split_on c s \<noteq> []"
  by (induction s) (auto split: list.splits)

fun strings_Join :: "string list \<Rightarrow> string \<Rightarrow> string" where
  "strings_Join [] sep = []"
| "strings_Join [w] sep = w"
| "strings_Join (w # v # ws) sep = w @ sep @ strings_Join (v # ws) sep"

definition strings_HasPrefix :: "string \<Rightarrow> string \<Rightarrow> bool" where
  "strings_HasPrefix s p \<longleftrightarrow> take (length p) s = p"

lemma strings_Join_Cons:
  "ws \<noteq> [] \<Longrightarrow> strings_Join (w # ws) sep = w @ sep @ strings_Join ws sep"
  by (cases ws) auto

lemma strings_Join_eq_Nil:
  "strings_Join ws sep = [] \<Longrightarrow> \<forall>w\<in>set ws. w = []"
  by (induction ws sep rule: strings_Join.induct) auto

lemma join_split: "strings_Join (split_on c s) [c] = s"
proof (induction s)
  case Nil
  then show ?case by simp
next
  case (Cons x xs)
  obtain w ws where ws: "split_on c xs = w # ws" by (cases "split_on c xs") auto
  show ?case
    using Cons.IH ws by (cases ws) auto
qed

lemma split_on_no_sep: "w \<in> set (split_on c s) \<Longrightarrow> c \<notin> set w"
  by (induction s arbitrary: w) (auto split: list.splits if_splits)

lemma strings_HasPrefix_append [simp]: "strings_HasPrefix (p @ s) p"
  by (simp add: strings_HasPrefix_def)

end
