(* ===== verification/Model_Types.thy ===== *)
theory Model_Types
  imports Go_Prelude
begin

text \<open>
  The data exchanged with the connectors: \<^verbatim>\<open>src/pkg/model/taxonomy\<close>,
  \<^verbatim>\<open>src/pkg/model/datacatalog\<close>, \<^verbatim>\<open>src/pkg/model/policymanager\<close>,
  \<^verbatim>\<open>src/pkg/model/adminrules\<close> and \<^verbatim>\<open>src/pkg/serde\<close>.

  A Go value of type \<open>interface{}\<close> that came out of a JSON document is a \<open>json\<close> value (a number
  is its float64 bit pattern). The named string types of the source are synonyms of \<open>string\<close>, their
  declared constants abbreviations. \<open>json.Marshal\<close> and \<open>json.Unmarshal\<close> are modelled at the level of
  JSON values: a \<open>MarshalJSON\<close> method gives the value it passes to \<open>json.Marshal\<close>, an
  \<open>UnmarshalJSON\<close> method takes the decoded value; the text of the decoder's error is abbreviated.
\<close>

section \<open>JSON values and serde.Properties\<close>

datatype json =
    JNull
  | JBool bool
  | JNum int64
  | JStr string
  | JArr "json list"
  | JObj "(string, json) fmap"

definition json_type_error :: string where
  "json_type_error = ''json: cannot unmarshal into Go value of type map[string]interface {}''"

text \<open>\<open>json.Unmarshal\<close> into a \<open>map[string]interface{}\<close>: null leaves a nil map.\<close>

fun json_unmarshal_map :: "json \<Rightarrow> string + (string, json) fmap option" where
  "json_unmarshal_map (JObj m) = Inr (Some m)"
| "json_unmarshal_map JNull = Inr None"
| "json_unmarshal_map (JBool b) = Inl json_type_error"
| "json_unmarshal_map (JNum n) = Inl json_type_error"
| "json_unmarshal_map (JStr s) = Inl json_type_error"
| "json_unmarshal_map (JArr xs) = Inl json_type_error"

text \<open>The entries of a map that may be nil.\<close>

definition items_of :: "(string, json) fmap option \<Rightarrow> (string, json) fmap" where
  "items_of m = (case m of None \<Rightarrow> fmempty | Some m' \<Rightarrow> m')"

lemma items_of_simps [simp]: "items_of None = fmempty" "items_of (Some m) = m"
  by (simp_all add: items_of_def)

record Properties =
  Items :: "(string, json) fmap option"

text \<open>
  \<open>json.Unmarshal\<close> into an existing map keeps its entries and adds the decoded ones; a null
  document sets the map to nil.
\<close>

definition Properties_UnmarshalJSON :: "Properties \<Rightarrow> json \<Rightarrow> string + Properties" where
  "Properties_UnmarshalJSON p data =
     (case json_unmarshal_map data of
        Inl e \<Rightarrow> Inl e
      | Inr None \<Rightarrow> Inr (p\<lparr>Items := None\<rparr>)
      | Inr (Some m) \<Rightarrow> Inr (p\<lparr>Items := Some (items_of (Items p) ++\<^sub>f m)\<rparr>))"

definition Properties_MarshalJSON :: "Properties \<Rightarrow> json" where
  "Properties_MarshalJSON p = (case Items p of None \<Rightarrow> JNull | Some m \<Rightarrow> JObj m)"

section \<open>Package taxonomy\<close>

type_synonym AssetID = string
type_synonym ProcessingLocation = string
type_synonym ConnectionType = string
type_synonym DataFormat = string
type_synonym Capability = string
type_synonym PluginType = string
type_synonym ActionName = string

record Connection =
  Connection_Name :: ConnectionType
  Connection_AdditionalProperties :: Properties

record Interface =
  Interface_Protocol :: ConnectionType
  Interface_DataFormat :: DataFormat

record Tags =
  Tags_Properties :: Properties

record AppInfo =
  AppInfo_Properties :: Properties

record PolicyManagerRequestContext =
  RequestContext_Properties :: Properties

record Action =
  Action_Name :: ActionName
  Action_AdditionalProperties :: Properties

text \<open>
  Both \<open>MarshalJSON\<close> methods build a map with the entry \<open>name\<close> and then copy the additional
  properties over it (a loop of assignments over the entries of a map, hence \<open>++\<^sub>f\<close>).
\<close>

definition Connection_MarshalJSON :: "Connection \<Rightarrow> json" where
  "Connection_MarshalJSON c =
     JObj (fmupd ''name'' (JStr (Connection_Name c)) fmempty
             ++\<^sub>f items_of (Items (Connection_AdditionalProperties c)))"

definition Action_MarshalJSON :: "Action \<Rightarrow> json" where
  "Action_MarshalJSON a =
     JObj (fmupd ''name'' (JStr (Action_Name a)) fmempty
             ++\<^sub>f items_of (Items (Action_AdditionalProperties a)))"

text \<open>
  Both \<open>UnmarshalJSON\<close> methods decode into a map, read its entry \<open>name\<close> with an unchecked type
  assertion, which panics when the entry is missing or not a string, and keep the other entries;
  an empty rest is stored as a nil map.
\<close>

definition rest_items :: "(string, json) fmap \<Rightarrow> (string, json) fmap option" where
  "rest_items m = (let rest = fmdrop ''name'' m in if rest = fmempty then None else Some rest)"

definition Connection_UnmarshalJSON :: "json \<Rightarrow> Connection go" where
  "Connection_UnmarshalJSON data =
     (case json_unmarshal_map data of
        Inl e \<Rightarrow> Err e
      | Inr items \<Rightarrow>
          (case fmlookup (items_of items) ''name'' of
             Some (JStr n) \<Rightarrow>
               Ok \<lparr>Connection_Name = n,
                   Connection_AdditionalProperties = \<lparr>Items = rest_items (items_of items)\<rparr>\<rparr>
           | _ \<Rightarrow> Panic ''interface conversion''))"

definition Action_UnmarshalJSON :: "json \<Rightarrow> Action go" where
  "Action_UnmarshalJSON data =
     (case json_unmarshal_map data of
        Inl e \<Rightarrow> Err e
      | Inr items \<Rightarrow>
          (case fmlookup (items_of items) ''name'' of
             Some (JStr n) \<Rightarrow>
               Ok \<lparr>Action_Name = n,
                   Action_AdditionalProperties = \<lparr>Items = rest_items (items_of items)\<rparr>\<rparr>
           | _ \<Rightarrow> Panic ''interface conversion''))"

section \<open>Package datacatalog\<close>

type_synonym OperationType = string

abbreviation datacatalog_READ :: OperationType where
  "datacatalog_READ \<equiv> ''read''"

record ResourceColumn =
  ResourceColumn_Name :: string
  ResourceColumn_Tags :: "Tags option"

record ResourceMetadata =
  ResourceMetadata_Name :: string
  ResourceMetadata_Owner :: string
  ResourceMetadata_Geography :: string
  ResourceMetadata_Tags :: "Tags option"
  ResourceMetadata_Columns :: "ResourceColumn list"

record ResourceDetails =
  ResourceDetails_Connection :: Connection
  ResourceDetails_DataFormat :: DataFormat

record GetAssetRequest =
  GetAssetRequest_AssetID :: AssetID
  GetAssetRequest_OperationType :: OperationType

record GetAssetResponse =
  GetAssetResponse_ResourceMetadata :: ResourceMetadata
  GetAssetResponse_Details :: ResourceDetails
  GetAssetResponse_Credentials :: string

section \<open>Package policymanager\<close>

type_synonym RequestActionType = string

abbreviation policymanager_READ :: RequestActionType where
  "policymanager_READ \<equiv> ''read''"

abbreviation policymanager_WRITE :: RequestActionType where
  "policymanager_WRITE \<equiv> ''write''"

abbreviation policymanager_DELETE :: RequestActionType where
  "policymanager_DELETE \<equiv> ''delete''"

record RequestAction =
  RequestAction_ActionType :: RequestActionType
  RequestAction_ProcessingLocation :: ProcessingLocation
  RequestAction_Destination :: string

record Resource =
  Resource_ID :: AssetID
  Resource_Metadata :: "ResourceMetadata option"

record ResultItem =
  ResultItem_Policy :: string
  ResultItem_Action :: Action

record GetPolicyDecisionsRequest =
  PolicyRequest_Context :: PolicyManagerRequestContext
  PolicyRequest_Action :: RequestAction
  PolicyRequest_Resource :: Resource

record GetPolicyDecisionsResponse =
  PolicyResponse_DecisionID :: string
  PolicyResponse_Result :: "ResultItem list"

section \<open>Package adminrules\<close>

type_synonym DeploymentStatus = string

abbreviation StatusTrue :: DeploymentStatus where
  "StatusTrue \<equiv> ''True''"

abbreviation StatusFalse :: DeploymentStatus where
  "StatusFalse \<equiv> ''False''"

abbreviation StatusUnknown :: DeploymentStatus where
  "StatusUnknown \<equiv> ''Unknown''"

type_synonym StringList = "string list"

text \<open>A restriction is a map that may be nil: writing to a nil map panics.\<close>

type_synonym Restriction = "(string, StringList) fmap option"

record DecisionPolicy =
  DecisionPolicy_ID :: string
  DecisionPolicy_PolicySetID :: string
  DecisionPolicy_Description :: string
  DecisionPolicy_Version :: string

record Restrictions =
  Restrictions_Clusters :: Restriction
  Restrictions_Modules :: Restriction
  Restrictions_StorageAccounts :: Restriction

record Decision =
  Decision_Deploy :: DeploymentStatus
  Decision_DeploymentRestrictions :: Restrictions
  Decision_Policy :: DecisionPolicy

record DecisionPerCapability =
  DecisionPerCapability_Capability :: Capability
  DecisionPerCapability_Decision :: Decision

type_synonym RuleDecisionList = "DecisionPerCapability list"

record EvaluationOutputStructure =
  EvaluationOutput_Config :: RuleDecisionList

text \<open>The builtin \<open>copy(dst, src)\<close> overwrites as many elements as the shorter slice has.\<close>

definition go_copy :: "'a list \<Rightarrow> 'a list \<Rightarrow> 'a list" where
  "go_copy dst src =
     (let n = min (length dst) (length src) in take n src @ drop n dst)"

definition Restriction_DeepCopyInto :: "Restriction \<Rightarrow> Restriction" where
  "Restriction_DeepCopyInto r =
     Some (fmmap (\<lambda>val. let outVal = [] in go_copy outVal val)
       (case r of None \<Rightarrow> fmempty | Some m \<Rightarrow> m))"

definition Restriction_DeepCopy :: "Restriction \<Rightarrow> Restriction" where
  "Restriction_DeepCopy r = (if r = None then None else Restriction_DeepCopyInto r)"

section \<open>Properties\<close>

lemma lookup_marshalled_name:
  "''name'' |\<notin>| fmdom m \<Longrightarrow> fmlookup (fmupd ''name'' v fmempty ++\<^sub>f m) ''name'' = Some v"
  by simp

lemma rest_items_marshalled:
  assumes "''name'' |\<notin>| fmdom m"
  shows "rest_items (fmupd ''name'' v fmempty ++\<^sub>f m) = (if m = fmempty then None else Some m)"
proof -
  have "fmdrop ''name'' (fmupd ''name'' v fmempty ++\<^sub>f m) = m"
    using assms by (intro fmap_ext) (auto simp: fmdom_notD)
  then show ?thesis by (simp add: rest_items_def Let_def)
qed

lemma Action_codec:
  assumes "''name'' |\<notin>| fmdom (items_of (Items (Action_AdditionalProperties a)))"
  shows "Action_UnmarshalJSON (Action_MarshalJSON a) =
    Ok (a\<lparr>Action_AdditionalProperties :=
      \<lparr>Items = (if items_of (Items (Action_AdditionalProperties a)) = fmempty then None
               else Some (items_of (Items (Action_AdditionalProperties a))))\<rparr>\<rparr>)"
  using assms
  by (simp add: Action_UnmarshalJSON_def Action_MarshalJSON_def lookup_marshalled_name
      rest_items_marshalled del: fmlookup_add)

lemma Connection_codec:
  assumes "''name'' |\<notin>| fmdom (items_of (Items (Connection_AdditionalProperties c)))"
  shows "Connection_UnmarshalJSON (Connection_MarshalJSON c) =
    Ok (c\<lparr>Connection_AdditionalProperties :=
      \<lparr>Items = (if items_of (Items (Connection_AdditionalProperties c)) = fmempty then None
               else Some (items_of (Items (Connection_AdditionalProperties c))))\<rparr>\<rparr>)"
  using assms
  by (simp add: Connection_UnmarshalJSON_def Connection_MarshalJSON_def lookup_marshalled_name
      rest_items_marshalled del: fmlookup_add)

lemma Connection_unmarshal_Ok_iff:
  "(\<exists>c. Connection_UnmarshalJSON data = Ok c) \<longleftrightarrow>
     (\<exists>m n. data = JObj m \<and> fmlookup m ''name'' = Some (JStr n))"
  by (cases data) (auto simp: Connection_UnmarshalJSON_def split: option.splits json.splits)

end
