(* ===== verification/API_Types.thy ===== *)
theory API_Types
  imports Model_Types
begin

text \<open>
  The custom resources of the control plane, \<^verbatim>\<open>src/manager/apis/app/v1alpha1\<close>:
  FybrikApplication, FybrikModule, Plotter, Blueprint and FybrikStorageAccount, one record per
  struct with the struct's fields in their order. A pointer field is an \<open>option\<close>. Slices are
  lists and maps finite maps; a nil slice is an empty list and a nil map an empty map, except for
  \<open>AssetStates\<close>, which the controllers compare with nil. The metadata of Kubernetes
  (\<open>ObjectMeta\<close>, \<open>LabelSelector\<close>, \<open>NamespacedName\<close>) has the fields the code reads.
\<close>

section \<open>Kubernetes metadata\<close>

record NamespacedName =
  NN_Name :: string
  NN_Namespace :: string

record LabelSelectorRequirement =
  Requirement_Key :: string
  Requirement_Operator :: string
  Requirement_Values :: "string list"

record LabelSelector =
  Selector_MatchLabels :: "(string, string) fmap"
  Selector_MatchExpressions :: "LabelSelectorRequirement list"

record ObjectMeta =
  Meta_Name :: string
  Meta_Namespace :: string
  Meta_UID :: string
  Meta_ClusterName :: string
  Meta_Labels :: "(string, string) fmap"
  Meta_Annotations :: "(string, string) fmap"
  Meta_Finalizers :: "string list"
  Meta_Generation :: int64
  Meta_DeletionTimestamp :: "int64 option"

text \<open>Values of \<open>corev1.ConditionStatus\<close>; the zero value is the empty string.\<close>

type_synonym ConditionStatus = string

abbreviation ConditionTrue :: ConditionStatus where
  "ConditionTrue \<equiv> ''True''"

abbreviation ConditionFalse :: ConditionStatus where
  "ConditionFalse \<equiv> ''False''"

abbreviation ConditionUnknown :: ConditionStatus where
  "ConditionUnknown \<equiv> ''Unknown''"

section \<open>Shared types\<close>

record ObservedState =
  ObservedState_Ready :: bool
  ObservedState_Error :: string

record Vault =
  Vault_Role :: string
  Vault_SecretPath :: string
  Vault_Address :: string
  Vault_AuthPath :: string

definition Vault_zero :: Vault where
  "Vault_zero = \<lparr>Vault_Role = [], Vault_SecretPath = [], Vault_Address = [], Vault_AuthPath = []\<rparr>"

record Selector =
  Selector_ClusterName :: string
  Selector_WorkloadSelector :: LabelSelector

type_synonym InterfaceDetails = Interface

type_synonym DataFlow = string

abbreviation ReadFlow :: DataFlow where
  "ReadFlow \<equiv> ''read''"

abbreviation WriteFlow :: DataFlow where
  "WriteFlow \<equiv> ''write''"

abbreviation DeleteFlow :: DataFlow where
  "DeleteFlow \<equiv> ''delete''"

abbreviation CopyFlow :: DataFlow where
  "CopyFlow \<equiv> ''copy''"

record DataStore =
  DataStore_Vault :: "(string, Vault) fmap"
  DataStore_Connection :: Connection
  DataStore_Format :: DataFormat

type_synonym ConditionType = string

abbreviation ErrorCondition :: ConditionType where
  "ErrorCondition \<equiv> ''Error''"

abbreviation DenyCondition :: ConditionType where
  "DenyCondition \<equiv> ''Deny''"

abbreviation ReadyCondition :: ConditionType where
  "ReadyCondition \<equiv> ''Ready''"

abbreviation ValidCondition :: ConditionType where
  "ValidCondition \<equiv> ''Valid''"

record Condition =
  Condition_Type :: ConditionType
  Condition_Status :: ConditionStatus
  Condition_Message :: string
  Condition_ObservedGeneration :: int64

section \<open>FybrikApplication\<close>

record CatalogRequirements =
  CatalogService :: string
  CatalogID :: string

record CopyRequirements =
  CopyRequirements_Required :: bool
  CopyRequirements_Catalog :: CatalogRequirements

record DataRequirements =
  Requirements_Interface :: InterfaceDetails
  Requirements_Copy :: CopyRequirements

record DataContext =
  DataSetID :: string
  DataContext_CatalogService :: string
  DataContext_Requirements :: DataRequirements

record FybrikApplicationSpec =
  AppSpec_Selector :: Selector
  AppSpec_SecretRef :: string
  AppSpec_AppInfo :: AppInfo
  AppSpec_Data :: "DataContext list"

definition InvalidAssetID :: string where
  "InvalidAssetID = ''the asset does not exist''"

definition ReadAccessDenied :: string where
  "ReadAccessDenied = ''governance policies forbid access to the data''"

definition CopyNotAllowed :: string where
  "CopyNotAllowed =
     ''copy of the data is required but can not be done according to the governance policies''"

definition WriteNotAllowed :: string where
  "WriteNotAllowed = ''governance policies forbid writing of the data''"

definition ModuleNotFound :: string where
  "ModuleNotFound = ''no module has been registered''"

definition InsufficientStorage :: string where
  "InsufficientStorage = ''no bucket was provisioned for implicit copy''"

definition InvalidClusterConfiguration :: string where
  "InvalidClusterConfiguration = ''cluster configuration does not support the requirements''"

definition InvalidAssetDataStore :: string where
  "InvalidAssetDataStore = ''the asset data store is not supported''"

record ResourceReference =
  ResourceReference_Name :: string
  ResourceReference_Namespace :: string
  ResourceReference_Kind :: string
  ResourceReference_AppVersion :: int64

record DatasetDetails =
  DatasetDetails_DatasetRef :: string
  DatasetDetails_SecretRef :: string

record AssetState =
  AssetState_Conditions :: "Condition list"
  AssetState_CatalogedAsset :: string
  AssetState_Endpoint :: Connection

record FybrikApplicationStatus =
  AppStatus_Ready :: bool
  AppStatus_ErrorMessage :: string
  AppStatus_AssetStates :: "(string, AssetState) fmap option"
  AppStatus_ObservedGeneration :: int64
  AppStatus_ValidatedGeneration :: int64
  AppStatus_ValidApplication :: ConditionStatus
  AppStatus_Generated :: "ResourceReference option"
  AppStatus_ProvisionedStorage :: "(string, DatasetDetails) fmap"

record FybrikApplication =
  App_Meta :: ObjectMeta
  App_Spec :: FybrikApplicationSpec
  App_Status :: FybrikApplicationStatus

abbreviation ApplicationClusterLabel :: string where
  "ApplicationClusterLabel \<equiv> ''app.fybrik.io/app-cluster''"

abbreviation ApplicationNamespaceLabel :: string where
  "ApplicationNamespaceLabel \<equiv> ''app.fybrik.io/app-namespace''"

abbreviation ApplicationNameLabel :: string where
  "ApplicationNameLabel \<equiv> ''app.fybrik.io/app-name''"

section \<open>FybrikModule\<close>

type_synonym CapabilityScope = string

abbreviation Scope_Asset :: CapabilityScope where
  "Scope_Asset \<equiv> ''asset''"

abbreviation Scope_Workload :: CapabilityScope where
  "Scope_Workload \<equiv> ''workload''"

abbreviation Scope_Cluster :: CapabilityScope where
  "Scope_Cluster \<equiv> ''cluster''"

type_synonym DependencyType = string

abbreviation Dependency_Module :: DependencyType where
  "Dependency_Module \<equiv> ''module''"

abbreviation Dependency_Connector :: DependencyType where
  "Dependency_Connector \<equiv> ''connector''"

abbreviation Dependency_Feature :: DependencyType where
  "Dependency_Feature \<equiv> ''feature''"

record ModuleInOut =
  ModuleInOut_Source :: "InterfaceDetails option"
  ModuleInOut_Sink :: "InterfaceDetails option"

record Dependency =
  Dependency_Type :: DependencyType
  Dependency_Name :: string

record Plugin =
  Plugin_PluginType :: PluginType
  Plugin_DataFormat :: string

record ModuleSupportedAction =
  ModuleSupportedAction_Name :: ActionName

record ModuleCapability =
  ModuleCapability_Capability :: Capability
  ModuleCapability_Scope :: CapabilityScope
  ModuleCapability_SupportedInterfaces :: "ModuleInOut list"
  ModuleCapability_API :: "ResourceDetails option"
  ModuleCapability_Actions :: "ModuleSupportedAction list"
  ModuleCapability_Plugins :: "Plugin list"

record ResourceStatusIndicator =
  Indicator_Kind :: string
  Indicator_SuccessCondition :: string
  Indicator_FailureCondition :: string
  Indicator_ErrorMessage :: string

record ChartSpec =
  ChartSpec_Name :: string
  ChartSpec_ChartPullSecret :: string
  ChartSpec_Values :: "(string, string) fmap"

record FybrikModuleSpec =
  ModuleSpec_Description :: string
  ModuleSpec_Type :: string
  ModuleSpec_PluginType :: string
  ModuleSpec_Dependencies :: "Dependency list"
  ModuleSpec_Capabilities :: "ModuleCapability list"
  ModuleSpec_Chart :: ChartSpec
  ModuleSpec_StatusIndicators :: "ResourceStatusIndicator list"

record FybrikModuleStatus =
  ModuleStatus_Conditions :: "Condition list"

record FybrikModule =
  Module_Meta :: ObjectMeta
  Module_Spec :: FybrikModuleSpec
  Module_Status :: FybrikModuleStatus

abbreviation Module_Name :: "FybrikModule \<Rightarrow> string" where
  "Module_Name m \<equiv> Meta_Name (Module_Meta m)"

section \<open>Plotter\<close>

record AssetDetails =
  AssetDetails_AdvertisedAssetID :: string
  AssetDetails_DataStore :: DataStore

record StepSource =
  StepSource_AssetID :: string
  StepSource_API :: "ResourceDetails option"

record StepSink =
  StepSink_AssetID :: string

record StepParameters =
  StepParameters_Source :: "StepSource option"
  StepParameters_Sink :: "StepSink option"
  StepParameters_API :: "ResourceDetails option"
  StepParameters_Actions :: "Action list"

record DataFlowStep =
  Step_Name :: string
  Step_Cluster :: string
  Step_Template :: string
  Step_Parameters :: "StepParameters option"

type_synonym SubFlowTrigger = string

abbreviation InitTrigger :: SubFlowTrigger where
  "InitTrigger \<equiv> ''init''"

abbreviation WorkloadTrigger :: SubFlowTrigger where
  "WorkloadTrigger \<equiv> ''workload''"

abbreviation TimerTrigger :: SubFlowTrigger where
  "TimerTrigger \<equiv> ''timer''"

record SubFlow =
  SubFlow_Name :: string
  SubFlow_FlowType :: DataFlow
  SubFlow_Triggers :: "SubFlowTrigger list"
  SubFlow_Steps :: "DataFlowStep list list"

record Flow =
  Flow_Name :: string
  Flow_FlowType :: DataFlow
  Flow_AssetID :: string
  Flow_SubFlows :: "SubFlow list"

record ModuleInfo =
  ModuleInfo_Name :: string
  ModuleInfo_Type :: string
  ModuleInfo_Chart :: ChartSpec
  ModuleInfo_Scope :: CapabilityScope

record Template =
  Template_Name :: string
  Template_Modules :: "ModuleInfo list"

record FlowStatus =
  FlowStatus_ObservedState :: ObservedState
  FlowStatus_SubFlows :: "(string, ObservedState) fmap"

record PlotterSpec =
  PlotterSpec_Selector :: Selector
  PlotterSpec_Assets :: "(string, AssetDetails) fmap"
  PlotterSpec_Flows :: "Flow list"
  PlotterSpec_ModulesNamespace :: string
  PlotterSpec_Templates :: "(string, Template) fmap"

section \<open>Blueprint\<close>

record CopyModuleArgs =
  CopyArgs_Source :: DataStore
  CopyArgs_Destination :: DataStore
  CopyArgs_AssetID :: string
  CopyArgs_Transformations :: "Action list"

record ReadModuleArgs =
  ReadArgs_Source :: DataStore
  ReadArgs_AssetID :: string
  ReadArgs_Transformations :: "Action list"

record WriteModuleArgs =
  WriteArgs_Destination :: DataStore
  WriteArgs_AssetID :: string
  WriteArgs_Transformations :: "Action list"

record ModuleArguments =
  Arguments_Labels :: "(string, string) fmap"
  Arguments_AppSelector :: LabelSelector
  Arguments_Copy :: "CopyModuleArgs option"
  Arguments_Read :: "ReadModuleArgs list"
  Arguments_Write :: "WriteModuleArgs list"

record BlueprintModule =
  BlueprintModule_Name :: string
  BlueprintModule_Chart :: ChartSpec
  BlueprintModule_Arguments :: ModuleArguments
  BlueprintModule_AssetIDs :: "string list"

record BlueprintSpec =
  BlueprintSpec_Cluster :: string
  BlueprintSpec_ModulesNamespace :: string
  BlueprintSpec_Modules :: "(string, BlueprintModule) fmap"

record BlueprintStatus =
  BlueprintStatus_ObservedState :: ObservedState
  BlueprintStatus_ObservedGeneration :: int64
  BlueprintStatus_ModulesState :: "(string, ObservedState) fmap"
  BlueprintStatus_Releases :: "(string, int64) fmap"

record Blueprint =
  Blueprint_Meta :: ObjectMeta
  Blueprint_Spec :: BlueprintSpec
  Blueprint_Status :: BlueprintStatus

record MetaBlueprint =
  MetaBlueprint_Name :: string
  MetaBlueprint_Namespace :: string
  MetaBlueprint_Status :: BlueprintStatus

definition ObservedState_zero :: ObservedState where
  "ObservedState_zero = \<lparr>ObservedState_Ready = False, ObservedState_Error = []\<rparr>"

definition BlueprintStatus_zero :: BlueprintStatus where
  "BlueprintStatus_zero =
     \<lparr>BlueprintStatus_ObservedState = ObservedState_zero, BlueprintStatus_ObservedGeneration = 0,
      BlueprintStatus_ModulesState = fmempty, BlueprintStatus_Releases = fmempty\<rparr>"

definition CreateMetaBlueprint :: "Blueprint \<Rightarrow> MetaBlueprint" where
  "CreateMetaBlueprint blueprint =
     \<lparr>MetaBlueprint_Name = Meta_Name (Blueprint_Meta blueprint),
      MetaBlueprint_Namespace = Meta_Namespace (Blueprint_Meta blueprint),
      MetaBlueprint_Status = Blueprint_Status blueprint\<rparr>"

definition CreateMetaBlueprintWithoutState :: "Blueprint \<Rightarrow> MetaBlueprint" where
  "CreateMetaBlueprintWithoutState blueprint =
     \<lparr>MetaBlueprint_Name = Meta_Name (Blueprint_Meta blueprint),
      MetaBlueprint_Namespace = Meta_Namespace (Blueprint_Meta blueprint),
      MetaBlueprint_Status = BlueprintStatus_zero\<lparr>BlueprintStatus_ModulesState := fmempty\<rparr>\<rparr>"

abbreviation BlueprintNamespaceLabel :: string where
  "BlueprintNamespaceLabel \<equiv> ''app.fybrik.io/blueprint-namespace''"

abbreviation BlueprintNameLabel :: string where
  "BlueprintNameLabel \<equiv> ''app.fybrik.io/blueprint-name''"

record PlotterStatus =
  PlotterStatus_ObservedState :: ObservedState
  PlotterStatus_ObservedGeneration :: int64
  PlotterStatus_Flows :: "(string, FlowStatus) fmap"
  PlotterStatus_Assets :: "(string, ObservedState) fmap"
  PlotterStatus_Blueprints :: "(string, MetaBlueprint) fmap"
  PlotterStatus_Conditions :: "Condition list"
  PlotterStatus_ReadyTimestamp :: "int64 option"

record Plotter =
  Plotter_Meta :: ObjectMeta
  Plotter_Spec :: PlotterSpec
  Plotter_Status :: PlotterStatus

section \<open>FybrikStorageAccount\<close>

record FybrikStorageAccountSpec =
  StorageAccount_ID :: string
  StorageAccount_SecretRef :: string
  StorageAccount_Endpoints :: "(string, string) fmap"

record FybrikStorageAccount =
  StorageAccount_Meta :: ObjectMeta
  StorageAccount_Spec :: FybrikStorageAccountSpec

section \<open>Zero values\<close>

text \<open>The zero values that reading a missing key of one of the maps gives.\<close>

definition Connection_zero :: Connection where
  "Connection_zero = \<lparr>Connection_Name = [], Connection_AdditionalProperties = \<lparr>Items = None\<rparr>\<rparr>"

definition DataStore_zero :: DataStore where
  "DataStore_zero =
     \<lparr>DataStore_Vault = fmempty, DataStore_Connection = Connection_zero, DataStore_Format = []\<rparr>"

definition AssetDetails_zero :: AssetDetails where
  "AssetDetails_zero =
     \<lparr>AssetDetails_AdvertisedAssetID = [], AssetDetails_DataStore = DataStore_zero\<rparr>"

definition Template_zero :: Template where
  "Template_zero = \<lparr>Template_Name = [], Template_Modules = []\<rparr>"

definition AssetState_zero :: AssetState where
  "AssetState_zero =
     \<lparr>AssetState_Conditions = [], AssetState_CatalogedAsset = [],
      AssetState_Endpoint = Connection_zero\<rparr>"

definition Condition_zero :: Condition where
  "Condition_zero =
     \<lparr>Condition_Type = [], Condition_Status = [], Condition_Message = [],
      Condition_ObservedGeneration = 0\<rparr>"

lemmas zero_defs =
  Connection_zero_def DataStore_zero_def AssetDetails_zero_def Template_zero_def
  AssetState_zero_def Condition_zero_def Vault_zero_def ObservedState_zero_def
  BlueprintStatus_zero_def

end
