(* ===== verification/Utils.thy ===== *)
theory Utils
  imports API_Types
begin

text \<open>
  The helpers of \<^verbatim>\<open>src/manager/controllers/utils\<close> and \<^verbatim>\<open>src/pkg/environment\<close>.

  The record \<open>go_env\<close> holds what the process reads from outside the program: its environment
  variables, the namespace file that Kubernetes mounts, and the library functions whose source is
  not part of the repository. They are parameters of the definitions that use them. The hash
  function is one of them; that it returns 64 bytes is the named hypothesis \<open>sha512_size\<close>.
\<close>

section \<open>The environment of the process\<close>

record go_env =
  LookupEnv :: "string \<Rightarrow> string option"
  NamespaceFile :: "string option"
  Sum512 :: "string \<Rightarrow> 8 word list"
  LabelSelector_Size :: "LabelSelector \<Rightarrow> nat"
  NestedString :: "(string, json) fmap \<Rightarrow> string list \<Rightarrow> string \<times> bool \<times> string option"
  NestedFieldNoCopy :: "(string, json) fmap \<Rightarrow> string list \<Rightarrow> json option \<times> bool \<times> string option"
  JSON_Text :: "json \<Rightarrow> string"

definition sha512_size :: "go_env \<Rightarrow> bool" where
  "sha512_size env \<longleftrightarrow> (\<forall>s. length (Sum512 env s) = 64)"

text \<open>\<open>os.Getenv\<close> gives the empty string for a variable that is not set.\<close>

definition Getenv :: "go_env \<Rightarrow> string \<Rightarrow> string" where
  "Getenv env key = (case LookupEnv env key of None \<Rightarrow> [] | Some v \<Rightarrow> v)"

section \<open>Numbers and white space\<close>

definition is_digit :: "char \<Rightarrow> bool" where
  "is_digit c \<longleftrightarrow> CHR ''0'' \<le> c \<and> c \<le> CHR ''9''"

definition digit_value :: "char \<Rightarrow> int" where
  "digit_value c = int (of_char c) - 48"

definition digits_value :: "string \<Rightarrow> int" where
  "digits_value s = foldl (\<lambda>n c. 10 * n + digit_value c) 0 s"

text \<open>
  \<open>strconv.Atoi\<close>: an optional sign and at least one decimal digit, in the range of a 64-bit int.
\<close>

definition strconv_Atoi :: "string \<Rightarrow> string + int" where
  "strconv_Atoi s =
     (let neg = (s \<noteq> [] \<and> hd s = CHR ''-'');
          ds = (if s \<noteq> [] \<and> (hd s = CHR ''-'' \<or> hd s = CHR ''+'') then tl s else s);
          v = (if neg then - digits_value ds else digits_value ds)
      in if ds = [] \<or> \<not> list_all is_digit ds then Inl ''invalid syntax''
         else if v < - (2 ^ 63) \<or> 2 ^ 63 \<le> v then Inl ''value out of range''
         else Inr v)"

definition is_space :: "char \<Rightarrow> bool" where
  "is_space c \<longleftrightarrow> c = CHR '' '' \<or> (CHR 0x09 \<le> c \<and> c \<le> CHR 0x0D)"

definition strings_TrimSpace :: "string \<Rightarrow> string" where
  "strings_TrimSpace s = rev (dropWhile is_space (rev (dropWhile is_space s)))"

section \<open>Configuration\<close>

abbreviation VaultEnabledKey :: string where
  "VaultEnabledKey \<equiv> ''VAULT_ENABLED''"

abbreviation VaultAddressKey :: string where
  "VaultAddressKey \<equiv> ''VAULT_ADDRESS''"

abbreviation VaultModulesRoleKey :: string where
  "VaultModulesRoleKey \<equiv> ''VAULT_MODULES_ROLE''"

abbreviation DatapathLimitKey :: string where
  "DatapathLimitKey \<equiv> ''DATAPATH_LIMIT''"

abbreviation CatalogConnectorServiceAddressKey :: string where
  "CatalogConnectorServiceAddressKey \<equiv> ''CATALOG_CONNECTOR_URL''"

abbreviation DefaultModulesNamespace :: string where
  "DefaultModulesNamespace \<equiv> ''fybrik-blueprints''"

abbreviation DefaultControllerNamespace :: string where
  "DefaultControllerNamespace \<equiv> ''fybrik-system''"

definition GetSystemNamespace :: "go_env \<Rightarrow> string" where
  "GetSystemNamespace env =
     (case NamespaceFile env of
        Some data \<Rightarrow>
          (let ns = strings_TrimSpace data
           in if length ns > 0 then ns else DefaultControllerNamespace)
      | None \<Rightarrow> DefaultControllerNamespace)"

definition IsVaultEnabled :: "go_env \<Rightarrow> bool" where
  "IsVaultEnabled env \<longleftrightarrow> Getenv env VaultEnabledKey = ''true''"

definition GetModulesRole :: "go_env \<Rightarrow> string" where
  "GetModulesRole env = Getenv env VaultModulesRoleKey"

definition GetVaultAddress :: "go_env \<Rightarrow> string" where
  "GetVaultAddress env = Getenv env VaultAddressKey"

definition GetDataPathMaxSize :: "go_env \<Rightarrow> int \<times> string option" where
  "GetDataPathMaxSize env =
     (let defaultLimit = 2; limitStr = Getenv env DatapathLimitKey
      in if limitStr = [] then (defaultLimit, None)
         else (case strconv_Atoi limitStr of
                 Inl err \<Rightarrow> (defaultLimit, Some err)
               | Inr limit \<Rightarrow> (limit, None)))"

definition GetDataCatalogServiceAddress :: "go_env \<Rightarrow> string" where
  "GetDataCatalogServiceAddress env = Getenv env CatalogConnectorServiceAddressKey"

definition GetDefaultModulesNamespace :: "go_env \<Rightarrow> string" where
  "GetDefaultModulesNamespace env =
     (let ns = Getenv env ''MODULES_NAMESPACE''
      in if length ns = 0 then DefaultModulesNamespace else ns)"

definition GetControllerNamespace :: "go_env \<Rightarrow> string" where
  "GetControllerNamespace env =
     (let ns = Getenv env ''CONTROLLER_NAMESPACE''
      in if length ns = 0 then DefaultControllerNamespace else ns)"

definition GetApplicationNamespace :: "go_env \<Rightarrow> string" where
  "GetApplicationNamespace env = Getenv env ''APPLICATION_NAMESPACE''"

definition GetEnvAsInt :: "go_env \<Rightarrow> string \<Rightarrow> int \<Rightarrow> int" where
  "GetEnvAsInt env key defaultValue =
     (case LookupEnv env key of
        Some e \<Rightarrow> (case strconv_Atoi e of Inr i \<Rightarrow> i | Inl err \<Rightarrow> defaultValue)
      | None \<Rightarrow> defaultValue)"

definition MustGetEnv :: "go_env \<Rightarrow> string \<Rightarrow> string + string" where
  "MustGetEnv env key =
     (case LookupEnv env key of
        None \<Rightarrow> Inl (''missing required environment variable: '' @ key)
      | Some v \<Rightarrow> Inr v)"

section \<open>Names\<close>

definition hex_digit :: "nat \<Rightarrow> char" where
  "hex_digit n = ''0123456789abcdef'' ! (n mod 16)"

definition hex_byte :: "8 word \<Rightarrow> string" where
  "hex_byte b = [hex_digit (unat b div 16), hex_digit (unat b mod 16)]"

definition hex_EncodeToString :: "8 word list \<Rightarrow> string" where
  "hex_EncodeToString bs = concat (map hex_byte bs)"

definition Hash :: "go_env \<Rightarrow> string \<Rightarrow> nat \<Rightarrow> string" where
  "Hash env value hashLength =
     (let hashedStr = hex_EncodeToString (Sum512 env value)
      in if hashLength \<ge> length hashedStr then hashedStr else take hashLength hashedStr)"

text \<open>
  The lengths are natural numbers (every caller passes constants); the prefix \<open>name[:cutOffIndex]\<close>
  panics when the index \<open>maxLength - hashLength - 1\<close> is negative.
\<close>

definition ShortenedName :: "go_env \<Rightarrow> string \<Rightarrow> nat \<Rightarrow> nat \<Rightarrow> string go" where
  "ShortenedName env name maxLength hashLength =
     (if length name > maxLength then
        (if maxLength < hashLength + 1 then Panic ''slice bounds out of range''
         else
           (let cutOffIndex = maxLength - hashLength - 1;
                prefix = take cutOffIndex name;
                suffix = Hash env (drop cutOffIndex name) hashLength
            in Ok (prefix @ ''-'' @ suffix)))
      else Ok name)"

definition K8sConformName :: "go_env \<Rightarrow> string \<Rightarrow> string go" where
  "K8sConformName env name = ShortenedName env name 63 5"

definition HelmConformName :: "go_env \<Rightarrow> string \<Rightarrow> string go" where
  "HelmConformName env name = ShortenedName env name 53 5"

definition GetReleaseNameByStepName :: "go_env \<Rightarrow> string \<Rightarrow> string \<Rightarrow> string \<Rightarrow> string go" where
  "GetReleaseNameByStepName env applicationName namespace moduleInstanceName =
     HelmConformName env (applicationName @ ''-'' @ namespace @ ''-'' @ moduleInstanceName)"

definition GetReleaseName :: "go_env \<Rightarrow> string \<Rightarrow> string \<Rightarrow> string \<Rightarrow> string go" where
  "GetReleaseName env applicationName namespace instanceName =
     GetReleaseNameByStepName env applicationName namespace instanceName"

definition CreateStepName :: "go_env \<Rightarrow> string \<Rightarrow> string \<Rightarrow> string" where
  "CreateStepName env moduleName assetID = moduleName @ ''-'' @ Hash env assetID 10"

section \<open>Small helpers\<close>

definition IsDenied :: "ActionName \<Rightarrow> bool" where
  "IsDenied actionName \<longleftrightarrow> actionName = ''Deny''"

fun HasString :: "string \<Rightarrow> string list \<Rightarrow> bool" where
  "HasString value [] = False"
| "HasString value (v # values) = (if v = value then True else HasString value values)"

fun Intersection :: "string list \<Rightarrow> string list \<Rightarrow> string list" where
  "Intersection [] set2 = []"
| "Intersection (elem1 # set1) set2 =
     (if HasString elem1 set2 then elem1 # Intersection set1 set2 else Intersection set1 set2)"

abbreviation FybrikAppUUID :: string where
  "FybrikAppUUID \<equiv> ''app.fybrik.io/app-uuid''"

definition GetFybrikApplicationUUID :: "FybrikApplication \<Rightarrow> string" where
  "GetFybrikApplicationUUID fapp = Meta_UID (App_Meta fapp)"

definition GetFybrikApplicationUUIDfromAnnotations :: "(string, string) fmap \<Rightarrow> string" where
  "GetFybrikApplicationUUIDfromAnnotations annotations =
     (case fmlookup annotations FybrikAppUUID of None \<Rightarrow> ''UUID missing'' | Some uuid \<Rightarrow> uuid)"

definition GetAuthPath :: "string \<Rightarrow> string" where
  "GetAuthPath authPath = (if authPath = [] then [] else ''/v1/auth/'' @ authPath @ ''/login'')"

section \<open>Labels of an unstructured object\<close>

definition UnstructuredAsLabels_Has :: "go_env \<Rightarrow> (string, json) fmap \<Rightarrow> string \<Rightarrow> bool" where
  "UnstructuredAsLabels_Has env obj label =
     (case NestedFieldNoCopy env obj (split_on CHR ''.'' label) of
        (_, exists, err) \<Rightarrow> \<not> (err \<noteq> None \<or> \<not> exists))"

definition UnstructuredAsLabels_Get :: "go_env \<Rightarrow> (string, json) fmap \<Rightarrow> string \<Rightarrow> string" where
  "UnstructuredAsLabels_Get env obj label =
     (let fields = split_on CHR ''.'' label
      in case NestedString env obj fields of
           (valStr, _, None) \<Rightarrow> valStr
         | (_, _, Some _) \<Rightarrow>
             (case NestedFieldNoCopy env obj fields of
                (_, _, Some _) \<Rightarrow> []
              | (val, _, None) \<Rightarrow> JSON_Text env (case val of None \<Rightarrow> JNull | Some v \<Rightarrow> v)))"

section \<open>Lemmas\<close>

lemma length_hex_byte [simp]: "length (hex_byte b) = 2"
  by (simp add: hex_byte_def)

lemma length_hex_EncodeToString [simp]: "length (hex_EncodeToString bs) = 2 * length bs"
  by (induction bs) (simp_all add: hex_EncodeToString_def)

lemma length_Hash:
  "sha512_size env \<Longrightarrow> length (Hash env value n) = min n 128"
  by (simp add: Hash_def sha512_size_def Let_def)

lemma HasString_iff [simp]: "HasString v vs \<longleftrightarrow> v \<in> set vs"
  by (induction vs) auto

lemma Intersection_filter: "Intersection xs ys = filter (\<lambda>x. x \<in> set ys) xs"
  by (induction xs) auto

lemma set_Intersection [simp]: "set (Intersection xs ys) = set xs \<inter> set ys"
  by (auto simp: Intersection_filter)

lemma Intersection_self [simp]: "Intersection xs xs = xs"
  by (simp add: Intersection_filter)

lemma ShortenedName_Ok:
  assumes "hashLength < maxLength"
  shows "\<exists>s. ShortenedName env name maxLength hashLength = Ok s"
  using assms by (auto simp: ShortenedName_def Let_def)

lemma ShortenedName_length:
  assumes "sha512_size env" and "hashLength < maxLength" and "hashLength \<le> 128"
    and "ShortenedName env name maxLength hashLength = Ok s"
  shows "length s \<le> maxLength \<and> (length name > maxLength \<longrightarrow> length s = maxLength)"
  using assms by (auto simp: ShortenedName_def Let_def length_Hash split: if_splits)

lemma ShortenedName_prefix:
  assumes "ShortenedName env name maxLength hashLength = Ok s" and "length name > maxLength"
  shows "take (maxLength - hashLength - 1) s = take (maxLength - hashLength - 1) name"
  using assms by (auto simp: ShortenedName_def Let_def split: if_splits)

lemma K8sConformName_Ok: "\<exists>s. K8sConformName env name = Ok s"
  by (simp add: K8sConformName_def ShortenedName_Ok)

lemma GetReleaseName_Ok: "\<exists>s. GetReleaseName env app ns inst = Ok s"
  by (simp add: GetReleaseName_def GetReleaseNameByStepName_def HelmConformName_def
      ShortenedName_Ok)

lemma digits_value_nonneg: "list_all is_digit s \<Longrightarrow> 0 \<le> digits_value s"
proof -
  have "0 \<le> n \<Longrightarrow> list_all is_digit s \<Longrightarrow> 0 \<le> foldl (\<lambda>n c. 10 * n + digit_value c) n s" for n
  proof (induction s arbitrary: n)
    case Nil
    then show ?case by simp
  next
    case (Cons c s)
    have "(48::nat) \<le> of_char c"
      using Cons.prems(2) by (simp add: is_digit_def less_eq_char_def)
    then have "0 \<le> digit_value c" by (simp add: digit_value_def)
    with Cons show ?case by simp
  qed
  then show "list_all is_digit s \<Longrightarrow> 0 \<le> digits_value s"
    by (simp add: digits_value_def)
qed

lemma strconv_Atoi_range: "strconv_Atoi s = Inr v \<Longrightarrow> - (2 ^ 63) \<le> v \<and> v < 2 ^ 63"
  by (auto simp: strconv_Atoi_def Let_def split: if_splits)

end
