(* ===== verification/Multicluster.thy ===== *)
theory Multicluster
  imports Utils
begin

text \<open>
  \<^verbatim>\<open>src/pkg/multicluster\<close>: the description of a cluster, the interface \<open>ClusterManager\<close> through
  which the Plotter controller handles the blueprints of every cluster, the manager of
  \<^verbatim>\<open>dummy/dummy_manager.go\<close> and the one of \<^verbatim>\<open>local/local_cluster_manager.go\<close>.

  A Go interface is a record of operations over the type \<open>'w\<close> of the world they act on; an operation
  that changes the world returns the new one. The locale \<open>cluster_manager\<close> states what the Plotter
  controller relies on; it is interpreted on the dummy manager. The local manager talks to the
  Kubernetes API server, whose client is the parameter record \<open>BlueprintClient\<close>; it keeps the contract
  of the interface for every client that satisfies \<open>blueprint_api\<close>.
\<close>

section \<open>Clusters\<close>

record ClusterMetadata =
  ClusterMetadata_Region :: string
  ClusterMetadata_Zone :: string
  ClusterMetadata_VaultAuthPath :: string

record Cluster =
  Cluster_Name :: string
  Cluster_Metadata :: ClusterMetadata

definition Cluster_zero :: Cluster where
  "Cluster_zero =
     \<lparr>Cluster_Name = [],
      Cluster_Metadata = \<lparr>ClusterMetadata_Region = [], ClusterMetadata_Zone = [],
                          ClusterMetadata_VaultAuthPath = []\<rparr>\<rparr>"

text \<open>\<open>cm\<close> is the data of the config map.\<close>

definition CreateCluster :: "(string, string) fmap \<Rightarrow> Cluster" where
  "CreateCluster cm =
     \<lparr>Cluster_Name = fmget [] cm ''ClusterName'',
      Cluster_Metadata =
        \<lparr>ClusterMetadata_Region = fmget [] cm ''Region'',
         ClusterMetadata_Zone = fmget [] cm ''Zone'',
         ClusterMetadata_VaultAuthPath = fmget [] cm ''VaultAuthPath''\<rparr>\<rparr>"

text \<open>
  \<open>StructToMap\<close> of a cluster: the struct's JSON form, in which an empty \<open>zone\<close> and
  \<open>vaultAuthPath\<close> are left out.
\<close>

definition json_omitempty :: "string \<Rightarrow> string \<Rightarrow> (string, json) fmap \<Rightarrow> (string, json) fmap" where
  "json_omitempty key v m = (if v = [] then m else fmupd key (JStr v) m)"

definition Cluster_StructToMap :: "Cluster \<Rightarrow> (string, json) fmap" where
  "Cluster_StructToMap cluster =
     (let md = Cluster_Metadata cluster
      in fmupd ''name'' (JStr (Cluster_Name cluster))
          (fmupd ''metadata''
             (JObj (fmupd ''region'' (JStr (ClusterMetadata_Region md))
               (json_omitempty ''zone'' (ClusterMetadata_Zone md)
                 (json_omitempty ''vaultAuthPath'' (ClusterMetadata_VaultAuthPath md) fmempty))))
             fmempty))"

section \<open>The interface\<close>

record 'w ClusterManager =
  GetClusters :: "'w \<Rightarrow> string + Cluster list"
  GetBlueprint :: "'w \<Rightarrow> string \<Rightarrow> string \<Rightarrow> string \<Rightarrow> Blueprint option \<times> string option"
  CreateBlueprint :: "string \<Rightarrow> Blueprint \<Rightarrow> 'w \<Rightarrow> string option \<times> 'w"
  UpdateBlueprint :: "string \<Rightarrow> Blueprint \<Rightarrow> 'w \<Rightarrow> string option \<times> 'w"
  DeleteBlueprint :: "string \<Rightarrow> string \<Rightarrow> string \<Rightarrow> 'w \<Rightarrow> string option \<times> 'w"

text \<open>
  What a manager promises. A blueprint that was created or updated without an error is found under
  its cluster, namespace and name with the specification it was given; a blueprint that is found is
  found under its own name as well; and no operation on one cluster touches another.
\<close>

locale cluster_manager =
  fixes cm :: "'w ClusterManager"
  assumes get_create:
    "CreateBlueprint cm c b w = (None, w') \<Longrightarrow>
       \<exists>b'. GetBlueprint cm w' c (Meta_Namespace (Blueprint_Meta b)) (Meta_Name (Blueprint_Meta b))
              = (Some b', None) \<and> Blueprint_Spec b' = Blueprint_Spec b"
    and get_update:
    "UpdateBlueprint cm c b w = (None, w') \<Longrightarrow>
       \<exists>b'. GetBlueprint cm w' c (Meta_Namespace (Blueprint_Meta b)) (Meta_Name (Blueprint_Meta b))
              = (Some b', None) \<and> Blueprint_Spec b' = Blueprint_Spec b"
    and get_self:
    "GetBlueprint cm w c ns name = (Some b, None) \<Longrightarrow>
       GetBlueprint cm w c (Meta_Namespace (Blueprint_Meta b)) (Meta_Name (Blueprint_Meta b)) = (Some b, None)"
    and frame_create:
    "c' \<noteq> c \<Longrightarrow> GetBlueprint cm (snd (CreateBlueprint cm c b w)) c' ns name = GetBlueprint cm w c' ns name"
    and frame_update:
    "c' \<noteq> c \<Longrightarrow> GetBlueprint cm (snd (UpdateBlueprint cm c b w)) c' ns name = GetBlueprint cm w c' ns name"
    and frame_delete:
    "c' \<noteq> c \<Longrightarrow> GetBlueprint cm (snd (DeleteBlueprint cm c n m w)) c' ns name = GetBlueprint cm w c' ns name"
begin

text \<open>The specification deployed under a cluster, a namespace and a name, if there is one.\<close>

definition deployed :: "'w \<Rightarrow> string \<Rightarrow> string \<Rightarrow> string \<Rightarrow> BlueprintSpec option" where
  "deployed w c ns name = map_option Blueprint_Spec (fst (GetBlueprint cm w c ns name))"

lemma deployed_create:
  "CreateBlueprint cm c b w = (None, w') \<Longrightarrow>
     deployed w' c (Meta_Namespace (Blueprint_Meta b)) (Meta_Name (Blueprint_Meta b))
       = Some (Blueprint_Spec b)"
  using get_create by (fastforce simp: deployed_def)

lemma deployed_update:
  "UpdateBlueprint cm c b w = (None, w') \<Longrightarrow>
     deployed w' c (Meta_Namespace (Blueprint_Meta b)) (Meta_Name (Blueprint_Meta b))
       = Some (Blueprint_Spec b)"
  using get_update by (fastforce simp: deployed_def)

lemma deployed_frame:
  assumes "c' \<noteq> c"
  shows "deployed (snd (CreateBlueprint cm c b w)) c' ns name = deployed w c' ns name"
    and "deployed (snd (UpdateBlueprint cm c b w)) c' ns name = deployed w c' ns name"
    and "deployed (snd (DeleteBlueprint cm c n m w)) c' ns name = deployed w c' ns name"
  by (simp_all add: deployed_def frame_create [OF assms] frame_update [OF assms]
      frame_delete [OF assms])

end

section \<open>The dummy manager\<close>

text \<open>
  The manager is created with a non-nil map of blueprints, which its operations write to. A nil
  slice of clusters stands for the default cluster.
\<close>

record MockClusterManager =
  DeployedBlueprints :: "(string, Blueprint) fmap"
  Mock_Clusters :: "Cluster list option"

definition NewDummyClusterManager ::
  "(string, Blueprint) fmap \<Rightarrow> Cluster list option \<Rightarrow> MockClusterManager" where
  "NewDummyClusterManager blueprints clusters =
     \<lparr>DeployedBlueprints = blueprints, Mock_Clusters = clusters\<rparr>"

definition Mock_GetClusters :: "MockClusterManager \<Rightarrow> string + Cluster list" where
  "Mock_GetClusters m =
     (case Mock_Clusters m of
        Some cs \<Rightarrow> Inr cs
      | None \<Rightarrow> Inr [Cluster_zero\<lparr>Cluster_Name := ''kind-kind''\<rparr>])"

definition Mock_GetBlueprint ::
  "MockClusterManager \<Rightarrow> string \<Rightarrow> string \<Rightarrow> string \<Rightarrow> Blueprint option \<times> string option" where
  "Mock_GetBlueprint m cluster namespace name =
     (case fmlookup (DeployedBlueprints m) cluster of
        Some blueprint \<Rightarrow> (Some blueprint, None)
      | None \<Rightarrow> (None, Some ''blueprint not found''))"

definition Mock_CreateBlueprint ::
  "string \<Rightarrow> Blueprint \<Rightarrow> MockClusterManager \<Rightarrow> string option \<times> MockClusterManager" where
  "Mock_CreateBlueprint cluster blueprint m =
     (None, m\<lparr>DeployedBlueprints := fmupd cluster blueprint (DeployedBlueprints m)\<rparr>)"

definition Mock_UpdateBlueprint ::
  "string \<Rightarrow> Blueprint \<Rightarrow> MockClusterManager \<Rightarrow> string option \<times> MockClusterManager" where
  "Mock_UpdateBlueprint cluster blueprint m =
     (None, m\<lparr>DeployedBlueprints := fmupd cluster blueprint (DeployedBlueprints m)\<rparr>)"

definition Mock_DeleteBlueprint ::
  "string \<Rightarrow> string \<Rightarrow> string \<Rightarrow> MockClusterManager \<Rightarrow> string option \<times> MockClusterManager" where
  "Mock_DeleteBlueprint cluster namespace name m =
     (None, m\<lparr>DeployedBlueprints := fmdrop cluster (DeployedBlueprints m)\<rparr>)"

definition Mock_manager :: "MockClusterManager ClusterManager" where
  "Mock_manager =
     \<lparr>GetClusters = Mock_GetClusters, GetBlueprint = Mock_GetBlueprint,
      CreateBlueprint = Mock_CreateBlueprint, UpdateBlueprint = Mock_UpdateBlueprint,
      DeleteBlueprint = Mock_DeleteBlueprint\<rparr>"

lemmas Mock_defs =
  Mock_manager_def Mock_GetClusters_def Mock_GetBlueprint_def Mock_CreateBlueprint_def
  Mock_UpdateBlueprint_def Mock_DeleteBlueprint_def

interpretation mock: cluster_manager Mock_manager
  by unfold_locales (auto simp: Mock_defs split: option.splits)

section \<open>The local manager\<close>

text \<open>
  The client of the API server: reading a config map and reading, creating or updating, and
  deleting a blueprint. \<open>ctrl.CreateOrUpdate\<close> takes the object's key and the mutate function that
  is applied to the stored object (or to the empty one) before it is written.
\<close>

record 'w BlueprintClient =
  Client_GetConfigMap :: "'w \<Rightarrow> NamespacedName \<Rightarrow> string + (string, string) fmap"
  Client_GetBlueprint :: "'w \<Rightarrow> NamespacedName \<Rightarrow> string + Blueprint"
  Client_CreateOrUpdateBlueprint ::
    "NamespacedName \<Rightarrow> (Blueprint \<Rightarrow> Blueprint) \<Rightarrow> 'w \<Rightarrow> string option \<times> 'w"
  Client_DeleteBlueprint :: "Blueprint \<Rightarrow> 'w \<Rightarrow> string option \<times> 'w"

definition Blueprint_zero :: Blueprint where
  "Blueprint_zero =
     \<lparr>Blueprint_Meta =
        \<lparr>Meta_Name = [], Meta_Namespace = [], Meta_UID = [], Meta_ClusterName = [],
         Meta_Labels = fmempty, Meta_Annotations = fmempty, Meta_Finalizers = [],
         Meta_Generation = 0, Meta_DeletionTimestamp = None\<rparr>,
      Blueprint_Spec =
        \<lparr>BlueprintSpec_Cluster = [], BlueprintSpec_ModulesNamespace = [],
         BlueprintSpec_Modules = fmempty\<rparr>,
      Blueprint_Status = BlueprintStatus_zero\<rparr>"

definition local_GetClusters ::
  "'w BlueprintClient \<Rightarrow> string \<Rightarrow> 'w \<Rightarrow> string + Cluster list" where
  "local_GetClusters client namespace w =
     (case Client_GetConfigMap client w \<lparr>NN_Name = ''cluster-metadata'', NN_Namespace = namespace\<rparr> of
        Inl err \<Rightarrow> Inl (''error in GetClusters: '' @ err)
      | Inr cmcm \<Rightarrow> Inr [CreateCluster cmcm])"

definition GetLocalClusterName :: "'w BlueprintClient \<Rightarrow> string \<Rightarrow> 'w \<Rightarrow> string + string" where
  "GetLocalClusterName client namespace w =
     (case local_GetClusters client namespace w of
        Inl err \<Rightarrow> Inl err
      | Inr clusters \<Rightarrow>
          (case clusters of
             [c] \<Rightarrow> Inr (Cluster_Name c)
           | _ \<Rightarrow> Inl InvalidClusterConfiguration))"

definition local_GetBlueprint ::
  "'w BlueprintClient \<Rightarrow> string \<Rightarrow> 'w \<Rightarrow> string \<Rightarrow> string \<Rightarrow> string \<Rightarrow>
     Blueprint option \<times> string option" where
  "local_GetBlueprint client ns w cluster namespace name =
     (if GetLocalClusterName client ns w \<noteq> Inr cluster
      then (None, Some (''unregistered cluster: '' @ cluster))
      else
        (case Client_GetBlueprint client w \<lparr>NN_Name = name, NN_Namespace = namespace\<rparr> of
           Inl err \<Rightarrow> (Some Blueprint_zero, Some err)
         | Inr blueprint \<Rightarrow> (Some blueprint, None)))"

definition local_UpdateBlueprint ::
  "'w BlueprintClient \<Rightarrow> string \<Rightarrow> string \<Rightarrow> Blueprint \<Rightarrow> 'w \<Rightarrow> string option \<times> 'w" where
  "local_UpdateBlueprint client ns cluster blueprint w =
     (if GetLocalClusterName client ns w \<noteq> Inr cluster
      then (Some (''unregistered cluster: '' @ cluster), w)
      else
        Client_CreateOrUpdateBlueprint client
          \<lparr>NN_Name = Meta_Name (Blueprint_Meta blueprint),
           NN_Namespace = Meta_Namespace (Blueprint_Meta blueprint)\<rparr>
          (\<lambda>resource. resource
             \<lparr>Blueprint_Spec := Blueprint_Spec blueprint,
              Blueprint_Meta := (Blueprint_Meta resource)
                \<lparr>Meta_Labels := Meta_Labels (Blueprint_Meta blueprint),
                 Meta_Annotations := Meta_Annotations (Blueprint_Meta blueprint)\<rparr>\<rparr>) w)"

definition local_CreateBlueprint ::
  "'w BlueprintClient \<Rightarrow> string \<Rightarrow> string \<Rightarrow> Blueprint \<Rightarrow> 'w \<Rightarrow> string option \<times> 'w" where
  "local_CreateBlueprint client ns cluster blueprint w =
     local_UpdateBlueprint client ns cluster blueprint w"

definition local_DeleteBlueprint ::
  "'w BlueprintClient \<Rightarrow> string \<Rightarrow> string \<Rightarrow> string \<Rightarrow> string \<Rightarrow> 'w \<Rightarrow> string option \<times> 'w" where
  "local_DeleteBlueprint client ns cluster namespace name w =
     (case local_GetBlueprint client ns w cluster namespace name of
        (_, Some err) \<Rightarrow> (Some err, w)
      | (Some blueprint, None) \<Rightarrow> Client_DeleteBlueprint client blueprint w
      | (None, None) \<Rightarrow> (None, w))"

definition local_manager :: "'w BlueprintClient \<Rightarrow> string \<Rightarrow> 'w ClusterManager" where
  "local_manager client ns =
     \<lparr>GetClusters = local_GetClusters client ns, GetBlueprint = local_GetBlueprint client ns,
      CreateBlueprint = local_CreateBlueprint client ns,
      UpdateBlueprint = local_UpdateBlueprint client ns,
      DeleteBlueprint = local_DeleteBlueprint client ns\<rparr>"

lemmas local_defs =
  local_manager_def local_GetClusters_def local_GetBlueprint_def local_CreateBlueprint_def
  local_UpdateBlueprint_def local_DeleteBlueprint_def

text \<open>A local manager never serves a cluster other than the one its config map names.\<close>

lemma local_foreign_cluster:
  assumes "GetLocalClusterName client ns w \<noteq> Inr cluster"
  shows "snd (local_UpdateBlueprint client ns cluster b w) = w"
    and "fst (local_UpdateBlueprint client ns cluster b w) \<noteq> None"
    and "snd (local_DeleteBlueprint client ns cluster n m w) = w"
    and "fst (local_DeleteBlueprint client ns cluster n m w) \<noteq> None"
  using assms by (simp_all add: local_defs)

lemma local_GetBlueprint_nil: "fst (local_GetBlueprint client ns w c n m) = None \<Longrightarrow>
    snd (local_GetBlueprint client ns w c n m) \<noteq> None"
  by (auto simp: local_GetBlueprint_def split: if_splits sum.splits)

text \<open>
  What the client promises: a blueprint that was written is the next one read under its key, with the
  specification that the mutate function gave it; a blueprint is stored under its own name; and
  blueprints do not change config maps.
\<close>

definition blueprint_key :: "Blueprint \<Rightarrow> NamespacedName" where
  "blueprint_key b =
     \<lparr>NN_Name = Meta_Name (Blueprint_Meta b), NN_Namespace = Meta_Namespace (Blueprint_Meta b)\<rparr>"

definition blueprint_api :: "'w BlueprintClient \<Rightarrow> bool" where
  "blueprint_api client \<longleftrightarrow>
     (\<forall>key f w w'. Client_CreateOrUpdateBlueprint client key f w = (None, w') \<longrightarrow>
        (\<exists>old new. Client_GetBlueprint client w' key = Inr new \<and> Blueprint_Spec new = Blueprint_Spec (f old))) \<and>
     (\<forall>w key b. Client_GetBlueprint client w key = Inr b \<longrightarrow> blueprint_key b = key) \<and>
     (\<forall>key f w k. Client_GetConfigMap client (snd (Client_CreateOrUpdateBlueprint client key f w)) k =
        Client_GetConfigMap client w k) \<and>
     (\<forall>b w k. Client_GetConfigMap client (snd (Client_DeleteBlueprint client b w)) k =
        Client_GetConfigMap client w k)"

lemma blueprint_apiD:
  assumes "blueprint_api client"
  shows "Client_CreateOrUpdateBlueprint client key f w = (None, w') \<Longrightarrow>
      \<exists>old new. Client_GetBlueprint client w' key = Inr new \<and> Blueprint_Spec new = Blueprint_Spec (f old)"
    and "Client_GetBlueprint client w key = Inr b \<Longrightarrow> blueprint_key b = key"
    and "Client_GetConfigMap client (snd (Client_CreateOrUpdateBlueprint client key f w)) k =
      Client_GetConfigMap client w k"
    and "Client_GetConfigMap client (snd (Client_DeleteBlueprint client b w)) k = Client_GetConfigMap client w k"
proof -
  note c = assms [unfolded blueprint_api_def]
  show "Client_CreateOrUpdateBlueprint client key f w = (None, w') \<Longrightarrow>
      \<exists>old new. Client_GetBlueprint client w' key = Inr new \<and> Blueprint_Spec new = Blueprint_Spec (f old)"
    by (rule c [THEN conjunct1, rule_format])
  show "Client_GetBlueprint client w key = Inr b \<Longrightarrow> blueprint_key b = key"
    by (rule c [THEN conjunct2, THEN conjunct1, rule_format])
  show "Client_GetConfigMap client (snd (Client_CreateOrUpdateBlueprint client key f w)) k =
      Client_GetConfigMap client w k"
    by (rule c [THEN conjunct2, THEN conjunct2, THEN conjunct1, rule_format])
  show "Client_GetConfigMap client (snd (Client_DeleteBlueprint client b w)) k = Client_GetConfigMap client w k"
    by (rule c [THEN conjunct2, THEN conjunct2, THEN conjunct2, rule_format])
qed

lemma local_name_cong:
  assumes "\<And>k. Client_GetConfigMap client w' k = Client_GetConfigMap client w k"
  shows "GetLocalClusterName client ns w' = GetLocalClusterName client ns w"
  by (simp add: GetLocalClusterName_def local_GetClusters_def assms)

lemma local_name_frame:
  assumes "blueprint_api client"
  shows "GetLocalClusterName client ns (snd (local_UpdateBlueprint client ns c b w)) =
      GetLocalClusterName client ns w"
    and "GetLocalClusterName client ns (snd (local_DeleteBlueprint client ns c n m w)) =
      GetLocalClusterName client ns w"
  by (rule local_name_cong, simp add: local_UpdateBlueprint_def blueprint_apiD [OF assms])
    (rule local_name_cong, auto simp: local_DeleteBlueprint_def blueprint_apiD [OF assms] split: prod.split option.split)

lemma local_frame:
  assumes "blueprint_api client" and "c' \<noteq> c"
  shows "local_GetBlueprint client ns (snd (local_UpdateBlueprint client ns c b w)) c' n m =
      local_GetBlueprint client ns w c' n m"
    and "local_GetBlueprint client ns (snd (local_DeleteBlueprint client ns c n' m' w)) c' n m =
      local_GetBlueprint client ns w c' n m"
proof -
  show "local_GetBlueprint client ns (snd (local_UpdateBlueprint client ns c b w)) c' n m =
      local_GetBlueprint client ns w c' n m"
  proof (cases "GetLocalClusterName client ns w = Inr c")
    case True
    with assms(2) show ?thesis
      by (simp add: local_GetBlueprint_def local_name_frame [OF assms(1)])
  qed (simp add: local_foreign_cluster)
  show "local_GetBlueprint client ns (snd (local_DeleteBlueprint client ns c n' m' w)) c' n m =
      local_GetBlueprint client ns w c' n m"
  proof (cases "GetLocalClusterName client ns w = Inr c")
    case True
    with assms(2) show ?thesis
      by (simp add: local_GetBlueprint_def local_name_frame [OF assms(1)])
  qed (simp add: local_foreign_cluster)
qed

lemma local_get_update:
  assumes api: "blueprint_api client" and upd: "local_UpdateBlueprint client ns c b w = (None, w')"
  shows "\<exists>b'. local_GetBlueprint client ns w' c (Meta_Namespace (Blueprint_Meta b))
      (Meta_Name (Blueprint_Meta b)) = (Some b', None) \<and> Blueprint_Spec b' = Blueprint_Spec b"
proof -
  from upd have name: "GetLocalClusterName client ns w = Inr c"
    by (auto simp: local_UpdateBlueprint_def split: if_splits)
  with local_name_frame(1) [OF api, of ns c b w] upd have name': "GetLocalClusterName client ns w' = Inr c"
    by simp
  from upd name have "Client_CreateOrUpdateBlueprint client
      \<lparr>NN_Name = Meta_Name (Blueprint_Meta b), NN_Namespace = Meta_Namespace (Blueprint_Meta b)\<rparr>
      (\<lambda>resource. resource\<lparr>Blueprint_Spec := Blueprint_Spec b,
         Blueprint_Meta := (Blueprint_Meta resource)\<lparr>Meta_Labels := Meta_Labels (Blueprint_Meta b),
           Meta_Annotations := Meta_Annotations (Blueprint_Meta b)\<rparr>\<rparr>) w = (None, w')"
    by (simp add: local_UpdateBlueprint_def)
  from blueprint_apiD(1) [OF api this] obtain new where
    "Client_GetBlueprint client w' \<lparr>NN_Name = Meta_Name (Blueprint_Meta b),
       NN_Namespace = Meta_Namespace (Blueprint_Meta b)\<rparr> = Inr new" "Blueprint_Spec new = Blueprint_Spec b"
    by auto
  with name' show ?thesis by (simp add: local_GetBlueprint_def)
qed

text \<open>
  C18: The local manager implements the interface of the cluster managers: over every client of the API
  server that keeps its contract it satisfies each law that the Plotter controller relies on.
\<close>

theorem local_manager_refines:
  assumes "blueprint_api client"
  shows "cluster_manager (local_manager client ns)"
proof
  fix c w n m b
  assume "GetBlueprint (local_manager client ns) w c n m = (Some b, None)"
  then have "GetLocalClusterName client ns w = Inr c"
    "Client_GetBlueprint client w \<lparr>NN_Name = m, NN_Namespace = n\<rparr> = Inr b"
    by (auto simp: local_manager_def local_GetBlueprint_def split: if_splits sum.splits)
  moreover from blueprint_apiD(2) [OF assms this(2)] have "blueprint_key b = \<lparr>NN_Name = m, NN_Namespace = n\<rparr>" .
  ultimately show "GetBlueprint (local_manager client ns) w c (Meta_Namespace (Blueprint_Meta b))
      (Meta_Name (Blueprint_Meta b)) = (Some b, None)"
    by (simp add: local_manager_def local_GetBlueprint_def blueprint_key_def)
qed (use local_get_update [OF assms] local_frame [OF assms] in
    \<open>simp_all add: local_manager_def local_CreateBlueprint_def\<close>)

text \<open>A client that keeps the contract: a store of blueprints beside one config map.\<close>

definition sample_api :: "(NamespacedName, Blueprint) fmap BlueprintClient" where
  "sample_api =
     \<lparr>Client_GetConfigMap = (\<lambda>_ _. Inr (fmupd ''ClusterName'' ''thegreendragon'' fmempty)),
      Client_GetBlueprint = (\<lambda>w key. case fmlookup w key of
         None \<Rightarrow> Inl ''not found'' | Some b \<Rightarrow> if blueprint_key b = key then Inr b else Inl ''corrupt''),
      Client_CreateOrUpdateBlueprint = (\<lambda>key f w.
         let b = f (case fmlookup w key of None \<Rightarrow> Blueprint_zero | Some b \<Rightarrow> b);
             b' = b\<lparr>Blueprint_Meta := (Blueprint_Meta b)
               \<lparr>Meta_Name := NN_Name key, Meta_Namespace := NN_Namespace key\<rparr>\<rparr>
         in (None, fmupd key b' w)),
      Client_DeleteBlueprint = (\<lambda>b w. (None, fmdrop (blueprint_key b) w))\<rparr>"

lemma sample_api_lawful: "blueprint_api sample_api"
  unfolding blueprint_api_def
proof (intro conjI allI impI)
  fix key f w w'
  assume "Client_CreateOrUpdateBlueprint sample_api key f w = (None, w')"
  then show "\<exists>old new. Client_GetBlueprint sample_api w' key = Inr new \<and>
      Blueprint_Spec new = Blueprint_Spec (f old)"
    by (auto simp: sample_api_def Let_def blueprint_key_def)
qed (auto simp: sample_api_def Let_def split: option.splits if_splits)

theorem local_manager_refines_witness:
  "cluster_manager (local_manager sample_api ''fybrik-system'') \<and>
   CreateBlueprint (local_manager sample_api ''fybrik-system'') ''thegreendragon'' Blueprint_zero fmempty =
     (None, fmupd (blueprint_key Blueprint_zero) Blueprint_zero fmempty)"
proof
  show "cluster_manager (local_manager sample_api ''fybrik-system'')"
    by (rule local_manager_refines [OF sample_api_lawful])
  show "CreateBlueprint (local_manager sample_api ''fybrik-system'') ''thegreendragon'' Blueprint_zero fmempty =
     (None, fmupd (blueprint_key Blueprint_zero) Blueprint_zero fmempty)"
    by code_simp
qed

end
