(* ===== verification/Admin_Config.thy ===== *)
theory Admin_Config
  imports Multicluster
begin

text \<open>
  \<^verbatim>\<open>src/pkg/adminconfig\<close>: the evaluator of the IT administrator's configuration policies.
  \<open>Evaluate\<close> runs the Rego query and merges the decisions for the same capability.

  The Rego engine, the YAML codec and the taxonomy validator are parameters, collected in the record
  \<open>OPA\<close>. \<open>merge\<close> starts from a copy of the old decision, whose maps are the old decision's own: what
  \<open>mergeRestrictions\<close> writes before it finds a conflict stays in the decision recorded for the
  capability. \<open>mergeRestrictions\<close> therefore returns its error beside the map it has written, and
  \<open>merge\<close> returns, beside its two results, the old decision as its writes leave it.
\<close>

section \<open>Input and output\<close>

record WorkloadInfo =
  Workload_UUID :: string
  Workload_PolicySetID :: string
  Workload_Cluster :: Cluster
  Workload_Properties :: AppInfo

record DataRequest =
  DataRequest_DatasetID :: string
  DataRequest_Interface :: InterfaceDetails
  DataRequest_Usage :: "(DataFlow, bool) fmap"
  DataRequest_Metadata :: "ResourceMetadata option"

record EvaluatorInput =
  Input_Workload :: WorkloadInfo
  Input_Request :: DataRequest
  Input_GovernanceActions :: "Action list"

type_synonym DecisionPerCapabilityMap = "(Capability, Decision) fmap"

record EvaluatorOutput =
  Output_Valid :: bool
  Output_DatasetID :: string
  Output_UUID :: string
  Output_PolicySetID :: string
  Output_ConfigDecisions :: DecisionPerCapabilityMap
  Output_Policies :: "DecisionPolicy list"

definition EvaluatorOutput_zero :: EvaluatorOutput where
  "EvaluatorOutput_zero =
     \<lparr>Output_Valid = False, Output_DatasetID = [], Output_UUID = [], Output_PolicySetID = [],
      Output_ConfigDecisions = fmempty, Output_Policies = []\<rparr>"

record Infrastructure =
  Infrastructure_Clusters :: "Cluster list"

definition SetInfrastructure :: "'w ClusterManager \<Rightarrow> 'w \<Rightarrow> string + Infrastructure" where
  "SetInfrastructure cm w =
     (case GetClusters cm w of
        Inl err \<Rightarrow> Inl err
      | Inr clusters \<Rightarrow> Inr \<lparr>Infrastructure_Clusters = clusters\<rparr>)"

section \<open>Merging decisions\<close>

definition DecisionPolicy_zero :: DecisionPolicy where
  "DecisionPolicy_zero =
     \<lparr>DecisionPolicy_ID = [], DecisionPolicy_PolicySetID = [], DecisionPolicy_Description = [],
      DecisionPolicy_Version = []\<rparr>"

definition Decision_zero :: Decision where
  "Decision_zero =
     \<lparr>Decision_Deploy = [],
      Decision_DeploymentRestrictions =
        \<lparr>Restrictions_Clusters = None, Restrictions_Modules = None,
         Restrictions_StorageAccounts = None\<rparr>,
      Decision_Policy = DecisionPolicy_zero\<rparr>"

text \<open>The entries of a restriction; a nil map has none.\<close>

definition entries :: "Restriction \<Rightarrow> (string, StringList) fmap" where
  "entries r = (case r of None \<Rightarrow> fmempty | Some m \<Rightarrow> m)"

text \<open>
  The loop of \<open>mergeRestrictions\<close> over the entries of \<open>r2\<close>. Every caller has made \<open>r1\<close> non-nil.
\<close>

fun mergeRestrictions_loop ::
  "(string \<times> StringList) list \<Rightarrow> (string, StringList) fmap \<Rightarrow>
     string option \<times> (string, StringList) fmap" where
  "mergeRestrictions_loop [] r1 = (None, r1)"
| "mergeRestrictions_loop ((key, vals) # rest) r1 =
     (if fmget [] r1 key = [] then mergeRestrictions_loop rest (fmupd key vals r1)
      else
        let r1' = fmupd key (Intersection (fmget [] r1 key) vals) r1
        in if fmget [] r1' key = [] then (Some ''unable to merge restrictions'', r1')
           else mergeRestrictions_loop rest r1')"

definition mergeRestrictions ::
  "range_ord \<Rightarrow> (string, StringList) fmap \<Rightarrow> Restriction \<Rightarrow>
     string option \<times> (string, StringList) fmap" where
  "mergeRestrictions ord r1 r2 = mergeRestrictions_loop (fmrange ord (entries r2)) r1"

text \<open>What a write through a copied map header leaves in the original: nothing when it was nil.\<close>

definition write_through :: "Restriction \<Rightarrow> (string, StringList) fmap \<Rightarrow> Restriction" where
  "write_through r m = (case r of None \<Rightarrow> None | Some _ \<Rightarrow> Some m)"

definition merge :: "range_ord \<Rightarrow> Decision \<Rightarrow> Decision \<Rightarrow> bool \<times> Decision \<times> Decision" where
  "merge ord newDecision oldDecision =
     (let deploy = Decision_Deploy oldDecision;
          new = Decision_DeploymentRestrictions newDecision;
          old = Decision_DeploymentRestrictions oldDecision
      in
        if deploy \<noteq> StatusUnknown \<and> Decision_Deploy newDecision \<noteq> StatusUnknown \<and>
           Decision_Deploy newDecision \<noteq> deploy
        then (False, Decision_zero, oldDecision)
        else
          let deploy' = (if deploy = StatusUnknown then Decision_Deploy newDecision else deploy);
              (e1, clusters) =
                mergeRestrictions ord (entries (Restrictions_Clusters old)) (Restrictions_Clusters new);
              old1 = old\<lparr>Restrictions_Clusters := write_through (Restrictions_Clusters old) clusters\<rparr>
          in
            if e1 \<noteq> None
            then (False, Decision_zero, oldDecision\<lparr>Decision_DeploymentRestrictions := old1\<rparr>)
            else
              let (e2, modules) =
                    mergeRestrictions ord (entries (Restrictions_Modules old)) (Restrictions_Modules new);
                  old2 = old1\<lparr>Restrictions_Modules := write_through (Restrictions_Modules old) modules\<rparr>
              in
                if e2 \<noteq> None
                then (False, Decision_zero, oldDecision\<lparr>Decision_DeploymentRestrictions := old2\<rparr>)
                else
                  let (e3, accounts) =
                        mergeRestrictions ord (entries (Restrictions_StorageAccounts old))
                          (Restrictions_StorageAccounts new);
                      old3 = old2\<lparr>Restrictions_StorageAccounts :=
                                    write_through (Restrictions_StorageAccounts old) accounts\<rparr>;
                      oldDecision' = oldDecision\<lparr>Decision_DeploymentRestrictions := old3\<rparr>
                  in
                    if e3 \<noteq> None then (False, Decision_zero, oldDecision')
                    else
                      (True,
                       \<lparr>Decision_Deploy = deploy',
                        Decision_DeploymentRestrictions =
                          \<lparr>Restrictions_Clusters = Some clusters,
                           Restrictions_Modules = Some modules,
                           Restrictions_StorageAccounts = Some accounts\<rparr>,
                        Decision_Policy = DecisionPolicy_zero\<rparr>,
                       oldDecision'))"

section \<open>Evaluation\<close>

record OPA =
  OPA_MarshalInput :: "EvaluatorInput \<Rightarrow> string + string"
  OPA_UnmarshalInput :: "string \<Rightarrow> string + (string, json) fmap"
  OPA_Eval :: "(string, json) fmap \<Rightarrow> string + json list list"
  OPA_TaxonomyCheck :: "json \<Rightarrow> string + string list"
  OPA_NewInvalid :: "string \<Rightarrow> string list \<Rightarrow> string"
  OPA_MarshalExpr :: "json \<Rightarrow> string + string"
  OPA_UnmarshalStruct :: "string \<Rightarrow> string + EvaluationOutputStructure"

definition prepareInputForOPA :: "OPA \<Rightarrow> EvaluatorInput \<Rightarrow> string + (string, json) fmap" where
  "prepareInputForOPA opa inp =
     (case OPA_MarshalInput opa inp of
        Inl err \<Rightarrow> Inl (''failed to marshal the input structure: '' @ err)
      | Inr bytes \<Rightarrow>
          (case OPA_UnmarshalInput opa bytes of
             Inl err \<Rightarrow> Inl (''failed  to unmarshal the input structure: '' @ err)
           | Inr input \<Rightarrow> Inr input))"

text \<open>The value is a decoded JSON value, which \<open>json.Marshal\<close> always encodes.\<close>

definition validateStructure :: "OPA \<Rightarrow> json \<Rightarrow> string \<Rightarrow> string option" where
  "validateStructure opa obj uuid =
     (case OPA_TaxonomyCheck opa obj of
        Inl err \<Rightarrow> Some err
      | Inr allErrs \<Rightarrow> if allErrs \<noteq> [] then Some (OPA_NewInvalid opa uuid allErrs) else None)"

text \<open>The policy set filter, and the default of an undefined deployment decision.\<close>

definition skip_rule :: "string \<Rightarrow> Decision \<Rightarrow> bool" where
  "skip_rule policySetID newDecision \<longleftrightarrow>
     DecisionPolicy_PolicySetID (Decision_Policy newDecision) \<noteq> [] \<and> policySetID \<noteq> [] \<and>
     DecisionPolicy_PolicySetID (Decision_Policy newDecision) \<noteq> policySetID"

definition default_deploy :: "Decision \<Rightarrow> Decision" where
  "default_deploy newDecision =
     (if Decision_Deploy newDecision = [] then newDecision\<lparr>Decision_Deploy := StatusUnknown\<rparr>
      else newDecision)"

text \<open>
  The body of the innermost loop of \<open>getOPADecisions\<close>. An \<open>Inl\<close> is a return from the function: its
  error (none on a conflict) and the output at that point.
\<close>

definition rule_step ::
  "range_ord \<Rightarrow> string \<Rightarrow> DecisionPerCapability \<Rightarrow> EvaluatorOutput \<Rightarrow>
     (string option \<times> EvaluatorOutput) + EvaluatorOutput" where
  "rule_step ord policySetID rule out =
     (let capability = DecisionPerCapability_Capability rule
      in
        if skip_rule policySetID (DecisionPerCapability_Decision rule) then Inr out
        else
          let newDecision = default_deploy (DecisionPerCapability_Decision rule);
              out' = out\<lparr>Output_Policies := Output_Policies out @ [Decision_Policy newDecision]\<rparr>
          in
            (case fmlookup (Output_ConfigDecisions out) capability of
               None \<Rightarrow>
                 Inr (out'\<lparr>Output_ConfigDecisions :=
                             fmupd capability newDecision (Output_ConfigDecisions out)\<rparr>)
             | Some decision \<Rightarrow>
                 (case merge ord newDecision decision of
                    (valid, mergedDecision, decision') \<Rightarrow>
                      if \<not> valid
                      then Inl (None, out'\<lparr>Output_ConfigDecisions :=
                                  fmupd capability decision' (Output_ConfigDecisions out)\<rparr>)
                      else Inr (out'\<lparr>Output_ConfigDecisions :=
                                  fmupd capability mergedDecision (Output_ConfigDecisions out)\<rparr>))))"

definition expr_step ::
  "range_ord \<Rightarrow> OPA \<Rightarrow> EvaluatorInput \<Rightarrow> json \<Rightarrow> EvaluatorOutput \<Rightarrow>
     (string option \<times> EvaluatorOutput) + EvaluatorOutput" where
  "expr_step ord opa inp expr out =
     (case validateStructure opa expr (Workload_UUID (Input_Workload inp)) of
        Some err \<Rightarrow> Inl (Some err, out)
      | None \<Rightarrow>
          (case OPA_MarshalExpr opa expr of
             Inl err \<Rightarrow> Inl (Some err, out)
           | Inr bytes \<Rightarrow>
               (case OPA_UnmarshalStruct opa bytes of
                  Inl err \<Rightarrow> Inl (Some (''Unexpected OPA response structure: '' @ err), out)
                | Inr evalStruct \<Rightarrow>
                    go_loop (rule_step ord (Workload_PolicySetID (Input_Workload inp)))
                      (EvaluationOutput_Config evalStruct) out)))"

definition getOPADecisions ::
  "range_ord \<Rightarrow> OPA \<Rightarrow> EvaluatorInput \<Rightarrow> json list list \<Rightarrow> EvaluatorOutput \<Rightarrow>
     string option \<times> EvaluatorOutput" where
  "getOPADecisions ord opa inp rs out =
     (let out0 = out\<lparr>Output_Valid := False\<rparr>
      in
        if rs = []
        then (Some ''invalid opa evaluation - an empty result set has been received'', out0)
        else
          (case go_loop (go_loop (expr_step ord opa inp)) rs out0 of
             Inl r \<Rightarrow> r
           | Inr out1 \<Rightarrow> (None, out1\<lparr>Output_Valid := True\<rparr>)))"

definition Evaluate ::
  "range_ord \<Rightarrow> OPA \<Rightarrow> EvaluatorInput \<Rightarrow> EvaluatorOutput \<times> string option" where
  "Evaluate ord opa inp =
     (case prepareInputForOPA opa inp of
        Inl err \<Rightarrow> (EvaluatorOutput_zero, Some (''failed to prepare an input for OPA: '' @ err))
      | Inr input \<Rightarrow>
          (case OPA_Eval opa input of
             Inl err \<Rightarrow> (EvaluatorOutput_zero, Some (''failed to evaluate a query: '' @ err))
           | Inr rs \<Rightarrow>
               let out =
                     \<lparr>Output_Valid = False,
                      Output_DatasetID = DataRequest_DatasetID (Input_Request inp),
                      Output_UUID = Workload_UUID (Input_Workload inp),
                      Output_PolicySetID = Workload_PolicySetID (Input_Workload inp),
                      Output_ConfigDecisions = fmempty, Output_Policies = []\<rparr>;
                   (err, out') = getOPADecisions ord opa inp rs out
               in (out', err)))"

section \<open>What a decision allows\<close>

text \<open>
  A decision denotes the set of deployments it allows: a deployment status and an assignment of a
  value to every property of the cluster, of the module and of the storage account.
\<close>

record deployment =
  Deployment_Status :: DeploymentStatus
  Deployment_Cluster :: "string \<Rightarrow> string"
  Deployment_Module :: "string \<Rightarrow> string"
  Deployment_Account :: "string \<Rightarrow> string"

definition satisfies :: "(string, StringList) fmap \<Rightarrow> (string \<Rightarrow> string) \<Rightarrow> bool" where
  "satisfies m f \<longleftrightarrow> fmpred (\<lambda>k vs. f k \<in> set vs) m"

abbreviation clusters_of :: "Decision \<Rightarrow> Restriction" where
  "clusters_of d \<equiv> Restrictions_Clusters (Decision_DeploymentRestrictions d)"

abbreviation modules_of :: "Decision \<Rightarrow> Restriction" where
  "modules_of d \<equiv> Restrictions_Modules (Decision_DeploymentRestrictions d)"

abbreviation accounts_of :: "Decision \<Rightarrow> Restriction" where
  "accounts_of d \<equiv> Restrictions_StorageAccounts (Decision_DeploymentRestrictions d)"

definition complies :: "Decision \<Rightarrow> deployment \<Rightarrow> bool" where
  "complies d x \<longleftrightarrow>
     (Decision_Deploy d = StatusUnknown \<or> Decision_Deploy d = Deployment_Status x) \<and>
     satisfies (entries (clusters_of d)) (Deployment_Cluster x) \<and>
     satisfies (entries (modules_of d)) (Deployment_Module x) \<and>
     satisfies (entries (accounts_of d)) (Deployment_Account x)"

text \<open>Every property that is restricted at all has an allowed value.\<close>

definition proper_map :: "(string, StringList) fmap \<Rightarrow> bool" where
  "proper_map m \<longleftrightarrow> fmpred (\<lambda>_ vs. vs \<noteq> []) m"

definition proper :: "Decision \<Rightarrow> bool" where
  "proper d \<longleftrightarrow>
     proper_map (entries (clusters_of d)) \<and> proper_map (entries (modules_of d)) \<and>
     proper_map (entries (accounts_of d))"

lemma entries_simps [simp]: "entries None = fmempty" "entries (Some m) = m"
  by (simp_all add: entries_def)

lemma proper_mapD: "proper_map m \<Longrightarrow> fmlookup m k = Some vs \<Longrightarrow> vs \<noteq> []"
  by (auto simp: proper_map_def dest: fmpredD)

lemma proper_map_get: "proper_map m \<Longrightarrow> fmget [] m k = [] \<longleftrightarrow> fmlookup m k = None"
  by (auto simp: fmget_def dest: proper_mapD split: option.splits)

lemma proper_map_upd: "proper_map m \<Longrightarrow> vs \<noteq> [] \<Longrightarrow> proper_map (fmupd k vs m)"
  by (auto simp: proper_map_def fmpred_iff split: if_splits)

lemma satisfies_upd_new:
  "fmlookup m k = None \<Longrightarrow> satisfies (fmupd k vs m) f \<longleftrightarrow> satisfies m f \<and> f k \<in> set vs"
  by (auto simp: satisfies_def fmpred_iff split: if_splits)

lemma satisfies_upd_inter:
  "fmlookup m k = Some ws \<Longrightarrow>
     satisfies (fmupd k (Intersection ws vs) m) f \<longleftrightarrow> satisfies m f \<and> f k \<in> set vs"
  by (auto simp: satisfies_def fmpred_iff split: if_splits)

lemma mergeRestrictions_loop_sound:
  assumes "mergeRestrictions_loop kvs r1 = (None, r)" and "proper_map r1"
    and "\<And>k vs. (k, vs) \<in> set kvs \<Longrightarrow> vs \<noteq> []"
  shows "proper_map r \<and>
    (\<forall>f. satisfies r f \<longleftrightarrow> satisfies r1 f \<and> (\<forall>(k, vs)\<in>set kvs. f k \<in> set vs))"
  using assms
proof (induction kvs r1 rule: mergeRestrictions_loop.induct)
  case (1 r1)
  then show ?case by simp
next
  case (2 key vals rest r1)
  have vals: "vals \<noteq> []" using "2.prems"(3) [of key vals] by simp
  show ?case
  proof (cases "fmlookup r1 key")
    case None
    then have g: "fmget [] r1 key = []" by (simp add: fmget_def)
    from "2.IH"(1) [OF g] "2.prems" g proper_map_upd [OF "2.prems"(2) vals] None
    show ?thesis by (auto simp: satisfies_upd_new)
  next
    case (Some ws)
    then have g: "fmget [] r1 key = ws" "ws \<noteq> []"
      using "2.prems"(2) by (auto simp: fmget_def dest: proper_mapD)
    with "2.prems"(1) have i: "Intersection ws vals \<noteq> []" by (auto simp: Let_def split: if_splits)
    have step: "mergeRestrictions_loop rest (fmupd key (Intersection ws vals) r1) = (None, r)"
      using "2.prems"(1) g i by (simp add: Let_def)
    from "2.IH"(2) [OF _ refl] g i step "2.prems"(3) proper_map_upd [OF "2.prems"(2) i] Some
    show ?thesis by (auto simp: satisfies_upd_inter)
  qed
qed

lemma mergeRestrictions_loop_conflict:
  assumes "mergeRestrictions_loop kvs r1 = (Some e, r)" and "proper_map r1"
    and "\<And>k vs. (k, vs) \<in> set kvs \<Longrightarrow> vs \<noteq> []"
  shows "\<not> (satisfies r1 f \<and> (\<forall>(k, vs)\<in>set kvs. f k \<in> set vs))"
  using assms
proof (induction kvs r1 rule: mergeRestrictions_loop.induct)
  case (1 r1)
  then show ?case by simp
next
  case (2 key vals rest r1)
  have vals: "vals \<noteq> []" using "2.prems"(3) [of key vals] by simp
  show ?case
  proof (cases "fmlookup r1 key")
    case None
    then have g: "fmget [] r1 key = []" by (simp add: fmget_def)
    from "2.IH"(1) [OF g] "2.prems" g proper_map_upd [OF "2.prems"(2) vals] None
    show ?thesis by (auto simp: satisfies_upd_new)
  next
    case (Some ws)
    then have g: "fmget [] r1 key = ws" "ws \<noteq> []"
      using "2.prems"(2) by (auto simp: fmget_def dest: proper_mapD)
    show ?thesis
    proof (cases "Intersection ws vals = []")
      case True
      then have "set ws \<inter> set vals = {}" using set_Intersection [of ws vals] by simp
      with Some show ?thesis by (auto simp: satisfies_def fmpred_iff)
    next
      case False
      have step: "mergeRestrictions_loop rest (fmupd key (Intersection ws vals) r1) = (Some e, r)"
        using "2.prems"(1) g False by (simp add: Let_def)
      from "2.IH"(2) [OF _ refl] g False step "2.prems"(3) proper_map_upd [OF "2.prems"(2) False] Some
      show ?thesis by (auto simp: satisfies_upd_inter)
    qed
  qed
qed

lemma satisfies_range:
  "range_order ord \<Longrightarrow> (\<forall>(k, vs)\<in>set (fmrange ord m). f k \<in> set vs) \<longleftrightarrow> satisfies m f"
  by (auto simp: satisfies_def fmpred_iff fmrange_set)

lemma mergeRestrictions_sound:
  assumes "range_order ord" and "mergeRestrictions ord r1 r2 = (None, r)"
    and "proper_map r1" and "proper_map (entries r2)"
  shows "proper_map r" and "satisfies r f \<longleftrightarrow> satisfies r1 f \<and> satisfies (entries r2) f"
  using mergeRestrictions_loop_sound [OF assms(2) [unfolded mergeRestrictions_def] assms(3)]
    assms(1,4) by (auto simp: fmrange_set satisfies_range dest: proper_mapD)

lemma mergeRestrictions_conflict:
  assumes "range_order ord" and "mergeRestrictions ord r1 r2 = (Some e, r)"
    and "proper_map r1" and "proper_map (entries r2)"
  shows "\<not> (satisfies r1 f \<and> satisfies (entries r2) f)"
  using mergeRestrictions_loop_conflict [OF assms(2) [unfolded mergeRestrictions_def] assms(3)]
    assms(1,4) by (auto simp: fmrange_set satisfies_range dest: proper_mapD)

lemma merge_validE:
  assumes "merge ord new old = (True, d, old')"
  obtains c m a where
    "mergeRestrictions ord (entries (clusters_of old)) (clusters_of new) = (None, c)"
    "mergeRestrictions ord (entries (modules_of old)) (modules_of new) = (None, m)"
    "mergeRestrictions ord (entries (accounts_of old)) (accounts_of new) = (None, a)"
    "entries (clusters_of d) = c" "entries (modules_of d) = m" "entries (accounts_of d) = a"
    "Decision_Deploy old = StatusUnknown \<or> Decision_Deploy new = StatusUnknown \<or>
       Decision_Deploy new = Decision_Deploy old"
    "Decision_Deploy d =
       (if Decision_Deploy old = StatusUnknown then Decision_Deploy new else Decision_Deploy old)"
  using assms by (auto simp: merge_def Let_def split: if_splits prod.splits)

lemma merge_conflictE:
  assumes "merge ord new old = (False, d, old')"
  obtains
    (deploy) "Decision_Deploy old \<noteq> StatusUnknown" "Decision_Deploy new \<noteq> StatusUnknown"
      "Decision_Deploy new \<noteq> Decision_Deploy old"
  | (clusters) e r where
      "mergeRestrictions ord (entries (clusters_of old)) (clusters_of new) = (Some e, r)"
  | (modules) e r where
      "mergeRestrictions ord (entries (modules_of old)) (modules_of new) = (Some e, r)"
  | (accounts) e r where
      "mergeRestrictions ord (entries (accounts_of old)) (accounts_of new) = (Some e, r)"
  using assms by (auto simp: merge_def Let_def split: if_splits prod.splits)

lemma merge_valid:
  assumes ord: "range_order ord" and merge: "merge ord new old = (True, d, old')"
    and new: "proper new" and old: "proper old"
  shows "proper d" and "complies d x \<longleftrightarrow> complies new x \<and> complies old x"
proof -
  obtain c m a where
    c: "mergeRestrictions ord (entries (clusters_of old)) (clusters_of new) = (None, c)" and
    m: "mergeRestrictions ord (entries (modules_of old)) (modules_of new) = (None, m)" and
    a: "mergeRestrictions ord (entries (accounts_of old)) (accounts_of new) = (None, a)" and
    d: "entries (clusters_of d) = c" "entries (modules_of d) = m" "entries (accounts_of d) = a" and
    deploy: "Decision_Deploy old = StatusUnknown \<or> Decision_Deploy new = StatusUnknown \<or>
      Decision_Deploy new = Decision_Deploy old"
      "Decision_Deploy d =
        (if Decision_Deploy old = StatusUnknown then Decision_Deploy new else Decision_Deploy old)"
    using merge by (rule merge_validE)
  note sc = mergeRestrictions_sound [OF ord c]
  note sm = mergeRestrictions_sound [OF ord m]
  note sa = mergeRestrictions_sound [OF ord a]
  show "proper d" using new old sc(1) sm(1) sa(1) by (simp add: proper_def d)
  have status: "(Decision_Deploy d = StatusUnknown \<or> Decision_Deploy d = s) \<longleftrightarrow>
      (Decision_Deploy new = StatusUnknown \<or> Decision_Deploy new = s) \<and>
      (Decision_Deploy old = StatusUnknown \<or> Decision_Deploy old = s)" for s
    using deploy by (cases "Decision_Deploy old = StatusUnknown") auto
  show "complies d x \<longleftrightarrow> complies new x \<and> complies old x"
    unfolding complies_def d status using new old sc(2) sm(2) sa(2) by (simp add: proper_def) blast
qed

lemma merge_conflict:
  assumes ord: "range_order ord" and merge: "merge ord new old = (False, d, old')"
    and new: "proper new" and old: "proper old"
  shows "\<not> (complies new x \<and> complies old x)"
  using merge
proof (cases rule: merge_conflictE)
  case deploy
  then show ?thesis by (auto simp: complies_def)
next
  case clusters
  from mergeRestrictions_conflict [OF ord clusters] new old show ?thesis
    by (auto simp: complies_def proper_def)
next
  case modules
  from mergeRestrictions_conflict [OF ord modules] new old show ?thesis
    by (auto simp: complies_def proper_def)
next
  case accounts
  from mergeRestrictions_conflict [OF ord accounts] new old show ?thesis
    by (auto simp: complies_def proper_def)
qed

section \<open>What the evaluation decides\<close>

text \<open>The rules of a result set, and what those that apply to a capability allow together.\<close>

definition rules_of :: "OPA \<Rightarrow> json \<Rightarrow> RuleDecisionList" where
  "rules_of opa expr =
     (case OPA_MarshalExpr opa expr of
        Inl _ \<Rightarrow> []
      | Inr bytes \<Rightarrow>
          (case OPA_UnmarshalStruct opa bytes of Inl _ \<Rightarrow> [] | Inr s \<Rightarrow> EvaluationOutput_Config s))"

definition rules_allow :: "string \<Rightarrow> RuleDecisionList \<Rightarrow> Capability \<Rightarrow> deployment \<Rightarrow> bool" where
  "rules_allow setID rules cap x \<longleftrightarrow>
     list_all (\<lambda>rule. DecisionPerCapability_Capability rule = cap \<and>
                      \<not> skip_rule setID (DecisionPerCapability_Decision rule) \<longrightarrow>
                      complies (default_deploy (DecisionPerCapability_Decision rule)) x) rules"

definition output_allows :: "EvaluatorOutput \<Rightarrow> Capability \<Rightarrow> deployment \<Rightarrow> bool" where
  "output_allows out cap x \<longleftrightarrow>
     (case fmlookup (Output_ConfigDecisions out) cap of None \<Rightarrow> True | Some d \<Rightarrow> complies d x)"

definition proper_rules :: "RuleDecisionList \<Rightarrow> bool" where
  "proper_rules rules \<longleftrightarrow> list_all (\<lambda>rule. proper (DecisionPerCapability_Decision rule)) rules"

definition conflicting :: "string \<Rightarrow> RuleDecisionList \<Rightarrow> bool" where
  "conflicting setID rules \<longleftrightarrow> (\<exists>cap. \<forall>x. \<not> rules_allow setID rules cap x)"

text \<open>The invariant of the loops: the output allows what the rules seen so far allow.\<close>

definition summarises :: "string \<Rightarrow> RuleDecisionList \<Rightarrow> EvaluatorOutput \<Rightarrow> bool" where
  "summarises setID rules out \<longleftrightarrow>
     fmpred (\<lambda>_ d. proper d) (Output_ConfigDecisions out) \<and> \<not> Output_Valid out \<and>
     (\<forall>cap x. output_allows out cap x \<longleftrightarrow> rules_allow setID rules cap x)"

lemma proper_default_deploy [simp]: "proper (default_deploy d) \<longleftrightarrow> proper d"
  by (simp add: default_deploy_def proper_def)

lemma rules_allow_append [simp]:
  "rules_allow setID (xs @ ys) cap x \<longleftrightarrow> rules_allow setID xs cap x \<and> rules_allow setID ys cap x"
  by (simp add: rules_allow_def)

lemma conflicting_append: "conflicting setID xs \<Longrightarrow> conflicting setID (xs @ ys)"
  by (auto simp: conflicting_def)

lemma summarises_update:
  assumes "summarises setID rules out" and "proper d"
    and "\<And>x. complies d x \<longleftrightarrow> output_allows out (DecisionPerCapability_Capability rule) x \<and>
      complies (default_deploy (DecisionPerCapability_Decision rule)) x"
    and "\<not> skip_rule setID (DecisionPerCapability_Decision rule)"
  shows "summarises setID (rules @ [rule])
    (out\<lparr>Output_Policies := ps,
         Output_ConfigDecisions :=
           fmupd (DecisionPerCapability_Capability rule) d (Output_ConfigDecisions out)\<rparr>)"
  using assms
  by (auto simp: summarises_def output_allows_def rules_allow_def fmpred_iff split: if_splits)

lemma rule_step_Inr:
  assumes ord: "range_order ord" and inv: "summarises setID rules out"
    and rule: "proper (DecisionPerCapability_Decision rule)"
    and step: "rule_step ord setID rule out = Inr out'"
  shows "summarises setID (rules @ [rule]) out'"
proof (cases "skip_rule setID (DecisionPerCapability_Decision rule)")
  case True
  with step inv show ?thesis by (simp add: rule_step_def summarises_def rules_allow_def)
next
  case False
  let ?new = "default_deploy (DecisionPerCapability_Decision rule)"
  let ?cap = "DecisionPerCapability_Capability rule"
  show ?thesis
  proof (cases "fmlookup (Output_ConfigDecisions out) ?cap")
    case None
    then have "complies ?new x \<longleftrightarrow> output_allows out ?cap x \<and> complies ?new x" for x
      by (simp add: output_allows_def)
    from summarises_update [OF inv _ this False] None False rule step show ?thesis
      by (auto simp: rule_step_def Let_def)
  next
    case (Some old)
    then have old: "proper old" using inv by (auto simp: summarises_def dest: fmpredD)
    obtain valid d old' where m: "merge ord ?new old = (valid, d, old')" by (cases "merge ord ?new old")
    with step Some False have valid: "valid" by (auto simp: rule_step_def Let_def split: if_splits)
    note merged = merge_valid [OF ord m [unfolded valid [THEN eq_True [THEN iffD2]]] _ old]
    from merged rule Some
    have "complies d x \<longleftrightarrow> output_allows out ?cap x \<and> complies ?new x" for x
      by (auto simp: output_allows_def)
    from summarises_update [OF inv merged(1) this False] rule step Some False m valid
    show ?thesis by (auto simp: rule_step_def Let_def)
  qed
qed

lemma rule_step_Inl:
  assumes ord: "range_order ord" and inv: "summarises setID rules out"
    and rule: "proper (DecisionPerCapability_Decision rule)"
    and step: "rule_step ord setID rule out = Inl (err, out')"
  shows "err = None \<and> \<not> Output_Valid out' \<and> conflicting setID (rules @ [rule])"
proof -
  let ?new = "default_deploy (DecisionPerCapability_Decision rule)"
  let ?cap = "DecisionPerCapability_Capability rule"
  from step obtain old d old' where skip: "\<not> skip_rule setID (DecisionPerCapability_Decision rule)"
    and old: "fmlookup (Output_ConfigDecisions out) ?cap = Some old"
    and m: "merge ord ?new old = (False, d, old')" and err: "err = None"
    and out': "Output_Valid out' = Output_Valid out"
    by (auto simp: rule_step_def Let_def split: if_splits option.splits prod.splits)
  from old inv have "proper old" by (auto simp: summarises_def dest: fmpredD)
  from merge_conflict [OF ord m _ this] rule have no: "\<not> (complies ?new x \<and> complies old x)" for x
    by simp
  have "\<not> rules_allow setID (rules @ [rule]) ?cap x" for x
  proof
    assume *: "rules_allow setID (rules @ [rule]) ?cap x"
    then have "output_allows out ?cap x" using inv by (simp add: summarises_def)
    then have "complies old x" by (simp add: output_allows_def old)
    with no [of x] * skip show False by (simp add: rules_allow_def)
  qed
  then show ?thesis using err out' inv by (auto simp: conflicting_def summarises_def)
qed

lemma rule_loop:
  assumes ord: "range_order ord" and "summarises setID rules out" and "proper_rules rs"
  shows "go_loop (rule_step ord setID) rs out = Inr out' \<Longrightarrow> summarises setID (rules @ rs) out'"
    and "go_loop (rule_step ord setID) rs out = Inl (err, out') \<Longrightarrow>
      err = None \<and> \<not> Output_Valid out' \<and> conflicting setID (rules @ rs)"
  using assms(2-)
proof (induction rs arbitrary: rules out)
  case Nil
  {
    case 1
    then show ?case by simp
  next
    case 2
    then show ?case by simp
  }
next
  case (Cons rule rs)
  {
    case 1
    then obtain out1 where "rule_step ord setID rule out = Inr out1"
      and "go_loop (rule_step ord setID) rs out1 = Inr out'" by (auto split: sum.splits)
    with 1 Cons.IH(1) [of out1 "rules @ [rule]"] rule_step_Inr [OF ord 1(2)] show ?case
      by (auto simp: proper_rules_def)
  next
    case 2
    show ?case
    proof (cases "rule_step ord setID rule out")
      case (Inl r)
      with 2 rule_step_Inl [OF ord 2(2), of rule err out']
        conflicting_append [of setID "rules @ [rule]" rs] show ?thesis
        by (auto simp: proper_rules_def)
    next
      case (Inr out1)
      with 2 Cons.IH(2) [of out1 "rules @ [rule]"] rule_step_Inr [OF ord 2(2)] show ?thesis
        by (auto simp: proper_rules_def)
    qed
  }
qed

lemma expr_step_Inr:
  assumes "range_order ord" and "summarises (Workload_PolicySetID (Input_Workload inp)) rules out"
    and "proper_rules (rules_of opa expr)" and "expr_step ord opa inp expr out = Inr out'"
  shows "summarises (Workload_PolicySetID (Input_Workload inp)) (rules @ rules_of opa expr) out'"
  using assms rule_loop(1) [OF assms(1,2,3)]
  by (auto simp: expr_step_def rules_of_def split: option.splits sum.splits)

lemma expr_step_Inl:
  assumes "range_order ord" and "summarises (Workload_PolicySetID (Input_Workload inp)) rules out"
    and "proper_rules (rules_of opa expr)" and "expr_step ord opa inp expr out = Inl (err, out')"
  shows "\<not> Output_Valid out' \<and>
    (err = None \<longrightarrow> conflicting (Workload_PolicySetID (Input_Workload inp)) (rules @ rules_of opa expr))"
  using assms rule_loop(2) [OF assms(1,2,3)]
  by (auto simp: expr_step_def rules_of_def summarises_def split: option.splits sum.splits)

lemma expr_loop:
  assumes ord: "range_order ord"
    and "summarises (Workload_PolicySetID (Input_Workload inp)) rules out"
    and "proper_rules (concat (map (rules_of opa) exprs))"
  shows "go_loop (expr_step ord opa inp) exprs out = Inr out' \<Longrightarrow>
      summarises (Workload_PolicySetID (Input_Workload inp))
        (rules @ concat (map (rules_of opa) exprs)) out'"
    and "go_loop (expr_step ord opa inp) exprs out = Inl (err, out') \<Longrightarrow>
      \<not> Output_Valid out' \<and>
      (err = None \<longrightarrow> conflicting (Workload_PolicySetID (Input_Workload inp))
        (rules @ concat (map (rules_of opa) exprs)))"
  using assms(2-)
proof (induction exprs arbitrary: rules out)
  case Nil
  {
    case 1
    then show ?case by simp
  next
    case 2
    then show ?case by simp
  }
next
  case (Cons expr exprs)
  {
    case 1
    then obtain out1 where "expr_step ord opa inp expr out = Inr out1"
      and "go_loop (expr_step ord opa inp) exprs out1 = Inr out'" by (auto split: sum.splits)
    with 1 Cons.IH(1) [of out1 "rules @ rules_of opa expr"] expr_step_Inr [OF ord 1(2)] show ?case
      by (auto simp: proper_rules_def)
  next
    case 2
    show ?case
    proof (cases "expr_step ord opa inp expr out")
      case (Inl r)
      with 2 expr_step_Inl [OF ord 2(2), of opa expr err out']
        conflicting_append [of _ "rules @ rules_of opa expr" "concat (map (rules_of opa) exprs)"]
      show ?thesis by (auto simp: proper_rules_def)
    next
      case (Inr out1)
      with 2 Cons.IH(2) [of out1 "rules @ rules_of opa expr"] expr_step_Inr [OF ord 2(2)]
      show ?thesis by (auto simp: proper_rules_def)
    qed
  }
qed

text \<open>
  C1: An evaluation that returns without an error either reports a valid output, whose merged
  decision for every capability allows exactly the deployments that all the rules for it allow
  together (those of another policy set left out), or it reports an invalid one, and then the rules
  for some capability contradict each other. This holds for every order in which the loops of
  mergeRestrictions visit the maps, provided that no rule lists a property without a value.
\<close>

theorem Evaluate_decides:
  assumes "range_order ord"
    and "prepareInputForOPA opa inp = Inr input" and "OPA_Eval opa input = Inr rs"
    and "proper_rules (concat (map (rules_of opa) (concat rs)))"
    and "Evaluate ord opa inp = (out, None)"
  shows "if Output_Valid out
    then \<forall>cap x. output_allows out cap x \<longleftrightarrow>
      rules_allow (Workload_PolicySetID (Input_Workload inp))
        (concat (map (rules_of opa) (concat rs))) cap x
    else conflicting (Workload_PolicySetID (Input_Workload inp))
      (concat (map (rules_of opa) (concat rs)))"
proof -
  let ?setID = "Workload_PolicySetID (Input_Workload inp)"
  let ?rules = "concat (map (rules_of opa) (concat rs))"
  let ?out = "\<lparr>Output_Valid = False, Output_DatasetID = DataRequest_DatasetID (Input_Request inp),
    Output_UUID = Workload_UUID (Input_Workload inp), Output_PolicySetID = ?setID,
    Output_ConfigDecisions = fmempty, Output_Policies = []\<rparr>"
  have start: "summarises ?setID [] ?out"
    by (simp add: summarises_def output_allows_def rules_allow_def)
  note loop = expr_loop [OF assms(1) start assms(4), simplified]
  show ?thesis
  proof (cases "go_loop (expr_step ord opa inp) (concat rs) ?out")
    case (Inl r)
    then obtain err out' where r: "go_loop (expr_step ord opa inp) (concat rs) ?out = Inl (err, out')"
      by (cases r) simp
    with assms(2,3,5) have "err = None" "out' = out"
      by (auto simp: Evaluate_def getOPADecisions_def go_loop_concat Let_def split: if_splits)
    with loop(2) [OF r] show ?thesis by simp
  next
    case (Inr out1)
    with assms(2,3,5) have "out = out1\<lparr>Output_Valid := True\<rparr>"
      by (auto simp: Evaluate_def getOPADecisions_def go_loop_concat Let_def split: if_splits)
    with loop(1) [OF Inr] show ?thesis by (simp add: summarises_def output_allows_def)
  qed
qed

text \<open>Two rules for copying, whose cluster restrictions overlap in one cluster.\<close>

definition sample_rule :: "DeploymentStatus \<Rightarrow> StringList \<Rightarrow> DecisionPerCapability" where
  "sample_rule deploy names =
     \<lparr>DecisionPerCapability_Capability = ''copy'',
      DecisionPerCapability_Decision = Decision_zero
        \<lparr>Decision_Deploy := deploy,
         Decision_DeploymentRestrictions :=
           \<lparr>Restrictions_Clusters = Some (fmupd ''name'' names fmempty),
            Restrictions_Modules = None, Restrictions_StorageAccounts = None\<rparr>\<rparr>\<rparr>"

definition sample_opa :: OPA where
  "sample_opa =
     \<lparr>OPA_MarshalInput = (\<lambda>_. Inr []), OPA_UnmarshalInput = (\<lambda>_. Inr fmempty),
      OPA_Eval = (\<lambda>_. Inr [[JNull]]), OPA_TaxonomyCheck = (\<lambda>_. Inr []),
      OPA_NewInvalid = (\<lambda>_ _. []), OPA_MarshalExpr = (\<lambda>_. Inr []),
      OPA_UnmarshalStruct = (\<lambda>_. Inr \<lparr>EvaluationOutput_Config =
        [sample_rule StatusTrue [''A'', ''B''], sample_rule [] [''B'', ''C'']]\<rparr>)\<rparr>"

definition sample_input :: EvaluatorInput where
  "sample_input =
     \<lparr>Input_Workload =
        \<lparr>Workload_UUID = ''u'', Workload_PolicySetID = [], Workload_Cluster = Cluster_zero,
         Workload_Properties = \<lparr>AppInfo_Properties = \<lparr>Items = None\<rparr>\<rparr>\<rparr>,
      Input_Request =
        \<lparr>DataRequest_DatasetID = ''d'',
         DataRequest_Interface = \<lparr>Interface_Protocol = ''s3'', Interface_DataFormat = []\<rparr>,
         DataRequest_Usage = fmempty, DataRequest_Metadata = None\<rparr>,
      Input_GovernanceActions = []\<rparr>"

theorem Evaluate_decides_witness:
  "Output_Valid (fst (Evaluate sorted_list_of_fset sample_opa sample_input)) \<and>
   map_option (\<lambda>d. (Decision_Deploy d, fmlookup (entries (clusters_of d)) ''name''))
     (fmlookup (Output_ConfigDecisions (fst (Evaluate sorted_list_of_fset sample_opa sample_input)))
       ''copy'') = Some (StatusTrue, Some [''B'']) \<and>
   (\<forall>cap x. output_allows (fst (Evaluate sorted_list_of_fset sample_opa sample_input)) cap x \<longleftrightarrow>
      rules_allow [] [sample_rule StatusTrue [''A'', ''B''], sample_rule [] [''B'', ''C'']] cap x)"
proof -
  let ?rs = "[[JNull]]"
  let ?rules = "[sample_rule StatusTrue [''A'', ''B''], sample_rule [] [''B'', ''C'']]"
  let ?r = "Evaluate sorted_list_of_fset sample_opa sample_input"
  have prep: "prepareInputForOPA sample_opa sample_input = Inr fmempty"
    and eval: "OPA_Eval sample_opa fmempty = Inr ?rs"
    by (simp_all add: prepareInputForOPA_def sample_opa_def)
  have rules: "concat (map (rules_of sample_opa) (concat ?rs)) = ?rules"
    by (simp add: rules_of_def sample_opa_def)
  have set_id: "Workload_PolicySetID (Input_Workload sample_input) = []"
    by (simp add: sample_input_def)
  have proper: "proper_rules ?rules" by code_simp
  have err: "snd ?r = None" by code_simp
  have valid: "Output_Valid (fst ?r)" by code_simp
  have d: "map_option (\<lambda>d. (Decision_Deploy d, fmlookup (entries (clusters_of d)) ''name''))
     (fmlookup (Output_ConfigDecisions (fst ?r)) ''copy'') = Some (StatusTrue, Some [''B''])"
    by code_simp
  have "?r = (fst ?r, None)" using err by (cases ?r) simp
  from Evaluate_decides [OF range_order_sorted prep eval proper [folded rules] this]
  have "\<forall>cap x. output_allows (fst ?r) cap x \<longleftrightarrow> rules_allow [] ?rules cap x"
    unfolding rules set_id using valid by (simp only: if_True simp_thms)
  with valid d show ?thesis by blast
qed

end
