(* ===== verification/App_Conditions.thy ===== *)
theory App_Conditions
  imports Utils
begin

text \<open>
  \<^verbatim>\<open>src/manager/controllers/app/fybrikapplication_conditions.go\<close>: the conditions of the assets in
  the status of a FybrikApplication. Every asset has three conditions at fixed indices. Reading or
  writing an index outside the slice panics, as does a write to a nil map; the operations return a
  \<open>go\<close> value for that reason. The invariant \<open>conditions_ok\<close> is what makes the fixed indices safe.
\<close>

abbreviation ReadyConditionIndex :: nat where
  "ReadyConditionIndex \<equiv> 0"

abbreviation DenyConditionIndex :: nat where
  "DenyConditionIndex \<equiv> 1"

abbreviation ErrorConditionIndex :: nat where
  "ErrorConditionIndex \<equiv> 2"

definition new_condition :: "ConditionType \<Rightarrow> ConditionStatus \<Rightarrow> string \<Rightarrow> Condition" where
  "new_condition t s msg = Condition_zero\<lparr>Condition_Type := t, Condition_Status := s, Condition_Message := msg\<rparr>"

section \<open>Slices and maps that may panic\<close>

definition slice_get :: "'a list \<Rightarrow> nat \<Rightarrow> 'a go" where
  "slice_get xs i = (if i < length xs then Ok (xs ! i) else Panic ''index out of range'')"

definition slice_set :: "'a list \<Rightarrow> nat \<Rightarrow> 'a \<Rightarrow> 'a list go" where
  "slice_set xs i x = (if i < length xs then Ok (xs[i := x]) else Panic ''index out of range'')"

definition asset_states :: "FybrikApplication \<Rightarrow> (string, AssetState) fmap" where
  "asset_states application =
     (case AppStatus_AssetStates (App_Status application) of None \<Rightarrow> fmempty | Some m \<Rightarrow> m)"

definition put_asset_state :: "FybrikApplication \<Rightarrow> string \<Rightarrow> AssetState \<Rightarrow> FybrikApplication go" where
  "put_asset_state application assetID st =
     (case AppStatus_AssetStates (App_Status application) of
        None \<Rightarrow> Panic ''assignment to entry in nil map''
      | Some m \<Rightarrow>
          Ok (application\<lparr>App_Status := (App_Status application)
                \<lparr>AppStatus_AssetStates := Some (fmupd assetID st m)\<rparr>\<rparr>))"

section \<open>The operations\<close>

definition resetAssetState :: "FybrikApplication \<Rightarrow> string \<Rightarrow> FybrikApplication go" where
  "resetAssetState application assetID =
     (let conditions = replicate 3 Condition_zero;
          conditions = conditions[ErrorConditionIndex := new_condition ErrorCondition ConditionFalse []];
          conditions = conditions[DenyConditionIndex := new_condition DenyCondition ConditionFalse []];
          conditions = conditions[ReadyConditionIndex := new_condition ReadyCondition ConditionFalse []]
      in put_asset_state application assetID (AssetState_zero\<lparr>AssetState_Conditions := conditions\<rparr>))"

fun reset_loop :: "DataContext list \<Rightarrow> FybrikApplication \<Rightarrow> FybrikApplication go" where
  "reset_loop [] application = Ok application"
| "reset_loop (asset # assets) application =
     go_bind (resetAssetState application (DataSetID asset)) (reset_loop assets)"

definition initStatus :: "FybrikApplication \<Rightarrow> FybrikApplication go" where
  "initStatus application =
     reset_loop (AppSpec_Data (App_Spec application))
       (application\<lparr>App_Status := (App_Status application)
          \<lparr>AppStatus_ErrorMessage := [], AppStatus_AssetStates := Some fmempty,
           AppStatus_Ready := (AppSpec_Data (App_Spec application) = [])\<rparr>\<rparr>)"

text \<open>
  The three setters write through the slice of conditions that the asset's state holds: the map's
  entry keeps its slice, whose element changes. A missing asset has no conditions.
\<close>

definition set_condition :: "FybrikApplication \<Rightarrow> string \<Rightarrow> nat \<Rightarrow> (Condition \<Rightarrow> Condition) \<Rightarrow> FybrikApplication go" where
  "set_condition application assetID i f =
     (let st = fmget AssetState_zero (asset_states application) assetID
      in go_bind (slice_get (AssetState_Conditions st) i)
           (\<lambda>c. go_bind (slice_set (AssetState_Conditions st) i (f c))
              (\<lambda>cs. put_asset_state application assetID (st\<lparr>AssetState_Conditions := cs\<rparr>))))"

definition setErrorCondition :: "FybrikApplication \<Rightarrow> string \<Rightarrow> string \<Rightarrow> FybrikApplication go" where
  "setErrorCondition application assetID msg =
     (let errMsg = ''An error was received for asset '' @ assetID @
                   '' . If the error persists, please contact an operator.'' @
                   ''Error description: '' @ msg
      in set_condition application assetID ErrorConditionIndex
           (\<lambda>_. new_condition ErrorCondition ConditionTrue errMsg))"

definition setDenyCondition :: "FybrikApplication \<Rightarrow> string \<Rightarrow> string \<Rightarrow> FybrikApplication go" where
  "setDenyCondition application assetID msg =
     set_condition application assetID DenyConditionIndex
       (\<lambda>_. new_condition DenyCondition ConditionTrue msg)"

definition setReadyCondition :: "FybrikApplication \<Rightarrow> string \<Rightarrow> FybrikApplication go" where
  "setReadyCondition application assetID =
     set_condition application assetID ReadyConditionIndex
       (\<lambda>c. c\<lparr>Condition_Status := ConditionTrue\<rparr>)"

fun ready_loop :: "(string, AssetState) fmap \<Rightarrow> DataContext list \<Rightarrow> bool go" where
  "ready_loop states [] = Ok True"
| "ready_loop states (asset # assets) =
     (let cs = AssetState_Conditions (fmget AssetState_zero states (DataSetID asset))
      in if cs = [] then Ok False
         else
           go_bind (slice_get cs DenyConditionIndex)
             (\<lambda>deny.
                if Condition_Status deny = ConditionFalse
                then go_bind (slice_get cs ReadyConditionIndex)
                       (\<lambda>ready. if Condition_Status ready = ConditionFalse then Ok False
                                 else ready_loop states assets)
                else ready_loop states assets))"

definition isReady :: "FybrikApplication \<Rightarrow> bool go" where
  "isReady application =
     (if AppSpec_Data (App_Spec application) = [] then Ok True
      else (case AppStatus_AssetStates (App_Status application) of
              None \<Rightarrow> Ok False
            | Some states \<Rightarrow> ready_loop states (AppSpec_Data (App_Spec application))))"

fun error_loop :: "(string \<times> AssetState) list \<Rightarrow> string list \<Rightarrow> string list go" where
  "error_loop [] errorMsgs = Ok errorMsgs"
| "error_loop ((_, st) # rest) errorMsgs =
     go_bind (slice_get (AssetState_Conditions st) ErrorConditionIndex)
       (\<lambda>c. if Condition_Status c = ConditionTrue
            then error_loop rest (errorMsgs @ [Condition_Message c])
            else error_loop rest errorMsgs)"

definition getErrorMessages :: "range_ord \<Rightarrow> FybrikApplication \<Rightarrow> string go" where
  "getErrorMessages ord application =
     (if AppStatus_ErrorMessage (App_Status application) \<noteq> []
      then Ok (AppStatus_ErrorMessage (App_Status application))
      else go_bind (error_loop (fmrange ord (asset_states application)) [])
             (\<lambda>errorMsgs. Ok (strings_Join errorMsgs [CHR 0x0A])))"

section \<open>The invariant\<close>

text \<open>The state of an asset has its three conditions, each of the type of its index.\<close>

definition state_ok :: "AssetState \<Rightarrow> bool" where
  "state_ok st \<longleftrightarrow>
     map Condition_Type (AssetState_Conditions st) = [ReadyCondition, DenyCondition, ErrorCondition]"

definition conditions_ok :: "FybrikApplication \<Rightarrow> bool" where
  "conditions_ok application \<longleftrightarrow>
     AppStatus_AssetStates (App_Status application) \<noteq> None \<and>
     fmpred (\<lambda>_. state_ok) (asset_states application) \<and>
     list_all (\<lambda>asset. DataSetID asset |\<in>| fmdom (asset_states application))
       (AppSpec_Data (App_Spec application))"

lemma state_ok_length: "state_ok st \<Longrightarrow> length (AssetState_Conditions st) = 3"
  unfolding state_ok_def by (metis length_map length_Cons list.size(3) numeral_3_eq_3)

lemma put_asset_state_Ok:
  "put_asset_state application assetID st = Ok application' \<Longrightarrow>
     asset_states application' = fmupd assetID st (asset_states application) \<and>
     AppStatus_AssetStates (App_Status application') \<noteq> None \<and>
     App_Spec application' = App_Spec application"
  by (auto simp: put_asset_state_def asset_states_def split: option.splits)

text \<open>The state of an asset after a reset.\<close>

definition fresh_state :: AssetState where
  "fresh_state = AssetState_zero\<lparr>AssetState_Conditions :=
     [new_condition ReadyCondition ConditionFalse [], new_condition DenyCondition ConditionFalse [],
      new_condition ErrorCondition ConditionFalse []]\<rparr>"

lemma state_ok_fresh [simp]: "state_ok fresh_state"
  by (simp add: state_ok_def fresh_state_def new_condition_def)

lemma resetAssetState_eq: "resetAssetState application assetID = put_asset_state application assetID fresh_state"
  by (simp add: resetAssetState_def fresh_state_def numeral_3_eq_3 numeral_2_eq_2)

lemma resetAssetState_Ok:
  assumes "AppStatus_AssetStates (App_Status application) \<noteq> None"
  shows "\<exists>application'. resetAssetState application assetID = Ok application' \<and>
    asset_states application' = fmupd assetID fresh_state (asset_states application) \<and>
    AppStatus_AssetStates (App_Status application') \<noteq> None \<and>
    App_Spec application' = App_Spec application"
  using assms by (auto simp: resetAssetState_eq put_asset_state_def asset_states_def)

lemma reset_loop_Ok:
  assumes "AppStatus_AssetStates (App_Status application) \<noteq> None"
    and "fmpred (\<lambda>_. state_ok) (asset_states application)"
  shows "\<exists>application'. reset_loop assets application = Ok application' \<and>
    AppStatus_AssetStates (App_Status application') \<noteq> None \<and>
    fmpred (\<lambda>_. state_ok) (asset_states application') \<and>
    fset (fmdom (asset_states application')) =
      fset (fmdom (asset_states application)) \<union> DataSetID ` set assets \<and>
    App_Spec application' = App_Spec application"
  using assms
proof (induction assets arbitrary: application)
  case Nil
  then show ?case by simp
next
  case (Cons asset assets)
  from resetAssetState_Ok [OF Cons.prems(1), of "DataSetID asset"] obtain app1 where
    1: "resetAssetState application (DataSetID asset) = Ok app1"
      "asset_states app1 = fmupd (DataSetID asset) fresh_state (asset_states application)"
      "AppStatus_AssetStates (App_Status app1) \<noteq> None" "App_Spec app1 = App_Spec application"
    by blast
  then have "fmpred (\<lambda>_. state_ok) (asset_states app1)"
    using Cons.prems(2) by (auto simp: fmpred_iff split: if_splits)
  from Cons.IH [OF 1(3) this] 1 show ?case by auto
qed

definition condition_of :: "FybrikApplication \<Rightarrow> string \<Rightarrow> nat \<Rightarrow> Condition" where
  "condition_of application a i =
     AssetState_Conditions (fmget AssetState_zero (asset_states application) a) ! i"

definition status_of :: "FybrikApplication \<Rightarrow> string \<Rightarrow> nat \<Rightarrow> ConditionStatus" where
  "status_of application a i = Condition_Status (condition_of application a i)"

lemma set_condition_Ok:
  assumes "conditions_ok application" and "assetID |\<in>| fmdom (asset_states application)"
    and "i < 3" and "\<And>c. Condition_Type (f c) =
      [ReadyCondition, DenyCondition, ErrorCondition] ! i \<or> Condition_Type (f c) = Condition_Type c"
  shows "\<exists>application'. set_condition application assetID i f = Ok application' \<and>
    conditions_ok application' \<and> App_Spec application' = App_Spec application \<and>
    fmdom (asset_states application') = fmdom (asset_states application) \<and>
    (\<forall>a j. status_of application' a j =
      (if a = assetID \<and> j = i then Condition_Status (f (condition_of application a i))
       else status_of application a j))"
proof -
  obtain st where st: "fmlookup (asset_states application) assetID = Some st"
    using assms(2) by (auto simp: fmlookup_dom_iff)
  with assms(1) have ok: "state_ok st" by (auto simp: conditions_ok_def dest: fmpredD)
  let ?cs = "AssetState_Conditions st"
  from ok have len: "length ?cs = 3" by (rule state_ok_length)
  have types: "map Condition_Type (?cs[i := f (?cs ! i)]) = map Condition_Type ?cs"
  proof -
    have "Condition_Type (f (?cs ! i)) = map Condition_Type ?cs ! i"
      using assms(3) assms(4) [of "?cs ! i"] ok len by (metis state_ok_def nth_map)
    then show ?thesis by (simp add: map_update)
  qed
  from assms(1) obtain m where m: "AppStatus_AssetStates (App_Status application) = Some m"
    by (auto simp: conditions_ok_def)
  let ?st = "st\<lparr>AssetState_Conditions := ?cs[i := f (?cs ! i)]\<rparr>"
  let ?app = "application\<lparr>App_Status := (App_Status application)
    \<lparr>AppStatus_AssetStates := Some (fmupd assetID ?st m)\<rparr>\<rparr>"
  have states: "asset_states application = m" "asset_states ?app = fmupd assetID ?st m"
    using m by (simp_all add: asset_states_def)
  have "set_condition application assetID i f = Ok ?app"
    using assms(3) st len m
    by (simp add: set_condition_def slice_get_def slice_set_def put_asset_state_def fmget_def)
  moreover have "state_ok ?st" using ok types by (simp add: state_ok_def)
  then have "conditions_ok ?app"
    using assms(1) unfolding conditions_ok_def states
    by (auto simp: fmpred_iff list_all_iff split: if_splits)
  moreover have "fmdom (asset_states ?app) = fmdom (asset_states application)"
    using st unfolding states by (auto simp: fmlookup_dom_iff finsert_absorb)
  moreover have "\<forall>a j. status_of ?app a j =
      (if a = assetID \<and> j = i then Condition_Status (f (condition_of application a i))
       else status_of application a j)"
    using st assms(3) len unfolding status_of_def condition_of_def states
    by (auto simp: fmget_def nth_list_update)
  moreover have "App_Spec ?app = App_Spec application" by simp
  ultimately show ?thesis by (intro exI [of _ ?app]) simp
qed

section \<open>Sequences of updates\<close>

text \<open>The updates that a reconciliation applies to the conditions, in any order.\<close>

datatype condition_update =
    SetError string string
  | SetDeny string string
  | SetReady string

fun updated_asset :: "condition_update \<Rightarrow> string" where
  "updated_asset (SetError a msg) = a"
| "updated_asset (SetDeny a msg) = a"
| "updated_asset (SetReady a) = a"

fun apply_update :: "condition_update \<Rightarrow> FybrikApplication \<Rightarrow> FybrikApplication go" where
  "apply_update (SetError a msg) application = setErrorCondition application a msg"
| "apply_update (SetDeny a msg) application = setDenyCondition application a msg"
| "apply_update (SetReady a) application = setReadyCondition application a"

fun apply_updates :: "condition_update list \<Rightarrow> FybrikApplication \<Rightarrow> FybrikApplication go" where
  "apply_updates [] application = Ok application"
| "apply_updates (u # us) application = go_bind (apply_update u application) (apply_updates us)"

abbreviation declared :: "FybrikApplication \<Rightarrow> string set" where
  "declared application \<equiv> DataSetID ` set (AppSpec_Data (App_Spec application))"

lemma declared_states:
  "conditions_ok application \<Longrightarrow> a \<in> declared application \<Longrightarrow>
     a |\<in>| fmdom (asset_states application)"
  by (auto simp: conditions_ok_def list_all_iff)

text \<open>Every update sets one condition of its asset; its effect on the statuses.\<close>

fun updated_index :: "condition_update \<Rightarrow> nat" where
  "updated_index (SetError a msg) = ErrorConditionIndex"
| "updated_index (SetDeny a msg) = DenyConditionIndex"
| "updated_index (SetReady a) = ReadyConditionIndex"

definition updates_status :: "condition_update \<Rightarrow> string \<Rightarrow> nat \<Rightarrow> bool" where
  "updates_status u a i \<longleftrightarrow> a = updated_asset u \<and> i = updated_index u"

lemma apply_update_eq:
  obtains f where "apply_update u application =
      set_condition application (updated_asset u) (updated_index u) f"
    and "\<And>c. Condition_Status (f c) = ConditionTrue"
    and "\<And>c. Condition_Type (f c) = [ReadyCondition, DenyCondition, ErrorCondition] ! updated_index u
      \<or> Condition_Type (f c) = Condition_Type c"
  by (cases u) (auto simp: setErrorCondition_def setDenyCondition_def setReadyCondition_def Let_def
      new_condition_def)

lemma apply_update_Ok:
  assumes "conditions_ok application" and "updated_asset u \<in> declared application"
  shows "\<exists>application'. apply_update u application = Ok application' \<and>
    conditions_ok application' \<and> App_Spec application' = App_Spec application \<and>
    (\<forall>a j. status_of application' a j =
      (if updates_status u a j then ConditionTrue else status_of application a j))"
proof -
  obtain f where f: "apply_update u application =
      set_condition application (updated_asset u) (updated_index u) f"
    "\<And>c. Condition_Status (f c) = ConditionTrue"
    "\<And>c. Condition_Type (f c) = [ReadyCondition, DenyCondition, ErrorCondition] ! updated_index u
      \<or> Condition_Type (f c) = Condition_Type c"
    by (rule apply_update_eq [of u application]) blast
  have "updated_index u < 3" by (cases u) simp_all
  from set_condition_Ok [OF assms(1) declared_states [OF assms] this f(3)] show ?thesis
    unfolding f(1) f(2) updates_status_def by blast
qed

lemma apply_updates_Ok:
  assumes "conditions_ok application" and "\<forall>u\<in>set us. updated_asset u \<in> declared application"
  shows "\<exists>application'. apply_updates us application = Ok application' \<and>
    conditions_ok application' \<and> App_Spec application' = App_Spec application \<and>
    (\<forall>a j. status_of application' a j =
      (if \<exists>u\<in>set us. updates_status u a j then ConditionTrue else status_of application a j))"
  using assms
proof (induction us arbitrary: application)
  case Nil
  then show ?case by simp
next
  case (Cons u us)
  from apply_update_Ok [OF Cons.prems(1), of u] Cons.prems(2) obtain app1 where
    1: "apply_update u application = Ok app1" "conditions_ok app1"
      "App_Spec app1 = App_Spec application"
      "\<And>a j. status_of app1 a j =
        (if updates_status u a j then ConditionTrue else status_of application a j)"
    by auto
  from Cons.IH [OF 1(2)] 1(3) Cons.prems(2) obtain app2 where
    "apply_updates us app1 = Ok app2" "conditions_ok app2" "App_Spec app2 = App_Spec app1"
      "\<And>a j. status_of app2 a j =
        (if \<exists>u\<in>set us. updates_status u a j then ConditionTrue else status_of app1 a j)"
    by auto
  with 1 show ?case by auto
qed

section \<open>Readiness\<close>

lemma reset_loop_fresh:
  assumes "reset_loop assets application = Ok application'"
    and "fmpred (\<lambda>_ st. st = fresh_state) (asset_states application)"
  shows "fmpred (\<lambda>_ st. st = fresh_state) (asset_states application')"
  using assms
proof (induction assets arbitrary: application)
  case Nil
  then show ?case by simp
next
  case (Cons asset assets)
  then obtain app1 where 1: "resetAssetState application (DataSetID asset) = Ok app1"
    "reset_loop assets app1 = Ok application'" by (auto simp: go_bind_Ok_iff)
  have "asset_states app1 = fmupd (DataSetID asset) fresh_state (asset_states application)"
    using put_asset_state_Ok [OF 1(1) [unfolded resetAssetState_eq]] by blast
  then have "fmpred (\<lambda>_ st. st = fresh_state) (asset_states app1)"
    using Cons.prems(2) by (simp add: fmpred_upd)
  with 1(2) show ?case by (rule Cons.IH)
qed

lemma initStatus_Ok:
  "\<exists>application'. initStatus application = Ok application' \<and> conditions_ok application' \<and>
     App_Spec application' = App_Spec application \<and>
     (\<forall>a\<in>declared application. \<forall>i<3. status_of application' a i = ConditionFalse)"
proof -
  let ?app = "application\<lparr>App_Status := (App_Status application)
    \<lparr>AppStatus_ErrorMessage := [], AppStatus_AssetStates := Some fmempty,
     AppStatus_Ready := (AppSpec_Data (App_Spec application) = [])\<rparr>\<rparr>"
  have start: "AppStatus_AssetStates (App_Status ?app) \<noteq> None" "asset_states ?app = fmempty"
    by (simp_all add: asset_states_def)
  from reset_loop_Ok [OF start(1), of "AppSpec_Data (App_Spec application)"] start(2)
  obtain app' where app': "initStatus application = Ok app'"
    "AppStatus_AssetStates (App_Status app') \<noteq> None" "fmpred (\<lambda>_. state_ok) (asset_states app')"
    "fset (fmdom (asset_states app')) = declared application" "App_Spec app' = App_Spec application"
    by (auto simp: initStatus_def)
  from reset_loop_fresh [OF app'(1) [unfolded initStatus_def]] start(2)
  have fresh: "fmpred (\<lambda>_ st. st = fresh_state) (asset_states app')" by simp
  have "status_of app' a i = ConditionFalse" if "a \<in> declared application" "i < 3" for a i
  proof -
    from that(1) app'(4) have "a |\<in>| fmdom (asset_states app')" by auto
    with fresh have "fmlookup (asset_states app') a = Some fresh_state"
      by (auto simp: fmlookup_dom_iff dest: fmpredD)
    moreover from that(2) have "i = 0 \<or> i = 1 \<or> i = 2" by auto
    ultimately show ?thesis
      by (auto simp: status_of_def condition_of_def fmget_def fresh_state_def new_condition_def)
  qed
  moreover have "conditions_ok app'"
    unfolding conditions_ok_def list_all_iff using app' by auto
  ultimately show ?thesis using app' by blast
qed

lemma ready_loop_eq:
  assumes "fmpred (\<lambda>_. state_ok) states"
    and "\<forall>asset\<in>set assets. DataSetID asset |\<in>| fmdom states"
  shows "ready_loop states assets = Ok (\<forall>asset\<in>set assets.
    let cs = AssetState_Conditions (fmget AssetState_zero states (DataSetID asset))
    in Condition_Status (cs ! DenyConditionIndex) \<noteq> ConditionFalse \<or>
       Condition_Status (cs ! ReadyConditionIndex) \<noteq> ConditionFalse)"
  using assms(2)
proof (induction assets)
  case Nil
  then show ?case by simp
next
  case (Cons asset assets)
  then obtain st where st: "fmlookup states (DataSetID asset) = Some st"
    by (auto simp: fmlookup_dom_iff)
  with assms(1) have "length (AssetState_Conditions st) = 3"
    by (auto dest: fmpredD intro: state_ok_length)
  with Cons st show ?case by (auto simp: slice_get_def fmget_def Let_def)
qed

lemma updates_status_simps:
  "updates_status u a DenyConditionIndex \<longleftrightarrow> (\<exists>msg. u = SetDeny a msg)"
  "updates_status u a ReadyConditionIndex \<longleftrightarrow> u = SetReady a"
  by (cases u; auto simp: updates_status_def)+

lemma isReady_eq:
  assumes "conditions_ok application"
  shows "isReady application = Ok (\<forall>a\<in>declared application.
    status_of application a DenyConditionIndex \<noteq> ConditionFalse \<or>
    status_of application a ReadyConditionIndex \<noteq> ConditionFalse)"
proof -
  from assms obtain states where states: "AppStatus_AssetStates (App_Status application) = Some states"
    "asset_states application = states" by (auto simp: conditions_ok_def asset_states_def)
  with assms have "ready_loop states (AppSpec_Data (App_Spec application)) =
    Ok (\<forall>asset\<in>set (AppSpec_Data (App_Spec application)).
      let cs = AssetState_Conditions (fmget AssetState_zero states (DataSetID asset))
      in Condition_Status (cs ! DenyConditionIndex) \<noteq> ConditionFalse \<or>
         Condition_Status (cs ! ReadyConditionIndex) \<noteq> ConditionFalse)"
    by (intro ready_loop_eq) (simp_all add: conditions_ok_def list_all_iff)
  then show ?thesis
    by (simp add: isReady_def states status_of_def condition_of_def Let_def)
qed

text \<open>
  C7: From any status, initStatus followed by any sequence of updates of the conditions of declared
  assets never panics and keeps the three conditions of every asset in their places; the application
  is ready at the end if and only if every declared asset was marked ready or denied. An asset that
  only had an error keeps the application from being ready.
\<close>

theorem isReady_after_updates:
  assumes "\<forall>u\<in>set us. updated_asset u \<in> declared application"
  shows "\<exists>application'. go_bind (initStatus application) (apply_updates us) = Ok application' \<and>
    conditions_ok application' \<and>
    isReady application' = Ok (\<forall>a\<in>declared application.
      SetReady a \<in> set us \<or> (\<exists>msg. SetDeny a msg \<in> set us))"
proof -
  obtain app1 where 1: "initStatus application = Ok app1" "conditions_ok app1"
    "App_Spec app1 = App_Spec application"
    "\<And>a i. a \<in> declared application \<Longrightarrow> i < 3 \<Longrightarrow> status_of app1 a i = ConditionFalse"
    using initStatus_Ok by blast
  from apply_updates_Ok [OF 1(2), of us] assms 1(3) obtain app2 where
    2: "apply_updates us app1 = Ok app2" "conditions_ok app2" "App_Spec app2 = App_Spec application"
    "\<And>a j. status_of app2 a j =
      (if \<exists>u\<in>set us. updates_status u a j then ConditionTrue else status_of app1 a j)"
    by auto
  have "isReady app2 = Ok (\<forall>a\<in>declared application.
      status_of app2 a DenyConditionIndex \<noteq> ConditionFalse \<or>
      status_of app2 a ReadyConditionIndex \<noteq> ConditionFalse)"
    using isReady_eq [OF 2(2)] by (simp add: 2(3))
  also have "\<dots> = Ok (\<forall>a\<in>declared application.
      SetReady a \<in> set us \<or> (\<exists>msg. SetDeny a msg \<in> set us))"
  proof -
    have "status_of app2 a DenyConditionIndex \<noteq> ConditionFalse \<longleftrightarrow> (\<exists>msg. SetDeny a msg \<in> set us)"
      and "status_of app2 a ReadyConditionIndex \<noteq> ConditionFalse \<longleftrightarrow> SetReady a \<in> set us"
      if "a \<in> declared application" for a
      using 1(4) [OF that] by (auto simp: 2(4) updates_status_simps updates_status_simps(1) [unfolded One_nat_def])
    then show ?thesis by (intro arg_cong [of _ _ Ok] ball_cong refl) blast
  qed
  finally have ready: "isReady app2 = Ok (\<forall>a\<in>declared application.
      SetReady a \<in> set us \<or> (\<exists>msg. SetDeny a msg \<in> set us))" .
  have "go_bind (initStatus application) (apply_updates us) = Ok app2" by (simp add: 1(1) 2(1))
  with ready 2(2) show ?thesis by blast
qed

definition sample_context :: "string \<Rightarrow> DataContext" where
  "sample_context dataset =
     \<lparr>DataSetID = dataset, DataContext_CatalogService = [],
      DataContext_Requirements =
        \<lparr>Requirements_Interface = \<lparr>Interface_Protocol = ''s3'', Interface_DataFormat = ''parquet''\<rparr>,
         Requirements_Copy =
           \<lparr>CopyRequirements_Required = False,
            CopyRequirements_Catalog = \<lparr>CatalogService = [], CatalogID = []\<rparr>\<rparr>\<rparr>\<rparr>"

definition sample_app :: "string list \<Rightarrow> FybrikApplication" where
  "sample_app datasets =
     \<lparr>App_Meta =
        \<lparr>Meta_Name = ''notebook'', Meta_Namespace = ''default'', Meta_UID = ''1'',
         Meta_ClusterName = [], Meta_Labels = fmempty, Meta_Annotations = fmempty,
         Meta_Finalizers = [], Meta_Generation = 1, Meta_DeletionTimestamp = None\<rparr>,
      App_Spec =
        \<lparr>AppSpec_Selector =
           \<lparr>Selector_ClusterName = [],
            Selector_WorkloadSelector =
              \<lparr>Selector_MatchLabels = fmempty, Selector_MatchExpressions = []\<rparr>\<rparr>,
         AppSpec_SecretRef = [], AppSpec_AppInfo = \<lparr>AppInfo_Properties = \<lparr>Items = None\<rparr>\<rparr>,
         AppSpec_Data = map sample_context datasets\<rparr>,
      App_Status =
        \<lparr>AppStatus_Ready = False, AppStatus_ErrorMessage = [], AppStatus_AssetStates = None,
         AppStatus_ObservedGeneration = 0, AppStatus_ValidatedGeneration = 0,
         AppStatus_ValidApplication = [], AppStatus_Generated = None,
         AppStatus_ProvisionedStorage = fmempty\<rparr>\<rparr>"

theorem isReady_after_updates_witness:
  "\<exists>application'.
     go_bind (initStatus (sample_app [''a'', ''b''])) (apply_updates [SetReady ''a'', SetDeny ''b'' ''no''])
       = Ok application' \<and>
     conditions_ok application' \<and> isReady application' = Ok True"
  using isReady_after_updates [of "[SetReady ''a'', SetDeny ''b'' ''no'']" "sample_app [''a'', ''b'']"]
  by (auto simp: sample_app_def sample_context_def)

end
