(* ===== verification/Policy_Interface.thy ===== *)
theory Policy_Interface
  imports App_Conditions
begin

text \<open>
  \<^verbatim>\<open>src/manager/controllers/app/policy_compiler_interface.go\<close>: the query of the policy manager for
  the governance actions of an operation. The policy manager's connector and the taxonomy validator
  are the parameter record \<open>PolicyManager\<close>. A lookup returns its actions beside its error, because
  the callers read both: after a denial the actions of the items before it are returned.
\<close>

record PolicyManager =
  GetPoliciesDecisions :: "GetPolicyDecisionsRequest \<Rightarrow> string \<Rightarrow> string + GetPolicyDecisionsResponse"
  PM_TaxonomyCheck :: "GetPolicyDecisionsResponse \<Rightarrow> string + string list"
  PM_NewInvalid :: "string \<Rightarrow> string list \<Rightarrow> string"

definition PathForReadingKubeSecret :: "string \<Rightarrow> string \<Rightarrow> string" where
  "PathForReadingKubeSecret secretNamespace secretName =
     (let pluginPath = ''/v1/'' @ ''kubernetes-secrets'' @ ''/''
      in pluginPath @ secretName @ ''?namespace='' @ secretNamespace)"

definition ConstructOpenAPIReq ::
  "string \<Rightarrow> FybrikApplication \<Rightarrow> RequestAction \<Rightarrow> GetPolicyDecisionsRequest" where
  "ConstructOpenAPIReq datasetID input operation =
     \<lparr>PolicyRequest_Context =
        \<lparr>RequestContext_Properties = AppInfo_Properties (AppSpec_AppInfo (App_Spec input))\<rparr>,
      PolicyRequest_Action = operation,
      PolicyRequest_Resource =
        \<lparr>Resource_ID = datasetID,
         Resource_Metadata = Some
           \<lparr>ResourceMetadata_Name = [], ResourceMetadata_Owner = [], ResourceMetadata_Geography = [],
            ResourceMetadata_Tags = Some \<lparr>Tags_Properties = \<lparr>Items = Some fmempty\<rparr>\<rparr>,
            ResourceMetadata_Columns = []\<rparr>\<rparr>\<rparr>"

definition ValidatePolicyDecisionsResponse ::
  "PolicyManager \<Rightarrow> GetPolicyDecisionsResponse \<Rightarrow> string option" where
  "ValidatePolicyDecisionsResponse pm response =
     (case PM_TaxonomyCheck pm response of
        Inl err \<Rightarrow> Some err
      | Inr allErrs \<Rightarrow>
          if allErrs = [] then None
          else Some (PM_NewInvalid pm (PolicyResponse_DecisionID response) allErrs))"

text \<open>The credentials that are passed with the request.\<close>

definition request_creds :: "go_env \<Rightarrow> FybrikApplication \<Rightarrow> string" where
  "request_creds env application =
     (let ref = AppSpec_SecretRef (App_Spec application)
      in if ref \<noteq> [] \<and> IsVaultEnabled env
         then GetVaultAddress env @
              PathForReadingKubeSecret (Meta_Namespace (App_Meta application)) ref
         else [])"

definition deny_message :: "RequestActionType \<Rightarrow> string" where
  "deny_message t =
     (if t = policymanager_READ then ReadAccessDenied
      else if t = policymanager_WRITE then WriteNotAllowed else [])"

fun decisions_loop ::
  "RequestActionType \<Rightarrow> ResultItem list \<Rightarrow> Action list \<Rightarrow> Action list \<times> string option" where
  "decisions_loop t [] actions = (actions, None)"
| "decisions_loop t (r # result) actions =
     (if IsDenied (Action_Name (ResultItem_Action r)) then (actions, Some (deny_message t))
      else decisions_loop t result (actions @ [ResultItem_Action r]))"

definition LookupPolicyDecisions ::
  "go_env \<Rightarrow> PolicyManager \<Rightarrow> string \<Rightarrow> FybrikApplication \<Rightarrow> RequestAction \<Rightarrow>
     Action list \<times> string option" where
  "LookupPolicyDecisions env pm datasetID application op1 =
     (let openapiReq = ConstructOpenAPIReq datasetID application op1
      in case GetPoliciesDecisions pm openapiReq (request_creds env application) of
           Inl err \<Rightarrow> ([], Some err)
         | Inr openapiResp \<Rightarrow>
             (case ValidatePolicyDecisionsResponse pm openapiResp of
                Some err \<Rightarrow> ([], Some (''Validation error: '' @ err))
              | None \<Rightarrow>
                  decisions_loop (RequestAction_ActionType (PolicyRequest_Action openapiReq))
                    (PolicyResponse_Result openapiResp) []))"

section \<open>Properties\<close>

lemma decisions_loop_eq:
  "decisions_loop t result actions =
     (actions @ map ResultItem_Action
        (takeWhile (\<lambda>r. \<not> IsDenied (Action_Name (ResultItem_Action r))) result),
      if \<exists>r\<in>set result. IsDenied (Action_Name (ResultItem_Action r)) then Some (deny_message t) else None)"
  by (induction result arbitrary: actions) auto

lemma LookupPolicyDecisions_no_error:
  assumes "LookupPolicyDecisions env pm datasetID application op1 = (actions, None)"
  shows "\<exists>resp. GetPoliciesDecisions pm (ConstructOpenAPIReq datasetID application op1)
      (request_creds env application) = Inr resp \<and>
    ValidatePolicyDecisionsResponse pm resp = None \<and>
    actions = map ResultItem_Action (PolicyResponse_Result resp) \<and>
    list_all (\<lambda>a. \<not> IsDenied (Action_Name a)) actions"
  using assms
  by (auto simp: LookupPolicyDecisions_def Let_def decisions_loop_eq list_all_iff
      takeWhile_eq_all_conv [THEN iffD2] split: sum.splits option.splits if_splits)

end
