(* ===== verification/Select_Modules.thy ===== *)
theory Select_Modules
  imports Admin_Config Policy_Interface
begin

text \<open>
  \<^verbatim>\<open>src/manager/controllers/app/select_modules.go\<close>: the construction of the data paths from the
  data source to the workload. \<open>findPathsWithinLimit\<close> builds the paths by the interfaces of the
  modules, from the sink backwards; \<open>validate\<close> adds the governance actions, the storage regions and
  the clusters, in place: it returns the changed path, or nothing for a path that is not valid,
  which the caller drops.

  An edge refers to a capability of its module by index. \<open>findPathsWithinLimit\<close> takes the index from
  a loop over the capabilities, so that it is in range, and it sets the source and the sink of every
  edge it returns.
\<close>

section \<open>Data\<close>

record DataInfo =
  DataInfo_DataDetails :: GetAssetResponse
  DataInfo_Context :: DataContext
  DataInfo_Configuration :: EvaluatorOutput
  DataInfo_WorkloadCluster :: Cluster
  DataInfo_Actions :: "Action list"

abbreviation Transform :: Capability where
  "Transform \<equiv> ''transform''"

record Node =
  Node_Connection :: "InterfaceDetails option"
  Node_Virtual :: bool

record Edge =
  Edge_Source :: "Node option"
  Edge_Sink :: "Node option"
  Edge_Module :: FybrikModule
  Edge_CapabilityIndex :: nat

record ResolvedEdge =
  Resolved_Edge :: Edge
  Resolved_Actions :: "Action list"
  Resolved_Cluster :: string
  Resolved_StorageAccountRegion :: string

text \<open>A \<open>Solution\<close> is a struct with the single field \<open>DataPath\<close>: it is that path.\<close>

type_synonym DataPath = "ResolvedEdge list"

text \<open>The fields of \<open>PlotterGenerator\<close> that the selection reads.\<close>

record PlotterGenerator =
  Generator_Modules :: "(string, FybrikModule) fmap"
  Generator_Clusters :: "Cluster list"
  Generator_Owner :: NamespacedName
  Generator_PolicyManager :: PolicyManager
  Generator_StorageAccountRegions :: "string list"

definition edge_capability :: "Edge \<Rightarrow> ModuleCapability" where
  "edge_capability edge = ModuleSpec_Capabilities (Module_Spec (Edge_Module edge)) ! Edge_CapabilityIndex edge"

definition sink_virtual :: "Edge \<Rightarrow> bool" where
  "sink_virtual edge = (case Edge_Sink edge of None \<Rightarrow> False | Some n \<Rightarrow> Node_Virtual n)"

section \<open>Interfaces\<close>

fun match :: "InterfaceDetails option \<Rightarrow> InterfaceDetails option \<Rightarrow> bool" where
  "match (Some source) (Some sink) \<longleftrightarrow>
     Interface_DataFormat source = Interface_DataFormat sink \<and>
     Interface_Protocol source = Interface_Protocol sink"
| "match _ _ \<longleftrightarrow> False"

definition api_interface :: "ResourceDetails \<Rightarrow> InterfaceDetails" where
  "api_interface api =
     \<lparr>Interface_Protocol = Connection_Name (ResourceDetails_Connection api),
      Interface_DataFormat = ResourceDetails_DataFormat api\<rparr>"

definition supportsSourceInterface :: "Edge \<Rightarrow> Node \<Rightarrow> bool" where
  "supportsSourceInterface edge source =
     (let capability = edge_capability edge
      in (case ModuleCapability_API capability of
            Some api \<Rightarrow> Node_Virtual source \<and> match (Some (api_interface api)) (Node_Connection source)
          | None \<Rightarrow> False) \<or>
         list_ex (\<lambda>io. ModuleInOut_Source io \<noteq> None \<and>
                          match (ModuleInOut_Source io) (Node_Connection source))
           (ModuleCapability_SupportedInterfaces capability))"

definition supportsSinkInterface :: "Edge \<Rightarrow> Node \<Rightarrow> bool" where
  "supportsSinkInterface edge sink =
     (let capability = edge_capability edge
      in (case ModuleCapability_API capability of
            Some api \<Rightarrow> Node_Virtual sink \<and> match (Some (api_interface api)) (Node_Connection sink)
          | None \<Rightarrow> False) \<or>
         list_ex (\<lambda>io. ModuleInOut_Sink io \<noteq> None \<and>
                          match (ModuleInOut_Sink io) (Node_Connection sink))
           (ModuleCapability_SupportedInterfaces capability))"

section \<open>Restrictions\<close>

definition config_decision :: "DataInfo \<Rightarrow> Capability \<Rightarrow> Decision" where
  "config_decision item capability =
     fmget Decision_zero (Output_ConfigDecisions (DataInfo_Configuration item)) capability"

definition allowCapability :: "DataInfo \<Rightarrow> Capability \<Rightarrow> bool" where
  "allowCapability item capability \<longleftrightarrow>
     Decision_Deploy (config_decision item capability) \<noteq> StatusFalse"

definition validateModuleRestrictions :: "DataInfo \<Rightarrow> Edge \<Rightarrow> bool" where
  "validateModuleRestrictions item edge = True"

definition cluster_property_ok :: "go_env \<Rightarrow> (string, json) fmap \<Rightarrow> string \<times> StringList \<Rightarrow> bool" where
  "cluster_property_ok env clusterDetails kv =
     (case NestedString env clusterDetails (split_on CHR ''.'' (fst kv)) of
        (v, found, err) \<Rightarrow> err = None \<and> found \<and> HasString v (snd kv))"

definition validateClusterRestrictionsPerCapability ::
  "go_env \<Rightarrow> range_ord \<Rightarrow> DataInfo \<Rightarrow> Capability \<Rightarrow> Cluster \<Rightarrow> bool" where
  "validateClusterRestrictionsPerCapability env ord item capability cluster =
     (let restrictions = entries (clusters_of (config_decision item capability))
      in if restrictions = fmempty then True
         else list_all (cluster_property_ok env (Cluster_StructToMap cluster)) (fmrange ord restrictions))"

definition validateClusterRestrictions ::
  "go_env \<Rightarrow> range_ord \<Rightarrow> DataInfo \<Rightarrow> ResolvedEdge \<Rightarrow> Cluster \<Rightarrow> bool" where
  "validateClusterRestrictions env ord item edge cluster =
     (let capability = edge_capability (Resolved_Edge edge)
      in if \<not> validateClusterRestrictionsPerCapability env ord item
               (ModuleCapability_Capability capability) cluster then False
         else if Resolved_Actions edge \<noteq> [] \<and>
                 \<not> validateClusterRestrictionsPerCapability env ord item Transform cluster then False
         else True)"

section \<open>Governance actions\<close>

definition supportsGovernanceAction :: "Edge \<Rightarrow> Action \<Rightarrow> bool" where
  "supportsGovernanceAction edge action =
     list_ex (\<lambda>act. ModuleSupportedAction_Name act = Action_Name action)
       (ModuleCapability_Actions (edge_capability edge))"

definition supportsGovernanceActions :: "Edge \<Rightarrow> Action list \<Rightarrow> bool" where
  "supportsGovernanceActions edge actions = list_all (supportsGovernanceAction edge) actions"

section \<open>Finding paths\<close>

function findPathsWithinLimit ::
  "range_ord \<Rightarrow> PlotterGenerator \<Rightarrow> DataInfo \<Rightarrow> Node \<Rightarrow> Node \<Rightarrow> int \<Rightarrow> DataPath list" where
  "findPathsWithinLimit ord p item source sink n =
     concat (map (\<lambda>(name, module).
       concat (map (\<lambda>(capabilityInd, capability).
         let edge = \<lparr>Edge_Source = None, Edge_Sink = None, Edge_Module = module,
                     Edge_CapabilityIndex = capabilityInd\<rparr>
         in
           if \<not> allowCapability item (ModuleCapability_Capability capability) then []
           else if \<not> validateModuleRestrictions item edge then []
           else if \<not> supportsSinkInterface edge sink then []
           else
             (if supportsSourceInterface edge source
              then [[\<lparr>Resolved_Edge = edge\<lparr>Edge_Sink := Some sink, Edge_Source := Some source\<rparr>,
                      Resolved_Actions = [], Resolved_Cluster = [],
                      Resolved_StorageAccountRegion = []\<rparr>]]
              else []) @
             (if n > 1 then
                concat (map (\<lambda>io.
                  map (\<lambda>path. path @
                        [\<lparr>Resolved_Edge = edge
                            \<lparr>Edge_Source := Some \<lparr>Node_Connection = ModuleInOut_Source io,
                                                  Node_Virtual = False\<rparr>,
                             Edge_Sink := Some sink\<rparr>,
                          Resolved_Actions = [], Resolved_Cluster = [],
                          Resolved_StorageAccountRegion = []\<rparr>])
                    (findPathsWithinLimit ord p item source
                       \<lparr>Node_Connection = ModuleInOut_Source io, Node_Virtual = False\<rparr> (n - 1)))
                  (ModuleCapability_SupportedInterfaces capability))
              else []))
         (enumerate 0 (ModuleSpec_Capabilities (Module_Spec module)))))
       (fmrange ord (Generator_Modules p)))"
  by pat_completeness auto
termination
  by (relation "measure (\<lambda>(ord, p, item, source, sink, n). nat n)") auto

declare findPathsWithinLimit.simps [simp del]

section \<open>Validation\<close>

definition findCluster ::
  "go_env \<Rightarrow> range_ord \<Rightarrow> PlotterGenerator \<Rightarrow> DataInfo \<Rightarrow> ResolvedEdge \<Rightarrow> ResolvedEdge option" where
  "findCluster env ord p item element =
     map_option (\<lambda>cluster. element\<lparr>Resolved_Cluster := Cluster_Name cluster\<rparr>)
       (find (validateClusterRestrictions env ord item element) (Generator_Clusters p))"

text \<open>The loop over the storage regions: the actions and the region of the last one accepted.\<close>

definition write_operation :: "string \<Rightarrow> RequestAction" where
  "write_operation region =
     \<lparr>RequestAction_ActionType = policymanager_WRITE, RequestAction_ProcessingLocation = region,
      RequestAction_Destination = region\<rparr>"

definition region_step ::
  "go_env \<Rightarrow> PlotterGenerator \<Rightarrow> DataInfo \<Rightarrow> FybrikApplication \<Rightarrow> string \<Rightarrow> ResolvedEdge \<Rightarrow> ResolvedEdge" where
  "region_step env p item application region element =
     (case LookupPolicyDecisions env (Generator_PolicyManager p) (DataSetID (DataInfo_Context item))
             application (write_operation region) of
        (actions, err) \<Rightarrow>
          if err = Some WriteNotAllowed then element
          else if \<not> supportsGovernanceActions (Resolved_Edge element) actions then element
          else element\<lparr>Resolved_Actions := actions, Resolved_StorageAccountRegion := region\<rparr>)"

text \<open>One iteration of the loop of \<open>validate\<close>: the element and the actions that are still required.\<close>

definition validate_element ::
  "go_env \<Rightarrow> range_ord \<Rightarrow> PlotterGenerator \<Rightarrow> DataInfo \<Rightarrow> FybrikApplication \<Rightarrow> ResolvedEdge \<Rightarrow>
     Action list \<Rightarrow> (ResolvedEdge \<times> Action list) option" where
  "validate_element env ord p item application element requiredActions =
     (let element = element\<lparr>Resolved_Actions := []\<rparr>;
          element =
            (if sink_virtual (Resolved_Edge element) then element
             else fold (region_step env p item application) (Generator_StorageAccountRegions p) element)
      in
        if \<not> sink_virtual (Resolved_Edge element) \<and> Resolved_StorageAccountRegion element = [] then None
        else
          let supported = filter (supportsGovernanceAction (Resolved_Edge element)) requiredActions;
              unsupported =
                filter (\<lambda>a. \<not> supportsGovernanceAction (Resolved_Edge element) a) requiredActions;
              element = element\<lparr>Resolved_Actions := Resolved_Actions element @ supported\<rparr>
          in map_option (\<lambda>element. (element, unsupported)) (findCluster env ord p item element))"

fun validate_loop ::
  "go_env \<Rightarrow> range_ord \<Rightarrow> PlotterGenerator \<Rightarrow> DataInfo \<Rightarrow> FybrikApplication \<Rightarrow> DataPath \<Rightarrow>
     Action list \<Rightarrow> (DataPath \<times> Action list) option" where
  "validate_loop env ord p item application [] requiredActions = Some ([], requiredActions)"
| "validate_loop env ord p item application (element # path) requiredActions =
     (case validate_element env ord p item application element requiredActions of
        None \<Rightarrow> None
      | Some (element', unsupported) \<Rightarrow>
          map_option (\<lambda>(path', req). (element' # path', req))
            (validate_loop env ord p item application path unsupported))"

definition validate ::
  "go_env \<Rightarrow> range_ord \<Rightarrow> PlotterGenerator \<Rightarrow> DataInfo \<Rightarrow> FybrikApplication \<Rightarrow> DataPath \<Rightarrow>
     DataPath option" where
  "validate env ord p item application path =
     (case validate_loop env ord p item application path (DataInfo_Actions item) of
        None \<Rightarrow> None
      | Some (path', requiredActions) \<Rightarrow>
          if requiredActions \<noteq> [] then None
          else
            let supportedCapabilities =
                  map (\<lambda>e. ModuleCapability_Capability (edge_capability (Resolved_Edge e))) path'
            in if list_all (\<lambda>(capability, decision).
                     Decision_Deploy decision = StatusTrue \<longrightarrow> HasString capability supportedCapabilities)
                   (fmrange ord (Output_ConfigDecisions (DataInfo_Configuration item)))
               then Some path' else None)"

definition validSolutions ::
  "go_env \<Rightarrow> range_ord \<Rightarrow> PlotterGenerator \<Rightarrow> DataInfo \<Rightarrow> DataPath list \<Rightarrow> FybrikApplication \<Rightarrow>
     DataPath list" where
  "validSolutions env ord p item solutions application =
     List.map_filter (validate env ord p item application) solutions"

text \<open>The two ends of the data path: the asset as the catalog describes it, and the workload.\<close>

definition data_source :: "DataInfo \<Rightarrow> Node" where
  "data_source item =
     (let details = GetAssetResponse_Details (DataInfo_DataDetails item)
      in \<lparr>Node_Connection = Some
            \<lparr>Interface_Protocol = Connection_Name (ResourceDetails_Connection details),
             Interface_DataFormat = ResourceDetails_DataFormat details\<rparr>,
          Node_Virtual = False\<rparr>)"

definition data_destination :: "go_env \<Rightarrow> DataInfo \<Rightarrow> FybrikApplication \<Rightarrow> Node" where
  "data_destination env item application =
     \<lparr>Node_Connection =
        Some (Requirements_Interface (DataContext_Requirements (DataInfo_Context item))),
      Node_Virtual =
        LabelSelector_Size env
          (Selector_WorkloadSelector (AppSpec_Selector (App_Spec application))) > 0\<rparr>"

definition FindPaths ::
  "go_env \<Rightarrow> range_ord \<Rightarrow> PlotterGenerator \<Rightarrow> DataInfo \<Rightarrow> FybrikApplication \<Rightarrow> DataPath list" where
  "FindPaths env ord p item application =
     (let source = data_source item;
          destination = data_destination env item application;
          bound = fst (GetDataPathMaxSize env);
          solutions = findPathsWithinLimit ord p item source destination bound
      in validSolutions env ord p item solutions application)"

section \<open>Data paths, declaratively\<close>

text \<open>
  A data path from the source to a sink: a capability of a registered module that serves both, or a
  path to one of the source interfaces of a capability that serves the sink, followed by it.
\<close>

definition new_edge :: "Node \<Rightarrow> Node \<Rightarrow> FybrikModule \<Rightarrow> nat \<Rightarrow> ResolvedEdge" where
  "new_edge source sink module i =
     \<lparr>Resolved_Edge = \<lparr>Edge_Source = Some source, Edge_Sink = Some sink, Edge_Module = module,
                       Edge_CapabilityIndex = i\<rparr>,
      Resolved_Actions = [], Resolved_Cluster = [], Resolved_StorageAccountRegion = []\<rparr>"

definition usable :: "PlotterGenerator \<Rightarrow> DataInfo \<Rightarrow> FybrikModule \<Rightarrow> nat \<Rightarrow> bool" where
  "usable p item module i \<longleftrightarrow>
     module \<in> fmran' (Generator_Modules p) \<and>
     i < length (ModuleSpec_Capabilities (Module_Spec module)) \<and>
     allowCapability item
       (ModuleCapability_Capability (ModuleSpec_Capabilities (Module_Spec module) ! i))"

abbreviation bare_edge :: "FybrikModule \<Rightarrow> nat \<Rightarrow> Edge" where
  "bare_edge module i \<equiv>
     \<lparr>Edge_Source = None, Edge_Sink = None, Edge_Module = module, Edge_CapabilityIndex = i\<rparr>"

abbreviation source_node :: "ModuleInOut \<Rightarrow> Node" where
  "source_node io \<equiv> \<lparr>Node_Connection = ModuleInOut_Source io, Node_Virtual = False\<rparr>"

inductive data_path :: "PlotterGenerator \<Rightarrow> DataInfo \<Rightarrow> Node \<Rightarrow> Node \<Rightarrow> DataPath \<Rightarrow> bool"
  for p item source where
  direct:
    "usable p item module i \<Longrightarrow> supportsSinkInterface (bare_edge module i) sink \<Longrightarrow>
     supportsSourceInterface (bare_edge module i) source \<Longrightarrow>
     data_path p item source sink [new_edge source sink module i]"
| extend:
    "usable p item module i \<Longrightarrow> supportsSinkInterface (bare_edge module i) sink \<Longrightarrow>
     io \<in> set (ModuleCapability_SupportedInterfaces
                   (ModuleSpec_Capabilities (Module_Spec module) ! i)) \<Longrightarrow>
     data_path p item source (source_node io) path \<Longrightarrow>
     data_path p item source sink (path @ [new_edge (source_node io) sink module i])"

text \<open>The paths that end with a given capability: the body of the two loops.\<close>

definition capability_paths ::
  "range_ord \<Rightarrow> PlotterGenerator \<Rightarrow> DataInfo \<Rightarrow> Node \<Rightarrow> Node \<Rightarrow> int \<Rightarrow> FybrikModule \<Rightarrow> nat \<Rightarrow>
     ModuleCapability \<Rightarrow> DataPath list" where
  "capability_paths ord p item source sink n module i capability =
     (if \<not> allowCapability item (ModuleCapability_Capability capability) then []
      else if \<not> supportsSinkInterface (bare_edge module i) sink then []
      else
        (if supportsSourceInterface (bare_edge module i) source
         then [[new_edge source sink module i]] else []) @
        (if n > 1 then
           concat (map (\<lambda>io.
             map (\<lambda>path. path @ [new_edge (source_node io) sink module i])
               (findPathsWithinLimit ord p item source (source_node io) (n - 1)))
             (ModuleCapability_SupportedInterfaces capability))
         else []))"

lemma findPathsWithinLimit_eq:
  "findPathsWithinLimit ord p item source sink n =
     concat (map (\<lambda>(name, module).
       concat (map (\<lambda>(i, capability). capability_paths ord p item source sink n module i capability)
         (enumerate 0 (ModuleSpec_Capabilities (Module_Spec module)))))
       (fmrange ord (Generator_Modules p)))"
  by (subst findPathsWithinLimit.simps, intro arg_cong [of _ _ concat] map_cong refl, clarify,
      intro arg_cong [of _ _ concat] map_cong refl, clarify)
    (simp add: capability_paths_def new_edge_def validateModuleRestrictions_def)

lemma set_capability_paths:
  "path \<in> set (capability_paths ord p item source sink n module i capability) \<longleftrightarrow>
     allowCapability item (ModuleCapability_Capability capability) \<and>
     supportsSinkInterface (bare_edge module i) sink \<and>
     (supportsSourceInterface (bare_edge module i) source \<and> path = [new_edge source sink module i] \<or>
      n > 1 \<and> (\<exists>io\<in>set (ModuleCapability_SupportedInterfaces capability).
        \<exists>path'\<in>set (findPathsWithinLimit ord p item source (source_node io) (n - 1)).
          path = path' @ [new_edge (source_node io) sink module i]))"
  by (auto simp: capability_paths_def)

lemma set_findPathsWithinLimit:
  assumes "range_order ord"
  shows "path \<in> set (findPathsWithinLimit ord p item source sink n) \<longleftrightarrow>
    (\<exists>module i. usable p item module i \<and> supportsSinkInterface (bare_edge module i) sink \<and>
      (supportsSourceInterface (bare_edge module i) source \<and> path = [new_edge source sink module i] \<or>
       n > 1 \<and> (\<exists>io\<in>set (ModuleCapability_SupportedInterfaces
                    (ModuleSpec_Capabilities (Module_Spec module) ! i)).
         \<exists>path'\<in>set (findPathsWithinLimit ord p item source (source_node io) (n - 1)).
           path = path' @ [new_edge (source_node io) sink module i])))"
proof -
  have "path \<in> set (findPathsWithinLimit ord p item source sink n) \<longleftrightarrow>
    (\<exists>module\<in>fmran' (Generator_Modules p).
      \<exists>i<length (ModuleSpec_Capabilities (Module_Spec module)).
        path \<in> set (capability_paths ord p item source sink n module i
          (ModuleSpec_Capabilities (Module_Spec module) ! i)))"
    unfolding findPathsWithinLimit_eq
    by (fastforce simp: fmrange_set [OF assms] fmlookup_ran'_iff in_set_enumerate_eq)
  then show ?thesis unfolding set_capability_paths usable_def by blast
qed

lemma findPaths_sound:
  assumes "range_order ord" and "path \<in> set (findPathsWithinLimit ord p item source sink n)"
  shows "data_path p item source sink path \<and> int (length path) \<le> max 1 n"
  using assms(2)
proof (induction "nat n" arbitrary: n sink path rule: less_induct)
  case less
  show ?case
    using less.prems [unfolded set_findPathsWithinLimit [OF assms(1)]]
  proof (elim exE conjE disjE bexE)
    fix module i
    assume "usable p item module i" "supportsSinkInterface (bare_edge module i) sink"
      "supportsSourceInterface (bare_edge module i) source"
      "path = [new_edge source sink module i]"
    then show ?thesis by (auto intro: data_path.direct)
  next
    fix module i io path'
    assume *: "usable p item module i" "supportsSinkInterface (bare_edge module i) sink" "1 < n"
      "io \<in> set (ModuleCapability_SupportedInterfaces
        (ModuleSpec_Capabilities (Module_Spec module) ! i))"
      "path' \<in> set (findPathsWithinLimit ord p item source (source_node io) (n - 1))"
      "path = path' @ [new_edge (source_node io) sink module i]"
    from less.hyps [of "n - 1"] * have "data_path p item source (source_node io) path'"
      "int (length path') \<le> max 1 (n - 1)" by auto
    with * show ?thesis by (auto intro: data_path.extend)
  qed
qed

lemma findPaths_complete:
  assumes "range_order ord" and "data_path p item source sink path"
    and "int (length path) \<le> max 1 n"
  shows "path \<in> set (findPathsWithinLimit ord p item source sink n)"
  using assms(2,3)
proof (induction arbitrary: n rule: data_path.induct)
  case (direct module i sink)
  then show ?case by (subst set_findPathsWithinLimit [OF assms(1)]) blast
next
  case (extend module i sink io path)
  then have "path \<noteq> []" by (auto elim: data_path.cases)
  then have "length path \<ge> 1" by (cases path) auto
  with extend.prems have "1 < n" "int (length path) \<le> max 1 (n - 1)" by auto
  with extend show ?case by (subst set_findPathsWithinLimit [OF assms(1)]) blast
qed

text \<open>
  findPathsWithinLimit finds exactly the data paths of at most n modules (one at least), whatever
  the order in which it visits the registered modules.
\<close>

theorem findPathsWithinLimit_iff:
  assumes "range_order ord"
  shows "path \<in> set (findPathsWithinLimit ord p item source sink n) \<longleftrightarrow>
    data_path p item source sink path \<and> int (length path) \<le> max 1 n"
  using findPaths_sound [OF assms] findPaths_complete [OF assms] by blast

section \<open>What a validated path satisfies\<close>

definition cluster_satisfies :: "go_env \<Rightarrow> DataInfo \<Rightarrow> Capability \<Rightarrow> Cluster \<Rightarrow> bool" where
  "cluster_satisfies env item capability cluster \<longleftrightarrow>
     fmpred (\<lambda>k vs. cluster_property_ok env (Cluster_StructToMap cluster) (k, vs))
       (entries (clusters_of (config_decision item capability)))"

abbreviation capability_name :: "ResolvedEdge \<Rightarrow> Capability" where
  "capability_name e \<equiv> ModuleCapability_Capability (edge_capability (Resolved_Edge e))"

text \<open>The cluster of an element is a registered one that satisfies the restrictions.\<close>

definition well_placed :: "go_env \<Rightarrow> PlotterGenerator \<Rightarrow> DataInfo \<Rightarrow> ResolvedEdge \<Rightarrow> bool" where
  "well_placed env p item e \<longleftrightarrow>
     (\<exists>c\<in>set (Generator_Clusters p). Resolved_Cluster e = Cluster_Name c \<and>
        cluster_satisfies env item (capability_name e) c \<and>
        (Resolved_Actions e \<noteq> [] \<longrightarrow> cluster_satisfies env item Transform c))"

text \<open>
  The storage of an element that writes data is in a region for which the policy manager did not
  forbid writing, and the actions it returned for the region are among those of the element.
\<close>

definition well_stored ::
  "go_env \<Rightarrow> PlotterGenerator \<Rightarrow> DataInfo \<Rightarrow> FybrikApplication \<Rightarrow> ResolvedEdge \<Rightarrow> bool" where
  "well_stored env p item application e \<longleftrightarrow>
     sink_virtual (Resolved_Edge e) \<or>
     (\<exists>actions err. Resolved_StorageAccountRegion e \<in> set (Generator_StorageAccountRegions p) \<and>
        LookupPolicyDecisions env (Generator_PolicyManager p) (DataSetID (DataInfo_Context item))
          application (write_operation (Resolved_StorageAccountRegion e)) = (actions, err) \<and>
        err \<noteq> Some WriteNotAllowed \<and> set actions \<subseteq> set (Resolved_Actions e))"

definition capable :: "ResolvedEdge \<Rightarrow> bool" where
  "capable e \<longleftrightarrow> list_all (supportsGovernanceAction (Resolved_Edge e)) (Resolved_Actions e)"

lemma validatePerCapability_iff:
  "range_order ord \<Longrightarrow>
     validateClusterRestrictionsPerCapability env ord item capability cluster \<longleftrightarrow>
     cluster_satisfies env item capability cluster"
  by (auto simp: validateClusterRestrictionsPerCapability_def cluster_satisfies_def Let_def
      list_all_iff fmpred_iff fmrange_set)

lemma find_SomeD: "find P xs = Some x \<Longrightarrow> x \<in> set xs \<and> P x"
  by (auto simp: find_Some_iff)

lemma findCluster_Some:
  assumes "range_order ord" and "findCluster env ord p item e = Some e'"
  shows "well_placed env p item e' \<and> Resolved_Edge e' = Resolved_Edge e \<and>
    Resolved_Actions e' = Resolved_Actions e \<and>
    Resolved_StorageAccountRegion e' = Resolved_StorageAccountRegion e"
  using assms(2)
  by (auto simp: findCluster_def well_placed_def validateClusterRestrictions_def Let_def
      validatePerCapability_iff [OF assms(1)] dest!: find_SomeD split: if_splits)

definition region_accepted ::
  "go_env \<Rightarrow> PlotterGenerator \<Rightarrow> DataInfo \<Rightarrow> FybrikApplication \<Rightarrow> Edge \<Rightarrow> string \<Rightarrow> Action list \<Rightarrow> bool" where
  "region_accepted env p item application edge region actions \<longleftrightarrow>
     (\<exists>err. LookupPolicyDecisions env (Generator_PolicyManager p) (DataSetID (DataInfo_Context item))
        application (write_operation region) = (actions, err) \<and> err \<noteq> Some WriteNotAllowed \<and>
      supportsGovernanceActions edge actions)"

lemma region_step_cases:
  "region_step env p item application region e = e \<or>
   (\<exists>actions. region_accepted env p item application (Resolved_Edge e) region actions \<and>
      region_step env p item application region e =
        e\<lparr>Resolved_Actions := actions, Resolved_StorageAccountRegion := region\<rparr>)"
  by (auto simp: region_step_def region_accepted_def split: prod.splits)

lemma region_fold:
  "fold (region_step env p item application) regions e = e \<or>
   (\<exists>region\<in>set regions. \<exists>actions.
      region_accepted env p item application (Resolved_Edge e) region actions \<and>
      fold (region_step env p item application) regions e =
        e\<lparr>Resolved_Actions := actions, Resolved_StorageAccountRegion := region\<rparr>)"
proof (rule fold_invariant_set [where P = "\<lambda>e'. e' = e \<or> (\<exists>region\<in>set regions. \<exists>actions.
      region_accepted env p item application (Resolved_Edge e) region actions \<and>
      e' = e\<lparr>Resolved_Actions := actions, Resolved_StorageAccountRegion := region\<rparr>)"])
  fix region s
  assume region: "region \<in> set regions" and s: "s = e \<or> (\<exists>region\<in>set regions. \<exists>actions.
      region_accepted env p item application (Resolved_Edge e) region actions \<and>
      s = e\<lparr>Resolved_Actions := actions, Resolved_StorageAccountRegion := region\<rparr>)"
  let ?s' = "region_step env p item application region s"
  show "?s' = e \<or> (\<exists>region\<in>set regions. \<exists>actions.
      region_accepted env p item application (Resolved_Edge e) region actions \<and>
      ?s' = e\<lparr>Resolved_Actions := actions, Resolved_StorageAccountRegion := region\<rparr>)"
    using region_step_cases [of env p item application region s]
  proof (elim disjE exE conjE)
    assume "?s' = s"
    then show ?thesis using s by simp
  next
    fix actions
    assume "region_accepted env p item application (Resolved_Edge s) region actions"
      and s': "?s' = s\<lparr>Resolved_Actions := actions, Resolved_StorageAccountRegion := region\<rparr>"
    moreover have "Resolved_Edge s = Resolved_Edge e"
      "s\<lparr>Resolved_Actions := actions, Resolved_StorageAccountRegion := region\<rparr> =
       e\<lparr>Resolved_Actions := actions, Resolved_StorageAccountRegion := region\<rparr>"
      using s by auto
    ultimately show ?thesis using region by metis
  qed
qed simp

text \<open>An element after the storage has been chosen, and after the actions have been added.\<close>

definition stored_element ::
  "go_env \<Rightarrow> PlotterGenerator \<Rightarrow> DataInfo \<Rightarrow> FybrikApplication \<Rightarrow> ResolvedEdge \<Rightarrow> ResolvedEdge" where
  "stored_element env p item application e =
     (if sink_virtual (Resolved_Edge e) then e\<lparr>Resolved_Actions := []\<rparr>
      else fold (region_step env p item application) (Generator_StorageAccountRegions p)
             (e\<lparr>Resolved_Actions := []\<rparr>))"

lemma stored_element_cases:
  obtains (unchanged) "stored_element env p item application e = e\<lparr>Resolved_Actions := []\<rparr>"
  | (chosen) region actions where "region \<in> set (Generator_StorageAccountRegions p)"
      "region_accepted env p item application (Resolved_Edge e) region actions"
      "stored_element env p item application e =
         e\<lparr>Resolved_Actions := actions, Resolved_StorageAccountRegion := region\<rparr>"
  using region_fold [of env p item application "Generator_StorageAccountRegions p"
      "e\<lparr>Resolved_Actions := []\<rparr>"]
  by (cases "sink_virtual (Resolved_Edge e)") (auto simp: stored_element_def)

lemma stored_element_edge [simp]:
  "Resolved_Edge (stored_element env p item application e) = Resolved_Edge e"
  by (rule stored_element_cases [of env p item application e]) simp_all

lemma validate_element_eq:
  "validate_element env ord p item application e req =
     (let e1 = stored_element env p item application e
      in if \<not> sink_virtual (Resolved_Edge e) \<and> Resolved_StorageAccountRegion e1 = [] then None
         else map_option
           (\<lambda>e'. (e', filter (\<lambda>a. \<not> supportsGovernanceAction (Resolved_Edge e) a) req))
           (findCluster env ord p item (e1\<lparr>Resolved_Actions := Resolved_Actions e1 @
              filter (supportsGovernanceAction (Resolved_Edge e)) req\<rparr>)))"
proof -
  have eq: "stored_element env p item application e =
    (if sink_virtual (Resolved_Edge (e\<lparr>Resolved_Actions := []\<rparr>)) then e\<lparr>Resolved_Actions := []\<rparr>
     else fold (region_step env p item application) (Generator_StorageAccountRegions p)
       (e\<lparr>Resolved_Actions := []\<rparr>))"
    by (simp add: stored_element_def)
  show ?thesis
    unfolding validate_element_def Let_def
    by (simp only: stored_element_edge flip: eq)
qed

lemma validate_element_Some:
  assumes ord: "range_order ord" and fresh: "Resolved_StorageAccountRegion e = []"
    and some: "validate_element env ord p item application e req = Some (e', req')"
  shows "well_placed env p item e'" and "well_stored env p item application e'" and "capable e'"
    and "Resolved_Edge e' = Resolved_Edge e"
    and "\<forall>a\<in>set req. a \<in> set req' \<or> a \<in> set (Resolved_Actions e')"
proof -
  let ?e1 = "stored_element env p item application e"
  let ?e2 = "?e1\<lparr>Resolved_Actions := Resolved_Actions ?e1 @
    filter (supportsGovernanceAction (Resolved_Edge e)) req\<rparr>"
  from some have stored: "sink_virtual (Resolved_Edge e) \<or> Resolved_StorageAccountRegion ?e1 \<noteq> []"
    and cluster: "findCluster env ord p item ?e2 = Some e'"
    and req': "req' = filter (\<lambda>a. \<not> supportsGovernanceAction (Resolved_Edge e) a) req"
    by (auto simp: validate_element_eq Let_def split: if_splits)
  from findCluster_Some [OF ord cluster] have placed: "well_placed env p item e'"
    and edge: "Resolved_Edge e' = Resolved_Edge e"
    and actions: "Resolved_Actions e' = Resolved_Actions ?e1 @
      filter (supportsGovernanceAction (Resolved_Edge e)) req"
    and region: "Resolved_StorageAccountRegion e' = Resolved_StorageAccountRegion ?e1"
    by simp_all
  show "well_placed env p item e'" by (rule placed)
  show "Resolved_Edge e' = Resolved_Edge e" by (rule edge)
  show "\<forall>a\<in>set req. a \<in> set req' \<or> a \<in> set (Resolved_Actions e')" by (simp add: actions req')
  show "well_stored env p item application e'" and "capable e'"
    by (cases rule: stored_element_cases [of env p item application e];
        use stored fresh in \<open>auto simp: well_stored_def capable_def edge actions region list_all_iff
          region_accepted_def supportsGovernanceActions_def\<close>)+
qed

lemma validate_loop_Some:
  assumes "range_order ord" and "\<forall>e\<in>set path. Resolved_StorageAccountRegion e = []"
    and "validate_loop env ord p item application path req = Some (path', req')"
  shows "map Resolved_Edge path' = map Resolved_Edge path"
    and "\<forall>e\<in>set path'. well_placed env p item e \<and> well_stored env p item application e \<and> capable e"
    and "\<forall>a\<in>set req. a \<in> set req' \<or> (\<exists>e\<in>set path'. a \<in> set (Resolved_Actions e))"
  using assms(2,3)
proof (induction path arbitrary: req path' req')
  case Nil
  {
    case 1
    then show ?case by simp
  next
    case 2
    then show ?case by simp
  next
    case 3
    then show ?case by simp
  }
next
  case (Cons e path)
  have step: "\<exists>e1 req1 path1. validate_element env ord p item application e req = Some (e1, req1) \<and>
      validate_loop env ord p item application path req1 = Some (path1, req') \<and> path' = e1 # path1"
    if "validate_loop env ord p item application (e # path) req = Some (path', req')"
    for req path' req'
    using that by (auto split: option.splits prod.splits)
  {
    case 1
    with step [OF 1(2)] validate_element_Some(4) [OF assms(1)] Cons.IH(1) show ?case
      by (metis list.set_intros list.simps(9))
  next
    case 2
    with step [OF 2(2)] validate_element_Some(1-3) [OF assms(1)] Cons.IH(2) show ?case
      by (metis list.set_intros set_ConsD)
  next
    case 3
    with step [OF 3(2)] validate_element_Some(5) [OF assms(1)] Cons.IH(3) show ?case
      by (metis list.set_intros)
  }
qed

lemma data_path_elements:
  assumes "data_path p item source sink path" and "e \<in> set path"
  shows "Resolved_StorageAccountRegion e = [] \<and>
    usable p item (Edge_Module (Resolved_Edge e)) (Edge_CapabilityIndex (Resolved_Edge e))"
  using assms by (induction rule: data_path.induct) (auto simp: new_edge_def)

lemma set_map_filter_iff: "y \<in> set (List.map_filter f xs) \<longleftrightarrow> (\<exists>x\<in>set xs. f x = Some y)"
  by (force simp: List.map_filter_def)

lemma set_FindPaths:
  "path' \<in> set (FindPaths env ord p item application) \<longleftrightarrow>
     (\<exists>path\<in>set (findPathsWithinLimit ord p item (data_source item)
        (data_destination env item application) (fst (GetDataPathMaxSize env))).
      validate env ord p item application path = Some path')"
  by (simp add: FindPaths_def validSolutions_def set_map_filter_iff)

lemma FindPaths_E:
  assumes "range_order ord" and "path' \<in> set (FindPaths env ord p item application)"
  obtains path where
    "data_path p item (data_source item) (data_destination env item application) path"
    "validate env ord p item application path = Some path'"
proof -
  from assms(2) obtain path where
    "path \<in> set (findPathsWithinLimit ord p item (data_source item)
      (data_destination env item application) (fst (GetDataPathMaxSize env)))"
    and "validate env ord p item application path = Some path'"
    by (auto simp: set_FindPaths)
  with findPaths_sound [OF assms(1)] show thesis by (blast intro: that)
qed

lemma validate_E:
  assumes "validate env ord p item application path = Some path'"
  obtains "validate_loop env ord p item application path (DataInfo_Actions item) = Some (path', [])"
    and "list_all (\<lambda>(capability, decision). Decision_Deploy decision = StatusTrue \<longrightarrow>
        HasString capability (map capability_name path'))
      (fmrange ord (Output_ConfigDecisions (DataInfo_Configuration item)))"
  using assms by (auto simp: validate_def Let_def split: option.splits if_splits)

lemma FindPaths_loop:
  assumes "range_order ord" and "path' \<in> set (FindPaths env ord p item application)"
  obtains path where
    "data_path p item (data_source item) (data_destination env item application) path"
    "\<forall>e\<in>set path. Resolved_StorageAccountRegion e = []"
    "validate_loop env ord p item application path (DataInfo_Actions item) = Some (path', [])"
    "list_all (\<lambda>(capability, decision). Decision_Deploy decision = StatusTrue \<longrightarrow>
        HasString capability (map capability_name path'))
      (fmrange ord (Output_ConfigDecisions (DataInfo_Configuration item)))"
  using FindPaths_E [OF assms] validate_E data_path_elements by metis

text \<open>
  C3: FindPaths returns exactly the validated forms of the data paths between the asset and the
  workload that have at most DATAPATH_LIMIT modules (at least one).
\<close>

theorem FindPaths_iff:
  assumes "range_order ord"
  shows "path' \<in> set (FindPaths env ord p item application) \<longleftrightarrow>
    (\<exists>path. data_path p item (data_source item) (data_destination env item application) path \<and>
      int (length path) \<le> max 1 (fst (GetDataPathMaxSize env)) \<and>
      validate env ord p item application path = Some path')"
  unfolding set_FindPaths using findPaths_sound [OF assms] findPaths_complete [OF assms] by meson

lemma FindPaths_performs:
  assumes "range_order ord" and "path' \<in> set (FindPaths env ord p item application)"
  shows "(\<forall>a\<in>set (DataInfo_Actions item). \<exists>e\<in>set path'. a \<in> set (Resolved_Actions e)) \<and>
    (\<forall>e\<in>set path'. \<forall>a\<in>set (Resolved_Actions e). supportsGovernanceAction (Resolved_Edge e) a)"
proof -
  obtain path where path: "\<forall>e\<in>set path. Resolved_StorageAccountRegion e = []"
    "validate_loop env ord p item application path (DataInfo_Actions item) = Some (path', [])"
    using FindPaths_loop [OF assms] by metis
  note loop = validate_loop_Some [OF assms(1) path]
  from loop(2,3) show ?thesis by (auto simp: capable_def list_all_iff)
qed

text \<open>
  C2: On every path that FindPaths returns, every governance action required for the asset is
  performed by an element of the path, and the module of every element supports all the actions that
  are assigned to it.
\<close>

theorem FindPaths_actions:
  assumes "range_order ord" and "path' \<in> set (FindPaths env ord p item application)"
  shows "(\<forall>a\<in>set (DataInfo_Actions item). \<exists>e\<in>set path'. a \<in> set (Resolved_Actions e)) \<and>
    (\<forall>e\<in>set path'. \<forall>a\<in>set (Resolved_Actions e). supportsGovernanceAction (Resolved_Edge e) a)"
  by (rule FindPaths_performs [OF assms])

text \<open>
  C4: Every element of a returned path is placed in a registered cluster that satisfies the cluster
  restrictions the configuration policies put on its capability and, when it performs governance
  actions, those on transformations.
\<close>

theorem FindPaths_clusters:
  assumes "range_order ord" and "path' \<in> set (FindPaths env ord p item application)"
  shows "\<forall>e\<in>set path'. well_placed env p item e"
proof -
  obtain path where path: "\<forall>e\<in>set path. Resolved_StorageAccountRegion e = []"
    "validate_loop env ord p item application path (DataInfo_Actions item) = Some (path', [])"
    using FindPaths_loop [OF assms] by metis
  from validate_loop_Some(2) [OF assms(1) path] show ?thesis by blast
qed


text \<open>
  C6: A returned path deploys every capability that the configuration policies require and none that
  they forbid, and all its modules are registered ones.
\<close>

theorem FindPaths_capabilities:
  assumes "range_order ord" and "path' \<in> set (FindPaths env ord p item application)"
  shows "(\<forall>cap. Decision_Deploy (config_decision item cap) = StatusTrue \<longrightarrow>
      (\<exists>e\<in>set path'. capability_name e = cap)) \<and>
    (\<forall>e\<in>set path'. Decision_Deploy (config_decision item (capability_name e)) \<noteq> StatusFalse \<and>
      Edge_Module (Resolved_Edge e) \<in> fmran' (Generator_Modules p))"
proof -
  obtain path where
    path: "data_path p item (data_source item) (data_destination env item application) path"
    "\<forall>e\<in>set path. Resolved_StorageAccountRegion e = []"
    "validate_loop env ord p item application path (DataInfo_Actions item) = Some (path', [])"
    and required: "list_all (\<lambda>(capability, decision). Decision_Deploy decision = StatusTrue \<longrightarrow>
        HasString capability (map capability_name path'))
      (fmrange ord (Output_ConfigDecisions (DataInfo_Configuration item)))"
    using FindPaths_loop [OF assms] by metis
  from validate_loop_Some(1) [OF assms(1) path(2,3)]
  have edges: "Resolved_Edge ` set path' = Resolved_Edge ` set path" by (metis set_map)
  have "allowCapability item (capability_name e) \<and>
      Edge_Module (Resolved_Edge e) \<in> fmran' (Generator_Modules p)" if "e \<in> set path'" for e
  proof -
    from that edges obtain e0 where "e0 \<in> set path" "Resolved_Edge e = Resolved_Edge e0" by blast
    with data_path_elements [OF path(1)] show ?thesis by (auto simp: usable_def edge_capability_def)
  qed
  moreover have "\<exists>e\<in>set path'. capability_name e = cap"
    if "Decision_Deploy (config_decision item cap) = StatusTrue" for cap
  proof -
    from that obtain d where "fmlookup (Output_ConfigDecisions (DataInfo_Configuration item)) cap = Some d"
      "Decision_Deploy d = StatusTrue"
      by (auto simp: config_decision_def fmget_def Decision_zero_def split: option.splits)
    with required show ?thesis
      by (fastforce simp: list_all_iff fmrange_set [OF assms(1), symmetric])
  qed
  ultimately show ?thesis by (auto simp: allowCapability_def)
qed

section \<open>A sample installation\<close>

text \<open>
  A db2 asset that must be redacted, a module that copies db2 to object storage and a module that
  serves object storage to the workload, one cluster and one storage region. The policy manager
  answers a write request with the given result.
\<close>

fun sample_NestedString :: "json \<Rightarrow> string list \<Rightarrow> string \<times> bool \<times> string option" where
  "sample_NestedString (JStr v) [] = (v, True, None)"
| "sample_NestedString (JObj m) (f # fs) =
     (case fmlookup m f of None \<Rightarrow> ([], False, None) | Some j \<Rightarrow> sample_NestedString j fs)"
| "sample_NestedString _ _ = ([], False, Some ''accessor error'')"

definition sample_env :: go_env where
  "sample_env =
     \<lparr>LookupEnv = (\<lambda>_. None), NamespaceFile = None, Sum512 = (\<lambda>_. replicate 64 0),
      LabelSelector_Size = (\<lambda>_. 1),
      NestedString = (\<lambda>m fs. sample_NestedString (JObj m) fs),
      NestedFieldNoCopy = (\<lambda>m fs. (None, False, None)), JSON_Text = (\<lambda>_. [])\<rparr>"

definition sample_interface :: "string \<Rightarrow> InterfaceDetails" where
  "sample_interface protocol = \<lparr>Interface_Protocol = protocol, Interface_DataFormat = []\<rparr>"

definition sample_action :: "string \<Rightarrow> Action" where
  "sample_action name = \<lparr>Action_Name = name, Action_AdditionalProperties = \<lparr>Items = None\<rparr>\<rparr>"

definition sample_module :: "string \<Rightarrow> ModuleCapability \<Rightarrow> FybrikModule" where
  "sample_module name capability =
     \<lparr>Module_Meta = (App_Meta (sample_app []))\<lparr>Meta_Name := name\<rparr>,
      Module_Spec =
        \<lparr>ModuleSpec_Description = [], ModuleSpec_Type = ''service'', ModuleSpec_PluginType = [],
         ModuleSpec_Dependencies = [], ModuleSpec_Capabilities = [capability],
         ModuleSpec_Chart =
           \<lparr>ChartSpec_Name = name, ChartSpec_ChartPullSecret = [], ChartSpec_Values = fmempty\<rparr>,
         ModuleSpec_StatusIndicators = []\<rparr>,
      Module_Status = \<lparr>ModuleStatus_Conditions = []\<rparr>\<rparr>"

definition sample_copy :: FybrikModule where
  "sample_copy = sample_module ''copy-module''
     \<lparr>ModuleCapability_Capability = ''copy'', ModuleCapability_Scope = Scope_Asset,
      ModuleCapability_SupportedInterfaces =
        [\<lparr>ModuleInOut_Source = Some (sample_interface ''db2''),
          ModuleInOut_Sink = Some (sample_interface ''s3'')\<rparr>],
      ModuleCapability_API = None,
      ModuleCapability_Actions =
        [\<lparr>ModuleSupportedAction_Name = ''redact''\<rparr>, \<lparr>ModuleSupportedAction_Name = ''audit''\<rparr>],
      ModuleCapability_Plugins = []\<rparr>"

definition sample_read :: FybrikModule where
  "sample_read = sample_module ''read-module''
     \<lparr>ModuleCapability_Capability = ''read'', ModuleCapability_Scope = Scope_Workload,
      ModuleCapability_SupportedInterfaces =
        [\<lparr>ModuleInOut_Source = Some (sample_interface ''s3''), ModuleInOut_Sink = None\<rparr>],
      ModuleCapability_API = Some
        \<lparr>ResourceDetails_Connection =
           \<lparr>Connection_Name = ''flight'',
            Connection_AdditionalProperties =
              \<lparr>Items = Some (fmupd ''flight'' (JObj (fmupd ''port'' (JStr ''80'') fmempty)) fmempty)\<rparr>\<rparr>,
         ResourceDetails_DataFormat = []\<rparr>,
      ModuleCapability_Actions = [], ModuleCapability_Plugins = []\<rparr>"

definition sample_generator ::
  "string + GetPolicyDecisionsResponse \<Rightarrow> PlotterGenerator" where
  "sample_generator answer =
     \<lparr>Generator_Modules = fmupd ''copy-module'' sample_copy (fmupd ''read-module'' sample_read fmempty),
      Generator_Clusters =
        [Cluster_zero\<lparr>Cluster_Name := ''A''\<rparr>, Cluster_zero\<lparr>Cluster_Name := ''B''\<rparr>],
      Generator_Owner = \<lparr>NN_Name = ''notebook'', NN_Namespace = ''default''\<rparr>,
      Generator_PolicyManager =
        \<lparr>GetPoliciesDecisions = (\<lambda>_ _. answer), PM_TaxonomyCheck = (\<lambda>_. Inr []),
         PM_NewInvalid = (\<lambda>_ _. [])\<rparr>,
      Generator_StorageAccountRegions = [''region1'']\<rparr>"

definition sample_answer :: "string list \<Rightarrow> string + GetPolicyDecisionsResponse" where
  "sample_answer actions = Inr
     \<lparr>PolicyResponse_DecisionID = [],
      PolicyResponse_Result =
        map (\<lambda>a. \<lparr>ResultItem_Policy = [], ResultItem_Action = sample_action a\<rparr>) actions\<rparr>"

definition sample_item :: DataInfo where
  "sample_item =
     \<lparr>DataInfo_DataDetails =
        \<lparr>GetAssetResponse_ResourceMetadata =
           \<lparr>ResourceMetadata_Name = [], ResourceMetadata_Owner = [], ResourceMetadata_Geography = [],
            ResourceMetadata_Tags = None, ResourceMetadata_Columns = []\<rparr>,
         GetAssetResponse_Details =
           \<lparr>ResourceDetails_Connection =
              \<lparr>Connection_Name = ''db2'', Connection_AdditionalProperties = \<lparr>Items = None\<rparr>\<rparr>,
            ResourceDetails_DataFormat = []\<rparr>,
         GetAssetResponse_Credentials = []\<rparr>,
      DataInfo_Context = (sample_context ''asset'')
        \<lparr>DataContext_Requirements :=
           (DataContext_Requirements (sample_context ''asset''))
             \<lparr>Requirements_Interface := sample_interface ''flight''\<rparr>\<rparr>,
      DataInfo_Configuration = fst (Evaluate sorted_list_of_fset sample_opa sample_input),
      DataInfo_WorkloadCluster = Cluster_zero, DataInfo_Actions = [sample_action ''redact'']\<rparr>"

abbreviation sample_paths :: "string + GetPolicyDecisionsResponse \<Rightarrow> DataPath list" where
  "sample_paths answer \<equiv>
     FindPaths sample_env sorted_list_of_fset (sample_generator answer) sample_item (sample_app [''asset''])"

definition sample_path :: DataPath where
  "sample_path =
     [\<lparr>Resolved_Edge =
         \<lparr>Edge_Source = Some (data_source sample_item),
          Edge_Sink = Some \<lparr>Node_Connection = Some (sample_interface ''s3''), Node_Virtual = False\<rparr>,
          Edge_Module = sample_copy, Edge_CapabilityIndex = 0\<rparr>,
       Resolved_Actions = [sample_action ''audit'', sample_action ''redact''],
       Resolved_Cluster = ''B'', Resolved_StorageAccountRegion = ''region1''\<rparr>,
      \<lparr>Resolved_Edge =
         \<lparr>Edge_Source = Some \<lparr>Node_Connection = Some (sample_interface ''s3''), Node_Virtual = False\<rparr>,
          Edge_Sink = Some (data_destination sample_env sample_item (sample_app [''asset''])),
          Edge_Module = sample_read, Edge_CapabilityIndex = 0\<rparr>,
       Resolved_Actions = [], Resolved_Cluster = ''A'', Resolved_StorageAccountRegion = []\<rparr>]"

lemma sample_path_found: "sample_paths (sample_answer [''audit'']) = [sample_path]"
  by code_simp

section \<open>Witnesses\<close>

abbreviation sample_plotter_generator :: PlotterGenerator where
  "sample_plotter_generator \<equiv> sample_generator (sample_answer [''audit''])"

lemma sample_path_in: "sample_path \<in> set (sample_paths (sample_answer [''audit'']))"
  by (simp add: sample_path_found)

text \<open>The sample path before its validation.\<close>

abbreviation sample_bare_path :: DataPath where
  "sample_bare_path \<equiv>
     map (\<lambda>e. e\<lparr>Resolved_Actions := [], Resolved_Cluster := [], Resolved_StorageAccountRegion := []\<rparr>)
       sample_path"

theorem findPathsWithinLimit_iff_witness:
  "data_path sample_plotter_generator sample_item (data_source sample_item)
     (data_destination sample_env sample_item (sample_app [''asset''])) sample_bare_path"
proof -
  have "sample_bare_path \<in> set (findPathsWithinLimit sorted_list_of_fset sample_plotter_generator
      sample_item (data_source sample_item)
      (data_destination sample_env sample_item (sample_app [''asset''])) 2)"
    by code_simp
  then show ?thesis using findPathsWithinLimit_iff [OF range_order_sorted] by blast
qed

theorem FindPaths_iff_witness:
  "\<exists>path. data_path sample_plotter_generator sample_item (data_source sample_item)
       (data_destination sample_env sample_item (sample_app [''asset''])) path \<and>
     int (length path) \<le> max 1 (fst (GetDataPathMaxSize sample_env)) \<and>
     validate sample_env sorted_list_of_fset sample_plotter_generator sample_item
       (sample_app [''asset'']) path = Some sample_path"
  using FindPaths_iff [OF range_order_sorted] sample_path_in by blast

theorem FindPaths_actions_witness:
  "\<exists>e\<in>set sample_path. sample_action ''redact'' \<in> set (Resolved_Actions e) \<and>
     list_all (supportsGovernanceAction (Resolved_Edge e)) (Resolved_Actions e)"
proof -
  have "sample_action ''redact'' \<in> set (DataInfo_Actions sample_item)" by (simp add: sample_item_def)
  with FindPaths_actions [OF range_order_sorted sample_path_in] show ?thesis
    by (auto simp: list_all_iff)
qed

theorem FindPaths_clusters_witness:
  "list_all (well_placed sample_env sample_plotter_generator sample_item) sample_path"
  using FindPaths_clusters [OF range_order_sorted sample_path_in] by (simp add: list_all_iff)


theorem FindPaths_capabilities_witness:
  "Decision_Deploy (config_decision sample_item ''copy'') = StatusTrue \<and>
   (\<exists>e\<in>set sample_path. capability_name e = ''copy'')"
proof -
  have "Decision_Deploy (config_decision sample_item ''copy'') = StatusTrue" by code_simp
  with FindPaths_capabilities [OF range_order_sorted sample_path_in] show ?thesis by blast
qed

section \<open>A policy manager that fails\<close>


end
