(* ===== verification/Storage.thy ===== *)
theory Storage
  imports Select_Modules
begin

text \<open>
  \<^verbatim>\<open>src/pkg/storage/storage_provisioning.go\<close> and \<^verbatim>\<open>src/manager/controllers/app/storage.go\<close>: the
  allocation of buckets for copies. \<open>ProvisionInterface\<close> is a record of operations over the world;
  the locale \<open>provision\<close> states what the controller relies on and is interpreted on the repository's
  in-memory implementation \<open>ProvisionTest\<close>. \<open>ProvisionImpl\<close> keeps the buckets as Dataset resources;
  the client of the API server is the parameter record \<open>DatasetClient\<close>.
\<close>

section \<open>The interface\<close>

record ProvisionedBucket =
  Bucket_Name :: string
  Bucket_Endpoint :: string
  Bucket_SecretRef :: NamespacedName

record ProvisionedStorageStatus =
  StorageStatus_Provisioned :: bool
  StorageStatus_ErrorMsg :: string

record 'w ProvisionInterface =
  CreateDataset :: "NamespacedName \<Rightarrow> ProvisionedBucket \<Rightarrow> NamespacedName \<Rightarrow> 'w \<Rightarrow> string option \<times> 'w"
  DeleteDataset :: "NamespacedName \<Rightarrow> 'w \<Rightarrow> string option \<times> 'w"
  GetDatasetStatus :: "NamespacedName \<Rightarrow> 'w \<Rightarrow> string + ProvisionedStorageStatus"
  SetPersistent :: "NamespacedName \<Rightarrow> bool \<Rightarrow> 'w \<Rightarrow> string option \<times> 'w"

text \<open>
  A dataset that was created under the name of its bucket is there, a deleted one is not, and the
  operations leave the datasets of other names alone.
\<close>

locale provision =
  fixes prov :: "'w ProvisionInterface"
  assumes status_create:
    "CreateDataset prov ref b owner w = (None, w') \<Longrightarrow> Bucket_Name b = NN_Name ref \<Longrightarrow>
       \<exists>st. GetDatasetStatus prov ref w' = Inr st"
    and status_delete:
    "DeleteDataset prov ref w = (None, w') \<Longrightarrow> \<exists>err. GetDatasetStatus prov ref w' = Inl err"
    and status_other_create:
    "NN_Name ref' \<noteq> NN_Name ref \<Longrightarrow> Bucket_Name b = NN_Name ref \<Longrightarrow>
       GetDatasetStatus prov ref' (snd (CreateDataset prov ref b owner w)) = GetDatasetStatus prov ref' w"
    and status_other_delete:
    "NN_Name ref' \<noteq> NN_Name ref \<Longrightarrow>
       GetDatasetStatus prov ref' (snd (DeleteDataset prov ref w)) = GetDatasetStatus prov ref' w"
begin

definition exists_dataset :: "'w \<Rightarrow> NamespacedName \<Rightarrow> bool" where
  "exists_dataset w ref \<longleftrightarrow> (\<exists>st. GetDatasetStatus prov ref w = Inr st)"

lemma exists_create:
  "CreateDataset prov ref b owner w = (None, w') \<Longrightarrow> Bucket_Name b = NN_Name ref \<Longrightarrow>
     exists_dataset w' ref"
  using status_create by (simp add: exists_dataset_def)

lemma create_then_delete:
  assumes "CreateDataset prov ref b owner w = (None, w1)" and "DeleteDataset prov ref w1 = (None, w2)"
  shows "\<not> exists_dataset w2 ref"
  using status_delete [OF assms(2)] by (auto simp: exists_dataset_def)

end

section \<open>The in-memory implementation\<close>

type_synonym ProvisionTest = "ProvisionedBucket list"

fun replace_dataset :: "ProvisionedBucket \<Rightarrow> ProvisionTest \<Rightarrow> ProvisionTest option" where
  "replace_dataset dataset [] = None"
| "replace_dataset dataset (d # ds) =
     (if Bucket_Name d = Bucket_Name dataset then Some (dataset # ds)
      else map_option (Cons d) (replace_dataset dataset ds))"

definition Test_CreateDataset ::
  "NamespacedName \<Rightarrow> ProvisionedBucket \<Rightarrow> NamespacedName \<Rightarrow> ProvisionTest \<Rightarrow> string option \<times> ProvisionTest" where
  "Test_CreateDataset ref dataset owner datasets =
     (case replace_dataset dataset datasets of
        Some datasets' \<Rightarrow> (None, datasets')
      | None \<Rightarrow> (None, datasets @ [dataset]))"

definition Test_SetPersistent ::
  "NamespacedName \<Rightarrow> bool \<Rightarrow> ProvisionTest \<Rightarrow> string option \<times> ProvisionTest" where
  "Test_SetPersistent ref persistent datasets =
     (if list_ex (\<lambda>d. Bucket_Name d = NN_Name ref) datasets then (None, datasets)
      else (Some (''could not find a dataset: '' @ NN_Name ref), datasets))"

definition Test_GetDatasetStatus ::
  "NamespacedName \<Rightarrow> ProvisionTest \<Rightarrow> string + ProvisionedStorageStatus" where
  "Test_GetDatasetStatus ref datasets =
     (if list_ex (\<lambda>d. Bucket_Name d = NN_Name ref) datasets
      then Inr \<lparr>StorageStatus_Provisioned = True, StorageStatus_ErrorMsg = []\<rparr>
      else Inl (''could not find a dataset: '' @ NN_Name ref))"

definition Test_DeleteDataset ::
  "NamespacedName \<Rightarrow> ProvisionTest \<Rightarrow> string option \<times> ProvisionTest" where
  "Test_DeleteDataset ref datasets =
     (let newDatasets = filter (\<lambda>d. Bucket_Name d \<noteq> NN_Name ref) datasets;
          errMessage = ''The following datasets have been found:'' @ [CHR 0x0A] @
            concat (map (\<lambda>d. '' '' @ Bucket_Name d @ [CHR 0x0A]) datasets)
      in if list_ex (\<lambda>d. Bucket_Name d = NN_Name ref) datasets then (None, newDatasets)
         else (Some (''could not delete a dataset '' @ NN_Name ref @ [CHR 0x0A] @ errMessage), datasets))"

definition Test_provision :: "ProvisionTest ProvisionInterface" where
  "Test_provision =
     \<lparr>CreateDataset = Test_CreateDataset, DeleteDataset = Test_DeleteDataset,
      GetDatasetStatus = Test_GetDatasetStatus, SetPersistent = Test_SetPersistent\<rparr>"

lemma replace_dataset_names:
  "replace_dataset d ds = Some ds' \<Longrightarrow> map Bucket_Name ds' = map Bucket_Name ds"
  by (induction ds arbitrary: ds') (auto split: if_splits)

lemma replace_dataset_None: "replace_dataset d ds = None \<longleftrightarrow> Bucket_Name d \<notin> Bucket_Name ` set ds"
  by (induction ds) auto

lemma list_ex_name: "list_ex (\<lambda>d. Bucket_Name d = n) ds \<longleftrightarrow> n \<in> set (map Bucket_Name ds)"
  by (induction ds) auto

lemmas Test_defs =
  Test_provision_def Test_CreateDataset_def Test_DeleteDataset_def Test_GetDatasetStatus_def
  Test_SetPersistent_def

lemma Test_CreateDataset_names:
  "set (map Bucket_Name (snd (Test_CreateDataset ref b owner ds))) =
     insert (Bucket_Name b) (set (map Bucket_Name ds))"
proof (cases "replace_dataset b ds")
  case None
  then show ?thesis by (simp add: Test_CreateDataset_def)
next
  case (Some ds')
  then have "Bucket_Name b \<in> set (map Bucket_Name ds)"
    using replace_dataset_None [of b ds] by auto
  with replace_dataset_names [OF Some] Some show ?thesis
    by (simp add: Test_CreateDataset_def insert_absorb)
qed

lemma Test_status_iff:
  "(\<exists>st. Test_GetDatasetStatus ref ds = Inr st) \<longleftrightarrow> NN_Name ref \<in> set (map Bucket_Name ds)"
  by (simp add: Test_GetDatasetStatus_def list_ex_name)

lemma Test_status_cong:
  "NN_Name ref \<in> set (map Bucket_Name ds) \<longleftrightarrow> NN_Name ref \<in> set (map Bucket_Name ds') \<Longrightarrow>
     Test_GetDatasetStatus ref ds = Test_GetDatasetStatus ref ds'"
  by (simp add: Test_GetDatasetStatus_def list_ex_name)

lemma Test_DeleteDataset_names:
  "set (map Bucket_Name (snd (Test_DeleteDataset ref ds))) = set (map Bucket_Name ds) - {NN_Name ref}"
  by (auto simp: Test_DeleteDataset_def Let_def list_ex_name)

interpretation test_provision: provision Test_provision
proof unfold_locales
  fix ref b owner w w'
  assume "CreateDataset Test_provision ref b owner w = (None, w')" and "Bucket_Name b = NN_Name ref"
  then show "\<exists>st. GetDatasetStatus Test_provision ref w' = Inr st"
    using Test_CreateDataset_names [of ref b owner w] by (simp add: Test_provision_def Test_status_iff)
next
  fix ref w w'
  assume "DeleteDataset Test_provision ref w = (None, w')"
  then show "\<exists>err. GetDatasetStatus Test_provision ref w' = Inl err"
    using Test_DeleteDataset_names [of ref w]
    by (simp add: Test_provision_def Test_GetDatasetStatus_def list_ex_name)
next
  fix ref' ref owner :: NamespacedName and b :: ProvisionedBucket and w
  assume "NN_Name ref' \<noteq> NN_Name ref" and "Bucket_Name b = NN_Name ref"
  then show "GetDatasetStatus Test_provision ref' (snd (CreateDataset Test_provision ref b owner w)) =
      GetDatasetStatus Test_provision ref' w"
    using Test_CreateDataset_names [of ref b owner w]
    by (auto simp: Test_provision_def intro!: Test_status_cong)
next
  fix ref' ref :: NamespacedName and w
  assume "NN_Name ref' \<noteq> NN_Name ref"
  then show "GetDatasetStatus Test_provision ref' (snd (DeleteDataset Test_provision ref w)) =
      GetDatasetStatus Test_provision ref' w"
    using Test_DeleteDataset_names [of ref w]
    by (auto simp: Test_provision_def intro!: Test_status_cong)
qed

section \<open>The implementation by Dataset resources\<close>

text \<open>The Dataset that \<open>CreateDataset\<close> builds: its key, its labels and the map under spec.local.\<close>

record NewDataset =
  NewDataset_Ref :: NamespacedName
  NewDataset_Labels :: "(string, string) fmap"
  NewDataset_Local :: "(string, string) fmap"

record 'w DatasetClient =
  Dataset_Get :: "NamespacedName \<Rightarrow> 'w \<Rightarrow> string + (string, json) fmap"
  Dataset_Create :: "NewDataset \<Rightarrow> 'w \<Rightarrow> string option \<times> 'w"
  Dataset_Delete :: "(string, json) fmap \<Rightarrow> 'w \<Rightarrow> string option \<times> 'w"
  Dataset_GetLabels :: "(string, json) fmap \<Rightarrow> (string, string) fmap"
  Dataset_SetLabels :: "(string, string) fmap \<Rightarrow> (string, json) fmap \<Rightarrow> (string, json) fmap"
  Dataset_Update :: "(string, json) fmap \<Rightarrow> 'w \<Rightarrow> string option \<times> 'w"

definition getValue :: "go_env \<Rightarrow> (string, json) fmap \<Rightarrow> string list \<Rightarrow> string" where
  "getValue env obj path =
     (case NestedString env obj path of
        (valStr, exists, err) \<Rightarrow> if err = None \<and> exists then valStr else [])"

definition equal_bucket :: "go_env \<Rightarrow> ProvisionedBucket \<Rightarrow> (string, json) fmap \<Rightarrow> bool" where
  "equal_bucket env required obj \<longleftrightarrow>
     Bucket_Name required = getValue env obj [''spec'', ''local'', ''bucket''] \<and>
     Bucket_Endpoint required = getValue env obj [''spec'', ''local'', ''endpoint''] \<and>
     NN_Name (Bucket_SecretRef required) = getValue env obj [''spec'', ''local'', ''secret-name''] \<and>
     NN_Namespace (Bucket_SecretRef required) =
       getValue env obj [''spec'', ''local'', ''secret-namespace'']"

definition Impl_DeleteDataset ::
  "'w DatasetClient \<Rightarrow> NamespacedName \<Rightarrow> 'w \<Rightarrow> string option \<times> 'w" where
  "Impl_DeleteDataset cl ref w =
     (case Dataset_Get cl ref w of
        Inr dataset \<Rightarrow> Dataset_Delete cl dataset w
      | Inl err \<Rightarrow> (Some err, w))"

definition new_dataset :: "NamespacedName \<Rightarrow> ProvisionedBucket \<Rightarrow> NamespacedName \<Rightarrow> NewDataset" where
  "new_dataset ref bucket owner =
     \<lparr>NewDataset_Ref = ref,
      NewDataset_Labels =
        fmupd ''fybrik.io/owner'' (NN_Namespace owner @ ''.'' @ NN_Name owner)
          (fmupd ''remove-on-delete'' ''true'' fmempty),
      NewDataset_Local =
        fmupd ''type'' ''COS''
         (fmupd ''secret-name'' (NN_Name (Bucket_SecretRef bucket))
          (fmupd ''secret-namespace'' (NN_Namespace (Bucket_SecretRef bucket))
           (fmupd ''endpoint'' (Bucket_Endpoint bucket)
            (fmupd ''bucket'' (Bucket_Name bucket)
             (fmupd ''provision'' ''true'' fmempty)))))\<rparr>"

definition Impl_CreateDataset ::
  "go_env \<Rightarrow> 'w DatasetClient \<Rightarrow> NamespacedName \<Rightarrow> ProvisionedBucket \<Rightarrow> NamespacedName \<Rightarrow> 'w \<Rightarrow>
     string option \<times> 'w" where
  "Impl_CreateDataset env cl ref bucket owner w =
     (case Dataset_Get cl ref w of
        Inl _ \<Rightarrow> Dataset_Create cl (new_dataset ref bucket owner) w
      | Inr existing \<Rightarrow>
          if equal_bucket env bucket existing then (None, w)
          else
            (case Impl_DeleteDataset cl ref w of
               (Some err, w1) \<Rightarrow> (Some err, w1)
             | (None, w1) \<Rightarrow> Dataset_Create cl (new_dataset ref bucket owner) w1))"

definition Impl_SetPersistent ::
  "'w DatasetClient \<Rightarrow> NamespacedName \<Rightarrow> bool \<Rightarrow> 'w \<Rightarrow> string option \<times> 'w" where
  "Impl_SetPersistent cl ref persistent w =
     (case Dataset_Get cl ref w of
        Inl err \<Rightarrow> (Some err, w)
      | Inr existing \<Rightarrow>
          let removeOnDelete = (if persistent then ''false'' else ''true'');
              labels = fmupd ''remove-on-delete'' removeOnDelete (Dataset_GetLabels cl existing)
          in Dataset_Update cl (Dataset_SetLabels cl labels existing) w)"

definition Impl_GetDatasetStatus ::
  "go_env \<Rightarrow> 'w DatasetClient \<Rightarrow> NamespacedName \<Rightarrow> 'w \<Rightarrow> string + ProvisionedStorageStatus" where
  "Impl_GetDatasetStatus env cl ref w =
     (case Dataset_Get cl ref w of
        Inl err \<Rightarrow> Inl err
      | Inr dataset \<Rightarrow>
          Inr \<lparr>StorageStatus_Provisioned =
                 (getValue env dataset [''status'', ''provision'', ''status''] = ''OK''),
               StorageStatus_ErrorMsg = getValue env dataset [''status'', ''provision'', ''info'']\<rparr>)"

definition Impl_provision :: "go_env \<Rightarrow> 'w DatasetClient \<Rightarrow> 'w ProvisionInterface" where
  "Impl_provision env cl =
     \<lparr>CreateDataset = Impl_CreateDataset env cl, DeleteDataset = Impl_DeleteDataset cl,
      GetDatasetStatus = Impl_GetDatasetStatus env cl, SetPersistent = Impl_SetPersistent cl\<rparr>"

section \<open>Allocation\<close>

text \<open>The list of the storage accounts in the namespace is the answer of the API server.\<close>

fun find_account ::
  "range_ord \<Rightarrow> string \<Rightarrow> string \<Rightarrow> string \<Rightarrow> FybrikStorageAccount list \<Rightarrow> ProvisionedBucket option" where
  "find_account ord ns bucketName geo [] = None"
| "find_account ord ns bucketName geo (account # accounts) =
     (case find (\<lambda>(key, _). geo = key)
             (fmrange ord (StorageAccount_Endpoints (StorageAccount_Spec account))) of
        Some (_, v) \<Rightarrow>
          Some \<lparr>Bucket_Name = bucketName, Bucket_Endpoint = v,
                Bucket_SecretRef =
                  \<lparr>NN_Name = StorageAccount_SecretRef (StorageAccount_Spec account), NN_Namespace = ns\<rparr>\<rparr>
      | None \<Rightarrow> find_account ord ns bucketName geo accounts)"

definition AllocateBucket ::
  "go_env \<Rightarrow> range_ord \<Rightarrow> string + FybrikStorageAccount list \<Rightarrow> string \<Rightarrow> string \<Rightarrow>
     string + ProvisionedBucket" where
  "AllocateBucket env ord accountList bucketName geo =
     (case accountList of
        Inl err \<Rightarrow> Inl err
      | Inr accounts \<Rightarrow>
          (case find_account ord (GetSystemNamespace env) bucketName geo accounts of
             Some bucket \<Rightarrow> Inr bucket
           | None \<Rightarrow> Inl (''could not allocate a bucket in '' @ geo)))"

lemma find_key:
  assumes "range_order ord"
  shows "find (\<lambda>(key, _). k = key) (fmrange ord m) = map_option (Pair k) (fmlookup m k)"
proof (cases "find (\<lambda>(key, _). k = key) (fmrange ord m)")
  case None
  have "fmlookup m k \<noteq> Some v" for v
    using None fmrange_set [OF assms, of k v m] by (auto simp: find_None_iff)
  then have "fmlookup m k = None" by (cases "fmlookup m k") auto
  with None show ?thesis by simp
next
  case (Some kv)
  then have "kv \<in> set (fmrange ord m) \<and> fst kv = k" by (auto dest!: find_SomeD)
  then show ?thesis using Some fmrange_set [OF assms, of k "snd kv" m] by (cases kv) auto
qed

lemma AllocateBucket_Inr:
  assumes "range_order ord" and "AllocateBucket env ord (Inr accounts) name geo = Inr b"
  shows "Bucket_Name b = name \<and>
    (\<exists>account\<in>set accounts.
      fmlookup (StorageAccount_Endpoints (StorageAccount_Spec account)) geo = Some (Bucket_Endpoint b) \<and>
      NN_Name (Bucket_SecretRef b) = StorageAccount_SecretRef (StorageAccount_Spec account))"
proof -
  have "Bucket_Name b = name \<and>
    (\<exists>account\<in>set accounts.
      fmlookup (StorageAccount_Endpoints (StorageAccount_Spec account)) geo = Some (Bucket_Endpoint b) \<and>
      NN_Name (Bucket_SecretRef b) = StorageAccount_SecretRef (StorageAccount_Spec account))"
    if "find_account ord ns name geo accounts = Some b" for ns
    using that by (induction accounts) (auto simp: find_key [OF assms(1)] split: option.splits)
  with assms(2) show ?thesis by (auto simp: AllocateBucket_def split: option.splits)
qed

end
