(* ===== verification/Plotter_Generator.thy ===== *)
theory Plotter_Generator
  imports Storage
begin

text \<open>
  \<^verbatim>\<open>src/manager/controllers/app/plotter_generator.go\<close>: the part of the plotter for one asset. A
  function of the generator that changes its field \<open>ProvisionedStorage\<close> or the provisioned storage
  itself takes and returns both, in the record \<open>gen_state\<close>; the storage accounts that the API server
  lists are the parameter \<open>accounts\<close>. The text templates of Go with the sprig functions are the
  parameter record \<open>TextTemplate\<close>.
\<close>

section \<open>Endpoints of modules\<close>

record TextTemplate =
  Template_Parse :: "string \<Rightarrow> string \<Rightarrow> string option"
  Template_Execute :: "string \<Rightarrow> string \<Rightarrow> (string, json) fmap \<Rightarrow> string + string"

text \<open>The JSON form of \<open>APITemplateArgs\<close>; empty labels are left out.\<close>

definition template_args :: "string \<Rightarrow> string \<Rightarrow> (string, string) fmap \<Rightarrow> (string, json) fmap" where
  "template_args releaseName releaseNamespace labels =
     fmupd ''Release''
       (JObj (fmupd ''Name'' (JStr releaseName) (fmupd ''Namespace'' (JStr releaseNamespace) fmempty)))
       (fmupd ''Values''
          (JObj (if labels = fmempty then fmempty
                 else fmupd ''labels'' (JObj (fmmap JStr labels)) fmempty))
          fmempty)"

text \<open>The body of the loop over the properties of the connection.\<close>

definition property_step ::
  "TextTemplate \<Rightarrow> (string, json) fmap \<Rightarrow> string \<times> json \<Rightarrow> (string, json) fmap \<Rightarrow>
     string + (string, json) fmap" where
  "property_step tt vals kv newProps =
     (case kv of
        (key, JStr templateStr) \<Rightarrow>
          (case Template_Parse tt key templateStr of
             Some err \<Rightarrow> Inl (''could not parse '' @ templateStr @ '' as a template: '' @ err)
           | None \<Rightarrow>
               (case Template_Execute tt key templateStr vals of
                  Inl err \<Rightarrow> Inl (''could not process template '' @ templateStr @ '': '' @ err)
                | Inr newValue \<Rightarrow> Inr (fmupd key (JStr newValue) newProps)))
      | (key, val) \<Rightarrow> Inr (fmupd key val newProps))"

definition api_instance_name :: "go_env \<Rightarrow> CapabilityScope \<Rightarrow> string \<Rightarrow> string \<Rightarrow> string" where
  "api_instance_name env scope moduleName assetID =
     (if scope = Scope_Asset then CreateStepName env moduleName assetID else moduleName)"

definition moduleAPIToService ::
  "go_env \<Rightarrow> range_ord \<Rightarrow> TextTemplate \<Rightarrow> ResourceDetails \<Rightarrow> CapabilityScope \<Rightarrow> FybrikApplication \<Rightarrow>
     string \<Rightarrow> string \<Rightarrow> ResourceDetails go" where
  "moduleAPIToService env ord tt api scope appContext moduleName assetID =
     go_bind (GetReleaseName env (Meta_Name (App_Meta appContext)) (Meta_Namespace (App_Meta appContext))
                (api_instance_name env scope moduleName assetID))
       (\<lambda>releaseName.
          let vals = template_args releaseName (GetDefaultModulesNamespace env)
                       (Meta_Labels (App_Meta appContext));
              conn = ResourceDetails_Connection api;
              items = items_of (Items (Connection_AdditionalProperties conn))
          in
            (case fmlookup items (Connection_Name conn) of
               Some (JObj props) \<Rightarrow>
                 (case go_loop (property_step tt vals) (fmrange ord props) fmempty of
                    Inl err \<Rightarrow> Err err
                  | Inr newProps \<Rightarrow>
                      Ok \<lparr>ResourceDetails_Connection =
                            \<lparr>Connection_Name = Connection_Name conn,
                             Connection_AdditionalProperties =
                               \<lparr>Items = Some (fmupd (Connection_Name conn) (JObj newProps) fmempty)\<rparr>\<rparr>,
                          ResourceDetails_DataFormat = ResourceDetails_DataFormat api\<rparr>)
             | _ \<Rightarrow> Panic ''interface conversion''))"

section \<open>Storage for copies\<close>

fun strings_ReplaceDots :: "string \<Rightarrow> string" where
  "strings_ReplaceDots [] = []"
| "strings_ReplaceDots (c # s) = (if c = CHR ''.'' then CHR ''-'' else c) # strings_ReplaceDots s"

definition generateBucketName :: "go_env \<Rightarrow> NamespacedName \<Rightarrow> string \<Rightarrow> string go" where
  "generateBucketName env owner id1 =
     K8sConformName env (strings_ReplaceDots (NN_Name owner @ ''-'' @ NN_Namespace owner @ Hash env id1 10))"

record NewAssetInfo =
  NewAssetInfo_Storage :: ProvisionedBucket

record 'w gen_state =
  Gen_ProvisionedStorage :: "(string, NewAssetInfo) fmap"
  Gen_World :: 'w

definition object_key_name :: "go_env \<Rightarrow> NamespacedName \<Rightarrow> DataInfo \<Rightarrow> string" where
  "object_key_name env owner item =
     (let name = ResourceMetadata_Name (GetAssetResponse_ResourceMetadata (DataInfo_DataDetails item))
      in if name \<noteq> [] then name @ Hash env (NN_Name owner @ NN_Namespace owner) 10
         else NN_Name owner @ Hash env (DataSetID (DataInfo_Context item)) 10)"

definition copy_connection :: "ProvisionedBucket \<Rightarrow> string \<Rightarrow> Connection" where
  "copy_connection bucket genObjectKeyName =
     \<lparr>Connection_Name = ''s3'',
      Connection_AdditionalProperties =
        \<lparr>Items = Some (fmupd ''s3''
           (JObj (fmupd ''endpoint'' (JStr (Bucket_Endpoint bucket))
              (fmupd ''bucket'' (JStr (Bucket_Name bucket))
                (fmupd ''object_key'' (JStr genObjectKeyName) fmempty))))
           fmempty)\<rparr>\<rparr>"

definition copy_vault :: "go_env \<Rightarrow> ProvisionedBucket \<Rightarrow> (string, Vault) fmap" where
  "copy_vault env bucket =
     (let vaultSecretPath =
            PathForReadingKubeSecret (NN_Namespace (Bucket_SecretRef bucket))
              (NN_Name (Bucket_SecretRef bucket));
          v = (if IsVaultEnabled env
               then Vault_zero\<lparr>Vault_SecretPath := vaultSecretPath, Vault_Role := GetModulesRole env,
                               Vault_Address := GetVaultAddress env\<rparr>
               else Vault_zero)
      in fmupd ReadFlow v (fmupd WriteFlow v fmempty))"

definition GetCopyDestination ::
  "go_env \<Rightarrow> range_ord \<Rightarrow> string + FybrikStorageAccount list \<Rightarrow> 'w ProvisionInterface \<Rightarrow>
     PlotterGenerator \<Rightarrow> DataInfo \<Rightarrow> InterfaceDetails option \<Rightarrow> string \<Rightarrow> 'w gen_state \<Rightarrow>
     ((string + DataStore) \<times> 'w gen_state) go" where
  "GetCopyDestination env ord accounts prov p item destinationInterface geo st =
     (let genObjectKeyName = object_key_name env (Generator_Owner p) item;
          datasetID = DataSetID (DataInfo_Context item)
      in go_bind (generateBucketName env (Generator_Owner p) datasetID) (\<lambda>genBucketName.
        (case AllocateBucket env ord accounts genBucketName geo of
           Inl err \<Rightarrow> Ok (Inl err, st)
         | Inr bucket \<Rightarrow>
             (case CreateDataset prov
                     \<lparr>NN_Name = Bucket_Name bucket, NN_Namespace = GetSystemNamespace env\<rparr>
                     bucket (Generator_Owner p) (Gen_World st) of
                (Some err, w) \<Rightarrow> Ok (Inl err, st\<lparr>Gen_World := w\<rparr>)
              | (None, w) \<Rightarrow>
                  (case destinationInterface of
                     None \<Rightarrow> Panic ''nil pointer dereference''
                   | Some interface \<Rightarrow>
                       Ok (Inr \<lparr>DataStore_Vault = copy_vault env bucket,
                                DataStore_Connection = copy_connection bucket genObjectKeyName,
                                DataStore_Format = Interface_DataFormat interface\<rparr>,
                           \<lparr>Gen_ProvisionedStorage =
                              fmupd datasetID \<lparr>NewAssetInfo_Storage = bucket\<rparr> (Gen_ProvisionedStorage st),
                            Gen_World = w\<rparr>))))))"

section \<open>The flow of an asset\<close>

definition source_vault :: "go_env \<Rightarrow> DataInfo \<Rightarrow> (string, Vault) fmap" where
  "source_vault env item =
     fmupd ReadFlow
       (if IsVaultEnabled env
        then Vault_zero
          \<lparr>Vault_SecretPath := GetAssetResponse_Credentials (DataInfo_DataDetails item),
           Vault_Role := GetModulesRole env, Vault_Address := GetVaultAddress env\<rparr>
        else Vault_zero) fmempty"

definition source_asset :: "go_env \<Rightarrow> DataInfo \<Rightarrow> AssetDetails" where
  "source_asset env item =
     (let details = GetAssetResponse_Details (DataInfo_DataDetails item)
      in \<lparr>AssetDetails_AdvertisedAssetID = [],
          AssetDetails_DataStore =
            \<lparr>DataStore_Vault = source_vault env item,
             DataStore_Connection = ResourceDetails_Connection details,
             DataStore_Format = ResourceDetails_DataFormat details\<rparr>\<rparr>)"

text \<open>The variables of the loop over the data path.\<close>

record 'w flow_state =
  FS_SubFlows :: "SubFlow list"
  FS_Assets :: "(string, AssetDetails) fmap"
  FS_Templates :: "Template list"
  FS_DatasetID :: string
  FS_Gen :: "'w gen_state"

definition element_template :: "ResolvedEdge \<Rightarrow> Template" where
  "element_template element =
     (let module = Edge_Module (Resolved_Edge element);
          capability = edge_capability (Resolved_Edge element)
      in \<lparr>Template_Name = ModuleCapability_Capability capability,
          Template_Modules =
            [\<lparr>ModuleInfo_Name = Module_Name module, ModuleInfo_Type = ModuleSpec_Type (Module_Spec module),
              ModuleInfo_Chart = ModuleSpec_Chart (Module_Spec module),
              ModuleInfo_Scope = ModuleCapability_Scope capability\<rparr>]\<rparr>)"

definition element_subflow ::
  "ResolvedEdge \<Rightarrow> DataFlow \<Rightarrow> SubFlowTrigger \<Rightarrow> string \<Rightarrow> StepSink option \<Rightarrow> ResourceDetails option \<Rightarrow> SubFlow" where
  "element_subflow element flow trigger source sink api =
     \<lparr>SubFlow_Name = [], SubFlow_FlowType = flow, SubFlow_Triggers = [trigger],
      SubFlow_Steps =
        [[\<lparr>Step_Name = [], Step_Cluster = Resolved_Cluster element,
           Step_Template = ModuleCapability_Capability (edge_capability (Resolved_Edge element)),
           Step_Parameters = Some
             \<lparr>StepParameters_Source = Some \<lparr>StepSource_AssetID = source, StepSource_API = None\<rparr>,
              StepParameters_Sink = sink, StepParameters_API = api,
              StepParameters_Actions = Resolved_Actions element\<rparr>\<rparr>]]\<rparr>"

definition element_api ::
  "go_env \<Rightarrow> range_ord \<Rightarrow> TextTemplate \<Rightarrow> FybrikApplication \<Rightarrow> ResolvedEdge \<Rightarrow> string \<Rightarrow>
     ResourceDetails option go" where
  "element_api env ord tt application element datasetID =
     (let capability = edge_capability (Resolved_Edge element)
      in case ModuleCapability_API capability of
           None \<Rightarrow> Ok None
         | Some api \<Rightarrow>
             go_bind (moduleAPIToService env ord tt api (ModuleCapability_Scope capability) application
                        (Module_Name (Edge_Module (Resolved_Edge element))) datasetID)
               (\<lambda>service. Ok (Some service)))"

definition sink_connection :: "ResolvedEdge \<Rightarrow> InterfaceDetails option" where
  "sink_connection element = Option.bind (Edge_Sink (Resolved_Edge element)) Node_Connection"

text \<open>
  One iteration: an error of the endpoint or of the storage ends the function with the generator's
  state at that point.
\<close>

definition flow_step ::
  "go_env \<Rightarrow> range_ord \<Rightarrow> string + FybrikStorageAccount list \<Rightarrow> 'w ProvisionInterface \<Rightarrow> TextTemplate \<Rightarrow>
     PlotterGenerator \<Rightarrow> DataInfo \<Rightarrow> FybrikApplication \<Rightarrow> ResolvedEdge \<Rightarrow> 'w flow_state \<Rightarrow>
     ((string \<times> 'w gen_state) + 'w flow_state) go" where
  "flow_step env ord accounts prov tt p item application element st =
     (let st = st\<lparr>FS_Templates := FS_Templates st @ [element_template element]\<rparr>;
          datasetID = FS_DatasetID st
      in
        (case element_api env ord tt application element datasetID of
           Panic m \<Rightarrow> Panic m
         | Err err \<Rightarrow> Ok (Inl (err, FS_Gen st))
         | Ok api \<Rightarrow>
             if \<not> sink_virtual (Resolved_Edge element) then
               go_bind (GetCopyDestination env ord accounts prov p item (sink_connection element)
                          (Resolved_StorageAccountRegion element) (FS_Gen st))
                 (\<lambda>(dest, gen).
                    (case dest of
                       Inl err \<Rightarrow> Ok (Inl (err, gen))
                     | Inr sinkDataStore \<Rightarrow>
                         let copyAssetID = datasetID @ ''-copy''
                         in Ok (Inr (st
                              \<lparr>FS_Gen := gen,
                               FS_Assets := fmupd copyAssetID
                                 \<lparr>AssetDetails_AdvertisedAssetID = datasetID,
                                  AssetDetails_DataStore = sinkDataStore\<rparr> (FS_Assets st),
                               FS_DatasetID := copyAssetID,
                               FS_SubFlows := FS_SubFlows st @
                                 [element_subflow element CopyFlow InitTrigger datasetID
                                    (Some \<lparr>StepSink_AssetID = copyAssetID\<rparr>) api]\<rparr>))))
             else
               Ok (Inr (st\<lparr>FS_SubFlows := FS_SubFlows st @
                 [element_subflow element ReadFlow WorkloadTrigger datasetID None api]\<rparr>))))"

fun flow_loop ::
  "go_env \<Rightarrow> range_ord \<Rightarrow> string + FybrikStorageAccount list \<Rightarrow> 'w ProvisionInterface \<Rightarrow> TextTemplate \<Rightarrow>
     PlotterGenerator \<Rightarrow> DataInfo \<Rightarrow> FybrikApplication \<Rightarrow> DataPath \<Rightarrow> 'w flow_state \<Rightarrow>
     ((string \<times> 'w gen_state) + 'w flow_state) go" where
  "flow_loop env ord accounts prov tt p item application [] st = Ok (Inr st)"
| "flow_loop env ord accounts prov tt p item application (element # path) st =
     go_bind (flow_step env ord accounts prov tt p item application element st)
       (\<lambda>r. case r of
              Inl e \<Rightarrow> Ok (Inl e)
            | Inr st' \<Rightarrow> flow_loop env ord accounts prov tt p item application path st')"

text \<open>
  The result is the error, if any, the plotter specification, which an error leaves as it was, and
  the state of the generator.
\<close>

definition AddFlowInfoForAsset ::
  "go_env \<Rightarrow> range_ord \<Rightarrow> string + FybrikStorageAccount list \<Rightarrow> 'w ProvisionInterface \<Rightarrow> TextTemplate \<Rightarrow>
     PlotterGenerator \<Rightarrow> DataInfo \<Rightarrow> FybrikApplication \<Rightarrow> PlotterSpec \<Rightarrow> 'w gen_state \<Rightarrow>
     (string option \<times> PlotterSpec \<times> 'w gen_state) go" where
  "AddFlowInfoForAsset env ord accounts prov tt p item application plotterSpec gen =
     (let datasetID = DataSetID (DataInfo_Context item)
      in case FindPaths env ord p item application of
           [] \<Rightarrow>
             Ok (Some (''Deployed modules do not provide the functionality required to construct a data path''
                       @ '' for '' @ datasetID), plotterSpec, gen)
         | selection # _ \<Rightarrow>
             go_bind (flow_loop env ord accounts prov tt p item application selection
                 \<lparr>FS_SubFlows = [], FS_Assets = fmupd datasetID (source_asset env item) fmempty,
                  FS_Templates = [], FS_DatasetID = datasetID, FS_Gen = gen\<rparr>)
               (\<lambda>r. case r of
                  Inl (err, gen') \<Rightarrow> Ok (Some err, plotterSpec, gen')
                | Inr st \<Rightarrow>
                    if FS_SubFlows st = [] then Panic ''index out of range''
                    else
                      let flowType = SubFlow_FlowType (last (FS_SubFlows st));
                          flow = \<lparr>Flow_Name = datasetID @ ''-'' @ flowType, Flow_FlowType = flowType,
                                  Flow_AssetID = datasetID, Flow_SubFlows = FS_SubFlows st\<rparr>
                      in Ok (None,
                           plotterSpec
                             \<lparr>PlotterSpec_Flows := PlotterSpec_Flows plotterSpec @ [flow],
                              PlotterSpec_Assets := PlotterSpec_Assets plotterSpec ++\<^sub>f FS_Assets st,
                              PlotterSpec_Templates :=
                                fold (\<lambda>t. fmupd (Template_Name t) t) (FS_Templates st)
                                  (PlotterSpec_Templates plotterSpec)\<rparr>,
                           FS_Gen st)))"

section \<open>Referential integrity of a plotter\<close>

text \<open>
  The Plotter controller looks up the template of every step and the assets it reads and writes; a
  missing key would give it an empty template or an empty data store.
\<close>

definition subflow_steps :: "SubFlow \<Rightarrow> DataFlowStep list" where
  "subflow_steps sf = concat (SubFlow_Steps sf)"

definition step_assets :: "DataFlowStep \<Rightarrow> string list" where
  "step_assets step =
     (case Step_Parameters step of
        None \<Rightarrow> []
      | Some ps \<Rightarrow>
          (case StepParameters_Source ps of None \<Rightarrow> [] | Some src \<Rightarrow> [StepSource_AssetID src]) @
          (case StepParameters_Sink ps of None \<Rightarrow> [] | Some snk \<Rightarrow> [StepSink_AssetID snk]))"

definition step_actions :: "DataFlowStep \<Rightarrow> Action list" where
  "step_actions step =
     (case Step_Parameters step of None \<Rightarrow> [] | Some ps \<Rightarrow> StepParameters_Actions ps)"

definition step_ok :: "string fset \<Rightarrow> string fset \<Rightarrow> DataFlowStep \<Rightarrow> bool" where
  "step_ok assets templates step \<longleftrightarrow>
     Step_Template step |\<in>| templates \<and> list_all (\<lambda>a. a |\<in>| assets) (step_assets step)"

definition subflow_ok :: "string fset \<Rightarrow> string fset \<Rightarrow> SubFlow \<Rightarrow> bool" where
  "subflow_ok assets templates sf \<longleftrightarrow> list_all (step_ok assets templates) (subflow_steps sf)"

definition flow_ok :: "string fset \<Rightarrow> string fset \<Rightarrow> Flow \<Rightarrow> bool" where
  "flow_ok assets templates flow \<longleftrightarrow>
     Flow_AssetID flow |\<in>| assets \<and> list_all (subflow_ok assets templates) (Flow_SubFlows flow)"

definition plotter_ok :: "PlotterSpec \<Rightarrow> bool" where
  "plotter_ok spec \<longleftrightarrow>
     list_all (flow_ok (fmdom (PlotterSpec_Assets spec)) (fmdom (PlotterSpec_Templates spec)))
       (PlotterSpec_Flows spec)"

lemma subflow_ok_mono:
  "subflow_ok assets templates sf \<Longrightarrow> assets |\<subseteq>| assets' \<Longrightarrow> templates |\<subseteq>| templates' \<Longrightarrow>
     subflow_ok assets' templates' sf"
  by (auto simp: subflow_ok_def step_ok_def list_all_iff)

lemma flow_ok_mono:
  "flow_ok assets templates f \<Longrightarrow> assets |\<subseteq>| assets' \<Longrightarrow> templates |\<subseteq>| templates' \<Longrightarrow>
     flow_ok assets' templates' f"
  using subflow_ok_mono by (auto simp: flow_ok_def list_all_iff)

lemma element_subflow_ok:
  assumes "source |\<in>| assets" and "\<And>snk. sink = Some snk \<Longrightarrow> StepSink_AssetID snk |\<in>| assets"
    and "Template_Name (element_template element) |\<in>| templates"
  shows "subflow_ok assets templates (element_subflow element flow trigger source sink api)"
  using assms
  by (auto simp: subflow_ok_def subflow_steps_def element_subflow_def step_ok_def step_assets_def
      element_template_def Let_def split: option.splits)

lemma fmdom_fold_templates:
  "fset (fmdom (fold (\<lambda>t. fmupd (Template_Name t) t) ts m)) = Template_Name ` set ts \<union> fset (fmdom m)"
  by (induction ts arbitrary: m) auto

section \<open>The loop over the path\<close>

text \<open>The effect of an iteration that succeeds.\<close>

lemma flow_step_Inr:
  assumes "flow_step env ord accounts prov tt p item application element st = Ok (Inr st')"
  obtains
    (copy) api ds gen where "\<not> sink_virtual (Resolved_Edge element)"
      "st' = st\<lparr>FS_Templates := FS_Templates st @ [element_template element], FS_Gen := gen,
        FS_Assets := fmupd (FS_DatasetID st @ ''-copy'') ds (FS_Assets st),
        FS_DatasetID := FS_DatasetID st @ ''-copy'',
        FS_SubFlows := FS_SubFlows st @ [element_subflow element CopyFlow InitTrigger (FS_DatasetID st)
          (Some \<lparr>StepSink_AssetID = FS_DatasetID st @ ''-copy''\<rparr>) api]\<rparr>"
  | (read) api where "sink_virtual (Resolved_Edge element)"
      "st' = st\<lparr>FS_Templates := FS_Templates st @ [element_template element],
        FS_SubFlows := FS_SubFlows st @
          [element_subflow element ReadFlow WorkloadTrigger (FS_DatasetID st) None api]\<rparr>"
  using assms
  by (auto simp: flow_step_def Let_def go_bind_Ok_iff case_sum_eq_iff split: go.splits if_splits)

definition flow_inv :: "'w flow_state \<Rightarrow> bool" where
  "flow_inv st \<longleftrightarrow>
     FS_DatasetID st |\<in>| fmdom (FS_Assets st) \<and>
     list_all (subflow_ok (fmdom (FS_Assets st)) (fset_of_list (map Template_Name (FS_Templates st))))
       (FS_SubFlows st)"

definition subflow_actions :: "SubFlow \<Rightarrow> Action list" where
  "subflow_actions sf = concat (map step_actions (subflow_steps sf))"

lemma subflow_actions_element [simp]:
  "subflow_actions (element_subflow element flow trigger source sink api) = Resolved_Actions element"
  by (simp add: subflow_actions_def subflow_steps_def element_subflow_def step_actions_def)

lemma flow_step_inv:
  assumes "flow_step env ord accounts prov tt p item application element st = Ok (Inr st')"
    and "flow_inv st"
  shows "flow_inv st'"
    and "map subflow_actions (FS_SubFlows st') =
      map subflow_actions (FS_SubFlows st) @ [Resolved_Actions element]"
    and "fmdom (FS_Assets st) |\<subseteq>| fmdom (FS_Assets st')"
proof -
  have mono: "subflow_ok assets' templates' sf"
    if "sf \<in> set (FS_SubFlows st)" and "fmdom (FS_Assets st) |\<subseteq>| assets'"
      and "fset_of_list (map Template_Name (FS_Templates st)) |\<subseteq>| templates'" for assets' templates' sf
    using that assms(2) subflow_ok_mono by (auto simp: flow_inv_def list_all_iff)
  show "flow_inv st'"
    using assms(1)
  proof (cases rule: flow_step_Inr)
    case (copy api ds gen)
    then show ?thesis
      using assms(2) unfolding flow_inv_def list_all_iff
      by (auto intro!: mono element_subflow_ok)
  next
    case (read api)
    then show ?thesis
      using assms(2) unfolding flow_inv_def list_all_iff
      by (auto intro!: mono element_subflow_ok)
  qed
  show "map subflow_actions (FS_SubFlows st') =
      map subflow_actions (FS_SubFlows st) @ [Resolved_Actions element]"
    and "fmdom (FS_Assets st) |\<subseteq>| fmdom (FS_Assets st')"
    using assms(1) by (cases rule: flow_step_Inr; auto)+
qed

lemma flow_loop_inv:
  assumes "flow_loop env ord accounts prov tt p item application path st = Ok (Inr st')"
    and "flow_inv st"
  shows "flow_inv st' \<and>
    map subflow_actions (FS_SubFlows st') =
      map subflow_actions (FS_SubFlows st) @ map Resolved_Actions path \<and>
    fmdom (FS_Assets st) |\<subseteq>| fmdom (FS_Assets st')"
  using assms
proof (induction path arbitrary: st)
  case Nil
  then show ?case by simp
next
  case (Cons element path)
  then obtain st1 where
    1: "flow_step env ord accounts prov tt p item application element st = Ok (Inr st1)"
    "flow_loop env ord accounts prov tt p item application path st1 = Ok (Inr st')"
    by (auto simp: go_bind_Ok_iff case_sum_eq_iff)
  note inv = flow_step_inv [OF 1(1) Cons.prems(2)]
  from Cons.IH [OF 1(2) inv(1)] inv(2,3) show ?case by auto
qed

lemma AddFlowInfoForAsset_E:
  assumes "AddFlowInfoForAsset env ord accounts prov tt p item application spec gen =
    Ok (None, spec', gen')"
  obtains path st flow where "path \<in> set (FindPaths env ord p item application)"
    "flow_loop env ord accounts prov tt p item application path
       \<lparr>FS_SubFlows = [],
        FS_Assets = fmupd (DataSetID (DataInfo_Context item)) (source_asset env item) fmempty,
        FS_Templates = [], FS_DatasetID = DataSetID (DataInfo_Context item), FS_Gen = gen\<rparr> = Ok (Inr st)"
    "Flow_AssetID flow = DataSetID (DataInfo_Context item)" "Flow_SubFlows flow = FS_SubFlows st"
    "PlotterSpec_Flows spec' = PlotterSpec_Flows spec @ [flow]"
    "PlotterSpec_Assets spec' = PlotterSpec_Assets spec ++\<^sub>f FS_Assets st"
    "PlotterSpec_Templates spec' =
       fold (\<lambda>t. fmupd (Template_Name t) t) (FS_Templates st) (PlotterSpec_Templates spec)"
proof -
  from assms obtain path rest st where
    "FindPaths env ord p item application = path # rest" and
    loop: "flow_loop env ord accounts prov tt p item application path
       \<lparr>FS_SubFlows = [],
        FS_Assets = fmupd (DataSetID (DataInfo_Context item)) (source_asset env item) fmempty,
        FS_Templates = [], FS_DatasetID = DataSetID (DataInfo_Context item), FS_Gen = gen\<rparr> = Ok (Inr st)"
    and "spec' = spec
      \<lparr>PlotterSpec_Flows := PlotterSpec_Flows spec @
         [\<lparr>Flow_Name = DataSetID (DataInfo_Context item) @ ''-'' @
             SubFlow_FlowType (last (FS_SubFlows st)),
           Flow_FlowType = SubFlow_FlowType (last (FS_SubFlows st)),
           Flow_AssetID = DataSetID (DataInfo_Context item), Flow_SubFlows = FS_SubFlows st\<rparr>],
       PlotterSpec_Assets := PlotterSpec_Assets spec ++\<^sub>f FS_Assets st,
       PlotterSpec_Templates :=
         fold (\<lambda>t. fmupd (Template_Name t) t) (FS_Templates st) (PlotterSpec_Templates spec)\<rparr>"
    by (auto simp: AddFlowInfoForAsset_def Let_def go_bind_Ok_iff case_sum_eq_iff
        split: list.splits if_splits)
  then show thesis by (intro that [OF _ loop]) simp_all
qed

lemma flow_start_inv:
  "flow_inv \<lparr>FS_SubFlows = [], FS_Assets = fmupd a d fmempty, FS_Templates = [],
     FS_DatasetID = a, FS_Gen = gen\<rparr>"
  by (simp add: flow_inv_def)

lemma added_closed:
  assumes "plotter_ok spec"
    and "AddFlowInfoForAsset env ord accounts prov tt p item application spec gen =
      Ok (None, spec', gen')"
  shows "plotter_ok spec'"
  using assms(2)
proof (cases rule: AddFlowInfoForAsset_E)
  case (1 path st flow)
  note inv = flow_loop_inv [OF 1(2) flow_start_inv]
  let ?assets = "fmdom (PlotterSpec_Assets spec')" and ?templates = "fmdom (PlotterSpec_Templates spec')"
  have old: "fmdom (PlotterSpec_Assets spec) |\<subseteq>| ?assets"
    "fmdom (PlotterSpec_Templates spec) |\<subseteq>| ?templates"
    and new: "fmdom (FS_Assets st) |\<subseteq>| ?assets"
    "fset_of_list (map Template_Name (FS_Templates st)) |\<subseteq>| ?templates"
    using fmdom_fold_templates [of "FS_Templates st" "PlotterSpec_Templates spec"]
    by (auto simp: 1(6,7) less_eq_fset.rep_eq fset_of_list.rep_eq)
  have "flow_ok ?assets ?templates f" if "f \<in> set (PlotterSpec_Flows spec)" for f
    using that assms(1) flow_ok_mono [OF _ old] by (auto simp: plotter_ok_def list_all_iff)
  moreover have "flow_ok ?assets ?templates flow"
    using inv subflow_ok_mono [OF _ new] new(1)
    by (auto simp: flow_ok_def flow_inv_def list_all_iff 1(3,4) less_eq_fset.rep_eq)
  ultimately show ?thesis using 1(5) by (auto simp: plotter_ok_def list_all_iff)
qed

lemma added_flow:
  assumes "range_order ord"
    and "AddFlowInfoForAsset env ord accounts prov tt p item application spec gen =
      Ok (None, spec', gen')"
  shows "\<exists>flow. PlotterSpec_Flows spec' = PlotterSpec_Flows spec @ [flow] \<and>
    Flow_AssetID flow = DataSetID (DataInfo_Context item) \<and>
    (\<forall>a\<in>set (DataInfo_Actions item). \<exists>sf\<in>set (Flow_SubFlows flow). a \<in> set (subflow_actions sf))"
  using assms(2)
proof (cases rule: AddFlowInfoForAsset_E)
  case (1 path st flow)
  have acts: "map subflow_actions (FS_SubFlows st) = map Resolved_Actions path"
    using flow_loop_inv [OF 1(2) flow_start_inv] by simp
  have "\<exists>sf\<in>set (FS_SubFlows st). a \<in> set (subflow_actions sf)"
    if "a \<in> set (DataInfo_Actions item)" for a
  proof -
    from FindPaths_performs [OF assms(1) 1(1)] that obtain e where
      "e \<in> set path" "a \<in> set (Resolved_Actions e)" by blast
    then have "Resolved_Actions e \<in> set (map subflow_actions (FS_SubFlows st))"
      unfolding acts by simp
    with \<open>a \<in> set (Resolved_Actions e)\<close> show ?thesis by auto
  qed
  then show ?thesis using 1(3,4,5) by auto
qed

lemma AddFlowInfoForAsset_error:
  assumes "AddFlowInfoForAsset env ord accounts prov tt p item application spec gen = Ok (Some err, spec', gen')"
  shows "spec' = spec"
  using assms by (auto simp: AddFlowInfoForAsset_def Let_def go_bind_Ok_iff case_sum_eq_iff
      split: list.splits if_splits)

text \<open>
  C9: Adding the flow of an asset keeps the plotter closed: every step of every flow, the earlier ones
  included, names a template and assets that the plotter defines. The new flow is the last one and
  is that of the asset.
\<close>

theorem AddFlowInfoForAsset_integrity:
  assumes "plotter_ok spec"
    and "AddFlowInfoForAsset env ord accounts prov tt p item application spec gen =
      Ok (None, spec', gen')"
  shows "plotter_ok spec' \<and>
    (\<exists>flow. PlotterSpec_Flows spec' = PlotterSpec_Flows spec @ [flow] \<and>
      Flow_AssetID flow = DataSetID (DataInfo_Context item))"
proof
  show "plotter_ok spec'" by (rule added_closed [OF assms])
  from assms(2) show "\<exists>flow. PlotterSpec_Flows spec' = PlotterSpec_Flows spec @ [flow] \<and>
      Flow_AssetID flow = DataSetID (DataInfo_Context item)"
    by (cases rule: AddFlowInfoForAsset_E) blast
qed

text \<open>
  C10: Every governance action that the policy manager required for the asset is an action of a step of
  the flow that AddFlowInfoForAsset adds to the plotter.
\<close>

theorem AddFlowInfoForAsset_actions:
  assumes "range_order ord"
    and "AddFlowInfoForAsset env ord accounts prov tt p item application spec gen =
      Ok (None, spec', gen')"
  shows "\<forall>a\<in>set (DataInfo_Actions item).
    \<exists>sf\<in>set (Flow_SubFlows (last (PlotterSpec_Flows spec'))). a \<in> set (subflow_actions sf)"
  using added_flow [OF assms] by auto

section \<open>Witnesses\<close>

definition sample_accounts :: "string + FybrikStorageAccount list" where
  "sample_accounts = Inr
     [\<lparr>StorageAccount_Meta = App_Meta (sample_app []),
       StorageAccount_Spec =
         \<lparr>StorageAccount_ID = ''1'', StorageAccount_SecretRef = ''secret'',
          StorageAccount_Endpoints = fmupd ''region1'' ''http://s3'' fmempty\<rparr>\<rparr>]"

definition sample_templates :: TextTemplate where
  "sample_templates =
     \<lparr>Template_Parse = (\<lambda>_ _. None), Template_Execute = (\<lambda>_ t _. Inr t)\<rparr>"

definition sample_spec0 :: PlotterSpec where
  "sample_spec0 =
     \<lparr>PlotterSpec_Selector = AppSpec_Selector (App_Spec (sample_app [])),
      PlotterSpec_Assets = fmempty, PlotterSpec_Flows = [],
      PlotterSpec_ModulesNamespace = ''fybrik-blueprints'', PlotterSpec_Templates = fmempty\<rparr>"

definition sample_gen0 :: "ProvisionTest gen_state" where
  "sample_gen0 = \<lparr>Gen_ProvisionedStorage = fmempty, Gen_World = []\<rparr>"

definition sample_add ::
  "PlotterGenerator \<Rightarrow> DataInfo \<Rightarrow> PlotterSpec \<Rightarrow> (string option \<times> PlotterSpec \<times> ProvisionTest gen_state) go" where
  "sample_add p item spec =
     AddFlowInfoForAsset sample_env sorted_list_of_fset sample_accounts Test_provision sample_templates
       p item (sample_app [''asset'']) spec sample_gen0"

fun added_spec :: "(string option \<times> PlotterSpec \<times> 'g) go \<Rightarrow> PlotterSpec" where
  "added_spec (Ok (None, spec, _)) = spec"
| "added_spec _ = sample_spec0"

fun added :: "(string option \<times> PlotterSpec \<times> 'g) go \<Rightarrow> bool" where
  "added (Ok (None, spec, _)) = True"
| "added _ = False"

lemma addedE: "added r \<Longrightarrow> \<exists>gen. r = Ok (None, added_spec r, gen)"
  by (cases r rule: added.cases) auto

lemma sample_added: "added (sample_add sample_plotter_generator sample_item sample_spec0)"
  by code_simp

theorem AddFlowInfoForAsset_integrity_witness:
  "plotter_ok (added_spec (sample_add sample_plotter_generator sample_item sample_spec0)) \<and>
   map Flow_AssetID (PlotterSpec_Flows (added_spec
     (sample_add sample_plotter_generator sample_item sample_spec0))) = [''asset'']"
proof -
  have "plotter_ok sample_spec0" by code_simp
  moreover obtain gen where "sample_add sample_plotter_generator sample_item sample_spec0 =
      Ok (None, added_spec (sample_add sample_plotter_generator sample_item sample_spec0), gen)"
    using addedE [OF sample_added] by blast
  ultimately have "plotter_ok (added_spec (sample_add sample_plotter_generator sample_item sample_spec0))"
    using AddFlowInfoForAsset_integrity by (metis sample_add_def)
  moreover have "map Flow_AssetID (PlotterSpec_Flows (added_spec
     (sample_add sample_plotter_generator sample_item sample_spec0))) = [''asset'']"
    by code_simp
  ultimately show ?thesis ..
qed

theorem AddFlowInfoForAsset_actions_witness:
  "\<exists>sf\<in>set (Flow_SubFlows (last (PlotterSpec_Flows (added_spec
     (sample_add sample_plotter_generator sample_item sample_spec0))))).
     sample_action ''redact'' \<in> set (subflow_actions sf)"
proof -
  have "sample_action ''redact'' \<in> set (DataInfo_Actions sample_item)" by (simp add: sample_item_def)
  moreover obtain gen where "sample_add sample_plotter_generator sample_item sample_spec0 =
      Ok (None, added_spec (sample_add sample_plotter_generator sample_item sample_spec0), gen)"
    using addedE [OF sample_added] by blast
  ultimately show ?thesis
    using AddFlowInfoForAsset_actions [OF range_order_sorted] by (metis sample_add_def)
qed

section \<open>Templates of different modules with the same capability\<close>

text \<open>Two modules that read different sources; only the first can redact.\<close>

definition sample_reader :: "string \<Rightarrow> string \<Rightarrow> ModuleSupportedAction list \<Rightarrow> FybrikModule" where
  "sample_reader name protocol actions = sample_module name
     ((ModuleSpec_Capabilities (Module_Spec sample_read) ! 0)
        \<lparr>ModuleCapability_SupportedInterfaces :=
           [\<lparr>ModuleInOut_Source = Some (sample_interface protocol), ModuleInOut_Sink = None\<rparr>],
         ModuleCapability_Actions := actions\<rparr>)"

definition sample_readers :: PlotterGenerator where
  "sample_readers = sample_plotter_generator
     \<lparr>Generator_Modules :=
        fmupd ''redactor'' (sample_reader ''redactor'' ''s3'' [\<lparr>ModuleSupportedAction_Name = ''redact''\<rparr>])
          (fmupd ''plain'' (sample_reader ''plain'' ''db2'' []) fmempty)\<rparr>"

definition sample_asset :: "string \<Rightarrow> string \<Rightarrow> Action list \<Rightarrow> DataInfo" where
  "sample_asset name protocol actions = sample_item
     \<lparr>DataInfo_Context := (DataInfo_Context sample_item)\<lparr>DataSetID := name\<rparr>,
      DataInfo_DataDetails := (DataInfo_DataDetails sample_item)
        \<lparr>GetAssetResponse_Details :=
           \<lparr>ResourceDetails_Connection =
              \<lparr>Connection_Name = protocol, Connection_AdditionalProperties = \<lparr>Items = None\<rparr>\<rparr>,
            ResourceDetails_DataFormat = []\<rparr>\<rparr>,
      DataInfo_Configuration := EvaluatorOutput_zero, DataInfo_Actions := actions\<rparr>"

abbreviation sample_first :: PlotterSpec where
  "sample_first \<equiv>
     added_spec (sample_add sample_readers (sample_asset ''private'' ''s3'' [sample_action ''redact'']) sample_spec0)"

abbreviation sample_second :: PlotterSpec where
  "sample_second \<equiv> added_spec (sample_add sample_readers (sample_asset ''public'' ''db2'' []) sample_first)"

definition step_modules :: "PlotterSpec \<Rightarrow> string \<Rightarrow> string list" where
  "step_modules spec asset =
     concat (map (\<lambda>flow. concat (map (\<lambda>sf. concat (map (\<lambda>step.
       map ModuleInfo_Name (Template_Modules
         (fmget Template_zero (PlotterSpec_Templates spec) (Step_Template step)))) (subflow_steps sf)))
       (Flow_SubFlows flow))) (filter (\<lambda>flow. Flow_AssetID flow = asset) (PlotterSpec_Flows spec)))"


end
