(* ===== verification/K8s_Client.thy ===== *)
theory K8s_Client
  imports Multicluster
begin

text \<open>
  The updates of \<^verbatim>\<open>src/manager/controllers/utils/utils.go\<close> through which every controller writes the
  finalizers and the status of its resource, with the retry after a conflict.

  The client of the API server, the retry loop of client-go, the comparison of statuses and the
  finalizer helpers of controller-runtime are not part of the repository: they are the parameter
  record \<open>K8sClient\<close> over the type \<open>'o\<close> of the resource, the type \<open>'s\<close> of its status and the world
  \<open>'w\<close>. What their documentation promises are the predicates \<open>api_contract\<close>, \<open>retry_contract\<close> and
  \<open>finalizer_contract\<close>, hypotheses of the theorems that need them. The updates are
  generic in the resource; the locale \<open>object_kind\<close> states the laws of the accessors they use, and
  is interpreted on the three kinds of resources that have a controller.
\<close>

section \<open>Errors of the API server\<close>

datatype api_error = NotFound string | Conflict string | APIError string

primrec api_message :: "api_error \<Rightarrow> string" where
  "api_message (NotFound m) = m"
| "api_message (Conflict m) = m"
| "api_message (APIError m) = m"

fun IsConflict :: "api_error option \<Rightarrow> bool" where
  "IsConflict (Some (Conflict _)) = True"
| "IsConflict _ = False"

fun IgnoreNotFound :: "api_error \<Rightarrow> api_error option" where
  "IgnoreNotFound (NotFound _) = None"
| "IgnoreNotFound e = Some e"

section \<open>Resources\<close>

record ('o, 's) kind =
  Kind_Meta :: "'o \<Rightarrow> ObjectMeta"
  Kind_WithMeta :: "ObjectMeta \<Rightarrow> 'o \<Rightarrow> 'o"
  Kind_Status :: "'o \<Rightarrow> 's"
  Kind_WithStatus :: "'s \<Rightarrow> 'o \<Rightarrow> 'o"

definition object_key :: "('o, 's) kind \<Rightarrow> 'o \<Rightarrow> NamespacedName" where
  "object_key kd obj =
     \<lparr>NN_Name = Meta_Name (Kind_Meta kd obj), NN_Namespace = Meta_Namespace (Kind_Meta kd obj)\<rparr>"

definition get_finalizers :: "('o, 's) kind \<Rightarrow> 'o \<Rightarrow> string list" where
  "get_finalizers kd obj = Meta_Finalizers (Kind_Meta kd obj)"

definition set_finalizers :: "('o, 's) kind \<Rightarrow> string list \<Rightarrow> 'o \<Rightarrow> 'o" where
  "set_finalizers kd fs obj = Kind_WithMeta kd ((Kind_Meta kd obj)\<lparr>Meta_Finalizers := fs\<rparr>) obj"

definition is_deleted :: "('o, 's) kind \<Rightarrow> 'o \<Rightarrow> bool" where
  "is_deleted kd obj \<longleftrightarrow> Meta_DeletionTimestamp (Kind_Meta kd obj) \<noteq> None"

locale object_kind =
  fixes kd :: "('o, 's) kind"
  assumes meta_with_meta [simp]: "Kind_Meta kd (Kind_WithMeta kd m obj) = m"
    and status_with_status [simp]: "Kind_Status kd (Kind_WithStatus kd s obj) = s"
    and meta_with_status [simp]: "Kind_Meta kd (Kind_WithStatus kd s obj) = Kind_Meta kd obj"
    and status_with_meta [simp]: "Kind_Status kd (Kind_WithMeta kd m obj) = Kind_Status kd obj"
begin

lemma set_finalizers_simps [simp]:
  "get_finalizers kd (set_finalizers kd fs obj) = fs"
  "object_key kd (set_finalizers kd fs obj) = object_key kd obj"
  "Kind_Status kd (set_finalizers kd fs obj) = Kind_Status kd obj"
  "is_deleted kd (set_finalizers kd fs obj) = is_deleted kd obj"
  by (simp_all add: get_finalizers_def set_finalizers_def object_key_def is_deleted_def)

lemma object_key_with_status [simp]: "object_key kd (Kind_WithStatus kd s obj) = object_key kd obj"
  by (simp add: object_key_def)

end

definition Plotter_kind :: "(Plotter, PlotterStatus) kind" where
  "Plotter_kind =
     \<lparr>Kind_Meta = Plotter_Meta, Kind_WithMeta = (\<lambda>m p. p\<lparr>Plotter_Meta := m\<rparr>),
      Kind_Status = Plotter_Status, Kind_WithStatus = (\<lambda>s p. p\<lparr>Plotter_Status := s\<rparr>)\<rparr>"

definition Blueprint_kind :: "(Blueprint, BlueprintStatus) kind" where
  "Blueprint_kind =
     \<lparr>Kind_Meta = Blueprint_Meta, Kind_WithMeta = (\<lambda>m b. b\<lparr>Blueprint_Meta := m\<rparr>),
      Kind_Status = Blueprint_Status, Kind_WithStatus = (\<lambda>s b. b\<lparr>Blueprint_Status := s\<rparr>)\<rparr>"

definition Application_kind :: "(FybrikApplication, FybrikApplicationStatus) kind" where
  "Application_kind =
     \<lparr>Kind_Meta = App_Meta, Kind_WithMeta = (\<lambda>m a. a\<lparr>App_Meta := m\<rparr>),
      Kind_Status = App_Status, Kind_WithStatus = (\<lambda>s a. a\<lparr>App_Status := s\<rparr>)\<rparr>"

definition Module_kind :: "(FybrikModule, FybrikModuleStatus) kind" where
  "Module_kind =
     \<lparr>Kind_Meta = Module_Meta, Kind_WithMeta = (\<lambda>m a. a\<lparr>Module_Meta := m\<rparr>),
      Kind_Status = Module_Status, Kind_WithStatus = (\<lambda>s a. a\<lparr>Module_Status := s\<rparr>)\<rparr>"

interpretation plotter_kind: object_kind Plotter_kind
  by unfold_locales (simp_all add: Plotter_kind_def)

interpretation blueprint_kind: object_kind Blueprint_kind
  by unfold_locales (simp_all add: Blueprint_kind_def)

interpretation application_kind: object_kind Application_kind
  by unfold_locales (simp_all add: Application_kind_def)

interpretation module_kind: object_kind Module_kind
  by unfold_locales (simp_all add: Module_kind_def)

section \<open>The client\<close>

text \<open>
  A write returns the error, the object as the client leaves it in the caller's variable, and the
  world. \<open>K8s_Retry\<close> is \<open>retry.RetryOnConflict\<close> with the default back-off, on a function that changes
  the object and the world. \<open>K8s_StatusUnchanged\<close> is the answer of \<open>equality.Semantic.DeepEqual\<close> for
  the previous status and the current one.
\<close>

record ('o, 's, 'w) K8sClient =
  K8s_Get :: "NamespacedName \<Rightarrow> 'w \<Rightarrow> api_error + 'o"
  K8s_Update :: "'o \<Rightarrow> 'w \<Rightarrow> api_error option \<times> 'o \<times> 'w"
  K8s_StatusUpdate :: "'o \<Rightarrow> 'w \<Rightarrow> api_error option \<times> 'o \<times> 'w"
  K8s_Retry :: "('o \<times> 'w \<Rightarrow> api_error option \<times> 'o \<times> 'w) \<Rightarrow> 'o \<times> 'w \<Rightarrow> api_error option \<times> 'o \<times> 'w"
  K8s_StatusUnchanged :: "'s \<Rightarrow> 's \<Rightarrow> bool"
  K8s_ContainsFinalizer :: "'o \<Rightarrow> string \<Rightarrow> bool"
  K8s_AddFinalizer :: "string \<Rightarrow> 'o \<Rightarrow> 'o"
  K8s_RemoveFinalizer :: "string \<Rightarrow> 'o \<Rightarrow> 'o"

text \<open>The body of the retry loop: fetch the latest version, change it, write it.\<close>

definition retry_step ::
  "(NamespacedName \<Rightarrow> 'w \<Rightarrow> api_error + 'o) \<Rightarrow> ('o \<Rightarrow> 'w \<Rightarrow> api_error option \<times> 'o \<times> 'w) \<Rightarrow> NamespacedName \<Rightarrow>
     ('o \<Rightarrow> 'o) \<Rightarrow> 'o \<times> 'w \<Rightarrow> api_error option \<times> 'o \<times> 'w" where
  "retry_step get write key change ow =
     (case ow of (obj, w) \<Rightarrow>
        (case get key w of
           Inl err \<Rightarrow> (Some err, obj, w)
         | Inr latest \<Rightarrow> write (change latest) w))"

definition UpdateFinalizers ::
  "('o, 's) kind \<Rightarrow> ('o, 's, 'w) K8sClient \<Rightarrow> 'o \<Rightarrow> 'w \<Rightarrow> api_error option \<times> 'o \<times> 'w" where
  "UpdateFinalizers kd cl obj w =
     (case K8s_Update cl obj w of (err, obj1, w1) \<Rightarrow>
        if \<not> IsConflict err then (err, obj1, w1)
        else
          let finalizers = get_finalizers kd obj1
          in K8s_Retry cl
               (retry_step (K8s_Get cl) (K8s_Update cl) (object_key kd obj1) (set_finalizers kd finalizers))
               (obj1, w1))"

text \<open>
  The second object of \<open>UpdateStatus\<close>, an unstructured one with the same name, only lives inside the
  retry loop; the caller's object keeps its content. The status of an object always has a JSON form,
  so that the conversion before the loop does not fail.
\<close>

definition UpdateStatus ::
  "('o, 's) kind \<Rightarrow> ('o, 's, 'w) K8sClient \<Rightarrow> 'o \<Rightarrow> 's \<Rightarrow> 'w \<Rightarrow> api_error option \<times> 'o \<times> 'w" where
  "UpdateStatus kd cl obj previousStatus w =
     (case K8s_StatusUpdate cl obj w of (err, obj1, w1) \<Rightarrow>
        if \<not> IsConflict err then (err, obj1, w1)
        else
          let currentStatus = Kind_Status kd obj1
          in if K8s_StatusUnchanged cl previousStatus currentStatus then (None, obj1, w1)
             else
               (case K8s_Retry cl
                       (retry_step (K8s_Get cl) (K8s_StatusUpdate cl) (object_key kd obj1)
                         (Kind_WithStatus kd currentStatus)) (obj1, w1) of
                  (err, res, w2) \<Rightarrow> (err, obj1, w2)))"

section \<open>What the client promises\<close>

text \<open>A function is run again while it fails with a conflict, at most \<open>n\<close> times in all.\<close>

fun retry_runs ::
  "nat \<Rightarrow> ('o \<times> 'w \<Rightarrow> api_error option \<times> 'o \<times> 'w) \<Rightarrow> 'o \<times> 'w \<Rightarrow> api_error option \<times> 'o \<times> 'w" where
  "retry_runs 0 f ow = f ow"
| "retry_runs (Suc n) f ow =
     (case f ow of (err, ow1) \<Rightarrow> if IsConflict err then retry_runs n f ow1 else (err, ow1))"

definition retry_contract :: "('o, 's, 'w) K8sClient \<Rightarrow> bool" where
  "retry_contract cl \<longleftrightarrow> (\<forall>f ow. \<exists>n. K8s_Retry cl f ow = retry_runs n f ow)"

text \<open>
  A successful write is what the next read finds. Removing the last finalizer of a resource that is
  being deleted removes the resource. A write that fails leaves the caller's object alone.
\<close>

definition update_stored :: "('o, 's) kind \<Rightarrow> ('o, 's, 'w) K8sClient \<Rightarrow> 'o \<Rightarrow> 'o \<Rightarrow> 'w \<Rightarrow> bool" where
  "update_stored kd cl obj obj' w' \<longleftrightarrow>
     object_key kd obj' = object_key kd obj \<and> get_finalizers kd obj' = get_finalizers kd obj \<and>
     (if is_deleted kd obj \<and> get_finalizers kd obj = []
      then \<exists>m. K8s_Get cl (object_key kd obj) w' = Inl (NotFound m)
      else K8s_Get cl (object_key kd obj) w' = Inr obj')"

definition status_stored :: "('o, 's) kind \<Rightarrow> ('o, 's, 'w) K8sClient \<Rightarrow> 'o \<Rightarrow> 'o \<Rightarrow> 'w \<Rightarrow> bool" where
  "status_stored kd cl obj obj' w' \<longleftrightarrow>
     object_key kd obj' = object_key kd obj \<and> Kind_Status kd obj' = Kind_Status kd obj \<and>
     K8s_Get cl (object_key kd obj) w' = Inr obj'"

definition api_contract :: "('o, 's) kind \<Rightarrow> ('o, 's, 'w) K8sClient \<Rightarrow> bool" where
  "api_contract kd cl \<longleftrightarrow>
     (\<forall>obj w obj' w'. K8s_Update cl obj w = (None, obj', w') \<longrightarrow> update_stored kd cl obj obj' w') \<and>
     (\<forall>obj w obj' w'. K8s_StatusUpdate cl obj w = (None, obj', w') \<longrightarrow> status_stored kd cl obj obj' w') \<and>
     (\<forall>obj w err obj' w'. K8s_Update cl obj w = (Some err, obj', w') \<longrightarrow> obj' = obj) \<and>
     (\<forall>obj w err obj' w'. K8s_StatusUpdate cl obj w = (Some err, obj', w') \<longrightarrow> obj' = obj) \<and>
     (\<forall>key w obj. K8s_Get cl key w = Inr obj \<longrightarrow> object_key kd obj = key)"

definition finalizer_contract :: "('o, 's) kind \<Rightarrow> ('o, 's, 'w) K8sClient \<Rightarrow> bool" where
  "finalizer_contract kd cl \<longleftrightarrow>
     (\<forall>obj f. K8s_ContainsFinalizer cl obj f \<longleftrightarrow> f \<in> set (get_finalizers kd obj)) \<and>
     (\<forall>obj f. K8s_AddFinalizer cl f obj =
        (if f \<in> set (get_finalizers kd obj) then obj
         else set_finalizers kd (get_finalizers kd obj @ [f]) obj)) \<and>
     (\<forall>obj f. K8s_RemoveFinalizer cl f obj = set_finalizers kd (removeAll f (get_finalizers kd obj)) obj)"

lemma retry_runs_success:
  assumes "retry_runs n f ow = (None, ow')"
  shows "\<exists>ow1. f ow1 = (None, ow')"
  using assms by (induction n arbitrary: ow) (auto split: prod.splits if_splits)

lemma retry_success:
  assumes "retry_contract cl" and "K8s_Retry cl f ow = (None, ow')"
  shows "\<exists>ow1. f ow1 = (None, ow')"
proof -
  from assms(1) obtain n where "K8s_Retry cl f ow = retry_runs n f ow"
    unfolding retry_contract_def by blast
  with assms(2) show ?thesis using retry_runs_success by metis
qed

lemma retry_step_success:
  assumes "retry_step get write key change ow1 = (None, ow')"
  shows "\<exists>latest w1. get key w1 = Inr latest \<and> write (change latest) w1 = (None, ow')"
  using assms by (auto simp: retry_step_def split: prod.splits sum.splits)

lemma api_contractD:
  assumes "api_contract kd cl"
  shows "K8s_Update cl obj w = (None, obj', w') \<Longrightarrow> update_stored kd cl obj obj' w'"
    and "K8s_StatusUpdate cl obj w = (None, obj', w') \<Longrightarrow> status_stored kd cl obj obj' w'"
    and "K8s_Update cl obj w = (Some err, obj', w') \<Longrightarrow> obj' = obj"
    and "K8s_StatusUpdate cl obj w = (Some err, obj', w') \<Longrightarrow> obj' = obj"
    and "K8s_Get cl key w = Inr obj \<Longrightarrow> object_key kd obj = key"
proof -
  note c = assms [unfolded api_contract_def]
  show "K8s_Update cl obj w = (None, obj', w') \<Longrightarrow> update_stored kd cl obj obj' w'"
    by (rule c [THEN conjunct1, rule_format])
  show "K8s_StatusUpdate cl obj w = (None, obj', w') \<Longrightarrow> status_stored kd cl obj obj' w'"
    by (rule c [THEN conjunct2, THEN conjunct1, rule_format])
  show "K8s_Update cl obj w = (Some err, obj', w') \<Longrightarrow> obj' = obj"
    by (rule c [THEN conjunct2, THEN conjunct2, THEN conjunct1, rule_format])
  show "K8s_StatusUpdate cl obj w = (Some err, obj', w') \<Longrightarrow> obj' = obj"
    by (rule c [THEN conjunct2, THEN conjunct2, THEN conjunct2, THEN conjunct1, rule_format])
  show "K8s_Get cl key w = Inr obj \<Longrightarrow> object_key kd obj = key"
    by (rule c [THEN conjunct2, THEN conjunct2, THEN conjunct2, THEN conjunct2, rule_format])
qed

lemma update_storedD:
  assumes "update_stored kd cl obj obj' w'"
  shows "object_key kd obj' = object_key kd obj \<and> get_finalizers kd obj' = get_finalizers kd obj \<and>
    (\<forall>stored. K8s_Get cl (object_key kd obj) w' = Inr stored \<longrightarrow>
       get_finalizers kd stored = get_finalizers kd obj)"
  using assms by (auto simp: update_stored_def split: if_splits)

lemma IsConflict_Some: "IsConflict err \<Longrightarrow> \<exists>m. err = Some (Conflict m)"
  by (cases err rule: IsConflict.cases) auto

text \<open>
  The updates reach the server however often other writers interfere: after an update without an
  error the stored resource has the status, or the finalizers, of the caller's object.
\<close>

context object_kind
begin

lemma UpdateStatus_reaches:
  assumes api: "api_contract kd cl" and retry: "retry_contract cl"
    and upd: "UpdateStatus kd cl obj previous w = (None, obj', w')"
    and changed: "\<not> K8s_StatusUnchanged cl previous (Kind_Status kd obj)"
  shows "\<exists>stored. K8s_Get cl (object_key kd obj) w' = Inr stored \<and>
    Kind_Status kd stored = Kind_Status kd obj"
    and "Kind_Status kd obj' = Kind_Status kd obj"
proof -
  obtain err obj1 w1 where first: "K8s_StatusUpdate cl obj w = (err, obj1, w1)"
    by (metis prod_cases3)
  have "(\<exists>stored. K8s_Get cl (object_key kd obj) w' = Inr stored \<and>
      Kind_Status kd stored = Kind_Status kd obj) \<and> Kind_Status kd obj' = Kind_Status kd obj"
  proof (cases "IsConflict err")
    case False
    with upd first have "K8s_StatusUpdate cl obj w = (None, obj', w')"
      by (simp add: UpdateStatus_def)
    from api_contractD(2) [OF api this] show ?thesis by (simp add: status_stored_def)
  next
    case True
    then obtain m where "err = Some (Conflict m)" using IsConflict_Some by blast
    with first have obj1: "obj1 = obj" using api_contractD(4) [OF api] by blast
    from upd first True changed obj1 obtain res where res: "K8s_Retry cl
        (retry_step (K8s_Get cl) (K8s_StatusUpdate cl) (object_key kd obj)
          (Kind_WithStatus kd (Kind_Status kd obj))) (obj, w1) = (None, res, w')" and obj': "obj' = obj"
      by (auto simp: UpdateStatus_def Let_def split: prod.splits)
    from retry_success [OF retry res] obtain ow1 where
      "retry_step (K8s_Get cl) (K8s_StatusUpdate cl) (object_key kd obj)
        (Kind_WithStatus kd (Kind_Status kd obj)) ow1 = (None, res, w')" by blast
    from retry_step_success [OF this] obtain latest w2 where
      get: "K8s_Get cl (object_key kd obj) w2 = Inr latest"
      and wrote: "K8s_StatusUpdate cl (Kind_WithStatus kd (Kind_Status kd obj) latest) w2 = (None, res, w')"
      by blast
    from api_contractD(5) [OF api get] have "object_key kd latest = object_key kd obj" .
    with api_contractD(2) [OF api wrote] obj' show ?thesis by (simp add: status_stored_def)
  qed
  then show "\<exists>stored. K8s_Get cl (object_key kd obj) w' = Inr stored \<and>
      Kind_Status kd stored = Kind_Status kd obj" "Kind_Status kd obj' = Kind_Status kd obj" by blast+
qed

lemma UpdateFinalizers_reaches:
  assumes api: "api_contract kd cl" and retry: "retry_contract cl"
    and upd: "UpdateFinalizers kd cl obj w = (None, obj', w')"
  shows "object_key kd obj' = object_key kd obj \<and> get_finalizers kd obj' = get_finalizers kd obj \<and>
    (\<forall>stored. K8s_Get cl (object_key kd obj) w' = Inr stored \<longrightarrow>
       get_finalizers kd stored = get_finalizers kd obj)"
proof -
  obtain err obj1 w1 where first: "K8s_Update cl obj w = (err, obj1, w1)"
    by (metis prod_cases3)
  show ?thesis
  proof (cases "IsConflict err")
    case False
    with upd first have "K8s_Update cl obj w = (None, obj', w')" by (simp add: UpdateFinalizers_def)
    then show ?thesis by (intro update_storedD api_contractD(1) [OF api])
  next
    case True
    then obtain m where "err = Some (Conflict m)" using IsConflict_Some by blast
    with first have obj1: "obj1 = obj" using api_contractD(3) [OF api] by blast
    from upd first True obj1 have res: "K8s_Retry cl
        (retry_step (K8s_Get cl) (K8s_Update cl) (object_key kd obj)
          (set_finalizers kd (get_finalizers kd obj))) (obj, w1) = (None, obj', w')"
      by (simp add: UpdateFinalizers_def Let_def)
    from retry_success [OF retry res] obtain ow1 where
      "retry_step (K8s_Get cl) (K8s_Update cl) (object_key kd obj)
        (set_finalizers kd (get_finalizers kd obj)) ow1 = (None, obj', w')" by blast
    from retry_step_success [OF this] obtain latest w2 where
      get: "K8s_Get cl (object_key kd obj) w2 = Inr latest"
      and w2: "K8s_Update cl (set_finalizers kd (get_finalizers kd obj) latest) w2 = (None, obj', w')"
      by blast
    from api_contractD(5) [OF api get] have "object_key kd latest = object_key kd obj" .
    with update_storedD [OF api_contractD(1) [OF api w2]] show ?thesis by simp
  qed
qed

end

text \<open>
  C17: An update of the status that reports no error has reached the API server, whatever conflicts
  other writers caused on the way: the stored resource has the status of the caller's object, for
  every kind of resource, unless the status was found unchanged.
\<close>

theorem UpdateStatus_stored:
  assumes "object_kind kd" and "api_contract kd cl" and "retry_contract cl"
    and "UpdateStatus kd cl obj previous w = (None, obj', w')"
    and "\<not> K8s_StatusUnchanged cl previous (Kind_Status kd obj)"
  shows "\<exists>stored. K8s_Get cl (object_key kd obj) w' = Inr stored \<and>
    Kind_Status kd stored = Kind_Status kd obj"
  by (rule object_kind.UpdateStatus_reaches [OF assms])

section \<open>A store of resources\<close>

text \<open>
  A server that keeps its contract: a map of resources, in which other writers cause a given number
  of conflicts.
\<close>

record 'o api_store =
  Store_Objects :: "(NamespacedName, 'o) fmap"
  Store_Conflicts :: nat

definition store_get :: "NamespacedName \<Rightarrow> 'o api_store \<Rightarrow> api_error + 'o" where
  "store_get key w =
     (case fmlookup (Store_Objects w) key of None \<Rightarrow> Inl (NotFound ''not found'') | Some obj \<Rightarrow> Inr obj)"

definition store_write ::
  "('o, 's) kind \<Rightarrow> ('o \<Rightarrow> 'o \<Rightarrow> 'o) \<Rightarrow> ('o \<Rightarrow> bool) \<Rightarrow> 'o \<Rightarrow> 'o api_store \<Rightarrow> api_error option \<times> 'o \<times> 'o api_store" where
  "store_write kd change gone obj w =
     (if Store_Conflicts w > 0
      then (Some (Conflict ''the object has been modified''), obj, w\<lparr>Store_Conflicts := Store_Conflicts w - 1\<rparr>)
      else
        (case fmlookup (Store_Objects w) (object_key kd obj) of
           None \<Rightarrow> (Some (NotFound ''not found''), obj, w)
         | Some stored \<Rightarrow>
             let obj' = change obj stored
             in (None, obj', w\<lparr>Store_Objects :=
                  (if gone obj then fmdrop (object_key kd obj) (Store_Objects w)
                   else fmupd (object_key kd obj) obj' (Store_Objects w))\<rparr>)))"

definition store_client :: "('o, 's) kind \<Rightarrow> ('o, 's, 'o api_store) K8sClient" where
  "store_client kd =
     \<lparr>K8s_Get = (\<lambda>key w. case store_get key w of
        Inl e \<Rightarrow> Inl e | Inr obj \<Rightarrow> if object_key kd obj = key then Inr obj else Inl (APIError ''corrupt'')),
      K8s_Update = store_write kd (\<lambda>obj stored. Kind_WithStatus kd (Kind_Status kd stored) obj)
        (\<lambda>obj. is_deleted kd obj \<and> get_finalizers kd obj = []),
      K8s_StatusUpdate = store_write kd (\<lambda>obj stored. Kind_WithStatus kd (Kind_Status kd obj) obj) (\<lambda>_. False),
      K8s_Retry = retry_runs 4, K8s_StatusUnchanged = (\<lambda>_ _. False),
      K8s_ContainsFinalizer = (\<lambda>obj f. f \<in> set (get_finalizers kd obj)),
      K8s_AddFinalizer = (\<lambda>f obj. if f \<in> set (get_finalizers kd obj) then obj
         else set_finalizers kd (get_finalizers kd obj @ [f]) obj),
      K8s_RemoveFinalizer = (\<lambda>f obj. set_finalizers kd (removeAll f (get_finalizers kd obj)) obj)\<rparr>"

lemma retry_contract_store: "retry_contract (store_client kd)"
  by (auto simp: retry_contract_def store_client_def)

lemma finalizer_contract_store: "finalizer_contract kd (store_client kd)"
  by (simp add: finalizer_contract_def store_client_def)

context object_kind
begin

lemma api_contract_store: "api_contract kd (store_client kd)"
proof -
  have get: "K8s_Get (store_client kd) (object_key kd obj) w = Inr obj"
    if "fmlookup (Store_Objects w) (object_key kd obj) = Some obj" for obj w
    using that by (simp add: store_client_def store_get_def)
  have upd: "update_stored kd (store_client kd) obj obj' w'"
    if "K8s_Update (store_client kd) obj w = (None, obj', w')" for obj w obj' w'
    using that unfolding store_client_def store_write_def store_get_def update_stored_def get_finalizers_def
    by (auto simp: Let_def split: if_splits option.splits)
  have status: "status_stored kd (store_client kd) obj obj' w'"
    if "K8s_StatusUpdate (store_client kd) obj w = (None, obj', w')" for obj w obj' w'
    using that unfolding store_client_def store_write_def store_get_def status_stored_def
    by (auto simp: Let_def split: if_splits option.splits)
  show ?thesis unfolding api_contract_def
  proof (intro conjI allI impI)
    fix obj w err obj' w'
    show "K8s_Update (store_client kd) obj w = (Some err, obj', w') \<Longrightarrow> obj' = obj"
      by (auto simp: store_client_def store_write_def Let_def split: if_splits option.splits)
    show "K8s_StatusUpdate (store_client kd) obj w = (Some err, obj', w') \<Longrightarrow> obj' = obj"
      by (auto simp: store_client_def store_write_def Let_def split: if_splits option.splits)
  next
    fix key w obj
    show "K8s_Get (store_client kd) key w = Inr obj \<Longrightarrow> object_key kd obj = key"
      by (auto simp: store_client_def split: sum.splits if_splits)
  qed (use upd status in blast)+
qed

end

text \<open>The same server as the first part of a larger world.\<close>

definition paired_client :: "('o, 's) kind \<Rightarrow> ('o, 's, 'o api_store \<times> 'x) K8sClient" where
  "paired_client kd =
     (let cl = store_client kd
      in \<lparr>K8s_Get = (\<lambda>key w. K8s_Get cl key (fst w)),
          K8s_Update = (\<lambda>obj w. case K8s_Update cl obj (fst w) of (e, obj', w1) \<Rightarrow> (e, obj', w1, snd w)),
          K8s_StatusUpdate = (\<lambda>obj w. case K8s_StatusUpdate cl obj (fst w) of (e, obj', w1) \<Rightarrow> (e, obj', w1, snd w)),
          K8s_Retry = retry_runs 4, K8s_StatusUnchanged = (\<lambda>_ _. False),
          K8s_ContainsFinalizer = K8s_ContainsFinalizer cl,
          K8s_AddFinalizer = K8s_AddFinalizer cl, K8s_RemoveFinalizer = K8s_RemoveFinalizer cl\<rparr>)"

lemma retry_contract_paired: "retry_contract (paired_client kd)"
  by (auto simp: retry_contract_def paired_client_def Let_def)

lemma finalizer_contract_paired: "finalizer_contract kd (paired_client kd)"
  using finalizer_contract_store [of kd] by (simp add: finalizer_contract_def paired_client_def Let_def)

context object_kind
begin

lemma api_contract_paired: "api_contract kd (paired_client kd)"
proof -
  let ?st = "store_client kd" and ?cl = "paired_client kd"
  note c = api_contract_store
  have stored: "update_stored kd ?cl obj obj' w' \<longleftrightarrow> update_stored kd ?st obj obj' (fst w')"
    "status_stored kd ?cl obj obj' w' \<longleftrightarrow> status_stored kd ?st obj obj' (fst w')" for obj obj' w'
    by (simp_all add: update_stored_def status_stored_def paired_client_def Let_def)
  show ?thesis unfolding api_contract_def stored
  proof (intro conjI allI impI)
    fix obj w obj' w'
    assume "K8s_Update ?cl obj w = (None, obj', w')"
    then show "update_stored kd ?st obj obj' (fst w')"
      by (intro api_contractD(1) [OF c, of _ "fst w"])
        (auto simp: paired_client_def Let_def split: prod.splits)
  next
    fix obj w obj' w'
    assume "K8s_StatusUpdate ?cl obj w = (None, obj', w')"
    then show "status_stored kd ?st obj obj' (fst w')"
      by (intro api_contractD(2) [OF c, of _ "fst w"])
        (auto simp: paired_client_def Let_def split: prod.splits)
  next
    fix obj w err obj' w'
    assume "K8s_Update ?cl obj w = (Some err, obj', w')"
    then show "obj' = obj"
      by (intro api_contractD(3) [OF c, of _ "fst w" err _ "fst w'"])
        (auto simp: paired_client_def Let_def split: prod.splits)
  next
    fix obj w err obj' w'
    assume "K8s_StatusUpdate ?cl obj w = (Some err, obj', w')"
    then show "obj' = obj"
      by (intro api_contractD(4) [OF c, of _ "fst w" err _ "fst w'"])
        (auto simp: paired_client_def Let_def split: prod.splits)
  next
    fix key w obj
    assume "K8s_Get ?cl key w = Inr obj"
    then show "object_key kd obj = key"
      by (intro api_contractD(5) [OF c, of _ "fst w"]) (simp add: paired_client_def Let_def)
  qed
qed

end

text \<open>A blueprint in a store whose first two writes meet a conflict.\<close>

definition sample_store :: "Blueprint api_store" where
  "sample_store = \<lparr>Store_Objects = fmupd (object_key Blueprint_kind Blueprint_zero) Blueprint_zero fmempty,
     Store_Conflicts = 2\<rparr>"

definition sample_ready :: Blueprint where
  "sample_ready = Blueprint_zero\<lparr>Blueprint_Status := BlueprintStatus_zero
     \<lparr>BlueprintStatus_ObservedState := \<lparr>ObservedState_Ready = True, ObservedState_Error = []\<rparr>\<rparr>\<rparr>"

theorem UpdateStatus_stored_witness:
  "\<exists>obj w stored. UpdateStatus Blueprint_kind (store_client Blueprint_kind) sample_ready BlueprintStatus_zero
       sample_store = (None, obj, w) \<and>
     K8s_Get (store_client Blueprint_kind) (object_key Blueprint_kind sample_ready) w = Inr stored \<and>
     ObservedState_Ready (BlueprintStatus_ObservedState (Blueprint_Status stored))"
proof -
  let ?cl = "store_client Blueprint_kind"
  let ?upd = "UpdateStatus Blueprint_kind ?cl sample_ready BlueprintStatus_zero sample_store"
  have "fst ?upd = None"
    by (simp add: UpdateStatus_def store_client_def store_write_def sample_store_def Blueprint_kind_def
        object_key_def Blueprint_zero_def sample_ready_def retry_step_def store_get_def numeral_eq_Suc Let_def)
  then obtain obj w where upd: "?upd = (None, obj, w)" by (cases ?upd) auto
  have "\<not> K8s_StatusUnchanged ?cl BlueprintStatus_zero (Kind_Status Blueprint_kind sample_ready)"
    by (simp add: store_client_def)
  from UpdateStatus_stored [OF blueprint_kind.object_kind_axioms blueprint_kind.api_contract_store
      retry_contract_store upd this]
  obtain stored where
    "K8s_Get ?cl (object_key Blueprint_kind sample_ready) w = Inr stored"
    "Kind_Status Blueprint_kind stored = Kind_Status Blueprint_kind sample_ready" by blast
  with upd show ?thesis
    by (intro exI [of _ obj] exI [of _ w] exI [of _ stored]) (simp add: Blueprint_kind_def sample_ready_def)
qed

end
