(* ===== verification/Resource_Gen.thy ===== *)
theory Resource_Gen
  imports K8s_Client
begin

text \<open>
  \<^verbatim>\<open>src/manager/controllers/app/resource_gen.go\<close>: how the application controller manages the resource
  it generates. \<open>ContextInterface\<close> is the Go interface; the locale \<open>context_interface\<close> is what the
  controller relies on. \<open>PlotterInterface\<close> implements it over the API server, whose client is the
  parameter record \<open>PlotterClient\<close>.
\<close>

section \<open>The interface\<close>

record 'w ContextInterface =
  ResourceExists :: "ResourceReference option \<Rightarrow> 'w \<Rightarrow> bool"
  CreateOrUpdateResource ::
    "ResourceReference \<Rightarrow> ResourceReference \<Rightarrow> PlotterSpec \<Rightarrow> (string, string) fmap \<Rightarrow> string \<Rightarrow> 'w \<Rightarrow>
       string option \<times> 'w"
  DeleteResource :: "ResourceReference \<Rightarrow> 'w \<Rightarrow> string option \<times> 'w"
  GetResourceStatus :: "ResourceReference option \<Rightarrow> 'w \<Rightarrow> string + ObservedState"
  CreateResourceReference :: "ResourceReference \<Rightarrow> ResourceReference"

text \<open>
  What the controller relies on: a reference it asks for carries the version of the owner, a resource
  that was written under it exists, and the status of an existing resource can be read.
\<close>

locale context_interface =
  fixes ci :: "'w ContextInterface"
  assumes reference_version:
    "ResourceReference_AppVersion (CreateResourceReference ci owner) = ResourceReference_AppVersion owner"
    and created_exists:
    "CreateOrUpdateResource ci owner (CreateResourceReference ci owner) spec labels uuid w = (None, w') \<Longrightarrow>
       ResourceExists ci (Some (CreateResourceReference ci owner)) w'"
    and exists_status:
    "ResourceExists ci ref w \<Longrightarrow> \<exists>state. GetResourceStatus ci ref w = Inr state"
    and missing_reference: "\<not> ResourceExists ci None w"
begin

lemma existing_reference: "ResourceExists ci ref w \<Longrightarrow> \<exists>r. ref = Some r"
  using missing_reference by (cases ref) auto

end

section \<open>Plotters as the generated resource\<close>

record 'w PlotterClient =
  Client_GetPlotter :: "'w \<Rightarrow> NamespacedName \<Rightarrow> string + Plotter"
  Client_CreateOrUpdatePlotter :: "Plotter \<Rightarrow> (Plotter \<Rightarrow> Plotter) \<Rightarrow> 'w \<Rightarrow> string option \<times> 'w"
  Client_DeletePlotter :: "Plotter \<Rightarrow> 'w \<Rightarrow> string option \<times> 'w"

definition ownerLabels :: "NamespacedName \<Rightarrow> (string, string) fmap" where
  "ownerLabels id1 =
     fmupd ApplicationNamespaceLabel (NN_Namespace id1) (fmupd ApplicationNameLabel (NN_Name id1) fmempty)"

definition Plotter_CreateResourceReference :: "go_env \<Rightarrow> ResourceReference \<Rightarrow> ResourceReference" where
  "Plotter_CreateResourceReference env owner =
     \<lparr>ResourceReference_Name = ResourceReference_Name owner @ ''-'' @ ResourceReference_Namespace owner,
      ResourceReference_Namespace = GetSystemNamespace env, ResourceReference_Kind = ''Plotter'',
      ResourceReference_AppVersion = ResourceReference_AppVersion owner\<rparr>"

definition reference_key :: "ResourceReference \<Rightarrow> NamespacedName" where
  "reference_key ref =
     \<lparr>NN_Name = ResourceReference_Name ref, NN_Namespace = ResourceReference_Namespace ref\<rparr>"

definition Plotter_zero :: Plotter where
  "Plotter_zero =
     \<lparr>Plotter_Meta =
        \<lparr>Meta_Name = [], Meta_Namespace = [], Meta_UID = [], Meta_ClusterName = [],
         Meta_Labels = fmempty, Meta_Annotations = fmempty, Meta_Finalizers = [],
         Meta_Generation = 0, Meta_DeletionTimestamp = None\<rparr>,
      Plotter_Spec =
        \<lparr>PlotterSpec_Selector = \<lparr>Selector_ClusterName = [], Selector_WorkloadSelector =
           \<lparr>Selector_MatchLabels = fmempty, Selector_MatchExpressions = []\<rparr>\<rparr>,
         PlotterSpec_Assets = fmempty, PlotterSpec_Flows = [], PlotterSpec_ModulesNamespace = [],
         PlotterSpec_Templates = fmempty\<rparr>,
      Plotter_Status =
        \<lparr>PlotterStatus_ObservedState = ObservedState_zero, PlotterStatus_ObservedGeneration = 0,
         PlotterStatus_Flows = fmempty, PlotterStatus_Assets = fmempty, PlotterStatus_Blueprints = fmempty,
         PlotterStatus_Conditions = [], PlotterStatus_ReadyTimestamp = None\<rparr>\<rparr>"

definition GetResourceSignature :: "ResourceReference \<Rightarrow> Plotter" where
  "GetResourceSignature ref = Plotter_zero
     \<lparr>Plotter_Meta := (Plotter_Meta Plotter_zero)
        \<lparr>Meta_Name := ResourceReference_Name ref, Meta_Namespace := ResourceReference_Namespace ref\<rparr>\<rparr>"

definition Plotter_ResourceExists :: "'w PlotterClient \<Rightarrow> ResourceReference option \<Rightarrow> 'w \<Rightarrow> bool" where
  "Plotter_ResourceExists client ref w =
     (case ref of
        None \<Rightarrow> False
      | Some r \<Rightarrow>
          if ResourceReference_Namespace r = [] then False
          else (case Client_GetPlotter client w (reference_key r) of Inl err \<Rightarrow> False | Inr resource \<Rightarrow> True))"

text \<open>
  The function passed to \<open>CreateOrUpdate\<close>. A map that is nil is an empty one. The labels of the
  application are shared with the plotter here, so that the owner labels are also written into the
  application object in memory, whose metadata is not stored afterwards.
\<close>

definition mutate_plotter ::
  "ResourceReference \<Rightarrow> PlotterSpec \<Rightarrow> (string, string) fmap \<Rightarrow> string \<Rightarrow> Plotter \<Rightarrow> Plotter" where
  "mutate_plotter owner plotterSpec labels uuid plotter =
     (let meta = Plotter_Meta plotter;
          debugLabels = ownerLabels \<lparr>NN_Name = ResourceReference_Name owner,
                                     NN_Namespace = ResourceReference_Namespace owner\<rparr>;
          annotations = (if Meta_Annotations meta = fmempty then fmupd FybrikAppUUID uuid fmempty
                         else Meta_Annotations meta)
      in plotter\<lparr>Plotter_Spec := plotterSpec,
                 Plotter_Meta := meta\<lparr>Meta_Labels := labels ++\<^sub>f debugLabels, Meta_Annotations := annotations\<rparr>\<rparr>)"

definition Plotter_CreateOrUpdateResource ::
  "'w PlotterClient \<Rightarrow> ResourceReference \<Rightarrow> ResourceReference \<Rightarrow> PlotterSpec \<Rightarrow> (string, string) fmap \<Rightarrow> string \<Rightarrow>
     'w \<Rightarrow> string option \<times> 'w" where
  "Plotter_CreateOrUpdateResource client owner ref plotterSpec labels uuid w =
     (case Client_GetPlotter client w (reference_key ref) of
        Inr plotter \<Rightarrow>
          if Plotter_Spec plotter = plotterSpec then (None, w)
          else Client_CreateOrUpdatePlotter client plotter (mutate_plotter owner plotterSpec labels uuid) w
      | Inl err \<Rightarrow>
          Client_CreateOrUpdatePlotter client (GetResourceSignature ref)
            (mutate_plotter owner plotterSpec labels uuid) w)"

definition Plotter_DeleteResource :: "'w PlotterClient \<Rightarrow> ResourceReference \<Rightarrow> 'w \<Rightarrow> string option \<times> 'w" where
  "Plotter_DeleteResource client ref w = Client_DeletePlotter client (GetResourceSignature ref) w"

definition Plotter_GetResourceStatus ::
  "'w PlotterClient \<Rightarrow> ResourceReference option \<Rightarrow> 'w \<Rightarrow> string + ObservedState" where
  "Plotter_GetResourceStatus client ref w =
     (case ref of
        None \<Rightarrow> Inr ObservedState_zero
      | Some r \<Rightarrow>
          if ResourceReference_Namespace r = [] then Inr ObservedState_zero
          else (case Client_GetPlotter client w (reference_key r) of
                  Inl err \<Rightarrow> Inl err
                | Inr resource \<Rightarrow> Inr (PlotterStatus_ObservedState (Plotter_Status resource))))"

definition PlotterInterface :: "go_env \<Rightarrow> 'w PlotterClient \<Rightarrow> 'w ContextInterface" where
  "PlotterInterface env client =
     \<lparr>ResourceExists = Plotter_ResourceExists client,
      CreateOrUpdateResource = Plotter_CreateOrUpdateResource client,
      DeleteResource = Plotter_DeleteResource client,
      GetResourceStatus = Plotter_GetResourceStatus client,
      CreateResourceReference = Plotter_CreateResourceReference env\<rparr>"

lemmas PlotterInterface_defs =
  PlotterInterface_def Plotter_ResourceExists_def Plotter_CreateOrUpdateResource_def
  Plotter_DeleteResource_def Plotter_GetResourceStatus_def Plotter_CreateResourceReference_def

section \<open>What the client promises\<close>

definition plotter_key :: "Plotter \<Rightarrow> NamespacedName" where
  "plotter_key p =
     \<lparr>NN_Name = Meta_Name (Plotter_Meta p), NN_Namespace = Meta_Namespace (Plotter_Meta p)\<rparr>"

text \<open>
  A plotter that was written is the next one read under its name, with the specification and the
  labels the mutate function gave it, and a plotter is stored under its own name.
\<close>

definition plotter_api :: "'w PlotterClient \<Rightarrow> bool" where
  "plotter_api client \<longleftrightarrow>
     (\<forall>p f w w'. Client_CreateOrUpdatePlotter client p f w = (None, w') \<longrightarrow>
        (\<exists>old new. Client_GetPlotter client w' (plotter_key p) = Inr new \<and>
           Plotter_Spec new = Plotter_Spec (f old) \<and>
           Meta_Labels (Plotter_Meta new) = Meta_Labels (Plotter_Meta (f old)))) \<and>
     (\<forall>w key p. Client_GetPlotter client w key = Inr p \<longrightarrow> plotter_key p = key)"

lemma plotter_apiD:
  assumes "plotter_api client"
  shows "Client_CreateOrUpdatePlotter client p f w = (None, w') \<Longrightarrow>
      \<exists>old new. Client_GetPlotter client w' (plotter_key p) = Inr new \<and>
        Plotter_Spec new = Plotter_Spec (f old) \<and>
        Meta_Labels (Plotter_Meta new) = Meta_Labels (Plotter_Meta (f old))"
    and "Client_GetPlotter client w key = Inr p' \<Longrightarrow> plotter_key p' = key"
proof -
  note c = assms [unfolded plotter_api_def]
  show "Client_CreateOrUpdatePlotter client p f w = (None, w') \<Longrightarrow>
      \<exists>old new. Client_GetPlotter client w' (plotter_key p) = Inr new \<and>
        Plotter_Spec new = Plotter_Spec (f old) \<and>
        Meta_Labels (Plotter_Meta new) = Meta_Labels (Plotter_Meta (f old))"
    by (rule c [THEN conjunct1, rule_format])
  show "Client_GetPlotter client w key = Inr p' \<Longrightarrow> plotter_key p' = key"
    by (rule c [THEN conjunct2, rule_format])
qed

lemma plotter_key_signature [simp]: "plotter_key (GetResourceSignature ref) = reference_key ref"
  by (simp add: plotter_key_def reference_key_def GetResourceSignature_def)

lemma mutate_plotter_simps [simp]:
  "Plotter_Spec (mutate_plotter owner spec labels uuid p) = spec"
  "Meta_Labels (Plotter_Meta (mutate_plotter owner spec labels uuid p)) =
     labels ++\<^sub>f ownerLabels \<lparr>NN_Name = ResourceReference_Name owner,
       NN_Namespace = ResourceReference_Namespace owner\<rparr>"
  by (simp_all add: mutate_plotter_def Let_def)

lemma created_plotter:
  assumes api: "plotter_api client"
    and run: "Plotter_CreateOrUpdateResource client owner ref spec labels uuid w = (None, w')"
  shows "\<exists>p. Client_GetPlotter client w' (reference_key ref) = Inr p \<and> Plotter_Spec p = spec"
proof (cases "Client_GetPlotter client w (reference_key ref)")
  case (Inl err)
  with run have "Client_CreateOrUpdatePlotter client (GetResourceSignature ref)
      (mutate_plotter owner spec labels uuid) w = (None, w')"
    by (simp add: Plotter_CreateOrUpdateResource_def)
  from plotter_apiD(1) [OF api this] show ?thesis by auto
next
  case (Inr p)
  note key = plotter_apiD(2) [OF api Inr]
  show ?thesis
  proof (cases "Plotter_Spec p = spec")
    case True
    with run Inr show ?thesis by (simp add: Plotter_CreateOrUpdateResource_def)
  next
    case False
    with run Inr have "Client_CreateOrUpdatePlotter client p (mutate_plotter owner spec labels uuid) w = (None, w')"
      by (simp add: Plotter_CreateOrUpdateResource_def)
    from plotter_apiD(1) [OF api this] key show ?thesis by auto
  qed
qed

lemma GetSystemNamespace_nonempty [simp]: "GetSystemNamespace env \<noteq> []"
  by (auto simp: GetSystemNamespace_def Let_def split: option.splits)

lemma PlotterInterface_contract:
  assumes api: "plotter_api client"
  shows "context_interface (PlotterInterface env client)"
proof
  fix owner spec labels uuid w w'
  let ?ref = "CreateResourceReference (PlotterInterface env client) owner"
  show "ResourceReference_AppVersion ?ref = ResourceReference_AppVersion owner"
    by (simp add: PlotterInterface_defs)
  assume "CreateOrUpdateResource (PlotterInterface env client) owner ?ref spec labels uuid w = (None, w')"
  then have "Plotter_CreateOrUpdateResource client owner ?ref spec labels uuid w = (None, w')"
    by (simp add: PlotterInterface_def)
  from created_plotter [OF api this] show "ResourceExists (PlotterInterface env client) (Some ?ref) w'"
    by (auto simp: PlotterInterface_def Plotter_ResourceExists_def Plotter_CreateResourceReference_def)
qed (auto simp: PlotterInterface_def Plotter_ResourceExists_def Plotter_GetResourceStatus_def
    split: option.splits sum.splits if_splits)

text \<open>A client that keeps the contract: a store of plotters.\<close>

definition plotter_store_client :: "(NamespacedName, Plotter) fmap PlotterClient" where
  "plotter_store_client =
     \<lparr>Client_GetPlotter = (\<lambda>w key. case fmlookup w key of
         None \<Rightarrow> Inl ''not found'' | Some p \<Rightarrow> if plotter_key p = key then Inr p else Inl ''corrupt''),
      Client_CreateOrUpdatePlotter = (\<lambda>p f w.
         let key = plotter_key p;
             p1 = f (case fmlookup w key of None \<Rightarrow> p | Some old \<Rightarrow> old);
             p2 = p1\<lparr>Plotter_Meta := (Plotter_Meta p1)
               \<lparr>Meta_Name := NN_Name key, Meta_Namespace := NN_Namespace key\<rparr>\<rparr>
         in (None, fmupd key p2 w)),
      Client_DeletePlotter = (\<lambda>p w. (None, fmdrop (plotter_key p) w))\<rparr>"

lemma plotter_store_lawful: "plotter_api plotter_store_client"
  unfolding plotter_api_def
proof (intro conjI allI impI)
  fix p f w w'
  assume "Client_CreateOrUpdatePlotter plotter_store_client p f w = (None, w')"
  then show "\<exists>old new. Client_GetPlotter plotter_store_client w' (plotter_key p) = Inr new \<and>
      Plotter_Spec new = Plotter_Spec (f old) \<and> Meta_Labels (Plotter_Meta new) = Meta_Labels (Plotter_Meta (f old))"
    by (auto simp: plotter_store_client_def Let_def plotter_key_def)
qed (auto simp: plotter_store_client_def Let_def split: option.splits if_splits)

interpretation plotter_store: context_interface "PlotterInterface env plotter_store_client" for env
  by (rule PlotterInterface_contract [OF plotter_store_lawful])

text \<open>
  C26: Over an API server that stores what it is given, the interface to plotters keeps the contract
  of the generated resource, and the plotter it writes has the specification it was given.
\<close>

theorem plotter_interface_refines:
  assumes "plotter_api client"
  shows "context_interface (PlotterInterface env client) \<and>
    (CreateOrUpdateResource (PlotterInterface env client) owner ref spec labels uuid w = (None, w') \<longrightarrow>
      (\<exists>p. Client_GetPlotter client w' (reference_key ref) = Inr p \<and> Plotter_Spec p = spec))"
  using PlotterInterface_contract [OF assms] created_plotter [OF assms] by (simp add: PlotterInterface_def)

definition sample_reference :: ResourceReference where
  "sample_reference = \<lparr>ResourceReference_Name = ''app'', ResourceReference_Namespace = ''ns'',
     ResourceReference_Kind = ''Plotter'', ResourceReference_AppVersion = 1\<rparr>"

theorem plotter_interface_refines_witness:
  "\<exists>env p. context_interface (PlotterInterface env plotter_store_client) \<and>
     Client_GetPlotter plotter_store_client (snd (Plotter_CreateOrUpdateResource plotter_store_client
       sample_reference sample_reference (Plotter_Spec Plotter_zero) fmempty [] fmempty))
       (reference_key sample_reference) = Inr p \<and> Plotter_Spec p = Plotter_Spec Plotter_zero"
proof -
  fix env
  let ?run = "Plotter_CreateOrUpdateResource plotter_store_client sample_reference sample_reference
    (Plotter_Spec Plotter_zero) fmempty [] fmempty"
  have "fst ?run = None"
    by (simp add: Plotter_CreateOrUpdateResource_def plotter_store_client_def Let_def)
  then have "CreateOrUpdateResource (PlotterInterface env plotter_store_client) sample_reference sample_reference
      (Plotter_Spec Plotter_zero) fmempty [] fmempty = (None, snd ?run)"
    by (simp add: PlotterInterface_def prod_eq_iff)
  with plotter_interface_refines [OF plotter_store_lawful, of env sample_reference sample_reference] show ?thesis
    by blast
qed

end
