(* ===== verification/Validation.thy ===== *)
theory Validation
  imports K8s_Client
begin

text \<open>
  \<^verbatim>\<open>src/pkg/taxonomy/validate/resource.go\<close>, the webhooks of \<^verbatim>\<open>src/manager/apis/app/v1alpha1\<close> and
  \<^verbatim>\<open>src/manager/controllers/app/fybrikmodule_controller.go\<close>: resources are validated against the
  taxonomy, a JSON schema, by a webhook or else by the controllers.

  The schema validator, the file system and the JSON texts, which are only passed from one library to
  the other, are the parameter record \<open>Taxonomy\<close>. An error of a field is its message.
\<close>

section \<open>Validation against the taxonomy\<close>

record Taxonomy =
  Tax_Abs :: "string \<Rightarrow> string + string"
  Tax_Validate :: "string \<Rightarrow> string \<Rightarrow> string + (string \<times> string \<times> string) list"
  Tax_Invalid :: "string \<Rightarrow> string \<Rightarrow> string \<Rightarrow> string"
  Tax_NewInvalid :: "string \<Rightarrow> string \<Rightarrow> string list \<Rightarrow> string"
  Tax_MarshalApplication :: "FybrikApplication \<Rightarrow> string + string"
  Tax_MarshalModule :: "FybrikModule \<Rightarrow> string + string"
  Tax_MarshalAssetResponse :: "GetAssetResponse \<Rightarrow> string + string"

definition TaxonomyCheck :: "Taxonomy \<Rightarrow> string \<Rightarrow> string \<Rightarrow> string + string list" where
  "TaxonomyCheck tax resourceJSON schemaPath =
     (case Tax_Abs tax schemaPath of
        Inl err \<Rightarrow> Inl (with_message ''could not get absolute path for the schema'' err)
      | Inr absPath \<Rightarrow>
          (case Tax_Validate tax (''file://'' @ absPath) resourceJSON of
             Inl err \<Rightarrow> Inl (with_message ''could not validate resource against the provided schema'' err)
           | Inr errs \<Rightarrow> Inr (map (\<lambda>(fld, val, desc). Tax_Invalid tax fld val desc) errs)))"

text \<open>The common part of the validators: the JSON form, its check, and the error that reports both.\<close>

definition checked :: "Taxonomy \<Rightarrow> string + string \<Rightarrow> string \<Rightarrow> string \<Rightarrow> string \<Rightarrow> string option" where
  "checked tax resourceJSON taxonomyFile kind1 name =
     (case resourceJSON of
        Inl err \<Rightarrow> Some err
      | Inr doc \<Rightarrow>
          (case TaxonomyCheck tax doc taxonomyFile of
             Inl err \<Rightarrow> Some err
           | Inr allErrs \<Rightarrow> if length allErrs = 0 then None else Some (Tax_NewInvalid tax kind1 name allErrs)))"

definition ValidateFybrikApplication :: "Taxonomy \<Rightarrow> FybrikApplication \<Rightarrow> string \<Rightarrow> string option" where
  "ValidateFybrikApplication tax r taxonomyFile =
     checked tax (Tax_MarshalApplication tax r) taxonomyFile ''FybrikApplication'' (Meta_Name (App_Meta r))"

definition Webhook_ValidateFybrikModule :: "Taxonomy \<Rightarrow> FybrikModule \<Rightarrow> string \<Rightarrow> string option" where
  "Webhook_ValidateFybrikModule tax r taxonomyFile =
     checked tax (Tax_MarshalModule tax r) taxonomyFile ''FybrikModule'' (Module_Name r)"

definition ValidateFybrikModule :: "Taxonomy \<Rightarrow> FybrikModule \<Rightarrow> string \<Rightarrow> string option" where
  "ValidateFybrikModule tax module taxonomyFile =
     checked tax (Tax_MarshalModule tax module) taxonomyFile ''FybrikModule'' (Module_Name module)"

definition ValidateAssetResponse :: "Taxonomy \<Rightarrow> GetAssetResponse \<Rightarrow> string \<Rightarrow> string \<Rightarrow> string option" where
  "ValidateAssetResponse tax response taxonomyFile datasetID =
     checked tax (Tax_MarshalAssetResponse tax response) taxonomyFile ''DataCatalog-AssetResponse'' datasetID"

abbreviation ApplicationTaxonomy :: string where
  "ApplicationTaxonomy \<equiv> ''/tmp/taxonomy/fybrik_application.json''"

abbreviation DataCatalogTaxonomy :: string where
  "DataCatalogTaxonomy \<equiv> ''/tmp/taxonomy/datacatalog.json#/definitions/GetAssetResponse''"

abbreviation ModuleTaxonomy :: string where
  "ModuleTaxonomy \<equiv> ''/tmp/taxonomy/fybrik_module.json''"

section \<open>The webhooks\<close>

definition Application_ValidateCreate :: "Taxonomy \<Rightarrow> FybrikApplication \<Rightarrow> string option" where
  "Application_ValidateCreate tax r =
     (let taxonomyFile = ''/tmp/taxonomy/fybrik_application.json''
      in ValidateFybrikApplication tax r taxonomyFile)"

definition Application_ValidateUpdate :: "Taxonomy \<Rightarrow> FybrikApplication \<Rightarrow> FybrikApplication \<Rightarrow> string option" where
  "Application_ValidateUpdate tax r old =
     (let taxonomyFile = ''/tmp/taxonomy/fybrik_application.json''
      in ValidateFybrikApplication tax r taxonomyFile)"

definition Application_ValidateDelete :: "FybrikApplication \<Rightarrow> string option" where
  "Application_ValidateDelete r = None"

definition Module_ValidateCreate :: "Taxonomy \<Rightarrow> FybrikModule \<Rightarrow> string option" where
  "Module_ValidateCreate tax r =
     (let taxonomyFile = ''/tmp/taxonomy/fybrik_module.json''
      in Webhook_ValidateFybrikModule tax r taxonomyFile)"

definition Module_ValidateUpdate :: "Taxonomy \<Rightarrow> FybrikModule \<Rightarrow> FybrikModule \<Rightarrow> string option" where
  "Module_ValidateUpdate tax r old = Module_ValidateCreate tax r"

definition Module_ValidateDelete :: "FybrikModule \<Rightarrow> string option" where
  "Module_ValidateDelete r = None"

section \<open>The Module controller\<close>

definition webhooks_enabled :: "go_env \<Rightarrow> bool" where
  "webhooks_enabled env \<longleftrightarrow> Getenv env ''ENABLE_WEBHOOKS'' = ''true''"

definition module_conditions :: "FybrikModule \<Rightarrow> Condition list" where
  "module_conditions module =
     (let conditions = ModuleStatus_Conditions (Module_Status module)
      in if length conditions = 0
         then [Condition_zero\<lparr>Condition_Type := ValidCondition, Condition_Status := ConditionUnknown,
                 Condition_ObservedGeneration := 0\<rparr>]
         else conditions)"

definition needs_validation :: "FybrikModule \<Rightarrow> bool" where
  "needs_validation module \<longleftrightarrow>
     (let condition = module_conditions module ! 0
      in Condition_ObservedGeneration condition \<noteq> Meta_Generation (Module_Meta module) \<or>
         Condition_Status condition = ConditionUnknown)"

definition validated_condition :: "go_env \<Rightarrow> Taxonomy \<Rightarrow> FybrikModule \<Rightarrow> Condition" where
  "validated_condition env tax module =
     (let module1 = module\<lparr>Module_Status := (Module_Status module)
            \<lparr>ModuleStatus_Conditions := module_conditions module\<rparr>\<rparr>;
          err = (if \<not> webhooks_enabled env then ValidateFybrikModule tax module1 ModuleTaxonomy else None);
          condition = (module_conditions module ! 0)
            \<lparr>Condition_ObservedGeneration := Meta_Generation (Module_Meta module)\<rparr>
      in case err of
           Some msg \<Rightarrow> condition\<lparr>Condition_Message := msg, Condition_Status := ConditionFalse\<rparr>
         | None \<Rightarrow> condition\<lparr>Condition_Status := ConditionTrue, Condition_Message := []\<rparr>)"

definition validated_module :: "go_env \<Rightarrow> Taxonomy \<Rightarrow> FybrikModule \<Rightarrow> FybrikModule" where
  "validated_module env tax module =
     module\<lparr>Module_Status := (Module_Status module)\<lparr>ModuleStatus_Conditions :=
       (if needs_validation module
        then (module_conditions module)[0 := validated_condition env tax module]
        else module_conditions module)\<rparr>\<rparr>"

definition Module_Reconcile ::
  "go_env \<Rightarrow> Taxonomy \<Rightarrow> (FybrikModule, FybrikModuleStatus, 'w) K8sClient \<Rightarrow> NamespacedName \<Rightarrow> 'w \<Rightarrow>
     string option \<times> 'w" where
  "Module_Reconcile env tax cl req w =
     (case K8s_Get cl req w of
        Inl err \<Rightarrow> (map_option api_message (IgnoreNotFound err), w)
      | Inr moduleContext \<Rightarrow>
          if is_deleted Module_kind moduleContext then (None, w)
          else
            let observedStatus = Module_Status moduleContext;
                moduleContext1 = validated_module env tax moduleContext
            in if \<not> is_deleted Module_kind moduleContext1
               then (case UpdateStatus Module_kind cl moduleContext1 observedStatus w of
                       (err, _, w1) \<Rightarrow> (map_option api_message err, w1))
               else (None, w))"

section \<open>Properties\<close>

lemma module_conditions_nonempty [simp]: "module_conditions module \<noteq> []" "0 < length (module_conditions module)"
  by (simp_all add: module_conditions_def Let_def)

lemma validated_module_simps [simp]:
  "Module_Meta (validated_module env tax module) = Module_Meta module"
  "Module_Spec (validated_module env tax module) = Module_Spec module"
  "object_key Module_kind (validated_module env tax module) = object_key Module_kind module"
  "is_deleted Module_kind (validated_module env tax module) = is_deleted Module_kind module"
  by (simp_all add: validated_module_def object_key_def is_deleted_def Module_kind_def)

lemma validated_module_conditions:
  "ModuleStatus_Conditions (Module_Status (validated_module env tax module)) =
     (if needs_validation module
      then (module_conditions module)[0 := validated_condition env tax module]
      else module_conditions module)"
  by (simp add: validated_module_def)

text \<open>
  C25: When the Module controller reports success for a module that is not being deleted, the stored
  module has a validation condition for its current generation, and only the first condition of the
  status was changed. A module that had to be validated is marked valid exactly when a webhook is in
  charge or the module agrees with the taxonomy, with the validator's error as its message; one that
  was validated before keeps its conditions.
\<close>

theorem module_validated:
  assumes api: "api_contract Module_kind cl" and retry: "retry_contract cl"
    and changed: "\<And>s s'. \<not> K8s_StatusUnchanged cl s s'"
    and get: "K8s_Get cl req w = Inr module" and alive: "\<not> is_deleted Module_kind module"
    and run: "Module_Reconcile env tax cl req w = (None, w')"
  defines "err \<equiv> (if webhooks_enabled env then None
      else ValidateFybrikModule tax (module\<lparr>Module_Status := (Module_Status module)
        \<lparr>ModuleStatus_Conditions := module_conditions module\<rparr>\<rparr>) ModuleTaxonomy)"
  shows "\<exists>stored condition. K8s_Get cl req w' = Inr stored \<and>
    ModuleStatus_Conditions (Module_Status stored) = condition # tl (module_conditions module) \<and>
    Condition_ObservedGeneration condition = Meta_Generation (Module_Meta module) \<and>
    (if needs_validation module
     then Condition_Status condition = (if err = None then ConditionTrue else ConditionFalse) \<and>
       Condition_Message condition = (case err of None \<Rightarrow> [] | Some msg \<Rightarrow> msg)
     else condition = hd (module_conditions module))"
proof -
  let ?m = "validated_module env tax module"
  have key: "object_key Module_kind module = req" by (rule api_contractD(5) [OF api get])
  obtain obj where "UpdateStatus Module_kind cl ?m (Module_Status module) w = (None, obj, w')"
    using run get alive by (auto simp: Module_Reconcile_def Let_def split: prod.splits)
  from module_kind.UpdateStatus_reaches(1) [OF api retry this changed] obtain stored where
    stored: "K8s_Get cl req w' = Inr stored" "Kind_Status Module_kind stored = Kind_Status Module_kind ?m"
    by (auto simp: key)
  obtain c cs where cs: "module_conditions module = c # cs"
    using module_conditions_nonempty(1) [of module] by (cases "module_conditions module") auto
  have conds: "ModuleStatus_Conditions (Module_Status stored) =
      (if needs_validation module then validated_condition env tax module # cs else c # cs)"
    using stored(2) by (simp add: Module_kind_def validated_module_conditions cs)
  show ?thesis
  proof (cases "needs_validation module")
    case True
    then show ?thesis using stored(1) conds
      by (auto simp: cs err_def validated_condition_def Let_def split: option.splits)
  next
    case False
    then have "Condition_ObservedGeneration c = Meta_Generation (Module_Meta module)"
      by (simp add: needs_validation_def cs)
    then show ?thesis using False stored(1) conds by (simp add: cs)
  qed
qed

text \<open>A new module that the taxonomy refuses.\<close>

definition plain_env :: go_env where
  "plain_env =
     \<lparr>LookupEnv = (\<lambda>_. None), NamespaceFile = None, Sum512 = (\<lambda>_. replicate 64 0),
      LabelSelector_Size = (\<lambda>_. 0), NestedString = (\<lambda>_ _. ([], False, None)),
      NestedFieldNoCopy = (\<lambda>_ _. (None, False, None)), JSON_Text = (\<lambda>_. [])\<rparr>"

definition refusing_taxonomy :: Taxonomy where
  "refusing_taxonomy =
     \<lparr>Tax_Abs = Inr, Tax_Validate = (\<lambda>_ _. Inr [(''type'', ''x'', ''unknown'')]),
      Tax_Invalid = (\<lambda>fld val desc. fld @ '': '' @ desc), Tax_NewInvalid = (\<lambda>_ name errs. name @ concat errs),
      Tax_MarshalApplication = (\<lambda>_. Inr []), Tax_MarshalModule = (\<lambda>_. Inr []),
      Tax_MarshalAssetResponse = (\<lambda>_. Inr [])\<rparr>"

definition plain_module :: FybrikModule where
  "plain_module =
     \<lparr>Module_Meta = (Blueprint_Meta Blueprint_zero)\<lparr>Meta_Name := ''m'', Meta_Generation := 1\<rparr>,
      Module_Spec =
        \<lparr>ModuleSpec_Description = [], ModuleSpec_Type = ''service'', ModuleSpec_PluginType = [],
         ModuleSpec_Dependencies = [], ModuleSpec_Capabilities = [],
         ModuleSpec_Chart = \<lparr>ChartSpec_Name = [], ChartSpec_ChartPullSecret = [], ChartSpec_Values = fmempty\<rparr>,
         ModuleSpec_StatusIndicators = []\<rparr>,
      Module_Status = \<lparr>ModuleStatus_Conditions = []\<rparr>\<rparr>"

definition module_store :: "FybrikModule api_store" where
  "module_store = \<lparr>Store_Objects = fmupd (object_key Module_kind plain_module) plain_module fmempty,
     Store_Conflicts = 0\<rparr>"

theorem module_validated_witness:
  "\<exists>w' stored condition. Module_Reconcile plain_env refusing_taxonomy (store_client Module_kind)
       (object_key Module_kind plain_module) module_store = (None, w') \<and>
     K8s_Get (store_client Module_kind) (object_key Module_kind plain_module) w' = Inr stored \<and>
     ModuleStatus_Conditions (Module_Status stored) = [condition] \<and>
     Condition_Status condition = ConditionFalse \<and> Condition_Message condition = ''mtype: unknown''"
proof -
  let ?cl = "store_client Module_kind"
  let ?run = "Module_Reconcile plain_env refusing_taxonomy ?cl (object_key Module_kind plain_module) module_store"
  have unchanged: "\<And>s s'. \<not> K8s_StatusUnchanged ?cl s s'" by (simp add: store_client_def)
  have get: "K8s_Get ?cl (object_key Module_kind plain_module) module_store = Inr plain_module"
    by (simp add: store_client_def store_get_def module_store_def)
  have alive: "\<not> is_deleted Module_kind plain_module"
    by (simp add: is_deleted_def Module_kind_def plain_module_def Blueprint_zero_def)
  have "fst ?run = None"
    by (simp add: Module_Reconcile_def get alive Let_def UpdateStatus_def)
      (simp add: store_client_def store_write_def module_store_def Let_def)
  then obtain w' where run: "?run = (None, w')" by (cases ?run) auto
  have conds: "module_conditions plain_module = [Condition_zero\<lparr>Condition_Type := ValidCondition,
      Condition_Status := ConditionUnknown, Condition_ObservedGeneration := 0\<rparr>]"
    by (simp add: module_conditions_def plain_module_def)
  have need: "needs_validation plain_module" and off: "\<not> webhooks_enabled plain_env"
    by (simp add: needs_validation_def conds) (simp add: webhooks_enabled_def Getenv_def plain_env_def)
  have name: "Module_Name plain_module = ''m''" by (simp add: plain_module_def)
  from module_validated [OF module_kind.api_contract_store retry_contract_store unchanged get alive run]
  obtain stored condition where stored: "K8s_Get ?cl (object_key Module_kind plain_module) w' = Inr stored"
    "ModuleStatus_Conditions (Module_Status stored) = [condition]"
    "Condition_Status condition = ConditionFalse" "Condition_Message condition = ''mtype: unknown''"
    using need off name
    by (auto simp: conds ValidateFybrikModule_def checked_def TaxonomyCheck_def refusing_taxonomy_def)
  with run show ?thesis by blast
qed

end
