(* ===== verification/Blueprint_Mgr.thy ===== *)
theory Blueprint_Mgr
  imports Plotter_Generator "HOL-Library.Multiset"
begin

text \<open>
  \<^verbatim>\<open>src/manager/controllers/app/blueprint_mgr.go\<close>: the module instances of a plotter are united per
  module and cluster and written to one blueprint specification per cluster. The instances hold
  their arguments behind a pointer of their own, which nothing else refers to: they are values here.
\<close>

section \<open>Definitions\<close>

record ModuleInstanceSpec =
  Instance_Chart :: ChartSpec
  Instance_Args :: ModuleArguments
  Instance_AssetIDs :: "string list"
  Instance_ClusterName :: string
  Instance_ModuleName :: string
  Instance_Scope :: CapabilityScope

definition instance_key :: "ModuleInstanceSpec \<Rightarrow> string" where
  "instance_key inst = Instance_ModuleName inst @ '','' @ Instance_ClusterName inst"

definition unite :: "ModuleInstanceSpec \<Rightarrow> ModuleInstanceSpec \<Rightarrow> ModuleInstanceSpec" where
  "unite inst moduleInstance = inst
     \<lparr>Instance_Args := (Instance_Args inst)
        \<lparr>Arguments_Read := Arguments_Read (Instance_Args inst) @ Arguments_Read (Instance_Args moduleInstance),
         Arguments_Write :=
           Arguments_Write (Instance_Args inst) @ Arguments_Write (Instance_Args moduleInstance)\<rparr>,
      Instance_AssetIDs := Instance_AssetIDs inst @ Instance_AssetIDs moduleInstance\<rparr>"

definition refine_step ::
  "ModuleInstanceSpec \<Rightarrow> ModuleInstanceSpec list \<times> (string, ModuleInstanceSpec) fmap \<Rightarrow>
     ModuleInstanceSpec list \<times> (string, ModuleInstanceSpec) fmap" where
  "refine_step moduleInstance st =
     (case st of (newInstances, instanceMap) \<Rightarrow>
        if Instance_Scope moduleInstance = Scope_Asset then (newInstances @ [moduleInstance], instanceMap)
        else
          let key = instance_key moduleInstance
          in (case fmlookup instanceMap key of
                None \<Rightarrow> (newInstances, fmupd key moduleInstance instanceMap)
              | Some inst \<Rightarrow> (newInstances, fmupd key (unite inst moduleInstance) instanceMap)))"

definition RefineInstances :: "range_ord \<Rightarrow> ModuleInstanceSpec list \<Rightarrow> ModuleInstanceSpec list" where
  "RefineInstances ord instances =
     (case fold refine_step instances ([], fmempty) of
        (newInstances, instanceMap) \<Rightarrow> newInstances @ map snd (fmrange ord instanceMap))"

text \<open>The name of an instance in the blueprint; an instance of asset scope has an asset.\<close>

definition instance_name :: "go_env \<Rightarrow> ModuleInstanceSpec \<Rightarrow> string go" where
  "instance_name env inst =
     (if Instance_Scope inst = Scope_Asset
      then (case Instance_AssetIDs inst of
              [] \<Rightarrow> Panic ''index out of range''
            | assetID # _ \<Rightarrow> Ok (CreateStepName env (Instance_ModuleName inst) assetID))
      else Ok (Instance_ModuleName inst))"

definition blueprint_module :: "ModuleInstanceSpec \<Rightarrow> BlueprintModule" where
  "blueprint_module inst =
     \<lparr>BlueprintModule_Name = Instance_ModuleName inst, BlueprintModule_Chart = Instance_Chart inst,
      BlueprintModule_Arguments = Instance_Args inst, BlueprintModule_AssetIDs = Instance_AssetIDs inst\<rparr>"

fun blueprint_modules ::
  "go_env \<Rightarrow> ModuleInstanceSpec list \<Rightarrow> (string, BlueprintModule) fmap \<Rightarrow> (string, BlueprintModule) fmap go" where
  "blueprint_modules env [] ms = Ok ms"
| "blueprint_modules env (inst # instances) ms =
     go_bind (instance_name env inst)
       (\<lambda>name. blueprint_modules env instances (fmupd name (blueprint_module inst) ms))"

definition GenerateBlueprint ::
  "go_env \<Rightarrow> ModuleInstanceSpec list \<Rightarrow> string \<Rightarrow> Plotter \<Rightarrow> BlueprintSpec go" where
  "GenerateBlueprint env instances clusterName plotter =
     go_bind (blueprint_modules env instances fmempty)
       (\<lambda>ms. Ok \<lparr>BlueprintSpec_Cluster = clusterName,
                 BlueprintSpec_ModulesNamespace = PlotterSpec_ModulesNamespace (Plotter_Spec plotter),
                 BlueprintSpec_Modules = ms\<rparr>)"

definition group_step ::
  "ModuleInstanceSpec \<Rightarrow> (string, ModuleInstanceSpec list) fmap \<Rightarrow> (string, ModuleInstanceSpec list) fmap" where
  "group_step inst m = fmupd (Instance_ClusterName inst) (fmget [] m (Instance_ClusterName inst) @ [inst]) m"

fun blueprints_loop ::
  "go_env \<Rightarrow> range_ord \<Rightarrow> Plotter \<Rightarrow> (string \<times> ModuleInstanceSpec list) list \<Rightarrow>
     (string, BlueprintSpec) fmap \<Rightarrow> (string, BlueprintSpec) fmap go" where
  "blueprints_loop env ord plotter [] blueprintMap = Ok blueprintMap"
| "blueprints_loop env ord plotter ((key, instanceList) # rest) blueprintMap =
     go_bind (GenerateBlueprint env (RefineInstances ord instanceList) key plotter)
       (\<lambda>spec. blueprints_loop env ord plotter rest (fmupd key spec blueprintMap))"

definition GenerateBlueprints ::
  "go_env \<Rightarrow> range_ord \<Rightarrow> ModuleInstanceSpec list \<Rightarrow> Plotter \<Rightarrow> (string, BlueprintSpec) fmap go" where
  "GenerateBlueprints env ord instances plotter =
     blueprints_loop env ord plotter (fmrange ord (fold group_step instances fmempty)) fmempty"

section \<open>Uniting instances\<close>

text \<open>The arguments of a list of instances, each with its module and its cluster.\<close>

definition reads_of :: "ModuleInstanceSpec \<Rightarrow> (string \<times> string \<times> ReadModuleArgs) list" where
  "reads_of inst =
     map (\<lambda>r. (Instance_ModuleName inst, Instance_ClusterName inst, r)) (Arguments_Read (Instance_Args inst))"

definition writes_of :: "ModuleInstanceSpec \<Rightarrow> (string \<times> string \<times> WriteModuleArgs) list" where
  "writes_of inst =
     map (\<lambda>w. (Instance_ModuleName inst, Instance_ClusterName inst, w)) (Arguments_Write (Instance_Args inst))"

definition all_of :: "(ModuleInstanceSpec \<Rightarrow> 'a list) \<Rightarrow> ModuleInstanceSpec list \<Rightarrow> 'a multiset" where
  "all_of f insts = mset (concat (map f insts))"

text \<open>
  Anything that \<open>unite\<close> adds up is preserved by \<open>RefineInstances\<close>. Two instances with the same key
  have the same module and cluster when the module names have no comma, as is the case for the names
  of Kubernetes resources.
\<close>

definition comma_free :: "ModuleInstanceSpec \<Rightarrow> bool" where
  "comma_free inst \<longleftrightarrow> CHR '','' \<notin> set (Instance_ModuleName inst)"

lemma comma_split:
  assumes "c \<notin> set xs" and "c \<notin> set ys" and "xs @ c # us = ys @ c # vs"
  shows "xs = ys \<and> us = vs"
  using assms
proof (induction xs arbitrary: ys)
  case Nil
  then show ?case by (cases ys) auto
next
  case (Cons x xs)
  then show ?case by (cases ys) auto
qed

lemma instance_key_inject:
  assumes "comma_free a" and "comma_free b" and "instance_key a = instance_key b"
  shows "Instance_ModuleName a = Instance_ModuleName b \<and> Instance_ClusterName a = Instance_ClusterName b"
  using comma_split [of "CHR '',''" "Instance_ModuleName a" "Instance_ModuleName b"] assms
  by (simp add: comma_free_def instance_key_def)

lemma unite_key [simp]: "instance_key (unite a b) = instance_key a"
  by (simp add: unite_def instance_key_def)

lemma unite_simps [simp]:
  "Instance_ModuleName (unite a b) = Instance_ModuleName a"
  "Instance_ClusterName (unite a b) = Instance_ClusterName a"
  "Instance_Scope (unite a b) = Instance_Scope a"
  "Instance_AssetIDs (unite a b) = Instance_AssetIDs a @ Instance_AssetIDs b"
  by (simp_all add: unite_def)

text \<open>The contents of the map of instances, in any order.\<close>

definition map_contents :: "(ModuleInstanceSpec \<Rightarrow> 'a list) \<Rightarrow> (string, ModuleInstanceSpec) fmap \<Rightarrow> 'a multiset" where
  "map_contents f m = (\<Sum>k\<in>fset (fmdom m). mset (f (the (fmlookup m k))))"

lemma map_contents_empty [simp]: "map_contents f fmempty = {#}"
  by (simp add: map_contents_def)

lemma map_contents_insert:
  assumes "fmlookup m k = None"
  shows "map_contents f (fmupd k v m) = map_contents f m + mset (f v)"
proof -
  have "k \<notin> fset (fmdom m)" using assms by (auto simp: fmlookup_dom_iff)
  then show ?thesis
    by (auto simp: map_contents_def intro!: sum.cong)
qed

lemma map_contents_update:
  assumes "fmlookup m k = Some u" and "mset (f v) = mset (f u) + M"
  shows "map_contents f (fmupd k v m) = map_contents f m + M"
proof -
  have k: "k \<in> fset (fmdom m)" using assms(1) by (auto simp: fmlookup_dom_iff)
  have "map_contents f (fmupd k v m) = (\<Sum>j\<in>fset (fmdom m). mset (f (if j = k then v else the (fmlookup m j))))"
    using k by (auto simp: map_contents_def insert_absorb intro!: sum.cong)
  also have "\<dots> = mset (f v) + (\<Sum>j\<in>fset (fmdom m) - {k}. mset (f (the (fmlookup m j))))"
    using k by (subst sum.remove [of _ k]) (auto intro!: sum.cong)
  also have "\<dots> = map_contents f m + M"
    using k assms by (simp add: map_contents_def sum.remove [of _ k] ac_simps)
  finally show ?thesis .
qed

lemma map_contents_range:
  assumes "range_order ord"
  shows "all_of f (map snd (fmrange ord m)) = map_contents f m"
proof -
  have "all_of f (map snd (fmrange ord m)) =
      sum_list (map (\<lambda>kv. mset (f (snd kv))) (fmrange ord m))"
    by (simp add: all_of_def mset_concat comp_def)
  also have "\<dots> = sum_list (map (\<lambda>k. mset (f (the (fmlookup m k)))) (map fst (fmrange ord m)))"
    using fmrange_set [OF assms, of _ _ m] by (auto simp: comp_def intro!: arg_cong [of _ _ sum_list] map_cong)
  also have "\<dots> = map_contents f m"
    unfolding fmrange_fst [OF assms] map_contents_def
    by (simp add: sum_list_distinct_conv_sum_set range_orderD [OF assms])
  finally show ?thesis .
qed

text \<open>The map of the loop holds instances of non-asset scope under their keys.\<close>

definition keyed :: "(string, ModuleInstanceSpec) fmap \<Rightarrow> bool" where
  "keyed m \<longleftrightarrow> fmpred (\<lambda>k inst. instance_key inst = k \<and> comma_free inst \<and>
     Instance_Scope inst \<noteq> Scope_Asset) m"

definition additive :: "(ModuleInstanceSpec \<Rightarrow> 'a list) \<Rightarrow> ModuleInstanceSpec list \<Rightarrow> bool" where
  "additive f insts \<longleftrightarrow>
     (\<forall>a. \<forall>b\<in>set insts. Instance_Scope b \<noteq> Scope_Asset \<longrightarrow>
        Instance_ModuleName a = Instance_ModuleName b \<longrightarrow>
        Instance_ClusterName a = Instance_ClusterName b \<longrightarrow>
        mset (f (unite a b)) = mset (f a) + mset (f b))"

lemma all_of_simps [simp]:
  "all_of f [] = {#}" "all_of f (x # xs) = mset (f x) + all_of f xs"
  "all_of f (xs @ ys) = all_of f xs + all_of f ys"
  by (simp_all add: all_of_def)

lemma refine_step_inv:
  assumes "keyed m" and "comma_free b" and "additive f [b]"
    and step: "refine_step b (ns, m) = (ns', m')"
  shows "keyed m'"
    and "all_of f ns' + map_contents f m' = all_of f ns + map_contents f m + mset (f b)"
proof -
  show "keyed m'"
    using assms by (auto simp: refine_step_def keyed_def Let_def fmpred_iff comma_free_def unite_def
        instance_key_def split: if_splits option.splits)
  show "all_of f ns' + map_contents f m' = all_of f ns + map_contents f m + mset (f b)"
  proof (cases "Instance_Scope b = Scope_Asset")
    case True
    with step show ?thesis by (auto simp: refine_step_def ac_simps)
  next
    case False
    show ?thesis
    proof (cases "fmlookup m (instance_key b)")
      case None
      with False step show ?thesis by (auto simp: refine_step_def Let_def map_contents_insert ac_simps)
    next
      case (Some a)
      with assms(1) have "instance_key a = instance_key b" "comma_free a"
        by (auto simp: keyed_def dest: fmpredD)
      with instance_key_inject [OF _ assms(2)] assms(3) False
      have "mset (f (unite a b)) = mset (f a) + mset (f b)" by (auto simp: additive_def)
      from map_contents_update [OF Some this] False step Some show ?thesis
        by (auto simp: refine_step_def Let_def ac_simps)
    qed
  qed
qed

lemma refine_fold:
  assumes "keyed m" and "list_all comma_free insts" and "additive f insts"
    and "fold refine_step insts (ns, m) = (ns', m')"
  shows "keyed m' \<and> all_of f ns' + map_contents f m' = all_of f ns + map_contents f m + all_of f insts"
  using assms
proof (induction insts arbitrary: ns m)
  case Nil
  then show ?case by simp
next
  case (Cons b insts)
  obtain ns1 m1 where 1: "refine_step b (ns, m) = (ns1, m1)" by (cases "refine_step b (ns, m)")
  have b: "comma_free b" "additive f [b]" using Cons.prems(2,3) by (simp_all add: additive_def)
  note step = refine_step_inv [OF Cons.prems(1) b 1]
  have "additive f insts" using Cons.prems(3) by (simp add: additive_def)
  with Cons.IH [OF step(1)] Cons.prems(2,4) 1
  have "keyed m'" "all_of f ns' + map_contents f m' = all_of f ns1 + map_contents f m1 + all_of f insts"
    by auto
  with step(2) show ?case by (simp add: ac_simps)
qed

lemma RefineInstances_all_of:
  assumes "range_order ord" and "list_all comma_free insts" and "additive f insts"
  shows "all_of f (RefineInstances ord insts) = all_of f insts"
proof -
  obtain ns m where fold: "fold refine_step insts ([], fmempty) = (ns, m)"
    by (cases "fold refine_step insts ([], fmempty)")
  have "keyed fmempty" by (simp add: keyed_def)
  from refine_fold [OF this assms(2,3) fold] show ?thesis
    by (simp add: RefineInstances_def fold map_contents_range [OF assms(1)])
qed

lemma additive_reads: "additive reads_of insts" and additive_writes: "additive writes_of insts"
  and additive_assets: "additive Instance_AssetIDs insts"
  by (simp_all add: additive_def reads_of_def writes_of_def unite_def)

text \<open>The non-asset instances of the result have pairwise different keys.\<close>

lemma refine_fold_list:
  assumes "list_all (\<lambda>i. Instance_Scope i = Scope_Asset) ns"
    and "fold refine_step insts (ns, m) = (ns', m')"
  shows "list_all (\<lambda>i. Instance_Scope i = Scope_Asset) ns'"
  using assms
proof (induction insts arbitrary: ns m)
  case Nil
  then show ?case by simp
next
  case (Cons b insts)
  obtain ns1 m1 where 1: "refine_step b (ns, m) = (ns1, m1)" by (cases "refine_step b (ns, m)")
  then have "list_all (\<lambda>i. Instance_Scope i = Scope_Asset) ns1"
    using Cons.prems(1) by (auto simp: refine_step_def Let_def split: if_splits option.splits)
  with Cons.IH Cons.prems(2) 1 show ?case by auto
qed

lemma RefineInstances_keys:
  assumes "range_order ord" and "list_all comma_free insts"
  shows "distinct (map instance_key
    (filter (\<lambda>i. Instance_Scope i \<noteq> Scope_Asset) (RefineInstances ord insts)))"
proof -
  obtain ns m where fold: "fold refine_step insts ([], fmempty) = (ns, m)"
    by (cases "fold refine_step insts ([], fmempty)")
  have "keyed fmempty" by (simp add: keyed_def)
  from refine_fold [OF this assms(2) additive_reads fold] have m: "keyed m" by simp
  have ns: "filter (\<lambda>i. Instance_Scope i \<noteq> Scope_Asset) ns = []"
    using refine_fold_list [OF _ fold] by (auto simp: list_all_iff filter_empty_conv)
  have "Instance_Scope (snd kv) \<noteq> Scope_Asset \<and> instance_key (snd kv) = fst kv"
    if "kv \<in> set (fmrange ord m)" for kv
    using that m fmrange_set [OF assms(1), of "fst kv" "snd kv" m]
    by (auto simp: keyed_def dest: fmpredD)
  then have "map instance_key (filter (\<lambda>i. Instance_Scope i \<noteq> Scope_Asset) (map snd (fmrange ord m))) =
      map fst (fmrange ord m)"
    by (auto simp: filter_map comp_def filter_id_conv cong: filter_cong)
  then show ?thesis
    using fmrange_distinct_fst [OF assms(1), of m] by (simp add: RefineInstances_def fold ns)
qed


definition sample_read_args :: "string \<Rightarrow> ReadModuleArgs" where
  "sample_read_args asset =
     \<lparr>ReadArgs_Source = DataStore_zero, ReadArgs_AssetID = asset, ReadArgs_Transformations = []\<rparr>"

definition sample_instance :: "string \<Rightarrow> string \<Rightarrow> CapabilityScope \<Rightarrow> string \<Rightarrow> ModuleInstanceSpec" where
  "sample_instance module cluster scope asset =
     \<lparr>Instance_Chart =
        \<lparr>ChartSpec_Name = module, ChartSpec_ChartPullSecret = [], ChartSpec_Values = fmempty\<rparr>,
      Instance_Args =
        \<lparr>Arguments_Labels = fmempty,
         Arguments_AppSelector = Selector_WorkloadSelector (AppSpec_Selector (App_Spec (sample_app []))),
         Arguments_Copy = None, Arguments_Read = [sample_read_args asset], Arguments_Write = []\<rparr>,
      Instance_AssetIDs = [asset], Instance_ClusterName = cluster, Instance_ModuleName = module,
      Instance_Scope = scope\<rparr>"

definition sample_instances :: "ModuleInstanceSpec list" where
  "sample_instances =
     [sample_instance ''read'' ''A'' Scope_Workload ''x'', sample_instance ''read'' ''A'' Scope_Workload ''y'',
      sample_instance ''redact'' ''A'' Scope_Asset ''x'']"


section \<open>Blueprints per cluster\<close>

lemma group_fold:
  "fmlookup (fold group_step insts m) c =
     (let xs = filter (\<lambda>i. Instance_ClusterName i = c) insts
      in if xs = [] then fmlookup m c else Some (fmget [] m c @ xs))"
  by (induction insts arbitrary: m) (auto simp: group_step_def Let_def fmget_def)

lemma blueprint_modules_lookup:
  assumes "blueprint_modules env insts ms = Ok ms'" and "inst \<in> set insts"
    and "instance_name env inst = Ok name" and "distinct (map (instance_name env) insts)"
  shows "fmlookup ms' name = Some (blueprint_module inst)"
  using assms
proof (induction insts arbitrary: ms)
  case Nil
  then show ?case by simp
next
  case (Cons i insts)
  from Cons.prems(1) obtain n where n: "instance_name env i = Ok n"
    "blueprint_modules env insts (fmupd n (blueprint_module i) ms) = Ok ms'"
    by (auto simp: go_bind_Ok_iff)
  have other: "fmlookup ms' k = fmlookup ms0 k"
    if "blueprint_modules env insts ms0 = Ok ms'" and "Ok k \<notin> set (map (instance_name env) insts)"
    for k ms0 insts
    using that by (induction insts arbitrary: ms0) (auto simp: go_bind_Ok_iff)
  show ?case
  proof (cases "inst = i")
    case True
    then have "Ok name \<notin> set (map (instance_name env) insts)" using Cons.prems(3,4) by auto
    with other [OF n(2)] n(1) Cons.prems(3) True show ?thesis by simp
  next
    case False
    with Cons n show ?thesis by auto
  qed
qed

lemma blueprint_modules_name:
  "blueprint_modules env insts ms = Ok ms' \<Longrightarrow> inst \<in> set insts \<Longrightarrow> \<exists>name. instance_name env inst = Ok name"
  by (induction insts arbitrary: ms) (auto simp: go_bind_Ok_iff)

lemma blueprint_modules_total:
  assumes "\<forall>i\<in>set insts. Instance_AssetIDs i \<noteq> []"
  shows "\<exists>ms'. blueprint_modules env insts ms = Ok ms'"
  using assms
proof (induction insts arbitrary: ms)
  case Nil
  then show ?case by simp
next
  case (Cons i insts)
  then have "\<exists>name. instance_name env i = Ok name"
    by (auto simp: instance_name_def split: list.split)
  with Cons show ?case by auto
qed

lemma blueprints_loop_lookup:
  assumes "blueprints_loop env ord plotter kvs m = Ok m'" and "distinct (map fst kvs)"
  shows "(\<forall>c xs. (c, xs) \<in> set kvs \<longrightarrow>
      (\<exists>spec. GenerateBlueprint env (RefineInstances ord xs) c plotter = Ok spec \<and>
        fmlookup m' c = Some spec)) \<and>
    (\<forall>c. c \<notin> fst ` set kvs \<longrightarrow> fmlookup m' c = fmlookup m c)"
  using assms
proof (induction kvs arbitrary: m)
  case Nil
  then show ?case by simp
next
  case (Cons kv kvs)
  obtain key xs where kv: "kv = (key, xs)" by (cases kv)
  from Cons.prems(1) obtain spec where
    spec: "GenerateBlueprint env (RefineInstances ord xs) key plotter = Ok spec"
    and rest: "blueprints_loop env ord plotter kvs (fmupd key spec m) = Ok m'"
    by (auto simp: kv go_bind_Ok_iff)
  have "key \<notin> fst ` set kvs" and "distinct (map fst kvs)" using Cons.prems(2) by (auto simp: kv)
  with Cons.IH [OF rest] spec show ?case by (auto simp: kv)
qed

lemma GenerateBlueprints_lookup:
  assumes "range_order ord" and "GenerateBlueprints env ord insts plotter = Ok bps"
  shows "case filter (\<lambda>i. Instance_ClusterName i = c) insts of
      [] \<Rightarrow> fmlookup bps c = None
    | x # xs \<Rightarrow> \<exists>spec. GenerateBlueprint env (RefineInstances ord (x # xs)) c plotter = Ok spec \<and>
        fmlookup bps c = Some spec"
proof -
  let ?groups = "fold group_step insts fmempty"
  note loop = blueprints_loop_lookup [OF assms(2) [unfolded GenerateBlueprints_def]
    fmrange_distinct_fst [OF assms(1)]]
  show ?thesis
  proof (cases "filter (\<lambda>i. Instance_ClusterName i = c) insts")
    case Nil
    then have "fmlookup ?groups c = None" by (simp add: group_fold)
    then have "c \<notin> fst ` set (fmrange ord ?groups)"
      using fmrange_set [OF assms(1), of c _ ?groups] by force
    with loop Nil show ?thesis by simp
  next
    case (Cons x xs)
    then have "(c, x # xs) \<in> set (fmrange ord ?groups)"
      by (simp add: fmrange_set [OF assms(1)] group_fold)
    with loop Cons show ?thesis by simp
  qed
qed

lemma refined_member:
  assumes "range_order ord" and "list_all comma_free insts" and "inst \<in> set insts"
    and "r \<in> set (Arguments_Read (Instance_Args inst))"
  shows "\<exists>inst'\<in>set (RefineInstances ord insts).
    Instance_ModuleName inst' = Instance_ModuleName inst \<and> r \<in> set (Arguments_Read (Instance_Args inst'))"
proof -
  have "(Instance_ModuleName inst, Instance_ClusterName inst, r) \<in># all_of reads_of insts"
    using assms(3,4) by (auto simp: all_of_def reads_of_def)
  then have "(Instance_ModuleName inst, Instance_ClusterName inst, r) \<in>#
      all_of reads_of (RefineInstances ord insts)"
    by (simp add: RefineInstances_all_of [OF assms(1,2) additive_reads])
  then show ?thesis by (auto simp: all_of_def reads_of_def)
qed


abbreviation sample_plotter :: Plotter where
  "sample_plotter \<equiv>
     \<lparr>Plotter_Meta = App_Meta (sample_app []), Plotter_Spec = sample_spec0,
      Plotter_Status =
        \<lparr>PlotterStatus_ObservedState = ObservedState_zero, PlotterStatus_ObservedGeneration = 0,
         PlotterStatus_Flows = fmempty, PlotterStatus_Assets = fmempty, PlotterStatus_Blueprints = fmempty,
         PlotterStatus_Conditions = [], PlotterStatus_ReadyTimestamp = None\<rparr>\<rparr>"

fun ok_value :: "'a \<Rightarrow> 'a go \<Rightarrow> 'a" where
  "ok_value d (Ok a) = a"
| "ok_value d _ = d"

fun is_ok :: "'a go \<Rightarrow> bool" where
  "is_ok (Ok a) = True"
| "is_ok _ = False"

lemma is_okD: "is_ok r \<Longrightarrow> r = Ok (ok_value d r)"
  by (cases r) auto

abbreviation sample_blueprints :: "(string, BlueprintSpec) fmap" where
  "sample_blueprints \<equiv>
     ok_value fmempty (GenerateBlueprints sample_env sorted_list_of_fset sample_instances sample_plotter)"


text \<open>
  Two instances of one module for one asset, both of asset scope, get the same name: when a module
  serves an asset with two capabilities in one cluster, one as a copy and one as a read, the blueprint
  keeps only the last and the copy is never deployed.
\<close>

theorem instance_name_collision:
  "let read_inst = sample_instance ''m'' ''A'' Scope_Asset ''x'';
       copy_inst = read_inst\<lparr>Instance_Args := (Instance_Args read_inst)
         \<lparr>Arguments_Read := [],
          Arguments_Copy := Some
            \<lparr>CopyArgs_Source = DataStore_zero, CopyArgs_Destination = DataStore_zero,
             CopyArgs_AssetID = ''x'', CopyArgs_Transformations = []\<rparr>\<rparr>\<rparr>
   in map (\<lambda>m. Arguments_Copy (BlueprintModule_Arguments (snd m)))
        (fmrange sorted_list_of_fset (BlueprintSpec_Modules (fmget
          \<lparr>BlueprintSpec_Cluster = [], BlueprintSpec_ModulesNamespace = [], BlueprintSpec_Modules = fmempty\<rparr>
          (ok_value fmempty (GenerateBlueprints sample_env sorted_list_of_fset [copy_inst, read_inst]
             sample_plotter)) ''A''))) = [None]"
  by code_simp

end
