(* ===== verification/Plotter_Controller.thy ===== *)
theory Plotter_Controller
  imports Blueprint_Mgr
begin

text \<open>
  \<^verbatim>\<open>src/manager/controllers/app/plotter_controller.go\<close>: the reconciliation of a Plotter. The
  controller acts on the clusters through a \<open>ClusterManager\<close> over the world \<open>'w\<close>; the plotter is
  passed and returned. Reading the clock and the back-off computed from it with floating point are
  the parameter record \<open>Clock\<close>. \<open>reflect.DeepEqual\<close> on specifications is equality.
\<close>

section \<open>From the plotter to blueprints\<close>

record PlotterModulesSpec =
  PM_ClusterName :: string
  PM_VaultAuthPath :: string
  PM_AssetID :: string
  PM_ModuleName :: string
  PM_ModuleArguments :: "StepParameters option"
  PM_FlowType :: DataFlow
  PM_Chart :: ChartSpec
  PM_Scope :: CapabilityScope

definition addCredentials :: "DataStore \<Rightarrow> string \<Rightarrow> DataFlow \<Rightarrow> DataStore" where
  "addCredentials dataStore vaultAuthPath flowType =
     (let v = fmget Vault_zero (DataStore_Vault dataStore) flowType
      in dataStore\<lparr>DataStore_Vault :=
           fmupd flowType
             \<lparr>Vault_Role = Vault_Role v, Vault_SecretPath = Vault_SecretPath v,
              Vault_Address = Vault_Address v, Vault_AuthPath = vaultAuthPath\<rparr> fmempty\<rparr>)"

text \<open>The data store a step reads: that of its source asset, or the one its arguments describe.\<close>

definition read_store :: "Plotter \<Rightarrow> string \<Rightarrow> StepParameters \<Rightarrow> DataStore go" where
  "read_store plotter authPath args =
     (case StepParameters_Source args of
        None \<Rightarrow> Panic ''nil pointer dereference''
      | Some source \<Rightarrow>
          if StepSource_AssetID source \<noteq> []
          then Ok (addCredentials
                 (AssetDetails_DataStore (fmget AssetDetails_zero
                    (PlotterSpec_Assets (Plotter_Spec plotter)) (StepSource_AssetID source)))
                 authPath ReadFlow)
          else
            (case StepSource_API source of
               None \<Rightarrow> Panic ''nil pointer dereference''
             | Some api \<Rightarrow>
                 Ok \<lparr>DataStore_Vault = fmempty, DataStore_Connection = ResourceDetails_Connection api,
                     DataStore_Format = ResourceDetails_DataFormat api\<rparr>))"

definition write_store :: "Plotter \<Rightarrow> string \<Rightarrow> StepParameters \<Rightarrow> DataStore go" where
  "write_store plotter authPath args =
     (case StepParameters_Sink args of
        None \<Rightarrow> Panic ''nil pointer dereference''
      | Some sink \<Rightarrow>
          Ok (addCredentials
            (AssetDetails_DataStore (fmget AssetDetails_zero
               (PlotterSpec_Assets (Plotter_Spec plotter)) (StepSink_AssetID sink)))
            authPath WriteFlow))"

definition base_instance :: "Plotter \<Rightarrow> PlotterModulesSpec \<Rightarrow> ModuleInstanceSpec" where
  "base_instance plotter pm =
     \<lparr>Instance_Chart = PM_Chart pm,
      Instance_Args =
        \<lparr>Arguments_Labels = Meta_Labels (Plotter_Meta plotter),
         Arguments_AppSelector = Selector_WorkloadSelector (PlotterSpec_Selector (Plotter_Spec plotter)),
         Arguments_Copy = None, Arguments_Read = [], Arguments_Write = []\<rparr>,
      Instance_AssetIDs = [PM_AssetID pm], Instance_ClusterName = PM_ClusterName pm,
      Instance_ModuleName = PM_ModuleName pm, Instance_Scope = PM_Scope pm\<rparr>"

definition convertPlotterModuleToBlueprintModule ::
  "Plotter \<Rightarrow> PlotterModulesSpec \<Rightarrow> ModuleInstanceSpec go" where
  "convertPlotterModuleToBlueprintModule plotter pm =
     (let inst = base_instance plotter pm
      in case PM_ModuleArguments pm of
           None \<Rightarrow> Ok inst
         | Some args \<Rightarrow>
             if PM_FlowType pm = ReadFlow then
               go_bind (read_store plotter (PM_VaultAuthPath pm) args) (\<lambda>dataStore.
                 Ok (inst\<lparr>Instance_Args := (Instance_Args inst)
                   \<lparr>Arguments_Read :=
                      [\<lparr>ReadArgs_Source = dataStore, ReadArgs_AssetID = PM_AssetID pm,
                        ReadArgs_Transformations = StepParameters_Actions args\<rparr>]\<rparr>\<rparr>))
             else if PM_FlowType pm = WriteFlow then
               go_bind (write_store plotter (PM_VaultAuthPath pm) args) (\<lambda>destDataStore.
                 Ok (inst\<lparr>Instance_Args := (Instance_Args inst)
                   \<lparr>Arguments_Write :=
                      [\<lparr>WriteArgs_Destination = destDataStore, WriteArgs_AssetID = PM_AssetID pm,
                        WriteArgs_Transformations = StepParameters_Actions args\<rparr>]\<rparr>\<rparr>))
             else if PM_FlowType pm = CopyFlow then
               go_bind (read_store plotter (PM_VaultAuthPath pm) args) (\<lambda>dataStore.
                 go_bind (write_store plotter (PM_VaultAuthPath pm) args) (\<lambda>destDataStore.
                   Ok (inst\<lparr>Instance_Args := (Instance_Args inst)
                     \<lparr>Arguments_Copy := Some
                        \<lparr>CopyArgs_Source = dataStore, CopyArgs_Destination = destDataStore,
                         CopyArgs_AssetID = PM_AssetID pm,
                         CopyArgs_Transformations = StepParameters_Actions args\<rparr>\<rparr>\<rparr>)))
             else Ok inst)"

definition cluster_auth_path :: "Cluster list \<Rightarrow> string \<Rightarrow> string" where
  "cluster_auth_path clusters clusterName =
     (case find (\<lambda>cluster. clusterName = Cluster_Name cluster) clusters of
        None \<Rightarrow> []
      | Some cluster \<Rightarrow> GetAuthPath (ClusterMetadata_VaultAuthPath (Cluster_Metadata cluster)))"

definition plotter_module ::
  "Cluster list \<Rightarrow> Flow \<Rightarrow> SubFlow \<Rightarrow> DataFlowStep \<Rightarrow> ModuleInfo \<Rightarrow> PlotterModulesSpec" where
  "plotter_module clusters flow subFlow seqStep module =
     \<lparr>PM_ClusterName = Step_Cluster seqStep,
      PM_VaultAuthPath = cluster_auth_path clusters (Step_Cluster seqStep),
      PM_AssetID = Flow_AssetID flow, PM_ModuleName = ModuleInfo_Name module,
      PM_ModuleArguments =
        (if ModuleInfo_Type module = ''plugin'' then None else Step_Parameters seqStep),
      PM_FlowType = SubFlow_FlowType subFlow, PM_Chart = ModuleInfo_Chart module,
      PM_Scope = ModuleInfo_Scope module\<rparr>"

text \<open>The five nested loops: the module specifications in the order they are visited.\<close>

definition plotter_modules :: "Cluster list \<Rightarrow> Plotter \<Rightarrow> PlotterModulesSpec list" where
  "plotter_modules clusters plotter =
     concat (map (\<lambda>flow. concat (map (\<lambda>subFlow. concat (map (\<lambda>subFlowStep.
       concat (map (\<lambda>seqStep.
         map (plotter_module clusters flow subFlow seqStep)
           (Template_Modules (fmget Template_zero (PlotterSpec_Templates (Plotter_Spec plotter))
              (Step_Template seqStep))))
         subFlowStep))
       (SubFlow_Steps subFlow))) (Flow_SubFlows flow))) (PlotterSpec_Flows (Plotter_Spec plotter)))"

fun convert_all :: "Plotter \<Rightarrow> PlotterModulesSpec list \<Rightarrow> ModuleInstanceSpec list go" where
  "convert_all plotter [] = Ok []"
| "convert_all plotter (pm # pms) =
     go_bind (convertPlotterModuleToBlueprintModule plotter pm)
       (\<lambda>inst. go_bind (convert_all plotter pms) (\<lambda>insts. Ok (inst # insts)))"

text \<open>An error of \<open>GetClusters\<close> is dropped: the list of clusters is then nil.\<close>

definition getBlueprintsMap ::
  "go_env \<Rightarrow> range_ord \<Rightarrow> 'w ClusterManager \<Rightarrow> Plotter \<Rightarrow> 'w \<Rightarrow> (string, BlueprintSpec) fmap go" where
  "getBlueprintsMap env ord cm plotter w =
     (let clusters = (case GetClusters cm w of Inl _ \<Rightarrow> [] | Inr cs \<Rightarrow> cs)
      in go_bind (convert_all plotter (plotter_modules clusters plotter))
           (\<lambda>moduleInstances. GenerateBlueprints env ord moduleInstances plotter))"

section \<open>The state of the assets\<close>

type_synonym asset_status = "(string, ObservedState) fmap"

definition asset_state_step :: "ObservedState \<Rightarrow> string \<Rightarrow> asset_status \<Rightarrow> asset_status" where
  "asset_state_step moduleState assetID m =
     (case fmlookup m assetID of
        None \<Rightarrow> fmupd assetID moduleState m
      | Some st \<Rightarrow>
          if \<not> ObservedState_Ready moduleState
          then fmupd assetID
                 \<lparr>ObservedState_Ready = False,
                  ObservedState_Error = ObservedState_Error st @ [CHR 0x0A] @ ObservedState_Error moduleState\<rparr> m
          else m)"

definition BlueprintModule_zero :: BlueprintModule where
  "BlueprintModule_zero =
     \<lparr>BlueprintModule_Name = [],
      BlueprintModule_Chart = \<lparr>ChartSpec_Name = [], ChartSpec_ChartPullSecret = [], ChartSpec_Values = fmempty\<rparr>,
      BlueprintModule_Arguments =
        \<lparr>Arguments_Labels = fmempty,
         Arguments_AppSelector = \<lparr>Selector_MatchLabels = fmempty, Selector_MatchExpressions = []\<rparr>,
         Arguments_Copy = None, Arguments_Read = [], Arguments_Write = []\<rparr>,
      BlueprintModule_AssetIDs = []\<rparr>"

definition updatePlotterAssetsState :: "range_ord \<Rightarrow> asset_status \<Rightarrow> Blueprint \<Rightarrow> asset_status" where
  "updatePlotterAssetsState ord m blueprint =
     fold (\<lambda>(instanceName, moduleState). fold (asset_state_step moduleState)
         (BlueprintModule_AssetIDs (fmget BlueprintModule_zero
            (BlueprintSpec_Modules (Blueprint_Spec blueprint)) instanceName)))
       (fmrange ord (BlueprintStatus_ModulesState (Blueprint_Status blueprint))) m"

definition setPlotterAssetsReadyStateToFalse ::
  "range_ord \<Rightarrow> asset_status \<Rightarrow> BlueprintSpec \<Rightarrow> string \<Rightarrow> asset_status" where
  "setPlotterAssetsReadyStateToFalse ord m blueprintSpec errMsg =
     fold (\<lambda>(_, module). fold (\<lambda>assetID. fmupd assetID
         \<lparr>ObservedState_Ready = False, ObservedState_Error = errMsg\<rparr>) (BlueprintModule_AssetIDs module))
       (fmrange ord (BlueprintSpec_Modules blueprintSpec)) m"

section \<open>Reconciliation\<close>

record Clock =
  Clock_Now :: int64
  Clock_Backoff :: "int64 \<Rightarrow> nat"

text \<open>\<open>ctrl.Result\<close>: the seconds until the next reconciliation, if one is requested.\<close>

type_synonym Result = "nat option"

text \<open>The variables of the loop over the blueprints.\<close>

record 'w rec_state =
  Rec_Blueprints :: "(string, MetaBlueprint) fmap"
  Rec_Error :: string
  Rec_Assets :: asset_status
  Rec_Ready :: bool
  Rec_Errors :: "string list"
  Rec_World :: 'w

definition new_blueprint :: "Plotter \<Rightarrow> string \<Rightarrow> BlueprintSpec \<Rightarrow> Blueprint" where
  "new_blueprint plotter cluster spec =
     Blueprint_zero
       \<lparr>Blueprint_Meta := (Blueprint_Meta Blueprint_zero)
          \<lparr>Meta_Name := Meta_Name (Plotter_Meta plotter),
           Meta_Namespace := Meta_Namespace (Plotter_Meta plotter),
           Meta_ClusterName := cluster,
           Meta_Labels :=
             fmupd ''razee/watch-resource'' ''debug''
               (fmupd ApplicationNameLabel (fmget [] (Meta_Labels (Plotter_Meta plotter)) ApplicationNameLabel)
                 (fmupd ApplicationNamespaceLabel
                   (fmget [] (Meta_Labels (Plotter_Meta plotter)) ApplicationNamespaceLabel) fmempty)),
           Meta_Annotations :=
             fmupd FybrikAppUUID
               (GetFybrikApplicationUUIDfromAnnotations (Meta_Annotations (Plotter_Meta plotter))) fmempty\<rparr>,
        Blueprint_Spec := spec\<rparr>"

text \<open>The branch for a cluster that has no status yet.\<close>

definition create_step ::
  "range_ord \<Rightarrow> 'w ClusterManager \<Rightarrow> Plotter \<Rightarrow> string \<Rightarrow> BlueprintSpec \<Rightarrow> 'w rec_state \<Rightarrow> 'w rec_state" where
  "create_step ord cm plotter cluster spec st =
     (let blueprint = new_blueprint plotter cluster spec
      in case CreateBlueprint cm cluster blueprint (Rec_World st) of
           (Some err, w) \<Rightarrow>
             st\<lparr>Rec_World := w, Rec_Errors := Rec_Errors st @ [err],
                Rec_Assets := setPlotterAssetsReadyStateToFalse ord (Rec_Assets st) spec err\<rparr>
         | (None, w) \<Rightarrow>
             st\<lparr>Rec_World := w,
                Rec_Blueprints :=
                  fmupd cluster (CreateMetaBlueprintWithoutState blueprint) (Rec_Blueprints st),
                Rec_Ready := False,
                Rec_Assets := setPlotterAssetsReadyStateToFalse ord (Rec_Assets st) spec
                  ''Blueprint just created''\<rparr>)"

text \<open>The branch for a remote blueprint whose specification is another one.\<close>

definition update_step ::
  "range_ord \<Rightarrow> 'w ClusterManager \<Rightarrow> Plotter \<Rightarrow> string \<Rightarrow> BlueprintSpec \<Rightarrow> Blueprint \<Rightarrow>
     'w rec_state \<Rightarrow> 'w rec_state" where
  "update_step ord cm plotter cluster spec remote st =
     (if Meta_Generation (Plotter_Meta plotter) \<noteq>
         PlotterStatus_ObservedGeneration (Plotter_Status plotter)
      then
        let remote' = remote\<lparr>Blueprint_Spec := spec,
                             Blueprint_Meta := (Blueprint_Meta remote)\<lparr>Meta_Annotations := fmempty\<rparr>\<rparr>
        in case UpdateBlueprint cm cluster remote' (Rec_World st) of
             (Some err, w) \<Rightarrow>
               st\<lparr>Rec_World := w, Rec_Errors := Rec_Errors st @ [err], Rec_Ready := False,
                  Rec_Assets := setPlotterAssetsReadyStateToFalse ord (Rec_Assets st) spec err\<rparr>
           | (None, w) \<Rightarrow>
               st\<lparr>Rec_World := w,
                  Rec_Blueprints :=
                    fmupd cluster (CreateMetaBlueprintWithoutState remote') (Rec_Blueprints st),
                  Rec_Ready := False,
                  Rec_Assets := setPlotterAssetsReadyStateToFalse ord (Rec_Assets st) spec
                    ''Blueprint changes just applied''\<rparr>
      else
        st\<lparr>Rec_Ready := False, Rec_Assets := updatePlotterAssetsState ord (Rec_Assets st) remote\<rparr>)"

text \<open>The branch for a remote blueprint that is up to date.\<close>

definition observe_step ::
  "range_ord \<Rightarrow> string \<Rightarrow> Blueprint \<Rightarrow> 'w rec_state \<Rightarrow> 'w rec_state" where
  "observe_step ord cluster remote st =
     (let observed = BlueprintStatus_ObservedState (Blueprint_Status remote)
      in st\<lparr>Rec_Blueprints := fmupd cluster (CreateMetaBlueprint remote) (Rec_Blueprints st),
            Rec_Ready := Rec_Ready st \<and> ObservedState_Ready observed,
            Rec_Error :=
              (if ObservedState_Error observed \<noteq> [] then ObservedState_Error observed else Rec_Error st),
            Rec_Assets := updatePlotterAssetsState ord (Rec_Assets st) remote\<rparr>)"

text \<open>One iteration; \<open>Inl\<close> is the return after a blueprint could not be fetched.\<close>

definition cluster_step ::
  "range_ord \<Rightarrow> 'w ClusterManager \<Rightarrow> Plotter \<Rightarrow> string \<times> BlueprintSpec \<Rightarrow> 'w rec_state \<Rightarrow>
     'w rec_state + 'w rec_state" where
  "cluster_step ord cm plotter kv st =
     (case kv of (cluster, spec) \<Rightarrow>
        (case fmlookup (Rec_Blueprints st) cluster of
           None \<Rightarrow> Inr (create_step ord cm plotter cluster spec st)
         | Some blueprint \<Rightarrow>
             (case GetBlueprint cm (Rec_World st) cluster (MetaBlueprint_Namespace blueprint)
                     (MetaBlueprint_Name blueprint) of
                (_, Some err) \<Rightarrow> Inl (st\<lparr>Rec_Errors := Rec_Errors st @ [err]\<rparr>)
              | (None, None) \<Rightarrow>
                  Inr (st\<lparr>Rec_Ready := False,
                          Rec_Assets := setPlotterAssetsReadyStateToFalse ord (Rec_Assets st) spec
                            ''Could not yet find remote blueprint''\<rparr>)
              | (Some remote, None) \<Rightarrow>
                  if spec \<noteq> Blueprint_Spec remote
                  then Inr (update_step ord cm plotter cluster spec remote st)
                  else Inr (observe_step ord cluster remote st))))"

definition tidy_step ::
  "'w ClusterManager \<Rightarrow> (string, BlueprintSpec) fmap \<Rightarrow> string \<times> MetaBlueprint \<Rightarrow> 'w rec_state \<Rightarrow> 'w rec_state" where
  "tidy_step cm blueprintsMap kv st =
     (case kv of (cluster, remote) \<Rightarrow>
        if fmlookup blueprintsMap cluster \<noteq> None then st
        else
          (case DeleteBlueprint cm cluster (MetaBlueprint_Namespace remote) (MetaBlueprint_Name remote)
                  (Rec_World st) of
             (err, w) \<Rightarrow>
               if err \<noteq> None \<and>
                  \<not> strings_HasPrefix (the err)
                      ''Query channelByName error. Could not find the channel with name''
               then st\<lparr>Rec_World := w, Rec_Errors := Rec_Errors st @ [the err]\<rparr>
               else st\<lparr>Rec_World := w, Rec_Blueprints := fmdrop cluster (Rec_Blueprints st)\<rparr>))"

definition aggregate_errors :: "string list \<Rightarrow> string" where
  "aggregate_errors errs = concat (map (\<lambda>e. e @ [CHR 0x0A]) errs)"

text \<open>The status that an early return leaves: the fields the loop had already changed.\<close>

definition interrupted :: "Plotter \<Rightarrow> 'w rec_state \<Rightarrow> Plotter" where
  "interrupted plotter st =
     plotter\<lparr>Plotter_Status := (Plotter_Status plotter)
       \<lparr>PlotterStatus_Blueprints := Rec_Blueprints st,
        PlotterStatus_ObservedState := (PlotterStatus_ObservedState (Plotter_Status plotter))
          \<lparr>ObservedState_Error := Rec_Error st\<rparr>\<rparr>\<rparr>"

definition finished :: "Clock \<Rightarrow> Plotter \<Rightarrow> 'w rec_state \<Rightarrow> Plotter" where
  "finished clock plotter st =
     plotter\<lparr>Plotter_Status := (Plotter_Status plotter)
       \<lparr>PlotterStatus_Blueprints := Rec_Blueprints st,
        PlotterStatus_ObservedGeneration := Meta_Generation (Plotter_Meta plotter),
        PlotterStatus_Assets := Rec_Assets st,
        PlotterStatus_ObservedState :=
          \<lparr>ObservedState_Ready = Rec_Ready st,
           ObservedState_Error =
             (if \<not> Rec_Ready st \<and> Rec_Error st = [] \<and> Rec_Errors st \<noteq> []
              then aggregate_errors (Rec_Errors st) else Rec_Error st)\<rparr>,
        PlotterStatus_ReadyTimestamp :=
          (if Rec_Ready st
           then Some (case PlotterStatus_ReadyTimestamp (Plotter_Status plotter) of
                        None \<Rightarrow> Clock_Now clock | Some t \<Rightarrow> t)
           else None)\<rparr>\<rparr>"

definition finished_result :: "Clock \<Rightarrow> Plotter \<Rightarrow> 'w rec_state \<Rightarrow> Result" where
  "finished_result clock plotter st =
     (if Rec_Ready st
      then if Rec_Errors st = [] then None
           else Some (4 + Clock_Backoff clock
             (case PlotterStatus_ReadyTimestamp (Plotter_Status plotter) of
                None \<Rightarrow> Clock_Now clock | Some t \<Rightarrow> t))
      else Some 5)"

definition start_state :: "Plotter \<Rightarrow> 'w \<Rightarrow> 'w rec_state" where
  "start_state plotter w =
     \<lparr>Rec_Blueprints = PlotterStatus_Blueprints (Plotter_Status plotter), Rec_Error = [],
      Rec_Assets = fmempty, Rec_Ready = True, Rec_Errors = [], Rec_World = w\<rparr>"

definition plotter_reconcile ::
  "go_env \<Rightarrow> range_ord \<Rightarrow> Clock \<Rightarrow> 'w ClusterManager \<Rightarrow> Plotter \<Rightarrow> 'w \<Rightarrow>
     ((Result \<times> string list) \<times> Plotter \<times> 'w) go" where
  "plotter_reconcile env ord clock cm plotter w =
     go_bind (getBlueprintsMap env ord cm plotter w) (\<lambda>blueprintsMap.
       (case go_loop (cluster_step ord cm plotter) (fmrange ord blueprintsMap) (start_state plotter w) of
          Inl st \<Rightarrow>
            Ok ((Some (4 + Clock_Backoff clock (Clock_Now clock)), Rec_Errors st),
                interrupted plotter st, Rec_World st)
        | Inr st \<Rightarrow>
            let st' = fold (tidy_step cm blueprintsMap) (fmrange ord (Rec_Blueprints st)) st
            in Ok ((finished_result clock plotter st', Rec_Errors st'),
                   finished clock plotter st', Rec_World st')))"

section \<open>A ready plotter\<close>

definition clean :: "'w rec_state \<Rightarrow> bool" where
  "clean st \<longleftrightarrow> Rec_Ready st \<and> Rec_Errors st = []"

text \<open>The remote blueprint of a cluster, as the status of the plotter locates it, is up to date and ready.\<close>

definition remote_ready ::
  "'w ClusterManager \<Rightarrow> 'w \<Rightarrow> (string, MetaBlueprint) fmap \<Rightarrow> string \<Rightarrow> BlueprintSpec \<Rightarrow> bool" where
  "remote_ready cm w blueprints cluster spec \<longleftrightarrow>
     (case fmlookup blueprints cluster of
        None \<Rightarrow> False
      | Some meta \<Rightarrow>
          (case GetBlueprint cm w cluster (MetaBlueprint_Namespace meta) (MetaBlueprint_Name meta) of
             (Some remote, None) \<Rightarrow>
               Blueprint_Spec remote = spec \<and>
               ObservedState_Ready (BlueprintStatus_ObservedState (Blueprint_Status remote))
           | _ \<Rightarrow> False))"

lemma cluster_step_clean:
  assumes "cluster_step ord cm plotter (cluster, spec) st = Inr st'" and "clean st'"
  shows "clean st" and "Rec_World st' = Rec_World st"
    and "remote_ready cm (Rec_World st) (Rec_Blueprints st) cluster spec"
    and "\<And>c. c \<noteq> cluster \<Longrightarrow> fmlookup (Rec_Blueprints st') c = fmlookup (Rec_Blueprints st) c"
  using assms
  by (auto simp: cluster_step_def create_step_def update_step_def observe_step_def clean_def
      remote_ready_def Let_def split: option.splits prod.splits if_splits)

lemma cluster_loop_clean:
  assumes "go_loop (cluster_step ord cm plotter) kvs st = Inr st'" and "clean st'"
    and "distinct (map fst kvs)"
  shows "clean st \<and> Rec_World st' = Rec_World st \<and>
    (\<forall>(cluster, spec)\<in>set kvs. remote_ready cm (Rec_World st) (Rec_Blueprints st) cluster spec)"
  using assms
proof (induction kvs arbitrary: st)
  case Nil
  then show ?case by simp
next
  case (Cons kv kvs)
  obtain cluster spec where kv: "kv = (cluster, spec)" by (cases kv)
  from Cons.prems(1) obtain st1 where
    1: "cluster_step ord cm plotter (cluster, spec) st = Inr st1"
    "go_loop (cluster_step ord cm plotter) kvs st1 = Inr st'"
    by (auto simp: kv split: sum.splits)
  from Cons.IH [OF 1(2) Cons.prems(2)] Cons.prems(3)
  have rest: "clean st1" "Rec_World st' = Rec_World st1"
    "\<forall>(cluster, spec)\<in>set kvs. remote_ready cm (Rec_World st1) (Rec_Blueprints st1) cluster spec"
    by auto
  note step = cluster_step_clean [OF 1(1) rest(1)]
  have "remote_ready cm (Rec_World st) (Rec_Blueprints st) c s" if "(c, s) \<in> set kvs" for c s
  proof -
    have "c \<noteq> cluster" using that Cons.prems(3) by (force simp: kv)
    with rest(3) that step(2,4) show ?thesis by (force simp: remote_ready_def)
  qed
  with step rest show ?case by (auto simp: kv)
qed

lemma tidy_step_clean: "clean (tidy_step cm m kv st) \<Longrightarrow> clean st"
  by (auto simp: tidy_step_def clean_def split: prod.splits if_splits)

lemma tidy_fold_clean: "clean (fold (tidy_step cm m) kvs st) \<Longrightarrow> clean st"
  by (induction kvs arbitrary: st) (auto dest: tidy_step_clean)

lemma cluster_step_Inl:
  "cluster_step ord cm plotter kv st = Inl st' \<Longrightarrow> \<exists>err. st' = st\<lparr>Rec_Errors := Rec_Errors st @ [err]\<rparr>"
  by (auto simp: cluster_step_def split: option.split_asm prod.split_asm if_splits)

lemma cluster_loop_error:
  "go_loop (cluster_step ord cm plotter) kvs st = Inl st' \<Longrightarrow> Rec_Errors st' \<noteq> []"
  using go_loop_early [of "cluster_step ord cm plotter" kvs st st'] cluster_step_Inl by fastforce

text \<open>A reconciliation without errors runs both loops to their end.\<close>

lemma plotter_reconcile_clean_end:
  assumes bps: "getBlueprintsMap env ord cm plotter w = Ok bps"
    and rec: "plotter_reconcile env ord clock cm plotter w = Ok ((result, []), plotter', w')"
  obtains st st' where
    "go_loop (cluster_step ord cm plotter) (fmrange ord bps) (start_state plotter w) = Inr st"
    "st' = fold (tidy_step cm bps) (fmrange ord (Rec_Blueprints st)) st"
    "Rec_Errors st' = []" "plotter' = finished clock plotter st'" "w' = Rec_World st'"
proof (cases "go_loop (cluster_step ord cm plotter) (fmrange ord bps) (start_state plotter w)")
  case (Inl st)
  with bps rec have "Rec_Errors st = []" by (simp add: plotter_reconcile_def)
  with cluster_loop_error [OF Inl] show ?thesis by simp
next
  case (Inr st)
  with bps rec show ?thesis by (intro that [OF Inr refl]) (simp_all add: plotter_reconcile_def Let_def)
qed

lemma plotter_reconcile_ready:
  assumes "range_order ord" and "getBlueprintsMap env ord cm plotter w = Ok bps"
    and "plotter_reconcile env ord clock cm plotter w = Ok ((result, []), plotter', w')"
    and "ObservedState_Ready (PlotterStatus_ObservedState (Plotter_Status plotter'))"
    and "fmlookup bps cluster = Some spec"
  shows "remote_ready cm w (PlotterStatus_Blueprints (Plotter_Status plotter)) cluster spec"
proof -
  from assms(2,3) obtain st st' where
    st: "go_loop (cluster_step ord cm plotter) (fmrange ord bps) (start_state plotter w) = Inr st"
      "st' = fold (tidy_step cm bps) (fmrange ord (Rec_Blueprints st)) st"
      "Rec_Errors st' = []" "plotter' = finished clock plotter st'"
    by (rule plotter_reconcile_clean_end)
  with assms(4) have "clean st'" by (simp add: clean_def finished_def)
  then have "clean st" unfolding st(2) by (rule tidy_fold_clean)
  from cluster_loop_clean [OF st(1) this fmrange_distinct_fst [OF assms(1)]]
  have "\<forall>(c, spec)\<in>set (fmrange ord bps).
      remote_ready cm w (PlotterStatus_Blueprints (Plotter_Status plotter)) c spec"
    by (simp add: start_state_def)
  moreover have "(cluster, spec) \<in> set (fmrange ord bps)"
    using assms(5) by (simp add: fmrange_set [OF assms(1)])
  ultimately show ?thesis by fast
qed

text \<open>
  C14: A reconciliation that reports a ready plotter and no error has found, in every cluster for which
  the plotter defines a blueprint, a remote blueprint with exactly that specification that is itself
  ready.
\<close>

theorem plotter_ready:
  assumes "range_order ord" and "getBlueprintsMap env ord cm plotter w = Ok bps"
    and "plotter_reconcile env ord clock cm plotter w = Ok ((result, []), plotter', w')"
    and "ObservedState_Ready (PlotterStatus_ObservedState (Plotter_Status plotter'))"
    and "fmlookup bps cluster = Some spec"
  shows "remote_ready cm w (PlotterStatus_Blueprints (Plotter_Status plotter)) cluster spec"
  by (rule plotter_reconcile_ready [OF assms])

section \<open>Convergence\<close>

text \<open>
  The client of the cluster managers: with any manager that keeps its contract, one reconciliation of
  a changed plotter without errors brings every cluster to the wanted blueprint. The laws of the
  locale give the effect of each branch, and the frame laws that the clusters do not disturb each
  other.
\<close>

context cluster_manager
begin

text \<open>The blueprint that a recorded location leads to.\<close>

definition at_meta :: "'w \<Rightarrow> string \<Rightarrow> MetaBlueprint \<Rightarrow> BlueprintSpec option" where
  "at_meta w c meta = deployed w c (MetaBlueprint_Namespace meta) (MetaBlueprint_Name meta)"

definition converged :: "'w rec_state \<Rightarrow> string \<Rightarrow> BlueprintSpec \<Rightarrow> bool" where
  "converged st c spec \<longleftrightarrow>
     (\<exists>meta. fmlookup (Rec_Blueprints st) c = Some meta \<and> at_meta (Rec_World st) c meta = Some spec)"

lemma create_converged:
  assumes "Rec_Errors (create_step ord cm plotter c spec st) = Rec_Errors st"
  shows "converged (create_step ord cm plotter c spec st) c spec"
proof -
  obtain err w where cr: "CreateBlueprint cm c (new_blueprint plotter c spec) (Rec_World st) = (err, w)"
    by (cases "CreateBlueprint cm c (new_blueprint plotter c spec) (Rec_World st)")
  with assms have "err = None" by (cases err) (auto simp: create_step_def)
  with deployed_create [of c "new_blueprint plotter c spec" "Rec_World st" w] cr show ?thesis
    by (simp add: create_step_def converged_def at_meta_def CreateMetaBlueprintWithoutState_def
        new_blueprint_def)
qed

lemma update_converged:
  assumes "Rec_Errors (update_step ord cm plotter c spec remote st) = Rec_Errors st"
    and "Meta_Generation (Plotter_Meta plotter) \<noteq> PlotterStatus_ObservedGeneration (Plotter_Status plotter)"
  shows "converged (update_step ord cm plotter c spec remote st) c spec"
proof -
  let ?b = "remote\<lparr>Blueprint_Spec := spec,
    Blueprint_Meta := (Blueprint_Meta remote)\<lparr>Meta_Annotations := fmempty\<rparr>\<rparr>"
  obtain err w where up: "UpdateBlueprint cm c ?b (Rec_World st) = (err, w)"
    by (cases "UpdateBlueprint cm c ?b (Rec_World st)")
  with assms have "err = None" by (cases err) (auto simp: update_step_def)
  with deployed_update [of c ?b "Rec_World st" w] up assms(2) show ?thesis
    by (simp add: update_step_def converged_def at_meta_def CreateMetaBlueprintWithoutState_def)
qed

lemma observe_converged:
  assumes "GetBlueprint cm (Rec_World st) c ns name = (Some remote, None)"
  shows "converged (observe_step ord c remote st) c (Blueprint_Spec remote)"
  using get_self [OF assms]
  by (simp add: observe_step_def converged_def at_meta_def deployed_def CreateMetaBlueprint_def Let_def)

text \<open>
  A cluster is settled when the wanted blueprint is at the recorded location, or the manager reports
  that it has not found it yet.
\<close>

definition settled_at :: "'w \<Rightarrow> (string, MetaBlueprint) fmap \<Rightarrow> string \<Rightarrow> BlueprintSpec \<Rightarrow> bool" where
  "settled_at w blueprints c spec \<longleftrightarrow>
     (\<exists>meta. fmlookup blueprints c = Some meta \<and>
        (at_meta w c meta = Some spec \<or>
         GetBlueprint cm w c (MetaBlueprint_Namespace meta) (MetaBlueprint_Name meta) = (None, None)))"

definition settled :: "'w rec_state \<Rightarrow> string \<Rightarrow> BlueprintSpec \<Rightarrow> bool" where
  "settled st c spec \<longleftrightarrow> settled_at (Rec_World st) (Rec_Blueprints st) c spec"

lemma settled_cong:
  assumes "fmlookup (Rec_Blueprints st') c = fmlookup (Rec_Blueprints st) c"
    and "\<And>ns name. GetBlueprint cm (Rec_World st') c ns name = GetBlueprint cm (Rec_World st) c ns name"
  shows "settled st' c spec \<longleftrightarrow> settled st c spec"
  by (simp add: settled_def settled_at_def at_meta_def deployed_def assms)

text \<open>A step for one cluster leaves the location and the blueprint of the others alone.\<close>

lemma cluster_step_frame:
  assumes "cluster_step ord cm plotter (c, spec) st = Inr st'" and "c' \<noteq> c"
  shows "fmlookup (Rec_Blueprints st') c' = fmlookup (Rec_Blueprints st) c'"
    and "GetBlueprint cm (Rec_World st') c' ns name = GetBlueprint cm (Rec_World st) c' ns name"
proof -
  show "fmlookup (Rec_Blueprints st') c' = fmlookup (Rec_Blueprints st) c'"
    using assms by (auto simp: cluster_step_def create_step_def update_step_def observe_step_def Let_def
        split: option.splits prod.splits if_splits)
  have "Rec_World st' = Rec_World st \<or> (\<exists>b. Rec_World st' = snd (CreateBlueprint cm c b (Rec_World st))) \<or>
      (\<exists>b. Rec_World st' = snd (UpdateBlueprint cm c b (Rec_World st)))"
    using assms(1) by (auto simp: cluster_step_def create_step_def update_step_def observe_step_def Let_def
        split: option.splits prod.splits if_splits) (metis snd_conv)+
  then show "GetBlueprint cm (Rec_World st') c' ns name = GetBlueprint cm (Rec_World st) c' ns name"
    using frame_create [OF assms(2)] frame_update [OF assms(2)] by auto
qed

lemma cluster_step_errors:
  "cluster_step ord cm plotter kv st = Inr st' \<Longrightarrow> Rec_Errors st' = [] \<Longrightarrow> Rec_Errors st = []"
  by (auto simp: cluster_step_def create_step_def update_step_def observe_step_def Let_def
      split: option.splits prod.splits if_splits)

lemma cluster_step_settled:
  assumes step: "cluster_step ord cm plotter (c, spec) st = Inr st'" and none: "Rec_Errors st' = []"
    and gen: "Meta_Generation (Plotter_Meta plotter) \<noteq> PlotterStatus_ObservedGeneration (Plotter_Status plotter)"
  shows "settled st' c spec"
proof (cases "fmlookup (Rec_Blueprints st) c")
  case None
  with step have "st' = create_step ord cm plotter c spec st" by (simp add: cluster_step_def)
  with create_converged [of ord plotter c spec st] none cluster_step_errors [OF step none]
  show ?thesis by (auto simp: settled_def settled_at_def converged_def)
next
  case (Some meta)
  obtain remote err where get: "GetBlueprint cm (Rec_World st) c (MetaBlueprint_Namespace meta)
      (MetaBlueprint_Name meta) = (remote, err)" by fastforce
  with step Some have err: "err = None"
    by (cases err; cases remote) (auto simp: cluster_step_def)
  show ?thesis
  proof (cases remote)
    case None
    with step Some get err show ?thesis by (auto simp: cluster_step_def settled_def settled_at_def)
  next
    case remote: (Some b)
    show ?thesis
    proof (cases "spec = Blueprint_Spec b")
      case True
      with step Some get err remote have "st' = observe_step ord c b st" by (simp add: cluster_step_def)
      with observe_converged [of st c _ _ b ord] get err remote True show ?thesis
        by (auto simp: settled_def settled_at_def converged_def)
    next
      case False
      with step Some get err remote have "st' = update_step ord cm plotter c spec b st"
        by (simp add: cluster_step_def)
      with update_converged [of ord plotter c spec b st] none cluster_step_errors [OF step none] gen
      show ?thesis by (auto simp: settled_def settled_at_def converged_def)
    qed
  qed
qed

lemma cluster_loop_settled:
  assumes "go_loop (cluster_step ord cm plotter) kvs st = Inr st'" and "Rec_Errors st' = []"
    and "distinct (map fst kvs)"
    and gen: "Meta_Generation (Plotter_Meta plotter) \<noteq> PlotterStatus_ObservedGeneration (Plotter_Status plotter)"
  shows "Rec_Errors st = [] \<and> (\<forall>(c, spec)\<in>set kvs. settled st' c spec) \<and>
    (\<forall>c spec. c \<notin> fst ` set kvs \<longrightarrow> settled st' c spec = settled st c spec)"
  using assms(1-3)
proof (induction kvs arbitrary: st)
  case Nil
  then show ?case by simp
next
  case (Cons kv kvs)
  obtain c spec where kv: "kv = (c, spec)" by (cases kv)
  from Cons.prems(1) obtain st1 where
    1: "cluster_step ord cm plotter (c, spec) st = Inr st1"
    "go_loop (cluster_step ord cm plotter) kvs st1 = Inr st'"
    by (auto simp: kv split: sum.splits)
  from Cons.IH [OF 1(2)] Cons.prems(2,3)
  have rest: "Rec_Errors st1 = []" "\<forall>(c, spec)\<in>set kvs. settled st' c spec"
    "\<forall>c spec. c \<notin> fst ` set kvs \<longrightarrow> settled st' c spec = settled st1 c spec" by auto
  have "settled st' c spec"
    using rest(3) Cons.prems(3) cluster_step_settled [OF 1(1) rest(1) gen] by (auto simp: kv)
  moreover have "settled st1 c' s = settled st c' s" if "c' \<noteq> c" for c' s
    using cluster_step_frame [OF 1(1) that] by (intro settled_cong) auto
  ultimately show ?case using rest cluster_step_errors [OF 1(1) rest(1)] by (auto simp: kv)
qed

text \<open>Tidying up touches only clusters without a wanted blueprint.\<close>

lemma tidy_step_errors: "Rec_Errors (tidy_step cm m kv st) = [] \<Longrightarrow> Rec_Errors st = []"
  by (auto simp: tidy_step_def split: prod.splits if_splits)

lemma tidy_fold_errors: "Rec_Errors (fold (tidy_step cm m) kvs st) = [] \<Longrightarrow> Rec_Errors st = []"
proof (induction kvs arbitrary: st)
  case (Cons kv kvs)
  from Cons.prems have "Rec_Errors (fold (tidy_step cm m) kvs (tidy_step cm m kv st)) = []" by simp
  then have "Rec_Errors (tidy_step cm m kv st) = []" by (rule Cons.IH)
  then show ?case by (rule tidy_step_errors)
qed simp

lemma tidy_step_settled:
  assumes "fmlookup m c \<noteq> None"
  shows "settled (tidy_step cm m kv st) c spec \<longleftrightarrow> settled st c spec"
proof (cases "fmlookup m (fst kv) = None")
  case True
  then have ne: "c \<noteq> fst kv" using assms by auto
  have "fmlookup (Rec_Blueprints (tidy_step cm m kv st)) c = fmlookup (Rec_Blueprints st) c"
    using ne by (auto simp: tidy_step_def split: prod.splits)
  moreover have "Rec_World (tidy_step cm m kv st) = snd (DeleteBlueprint cm (fst kv)
      (MetaBlueprint_Namespace (snd kv)) (MetaBlueprint_Name (snd kv)) (Rec_World st))"
    using True by (auto simp: tidy_step_def split: prod.splits)
  ultimately show ?thesis by (intro settled_cong) (simp_all add: frame_delete [OF ne])
next
  case False
  then have "tidy_step cm m kv st = st" by (cases kv) (auto simp: tidy_step_def)
  then show ?thesis by simp
qed

lemma tidy_fold_settled:
  "fmlookup m c \<noteq> None \<Longrightarrow> settled (fold (tidy_step cm m) kvs st) c spec \<longleftrightarrow> settled st c spec"
  by (induction kvs arbitrary: st) (simp_all add: tidy_step_settled)

lemma tidy_step_removes:
  assumes "Rec_Errors (tidy_step cm m kv st) = []" and "fmlookup m (fst kv) = None"
  shows "Rec_Blueprints (tidy_step cm m kv st) = fmdrop (fst kv) (Rec_Blueprints st)"
  using assms by (auto simp: tidy_step_def split: prod.splits if_splits)

lemma tidy_step_keeps: "fmlookup (Rec_Blueprints st) c = None \<Longrightarrow>
    fmlookup (Rec_Blueprints (tidy_step cm m kv st)) c = None"
  by (auto simp: tidy_step_def split: prod.splits)

lemma tidy_fold_keeps: "fmlookup (Rec_Blueprints st) c = None \<Longrightarrow>
    fmlookup (Rec_Blueprints (fold (tidy_step cm m) kvs st)) c = None"
  by (induction kvs arbitrary: st) (simp_all add: tidy_step_keeps)

lemma tidy_fold_removes:
  assumes "Rec_Errors (fold (tidy_step cm m) kvs st) = []" and "fmlookup m c = None"
    and "c \<in> fst ` set kvs"
  shows "fmlookup (Rec_Blueprints (fold (tidy_step cm m) kvs st)) c = None"
  using assms
proof (induction kvs arbitrary: st)
  case Nil
  then show ?case by simp
next
  case (Cons kv kvs)
  show ?case
  proof (cases "c = fst kv")
    case True
    from Cons.prems(1) have "Rec_Errors (fold (tidy_step cm m) kvs (tidy_step cm m kv st)) = []" by simp
    then have "Rec_Errors (tidy_step cm m kv st) = []" by (rule tidy_fold_errors)
    from tidy_step_removes [OF this] True Cons.prems(2)
    have "fmlookup (Rec_Blueprints (tidy_step cm m kv st)) c = None" by simp
    then show ?thesis by (simp add: tidy_fold_keeps)
  next
    case False
    with Cons show ?thesis by auto
  qed
qed

lemma reconcile_settles:
  assumes ord: "range_order ord" and bps: "getBlueprintsMap env ord cm plotter w = Ok bps"
    and rec: "plotter_reconcile env ord clock cm plotter w = Ok ((result, []), plotter', w')"
    and gen: "Meta_Generation (Plotter_Meta plotter) \<noteq> PlotterStatus_ObservedGeneration (Plotter_Status plotter)"
  shows "(\<forall>c spec. fmlookup bps c = Some spec \<longrightarrow>
      settled_at w' (PlotterStatus_Blueprints (Plotter_Status plotter')) c spec) \<and>
    (\<forall>c. fmlookup bps c = None \<longrightarrow> fmlookup (PlotterStatus_Blueprints (Plotter_Status plotter')) c = None)"
proof -
  from bps rec obtain st st' where
    st: "go_loop (cluster_step ord cm plotter) (fmrange ord bps) (start_state plotter w) = Inr st"
      "st' = fold (tidy_step cm bps) (fmrange ord (Rec_Blueprints st)) st"
      "Rec_Errors st' = []" "plotter' = finished clock plotter st'" "w' = Rec_World st'"
    by (rule plotter_reconcile_clean_end)
  note tidy = st(3) [unfolded st(2)]
  note loop = cluster_loop_settled [OF st(1) tidy_fold_errors [OF tidy] fmrange_distinct_fst [OF ord] gen,
      THEN conjunct2, THEN conjunct1]
  have "settled st' c spec" if some: "fmlookup bps c = Some spec" for c spec
  proof -
    from some have "(c, spec) \<in> set (fmrange ord bps)" by (simp add: fmrange_set [OF ord])
    with loop have "settled st c spec" by fast
    with some show ?thesis unfolding st(2) by (simp add: tidy_fold_settled)
  qed
  moreover have "fmlookup (Rec_Blueprints st') c = None" if none: "fmlookup bps c = None" for c
  proof (cases "fmlookup (Rec_Blueprints st) c")
    case None
    then show ?thesis unfolding st(2) by (rule tidy_fold_keeps)
  next
    case (Some meta)
    then have "(c, meta) \<in> set (fmrange ord (Rec_Blueprints st))" by (simp add: fmrange_set [OF ord])
    then have "c \<in> fst ` set (fmrange ord (Rec_Blueprints st))" by force
    then show ?thesis unfolding st(2) by (rule tidy_fold_removes [OF tidy none])
  qed
  ultimately show ?thesis by (simp add: st(4,5) finished_def settled_def)
qed

end


section \<open>A plotter with two clusters\<close>

text \<open>The plotter that the generator builds for the sample application, before its first reconciliation.\<close>

definition sample_flow_plotter :: Plotter where
  "sample_flow_plotter = sample_plotter
     \<lparr>Plotter_Meta := (Plotter_Meta sample_plotter)\<lparr>Meta_Generation := 1\<rparr>,
      Plotter_Spec := added_spec (sample_add sample_plotter_generator sample_item sample_spec0)\<rparr>"

definition sample_clock :: Clock where
  "sample_clock = \<lparr>Clock_Now = 0, Clock_Backoff = (\<lambda>_. 0)\<rparr>"

definition sample_bps :: "(string, BlueprintSpec) fmap" where
  "sample_bps = ok_value fmempty (getBlueprintsMap sample_env sorted_list_of_fset Mock_manager
     sample_flow_plotter (NewDummyClusterManager fmempty None))"

definition sample_reconcile ::
  "Plotter \<Rightarrow> MockClusterManager \<Rightarrow> (Result \<times> string list) \<times> Plotter \<times> MockClusterManager" where
  "sample_reconcile plotter w = ok_value ((None, [[]]), plotter, w)
     (plotter_reconcile sample_env sorted_list_of_fset sample_clock Mock_manager plotter w)"

text \<open>The second reconciliation finds the blueprints that the first one created, now ready.\<close>

definition sample_created :: "Plotter \<times> MockClusterManager" where
  "sample_created = snd (sample_reconcile sample_flow_plotter (NewDummyClusterManager fmempty None))"

definition sample_deployed :: MockClusterManager where
  "sample_deployed = (snd sample_created)
     \<lparr>DeployedBlueprints := fmmap (\<lambda>b. b\<lparr>Blueprint_Status := (Blueprint_Status b)
        \<lparr>BlueprintStatus_ObservedState := \<lparr>ObservedState_Ready = True, ObservedState_Error = []\<rparr>\<rparr>\<rparr>)
        (DeployedBlueprints (snd sample_created))\<rparr>"

lemma sample_reconcile_Ok:
  "snd (fst (sample_reconcile plotter w)) = [] \<Longrightarrow>
   plotter_reconcile sample_env sorted_list_of_fset sample_clock Mock_manager plotter w =
     Ok ((fst (fst (sample_reconcile plotter w)), []), snd (sample_reconcile plotter w))"
  unfolding sample_reconcile_def
  by (cases "plotter_reconcile sample_env sorted_list_of_fset sample_clock Mock_manager plotter w"; auto)

lemma sample_bps_Ok: "getBlueprintsMap sample_env sorted_list_of_fset Mock_manager
    sample_flow_plotter (NewDummyClusterManager fmempty None) = Ok sample_bps"
proof -
  have "is_ok (getBlueprintsMap sample_env sorted_list_of_fset Mock_manager
    sample_flow_plotter (NewDummyClusterManager fmempty None))" by code_simp
  from is_okD [OF this, of fmempty] show ?thesis by (simp add: sample_bps_def)
qed


theorem plotter_ready_witness:
  "\<exists>spec. remote_ready Mock_manager sample_deployed
     (PlotterStatus_Blueprints (Plotter_Status (fst sample_created))) ''A'' spec"
proof -
  let ?r = "sample_reconcile (fst sample_created) sample_deployed"
  let ?map = "getBlueprintsMap sample_env sorted_list_of_fset Mock_manager (fst sample_created) sample_deployed"
  have "snd (fst ?r) = []" by code_simp
  from sample_reconcile_Ok [OF this]
  have ok: "plotter_reconcile sample_env sorted_list_of_fset sample_clock Mock_manager (fst sample_created)
      sample_deployed = Ok ((fst (fst ?r), []), fst (snd ?r), snd (snd ?r))" by simp
  have "is_ok ?map" by code_simp
  note bps = is_okD [OF this, of fmempty]
  have ready: "ObservedState_Ready (PlotterStatus_ObservedState (Plotter_Status (fst (snd ?r))))"
    by code_simp
  have "fmlookup (ok_value fmempty ?map) ''A'' \<noteq> None" by code_simp
  then obtain spec where "fmlookup (ok_value fmempty ?map) ''A'' = Some spec" by blast
  from plotter_ready [OF range_order_sorted bps ok ready this] show ?thesis by blast
qed

section \<open>A plotter that is ready although nothing was deployed\<close>

text \<open>A manager that cannot create blueprints.\<close>

definition Refusing_manager :: "string \<Rightarrow> MockClusterManager ClusterManager" where
  "Refusing_manager err = Mock_manager\<lparr>CreateBlueprint := (\<lambda>_ _ w. (Some err, w))\<rparr>"


end
