(* ===== verification/Plotter_Reconcile.thy ===== *)
theory Plotter_Reconcile
  imports Plotter_Controller K8s_Client
begin

text \<open>
  \<^verbatim>\<open>src/manager/controllers/app/plotter_controller.go\<close>, the entry point \<open>Reconcile\<close> and
  \<open>reconcileFinalizers\<close>: fetching the plotter, deleting its blueprints before the finalizer goes, and
  writing its status. The API server and the clusters share the world \<open>'w\<close>.
\<close>

section \<open>Finalizers\<close>

fun delete_blueprints ::
  "'w ClusterManager \<Rightarrow> (string \<times> MetaBlueprint) list \<Rightarrow> 'w \<Rightarrow> string option \<times> 'w" where
  "delete_blueprints cm [] w = (None, w)"
| "delete_blueprints cm ((cluster, blueprint) # rest) w =
     (case DeleteBlueprint cm cluster (MetaBlueprint_Namespace blueprint) (MetaBlueprint_Name blueprint) w of
        (Some err, w1) \<Rightarrow> (Some err, w1)
      | (None, w1) \<Rightarrow> delete_blueprints cm rest w1)"

definition finalizer_name :: "string \<Rightarrow> string" where
  "finalizer_name controller = controller @ ''.finalizer''"

definition plotter_reconcileFinalizers ::
  "string \<Rightarrow> range_ord \<Rightarrow> 'w ClusterManager \<Rightarrow> (Plotter, PlotterStatus, 'w) K8sClient \<Rightarrow> Plotter \<Rightarrow> 'w \<Rightarrow>
     string option \<times> Plotter \<times> 'w" where
  "plotter_reconcileFinalizers controller ord cm cl plotter w =
     (let finalizerName = finalizer_name controller;
          hasFinalizer = K8s_ContainsFinalizer cl plotter finalizerName
      in if is_deleted Plotter_kind plotter
         then if hasFinalizer
              then (case delete_blueprints cm
                           (fmrange ord (PlotterStatus_Blueprints (Plotter_Status plotter))) w of
                      (Some err, w1) \<Rightarrow> (Some err, plotter, w1)
                    | (None, w1) \<Rightarrow>
                        (case UpdateFinalizers Plotter_kind cl (K8s_RemoveFinalizer cl finalizerName plotter) w1 of
                           (err, plotter', w2) \<Rightarrow> (map_option api_message err, plotter', w2)))
              else (None, plotter, w)
         else if \<not> hasFinalizer
              then (case UpdateFinalizers Plotter_kind cl (K8s_AddFinalizer cl finalizerName plotter) w of
                      (err, plotter', w1) \<Rightarrow> (map_option api_message err, plotter', w1))
              else (None, plotter, w))"

section \<open>Reconcile\<close>

text \<open>The result and the error of a reconciliation, and the world it leaves.\<close>

type_synonym 'w reconciled = "((Result \<times> string option) \<times> 'w) go"

definition Plotter_Reconcile ::
  "string \<Rightarrow> go_env \<Rightarrow> range_ord \<Rightarrow> Clock \<Rightarrow> 'w ClusterManager \<Rightarrow> (Plotter, PlotterStatus, 'w) K8sClient \<Rightarrow>
     NamespacedName \<Rightarrow> 'w \<Rightarrow> 'w reconciled" where
  "Plotter_Reconcile controller env ord clock cm cl req w =
     (case K8s_Get cl req w of
        Inl err \<Rightarrow> Ok ((None, map_option api_message (IgnoreNotFound err)), w)
      | Inr plotter \<Rightarrow>
          (case plotter_reconcileFinalizers controller ord cm cl plotter w of
             (Some err, _, w1) \<Rightarrow> Ok ((None, Some err), w1)
           | (None, plotter1, w1) \<Rightarrow>
               if is_deleted Plotter_kind plotter1 then Ok ((None, None), w1)
               else
                 let observedStatus = Plotter_Status plotter1
                 in go_bind (plotter_reconcile env ord clock cm plotter1 w1)
                      (\<lambda>((result, reconcileErrors), plotter2, w2).
                         case UpdateStatus Plotter_kind cl plotter2 observedStatus w2 of
                           (Some err, _, w3) \<Rightarrow>
                             Ok ((None, Some (''failed to update plotter status: '' @ api_message err)), w3)
                         | (None, _, w3) \<Rightarrow>
                             (case reconcileErrors of
                                e # _ \<Rightarrow> Ok ((None, Some (''failed to reconcile plotter: '' @ e)), w3)
                              | [] \<Rightarrow> Ok ((result, None), w3)))))"

section \<open>Properties\<close>

lemma delete_blueprints_gone:
  assumes "delete_blueprints cm kvs w = (None, w')"
    and gone: "\<And>c ns n w w'. DeleteBlueprint cm c ns n w = (None, w') \<Longrightarrow> gone w' c ns n"
    and stays: "\<And>c ns n c' ns' n' w. gone w c ns n \<Longrightarrow> gone (snd (DeleteBlueprint cm c' ns' n' w)) c ns n"
  shows "(\<forall>c ns n. gone w c ns n \<longrightarrow> gone w' c ns n) \<and>
    (\<forall>(c, b)\<in>set kvs. gone w' c (MetaBlueprint_Namespace b) (MetaBlueprint_Name b))"
  using assms(1)
proof (induction kvs arbitrary: w)
  case Nil
  then show ?case by simp
next
  case (Cons kv kvs)
  obtain c b where kv: "kv = (c, b)" by (cases kv)
  from Cons.prems kv obtain w1 where
    w1: "DeleteBlueprint cm c (MetaBlueprint_Namespace b) (MetaBlueprint_Name b) w = (None, w1)"
    and rest: "delete_blueprints cm kvs w1 = (None, w')"
    by (auto split: prod.splits option.splits)
  have "gone w1 c (MetaBlueprint_Namespace b) (MetaBlueprint_Name b)" by (rule gone [OF w1])
  moreover have "gone w1 c' ns n" if "gone w c' ns n" for c' ns n
    using stays [OF that, of c "MetaBlueprint_Namespace b" "MetaBlueprint_Name b"] w1 by simp
  ultimately show ?case using Cons.IH [OF rest] kv by auto
qed

text \<open>
  C19: The finalizer of a plotter that is being deleted is removed only in a world where every blueprint
  that its status records was deleted; if one deletion fails, the error is returned and the plotter
  keeps its finalizer.
\<close>

theorem plotter_finalizer_safe:
  assumes "range_order ord" and "is_deleted Plotter_kind plotter"
    and "K8s_ContainsFinalizer cl plotter (finalizer_name controller)"
    and "\<And>c ns n w w'. DeleteBlueprint cm c ns n w = (None, w') \<Longrightarrow> gone w' c ns n"
    and "\<And>c ns n c' ns' n' w. gone w c ns n \<Longrightarrow> gone (snd (DeleteBlueprint cm c' ns' n' w)) c ns n"
    and "plotter_reconcileFinalizers controller ord cm cl plotter w = (err, plotter', w')"
  shows "(plotter' = plotter \<and> err \<noteq> None) \<or>
    (\<exists>w1 err1. UpdateFinalizers Plotter_kind cl (K8s_RemoveFinalizer cl (finalizer_name controller) plotter) w1 =
        (err1, plotter', w') \<and> err = map_option api_message err1 \<and>
      (\<forall>c b. fmlookup (PlotterStatus_Blueprints (Plotter_Status plotter)) c = Some b \<longrightarrow>
         gone w1 c (MetaBlueprint_Namespace b) (MetaBlueprint_Name b)))"
proof -
  let ?bs = "fmrange ord (PlotterStatus_Blueprints (Plotter_Status plotter))"
  obtain derr w1 where del: "delete_blueprints cm ?bs w = (derr, w1)" by (cases "delete_blueprints cm ?bs w")
  show ?thesis
  proof (cases derr)
    case (Some e)
    with del assms(2,3,6) show ?thesis by (auto simp: plotter_reconcileFinalizers_def)
  next
    case None
    with delete_blueprints_gone [OF del [unfolded None], of gone, OF assms(4,5)]
    have "gone w1 c (MetaBlueprint_Namespace b) (MetaBlueprint_Name b)"
      if "fmlookup (PlotterStatus_Blueprints (Plotter_Status plotter)) c = Some b" for c b
      using that fmrange_set [OF assms(1), of c b "PlotterStatus_Blueprints (Plotter_Status plotter)"] by fast
    moreover from None del assms(2,3,6) obtain err1 where
      "UpdateFinalizers Plotter_kind cl (K8s_RemoveFinalizer cl (finalizer_name controller) plotter) w1 =
        (err1, plotter', w')" "err = map_option api_message err1"
      by (auto simp: plotter_reconcileFinalizers_def split: prod.splits)
    ultimately show ?thesis by blast
  qed
qed

lemma Plotter_Reconcile_end:
  assumes "K8s_Get cl req w = Inr plotter" and "\<not> is_deleted Plotter_kind plotter"
    and "K8s_ContainsFinalizer cl plotter (finalizer_name controller)"
    and "Plotter_Reconcile controller env ord clock cm cl req w = Ok ((result, None), w')"
  obtains plotter2 w2 plotter3 where
    "plotter_reconcile env ord clock cm plotter w = Ok ((result, []), plotter2, w2)"
    "UpdateStatus Plotter_kind cl plotter2 (Plotter_Status plotter) w2 = (None, plotter3, w')"
proof -
  have fin: "plotter_reconcileFinalizers controller ord cm cl plotter w = (None, plotter, w)"
    using assms(2,3) by (simp add: plotter_reconcileFinalizers_def)
  obtain res errs plotter2 w2 where
    rec: "plotter_reconcile env ord clock cm plotter w = Ok ((res, errs), plotter2, w2)"
    using assms(1,2,4) fin
    by (cases "plotter_reconcile env ord clock cm plotter w") (auto simp: Plotter_Reconcile_def)
  obtain err plotter3 w3 where
    upd: "UpdateStatus Plotter_kind cl plotter2 (Plotter_Status plotter) w2 = (err, plotter3, w3)"
    by (metis prod_cases3)
  from assms(1,2,4) fin rec upd have "err = None" "errs = []" "res = result" "w3 = w'"
    by (auto simp: Plotter_Reconcile_def split: option.splits list.splits)
  with rec upd that show ?thesis by blast
qed

lemma plotter_reconcile_meta:
  assumes "plotter_reconcile env ord clock cm plotter w = Ok (r, plotter', w')"
  shows "Plotter_Meta plotter' = Plotter_Meta plotter" "Plotter_Spec plotter' = Plotter_Spec plotter"
  using assms
  by (auto simp: plotter_reconcile_def go_bind_Ok_iff interrupted_def finished_def Let_def
      case_sum_eq_iff)


section \<open>A server beside the clusters\<close>

text \<open>The store of plotters and the dummy cluster manager in one world.\<close>

type_synonym sample_world = "Plotter api_store \<times> MockClusterManager"

abbreviation sample_client :: "(Plotter, PlotterStatus, sample_world) K8sClient" where
  "sample_client \<equiv> paired_client Plotter_kind"

definition sample_clusters :: "sample_world ClusterManager" where
  "sample_clusters =
     \<lparr>GetClusters = (\<lambda>w. Mock_GetClusters (snd w)), GetBlueprint = (\<lambda>w. Mock_GetBlueprint (snd w)),
      CreateBlueprint = (\<lambda>c b w. case Mock_CreateBlueprint c b (snd w) of (e, m) \<Rightarrow> (e, fst w, m)),
      UpdateBlueprint = (\<lambda>c b w. case Mock_UpdateBlueprint c b (snd w) of (e, m) \<Rightarrow> (e, fst w, m)),
      DeleteBlueprint = (\<lambda>c ns n w. case Mock_DeleteBlueprint c ns n (snd w) of (e, m) \<Rightarrow> (e, fst w, m))\<rparr>"

text \<open>A plotter with one module in one cluster, whose blueprint was created before.\<close>

definition sample_module_plotter :: Plotter where
  "sample_module_plotter = sample_plotter
     \<lparr>Plotter_Spec := sample_spec0
        \<lparr>PlotterSpec_Flows :=
           [\<lparr>Flow_Name = ''asset-read'', Flow_FlowType = ReadFlow, Flow_AssetID = ''asset'',
             Flow_SubFlows =
               [\<lparr>SubFlow_Name = [], SubFlow_FlowType = ReadFlow, SubFlow_Triggers = [WorkloadTrigger],
                 SubFlow_Steps = [[\<lparr>Step_Name = [], Step_Cluster = ''A'', Step_Template = ''read'',
                                     Step_Parameters = None\<rparr>]]\<rparr>]\<rparr>],
         PlotterSpec_Templates :=
           fmupd ''read'' \<lparr>Template_Name = ''read'', Template_Modules =
             [\<lparr>ModuleInfo_Name = ''reader'', ModuleInfo_Type = ''service'',
               ModuleInfo_Chart = \<lparr>ChartSpec_Name = ''chart'', ChartSpec_ChartPullSecret = [], ChartSpec_Values = fmempty\<rparr>,
               ModuleInfo_Scope = Scope_Workload\<rparr>]\<rparr> fmempty\<rparr>\<rparr>"

definition sample_module_spec :: BlueprintSpec where
  "sample_module_spec = fmget (Blueprint_Spec Blueprint_zero)
     (ok_value fmempty (getBlueprintsMap sample_env sorted_list_of_fset Mock_manager sample_module_plotter
       (NewDummyClusterManager fmempty None))) ''A''"

definition sample_finalized :: "int64 option \<Rightarrow> Plotter" where
  "sample_finalized deletion = sample_module_plotter
     \<lparr>Plotter_Meta := (Plotter_Meta sample_module_plotter)
        \<lparr>Meta_Finalizers := [''plotter.finalizer''], Meta_DeletionTimestamp := deletion\<rparr>,
      Plotter_Status := (Plotter_Status sample_module_plotter)
        \<lparr>PlotterStatus_Blueprints := fmupd ''A'' (CreateMetaBlueprintWithoutState
           (new_blueprint sample_module_plotter ''A'' sample_module_spec)) fmempty\<rparr>\<rparr>"

definition sample_request :: NamespacedName where
  "sample_request = object_key Plotter_kind (sample_finalized None)"

text \<open>The blueprint has become ready; a conflict is still to come.\<close>

definition sample_world :: sample_world where
  "sample_world =
     (\<lparr>Store_Objects = fmupd sample_request (sample_finalized None) fmempty, Store_Conflicts = 1\<rparr>,
      NewDummyClusterManager (fmupd ''A'' ((new_blueprint sample_module_plotter ''A'' sample_module_spec)
        \<lparr>Blueprint_Status := BlueprintStatus_zero\<lparr>BlueprintStatus_ObservedState :=
           \<lparr>ObservedState_Ready = True, ObservedState_Error = []\<rparr>\<rparr>\<rparr>) fmempty) None)"

definition sample_Reconcile :: "(Result \<times> string option) \<times> sample_world" where
  "sample_Reconcile = ok_value ((None, Some []), sample_world)
     (Plotter_Reconcile ''plotter'' sample_env sorted_list_of_fset sample_clock sample_clusters sample_client
       sample_request sample_world)"


text \<open>The dummy manager forgets the blueprint of a cluster, and deletions never bring one back.\<close>

definition sample_gone :: "sample_world \<Rightarrow> string \<Rightarrow> string \<Rightarrow> string \<Rightarrow> bool" where
  "sample_gone w c ns n \<longleftrightarrow> fmlookup (DeployedBlueprints (snd w)) c = None"

theorem plotter_finalizer_safe_witness:
  "\<exists>plotter w' w1. plotter_reconcileFinalizers ''plotter'' sorted_list_of_fset sample_clusters sample_client
       (sample_finalized (Some 7)) sample_world = (None, plotter, w') \<and>
     Meta_Finalizers (Plotter_Meta plotter) = [] \<and>
     sample_gone w1 ''A'' ''default'' ''notebook'' \<and>
     UpdateFinalizers Plotter_kind sample_client (K8s_RemoveFinalizer sample_client
       (finalizer_name ''plotter'') (sample_finalized (Some 7))) w1 = (None, plotter, w')"
proof -
  let ?plotter = "sample_finalized (Some 7)"
  let ?run = "plotter_reconcileFinalizers ''plotter'' sorted_list_of_fset sample_clusters sample_client
    ?plotter sample_world"
  have deleted: "is_deleted Plotter_kind ?plotter"
    by (simp add: is_deleted_def Plotter_kind_def sample_finalized_def)
  have fin: "K8s_ContainsFinalizer sample_client ?plotter (finalizer_name ''plotter'')"
    by (simp add: paired_client_def store_client_def get_finalizers_def Plotter_kind_def sample_finalized_def
        finalizer_name_def Let_def)
  have "fst ?run = None \<and> Meta_Finalizers (Plotter_Meta (fst (snd ?run))) = []" by code_simp
  then obtain plotter w' where run: "?run = (None, plotter, w')"
    and removed: "Meta_Finalizers (Plotter_Meta plotter) = []" by (cases ?run) auto
  have gone: "DeleteBlueprint sample_clusters c ns n w = (None, w') \<Longrightarrow> sample_gone w' c ns n" for c ns n w w'
    by (auto simp: sample_clusters_def Mock_defs sample_gone_def)
  have stays: "sample_gone w c ns n \<Longrightarrow> sample_gone (snd (DeleteBlueprint sample_clusters c' ns' n' w)) c ns n"
    for c ns n c' ns' n' w
    by (auto simp: sample_clusters_def Mock_defs sample_gone_def)
  have "map_option (\<lambda>b. (MetaBlueprint_Namespace b, MetaBlueprint_Name b))
      (fmlookup (PlotterStatus_Blueprints (Plotter_Status ?plotter)) ''A'') = Some (''default'', ''notebook'')"
    by code_simp
  then obtain b where b: "fmlookup (PlotterStatus_Blueprints (Plotter_Status ?plotter)) ''A'' = Some b"
    "MetaBlueprint_Namespace b = ''default''" "MetaBlueprint_Name b = ''notebook''" by auto
  have "(plotter = ?plotter \<and> None \<noteq> (None :: string option)) \<or>
    (\<exists>w1 err1. UpdateFinalizers Plotter_kind sample_client (K8s_RemoveFinalizer sample_client
        (finalizer_name ''plotter'') ?plotter) w1 = (err1, plotter, w') \<and> None = map_option api_message err1 \<and>
      (\<forall>c b. fmlookup (PlotterStatus_Blueprints (Plotter_Status ?plotter)) c = Some b \<longrightarrow>
         sample_gone w1 c (MetaBlueprint_Namespace b) (MetaBlueprint_Name b)))"
    by (rule plotter_finalizer_safe [where gone = sample_gone, OF range_order_sorted deleted fin _ _ run])
      (rule gone, assumption, rule stays, assumption)
  then obtain w1 err1 where
    "UpdateFinalizers Plotter_kind sample_client (K8s_RemoveFinalizer sample_client
       (finalizer_name ''plotter'') ?plotter) w1 = (err1, plotter, w')" "None = map_option api_message err1"
    "\<forall>c b. fmlookup (PlotterStatus_Blueprints (Plotter_Status ?plotter)) c = Some b \<longrightarrow>
         sample_gone w1 c (MetaBlueprint_Namespace b) (MetaBlueprint_Name b)" by blast
  moreover from this(3) b have "sample_gone w1 ''A'' ''default'' ''notebook''" by metis
  ultimately have "UpdateFinalizers Plotter_kind sample_client (K8s_RemoveFinalizer sample_client
       (finalizer_name ''plotter'') ?plotter) w1 = (None, plotter, w')"
    "sample_gone w1 ''A'' ''default'' ''notebook''" by simp_all
  with run removed show ?thesis by blast
qed

end
