(* ===== verification/Application_Controller.thy ===== *)
theory Application_Controller
  imports Plotter_Generator Resource_Gen Validation Plotter_Reconcile
begin

text \<open>
  \<^verbatim>\<open>src/manager/controllers/app/fybrikapplication_controller.go\<close> and
  \<^verbatim>\<open>src/manager/controllers/app/data_catalog_interface.go\<close>: the controller that turns an application
  into a plotter. The record \<open>AppReconciler\<close> holds the fields of the reconciler; the API server's lists
  of modules and storage accounts, the data catalog, the taxonomy and the template library are among
  them as parameters. The application, which the code changes in place, is passed and returned beside
  the world.
\<close>

section \<open>The reconciler\<close>

record 'w AppReconciler =
  AR_Name :: string
  AR_Client :: "(FybrikApplication, FybrikApplicationStatus, 'w) K8sClient"
  AR_LocalClient :: "'w BlueprintClient"
  AR_ListModules :: "'w \<Rightarrow> string + FybrikModule list"
  AR_ListAccounts :: "'w \<Rightarrow> string + FybrikStorageAccount list"
  AR_Taxonomy :: Taxonomy
  AR_Templates :: TextTemplate
  AR_PolicyManager :: PolicyManager
  AR_GetAssetInfo :: "GetAssetRequest \<Rightarrow> string \<Rightarrow> string + GetAssetResponse"
  AR_ResourceInterface :: "'w ContextInterface"
  AR_GetClusters :: "'w \<Rightarrow> string + Cluster list"
  AR_Provision :: "'w ProvisionInterface"
  AR_Evaluate :: "EvaluatorInput \<Rightarrow> EvaluatorOutput \<times> string option"

definition getBucketResourceRef :: "go_env \<Rightarrow> string \<Rightarrow> NamespacedName" where
  "getBucketResourceRef env name = \<lparr>NN_Name = name, NN_Namespace = GetSystemNamespace env\<rparr>"

abbreviation with_status ::
  "(FybrikApplicationStatus \<Rightarrow> FybrikApplicationStatus) \<Rightarrow> FybrikApplication \<Rightarrow> FybrikApplication" where
  "with_status f application \<equiv> application\<lparr>App_Status := f (App_Status application)\<rparr>"

section \<open>Credentials of the catalog\<close>

definition RegisterAsset :: "string \<Rightarrow> DatasetDetails \<Rightarrow> FybrikApplication \<Rightarrow> string + string" where
  "RegisterAsset catalogID info input = Inl ''Unsupported feature''"

definition translationMap :: "(string, string) fmap" where
  "translationMap = fmap_of_list
     [(''accessKeyID'', ''access_key''), (''accessKey'', ''access_key''), (''secretAccessKey'', ''secret_key''),
      (''SecretKey'', ''secret_key''), (''apiKey'', ''api_key''), (''resourceInstanceId'', ''resource_instance_id'')]"

definition credential_step :: "string \<times> string \<Rightarrow> (string, json) fmap \<Rightarrow> (string, json) fmap" where
  "credential_step kv credsMap =
     (case kv of (key, val) \<Rightarrow>
        (case fmlookup translationMap key of
           Some translated \<Rightarrow> fmupd translated (JStr val) credsMap
         | None \<Rightarrow> fmupd key (JStr val) credsMap))"

text \<open>The data of the secret, or the error of fetching it, is the argument \<open>secret\<close>.\<close>

definition SecretToCredentialMap ::
  "range_ord \<Rightarrow> (NamespacedName \<Rightarrow> string + (string, string) fmap) \<Rightarrow> NamespacedName \<Rightarrow>
     string + (string, json) fmap" where
  "SecretToCredentialMap ord get_secret secretRef =
     (case get_secret secretRef of
        Inl err \<Rightarrow> Inl err
      | Inr data \<Rightarrow> Inr (fold credential_step (fmrange ord data) fmempty))"

definition SecretToCredentials ::
  "go_env \<Rightarrow> range_ord \<Rightarrow> (NamespacedName \<Rightarrow> string + (string, string) fmap) \<Rightarrow> NamespacedName \<Rightarrow> string + string" where
  "SecretToCredentials env ord get_secret secretRef =
     (case SecretToCredentialMap ord get_secret secretRef of
        Inl err \<Rightarrow> Inl err
      | Inr credsMap \<Rightarrow> Inr (JSON_Text env (JObj credsMap)))"

section \<open>The state of the plotter\<close>

text \<open>One iteration of the loop over the datasets of the application.\<close>

definition readiness_step ::
  "go_env \<Rightarrow> 'w ProvisionInterface \<Rightarrow> ObservedState \<Rightarrow> DataContext \<Rightarrow> FybrikApplication \<times> 'w \<Rightarrow>
     (FybrikApplication \<times> 'w) go" where
  "readiness_step env prov status dataCtx aw =
     (case aw of (application, w) \<Rightarrow>
        let assetID = DataSetID dataCtx;
            state = fmget AssetState_zero (asset_states application) assetID;
            catalogID = CatalogID (CopyRequirements_Catalog (Requirements_Copy (DataContext_Requirements dataCtx)));
            fail = (\<lambda>msg w'. go_bind (setErrorCondition application assetID msg) (\<lambda>a. Ok (a, w')))
        in go_bind (slice_get (AssetState_Conditions state) DenyConditionIndex)
             (\<lambda>deny.
                if Condition_Status deny = ConditionTrue then Ok (application, w)
                else if ObservedState_Error status \<noteq> [] then fail (ObservedState_Error status) w
                else if \<not> ObservedState_Ready status then Ok (application, w)
                else if catalogID \<noteq> [] then
                  if AssetState_CatalogedAsset state \<noteq> [] then Ok (application, w)
                  else
                    (case fmlookup (AppStatus_ProvisionedStorage (App_Status application)) assetID of
                       None \<Rightarrow>
                         fail (''No copy has been created for the asset '' @ assetID @ '' required to be registered'') w
                     | Some provisionedBucketRef \<Rightarrow>
                         (case SetPersistent prov
                                 (getBucketResourceRef env (DatasetDetails_DatasetRef provisionedBucketRef)) True w of
                            (Some err, w1) \<Rightarrow> fail err w1
                          | (None, w1) \<Rightarrow>
                              (case RegisterAsset catalogID provisionedBucketRef application of
                                 Inr newAssetID \<Rightarrow>
                                   go_bind (put_asset_state application assetID
                                              (state\<lparr>AssetState_CatalogedAsset := newAssetID\<rparr>))
                                     (\<lambda>a. go_bind (setReadyCondition a assetID) (\<lambda>a'. Ok (a', w1)))
                               | Inl err \<Rightarrow> fail err w1)))
                else go_bind (setReadyCondition application assetID) (\<lambda>a. Ok (a, w))))"

definition checkReadiness ::
  "go_env \<Rightarrow> 'w ProvisionInterface \<Rightarrow> ObservedState \<Rightarrow> FybrikApplication \<Rightarrow> 'w \<Rightarrow> (FybrikApplication \<times> 'w) go" where
  "checkReadiness env prov status application w =
     go_bind (if AppStatus_AssetStates (App_Status application) = None then initStatus application
              else Ok application)
       (\<lambda>a. go_fold (readiness_step env prov status) (AppSpec_Data (App_Spec application)) (a, w))"

section \<open>Finalizers\<close>

definition delete_dataset_step ::
  "go_env \<Rightarrow> 'w ProvisionInterface \<Rightarrow> string \<times> DatasetDetails \<Rightarrow> string list \<times> string list \<times> 'w \<Rightarrow>
     string list \<times> string list \<times> 'w" where
  "delete_dataset_step env prov kv st =
     (case st of (deletedKeys, errMsgs, w) \<Rightarrow>
        (case DeleteDataset prov (getBucketResourceRef env (DatasetDetails_DatasetRef (snd kv))) w of
           (Some err, w1) \<Rightarrow> (deletedKeys, errMsgs @ [err], w1)
         | (None, w1) \<Rightarrow> (deletedKeys @ [fst kv], errMsgs, w1)))"

definition app_deleteExternalResources ::
  "go_env \<Rightarrow> range_ord \<Rightarrow> 'w AppReconciler \<Rightarrow> FybrikApplication \<Rightarrow> 'w \<Rightarrow> string option \<times> FybrikApplication \<times> 'w" where
  "app_deleteExternalResources env ord r application w =
     (case fold (delete_dataset_step env (AR_Provision r))
             (fmrange ord (AppStatus_ProvisionedStorage (App_Status application))) ([], [], w) of
        (deletedKeys, errMsgs, w1) \<Rightarrow>
          let application1 = with_status (\<lambda>s. s\<lparr>AppStatus_ProvisionedStorage :=
                fold fmdrop deletedKeys (AppStatus_ProvisionedStorage s)\<rparr>) application
          in if length errMsgs \<noteq> 0 then (Some (strings_Join errMsgs '';''), application1, w1)
             else
               (case AppStatus_Generated (App_Status application1) of
                  None \<Rightarrow> (None, application1, w1)
                | Some ref \<Rightarrow>
                    (case DeleteResource (AR_ResourceInterface r) ref w1 of
                       (Some err, w2) \<Rightarrow> (Some err, application1, w2)
                     | (None, w2) \<Rightarrow>
                         (None, with_status (\<lambda>s. s\<lparr>AppStatus_Generated := None\<rparr>) application1, w2))))"

definition app_reconcileFinalizers ::
  "go_env \<Rightarrow> range_ord \<Rightarrow> 'w AppReconciler \<Rightarrow> FybrikApplication \<Rightarrow> 'w \<Rightarrow> string option \<times> FybrikApplication \<times> 'w" where
  "app_reconcileFinalizers env ord r application w =
     (let cl = AR_Client r;
          finalizerName = finalizer_name (AR_Name r);
          hasFinalizer = K8s_ContainsFinalizer cl application finalizerName
      in if is_deleted Application_kind application \<or> length (AppSpec_Data (App_Spec application)) = 0
         then if hasFinalizer
              then (case app_deleteExternalResources env ord r application w of
                      (Some err, application1, w1) \<Rightarrow> (Some err, application1, w1)
                    | (None, application1, w1) \<Rightarrow>
                        (case UpdateFinalizers Application_kind cl
                                (K8s_RemoveFinalizer cl finalizerName application1) w1 of
                           (err, application2, w2) \<Rightarrow> (map_option api_message err, application2, w2)))
              else (None, application, w)
         else if \<not> hasFinalizer
              then (case UpdateFinalizers Application_kind cl
                           (K8s_AddFinalizer cl finalizerName application) w of
                      (err, application1, w1) \<Rightarrow> (map_option api_message err, application1, w1))
              else (None, application, w))"

section \<open>Endpoints\<close>

text \<open>The endpoint of the last of the sequential steps.\<close>

definition last_endpoint :: "DataFlowStep list \<Rightarrow> Connection option go" where
  "last_endpoint sequentialSteps =
     (if sequentialSteps = [] then Panic ''index out of range''
      else (case Step_Parameters (last sequentialSteps) of
              None \<Rightarrow> Panic ''nil pointer dereference''
            | Some ps \<Rightarrow> Ok (map_option ResourceDetails_Connection (StepParameters_API ps))))"

definition subflow_endpoints :: "string \<Rightarrow> SubFlow \<Rightarrow> (string, Connection) fmap \<Rightarrow> (string, Connection) fmap go" where
  "subflow_endpoints assetID subflow endpoints =
     (if SubFlow_FlowType subflow = ReadFlow
      then go_fold (\<lambda>steps m. go_bind (last_endpoint steps)
             (\<lambda>api. Ok (case api of None \<Rightarrow> m | Some c \<Rightarrow> fmupd assetID c m))) (SubFlow_Steps subflow) endpoints
      else Ok endpoints)"

definition flow_endpoints :: "Flow \<Rightarrow> (string, Connection) fmap \<Rightarrow> (string, Connection) fmap go" where
  "flow_endpoints flow endpoints =
     (if Flow_FlowType flow = ReadFlow
      then go_fold (subflow_endpoints (Flow_AssetID flow)) (Flow_SubFlows flow) endpoints
      else Ok endpoints)"

definition endpoint_step :: "(string, Connection) fmap \<Rightarrow> DataContext \<Rightarrow> FybrikApplication \<Rightarrow> FybrikApplication go" where
  "endpoint_step readEndpointMap asset application =
     put_asset_state application (DataSetID asset)
       ((fmget AssetState_zero (asset_states application) (DataSetID asset))
          \<lparr>AssetState_Endpoint := fmget Connection_zero readEndpointMap (DataSetID asset)\<rparr>)"

definition setReadModulesEndpoints :: "FybrikApplication \<Rightarrow> Flow list \<Rightarrow> FybrikApplication go" where
  "setReadModulesEndpoints application flows =
     go_bind (go_fold flow_endpoints flows fmempty)
       (\<lambda>readEndpointMap. go_fold (endpoint_step readEndpointMap) (AppSpec_Data (App_Spec application)) application)"

section \<open>The requirements of a dataset\<close>

definition CreateDataRequest :: "go_env \<Rightarrow> FybrikApplication \<Rightarrow> DataContext \<Rightarrow> ResourceMetadata option \<Rightarrow> DataRequest" where
  "CreateDataRequest env application dataCtx assetMetadata =
     (let usage = fmupd CopyFlow
            (CopyRequirements_Required (Requirements_Copy (DataContext_Requirements dataCtx)))
            (fmupd ReadFlow
              (LabelSelector_Size env (Selector_WorkloadSelector (AppSpec_Selector (App_Spec application))) > 0)
              fmempty)
      in \<lparr>DataRequest_DatasetID = DataSetID dataCtx,
          DataRequest_Interface = Requirements_Interface (DataContext_Requirements dataCtx),
          DataRequest_Usage = usage, DataRequest_Metadata = assetMetadata\<rparr>)"

definition read_request :: "Cluster \<Rightarrow> RequestAction" where
  "read_request workloadCluster =
     \<lparr>RequestAction_ActionType = policymanager_READ,
      RequestAction_ProcessingLocation = ClusterMetadata_Region (Cluster_Metadata workloadCluster),
      RequestAction_Destination = ClusterMetadata_Region (Cluster_Metadata workloadCluster)\<rparr>"

definition constructDataInfo ::
  "go_env \<Rightarrow> 'w AppReconciler \<Rightarrow> FybrikApplication \<Rightarrow> Cluster \<Rightarrow> DataContext \<Rightarrow> string + DataInfo" where
  "constructDataInfo env r input workloadCluster ctx =
     (let credentialPath = request_creds env input;
          request = \<lparr>GetAssetRequest_AssetID = DataSetID ctx, GetAssetRequest_OperationType = datacatalog_READ\<rparr>
      in case AR_GetAssetInfo r request credentialPath of
           Inl err \<Rightarrow> Inl err
         | Inr response \<Rightarrow>
             (case ValidateAssetResponse (AR_Taxonomy r) response DataCatalogTaxonomy (DataSetID ctx) of
                Some err \<Rightarrow> Inl err
              | None \<Rightarrow>
                  let dataRequest = CreateDataRequest env input ctx
                        (Some (GetAssetResponse_ResourceMetadata response));
                      lookup = (if fmget False (DataRequest_Usage dataRequest) ReadFlow
                                then LookupPolicyDecisions env (AR_PolicyManager r) (DataSetID ctx) input
                                       (read_request workloadCluster)
                                else ([], None))
                  in case lookup of
                       (_, Some err) \<Rightarrow> Inl err
                     | (actions, None) \<Rightarrow>
                         (case AR_Evaluate r
                                 \<lparr>Input_Workload =
                                    \<lparr>Workload_UUID = GetFybrikApplicationUUID input, Workload_PolicySetID = [],
                                     Workload_Cluster = workloadCluster,
                                     Workload_Properties = AppSpec_AppInfo (App_Spec input)\<rparr>,
                                  Input_Request = dataRequest, Input_GovernanceActions = actions\<rparr> of
                            (_, Some err) \<Rightarrow> Inl err
                          | (configDecisions, None) \<Rightarrow>
                              Inr \<lparr>DataInfo_DataDetails = response, DataInfo_Context = ctx,
                                   DataInfo_Configuration = configDecisions,
                                   DataInfo_WorkloadCluster = workloadCluster, DataInfo_Actions = actions\<rparr>)))"

definition GetWorkloadCluster ::
  "go_env \<Rightarrow> 'w AppReconciler \<Rightarrow> FybrikApplication \<Rightarrow> 'w \<Rightarrow> string + Cluster" where
  "GetWorkloadCluster env r application w =
     (let selector = AppSpec_Selector (App_Spec application);
          clusterName = Selector_ClusterName selector
      in if clusterName = [] then
           if LabelSelector_Size env (Selector_WorkloadSelector selector) = 0 then Inr Cluster_zero
           else
             (case GetClusters (local_manager (AR_LocalClient r) (GetSystemNamespace env)) w of
                Inl err \<Rightarrow> Inl err
              | Inr [cluster] \<Rightarrow> Inr cluster
              | Inr _ \<Rightarrow> Inr Cluster_zero)
         else
           (case AR_GetClusters r w of
              Inl err \<Rightarrow> Inl err
            | Inr clusters \<Rightarrow>
                (case find (\<lambda>cluster. Cluster_Name cluster = clusterName) clusters of
                   Some cluster \<Rightarrow> Inr cluster
                 | None \<Rightarrow> Inl (''Cluster '' @ clusterName @ '' is not available''))))"

definition AnalyzeError :: "FybrikApplication \<Rightarrow> string \<Rightarrow> string \<Rightarrow> FybrikApplication go" where
  "AnalyzeError application assetID err =
     (if err \<in> {InvalidAssetID, ReadAccessDenied, CopyNotAllowed, WriteNotAllowed, InvalidAssetDataStore}
      then setDenyCondition application assetID err
      else setErrorCondition application assetID err)"

text \<open>The loop that collects the requirements; a dataset with an error is left out.\<close>

fun requirements_loop ::
  "go_env \<Rightarrow> 'w AppReconciler \<Rightarrow> Cluster \<Rightarrow> DataContext list \<Rightarrow> FybrikApplication \<Rightarrow> DataInfo list \<Rightarrow>
     (FybrikApplication \<times> DataInfo list) go" where
  "requirements_loop env r workloadCluster [] application requirements = Ok (application, requirements)"
| "requirements_loop env r workloadCluster (dataset # datasets) application requirements =
     (case constructDataInfo env r application workloadCluster dataset of
        Inl err \<Rightarrow>
          go_bind (AnalyzeError application (DataSetID dataset) err)
            (\<lambda>a. requirements_loop env r workloadCluster datasets a requirements)
      | Inr req \<Rightarrow> requirements_loop env r workloadCluster datasets application (requirements @ [req]))"

section \<open>The plotter\<close>

definition GetAllModules :: "'w AppReconciler \<Rightarrow> 'w \<Rightarrow> string + (string, FybrikModule) fmap" where
  "GetAllModules r w =
     (case AR_ListModules r w of
        Inl err \<Rightarrow> Inl err
      | Inr modules \<Rightarrow> Inr (fold (\<lambda>m. fmupd (Module_Name m) m) modules fmempty))"

definition getStorageAccountRegions :: "range_ord \<Rightarrow> 'w AppReconciler \<Rightarrow> 'w \<Rightarrow> string + string list" where
  "getStorageAccountRegions ord r w =
     (case AR_ListAccounts r w of
        Inl err \<Rightarrow> Inl err
      | Inr accounts \<Rightarrow>
          Inr (concat (map (\<lambda>account.
            map fst (fmrange ord (StorageAccount_Endpoints (StorageAccount_Spec account)))) accounts)))"

definition clean_step ::
  "go_env \<Rightarrow> 'w ProvisionInterface \<Rightarrow> (string, NewAssetInfo) fmap \<Rightarrow> string \<times> DatasetDetails \<Rightarrow>
     (string, DatasetDetails) fmap \<times> 'w \<Rightarrow> (string, DatasetDetails) fmap \<times> 'w" where
  "clean_step env prov provisionedStorage kv sw =
     (case kv of (datasetID, details) \<Rightarrow>
      case sw of (storage, w) \<Rightarrow>
        if fmlookup provisionedStorage datasetID = None
        then (fmdrop datasetID storage,
              snd (DeleteDataset prov (getBucketResourceRef env (DatasetDetails_DatasetRef details)) w))
        else (storage, w))"

definition bucket_details :: "NewAssetInfo \<Rightarrow> DatasetDetails" where
  "bucket_details info =
     \<lparr>DatasetDetails_DatasetRef = Bucket_Name (NewAssetInfo_Storage info),
      DatasetDetails_SecretRef = NN_Name (Bucket_SecretRef (NewAssetInfo_Storage info))\<rparr>"

fun buckets_ready ::
  "go_env \<Rightarrow> 'w ProvisionInterface \<Rightarrow> (string \<times> DatasetDetails) list \<Rightarrow> 'w \<Rightarrow> bool \<times> string option" where
  "buckets_ready env prov [] w = (True, None)"
| "buckets_ready env prov ((_, details) # rest) w =
     (case GetDatasetStatus prov (getBucketResourceRef env (DatasetDetails_DatasetRef details)) w of
        Inl err \<Rightarrow> (False, None)
      | Inr res \<Rightarrow>
          if \<not> StorageStatus_Provisioned res
          then (False, if StorageStatus_ErrorMsg res \<noteq> [] then Some (StorageStatus_ErrorMsg res) else None)
          else buckets_ready env prov rest w)"

definition updateProvisionedStorageStatus ::
  "go_env \<Rightarrow> range_ord \<Rightarrow> 'w ProvisionInterface \<Rightarrow> (string, NewAssetInfo) fmap \<Rightarrow> FybrikApplication \<Rightarrow> 'w \<Rightarrow>
     (bool \<times> string option) \<times> FybrikApplication \<times> 'w" where
  "updateProvisionedStorageStatus env ord prov provisionedStorage application w =
     (let storage0 = AppStatus_ProvisionedStorage (App_Status application);
          (storage1, w1) = fold (clean_step env prov provisionedStorage) (fmrange ord storage0) (storage0, w);
          storage2 = fold (\<lambda>(datasetID, info). fmupd datasetID (bucket_details info))
                       (fmrange ord provisionedStorage) storage1
      in (buckets_ready env prov (fmrange ord storage2) w1,
          with_status (\<lambda>s. s\<lparr>AppStatus_ProvisionedStorage := storage2\<rparr>) application, w1))"

definition solution_step ::
  "go_env \<Rightarrow> range_ord \<Rightarrow> 'w AppReconciler \<Rightarrow> string + FybrikStorageAccount list \<Rightarrow> PlotterGenerator \<Rightarrow> DataInfo \<Rightarrow>
     FybrikApplication \<times> PlotterSpec \<times> 'w gen_state \<Rightarrow> (FybrikApplication \<times> PlotterSpec \<times> 'w gen_state) go" where
  "solution_step env ord r accounts p item st =
     (case st of (application, plotterSpec, gen) \<Rightarrow>
        go_bind (AddFlowInfoForAsset env ord accounts (AR_Provision r) (AR_Templates r) p item application plotterSpec gen)
          (\<lambda>(err, plotterSpec', gen').
             case err of
               None \<Rightarrow> Ok (application, plotterSpec', gen')
             | Some e \<Rightarrow>
                 go_bind (AnalyzeError application (DataSetID (DataInfo_Context item)) e)
                   (\<lambda>a. Ok (a, plotterSpec', gen'))))"

definition app_owner :: "FybrikApplication \<Rightarrow> NamespacedName" where
  "app_owner application = object_key Application_kind application"

definition initial_spec :: "go_env \<Rightarrow> FybrikApplication \<Rightarrow> PlotterSpec" where
  "initial_spec env application =
     \<lparr>PlotterSpec_Selector = AppSpec_Selector (App_Spec application), PlotterSpec_Assets = fmempty,
      PlotterSpec_Flows = [], PlotterSpec_ModulesNamespace = GetDefaultModulesNamespace env,
      PlotterSpec_Templates = fmempty\<rparr>"

definition buildSolution ::
  "go_env \<Rightarrow> range_ord \<Rightarrow> 'w AppReconciler \<Rightarrow> DataInfo list \<Rightarrow> FybrikApplication \<Rightarrow> 'w \<Rightarrow>
     ((string + (string, NewAssetInfo) fmap \<times> PlotterSpec) \<times> FybrikApplication \<times> 'w) go" where
  "buildSolution env ord r requirements application w =
     (case GetAllModules r w of
        Inl err \<Rightarrow> Ok (Inl err, application, w)
      | Inr moduleMap \<Rightarrow>
          (case getStorageAccountRegions ord r w of
             Inl err \<Rightarrow> Ok (Inl err, application, w)
           | Inr regions \<Rightarrow>
               (case AR_GetClusters r w of
                  Inl err \<Rightarrow> Ok (Inl err, application, w)
                | Inr clusters \<Rightarrow>
                    let plotterGen =
                          \<lparr>Generator_Modules = moduleMap, Generator_Clusters = clusters,
                           Generator_Owner = app_owner application,
                           Generator_PolicyManager = AR_PolicyManager r,
                           Generator_StorageAccountRegions = regions\<rparr>
                    in go_bind (go_fold (solution_step env ord r (AR_ListAccounts r w) plotterGen) requirements
                                  (application, initial_spec env application,
                                   \<lparr>Gen_ProvisionedStorage = fmempty, Gen_World = w\<rparr>))
                         (\<lambda>(application1, plotterSpec, gen).
                            Ok (Inr (Gen_ProvisionedStorage gen, plotterSpec), application1, Gen_World gen)))))"

section \<open>Reconciliation\<close>

type_synonym 'w app_reconciled = "((Result \<times> string option) \<times> FybrikApplication \<times> 'w) go"

text \<open>The last part: the endpoints are set and the plotter is written.\<close>

definition generate_resource ::
  "'w AppReconciler \<Rightarrow> PlotterSpec \<Rightarrow> FybrikApplication \<Rightarrow> 'w \<Rightarrow> 'w app_reconciled" where
  "generate_resource r plotterSpec application w =
     go_bind (setReadModulesEndpoints application (PlotterSpec_Flows plotterSpec))
       (\<lambda>application1.
          let ri = AR_ResourceInterface r;
              ownerRef = \<lparr>ResourceReference_Name = Meta_Name (App_Meta application1),
                          ResourceReference_Namespace = Meta_Namespace (App_Meta application1),
                          ResourceReference_Kind = [],
                          ResourceReference_AppVersion = Meta_Generation (App_Meta application1)\<rparr>;
              resourceRef = CreateResourceReference ri ownerRef
          in case CreateOrUpdateResource ri ownerRef resourceRef plotterSpec
                    (Meta_Labels (App_Meta application1)) (GetFybrikApplicationUUID application1) w of
               (Some err, w1) \<Rightarrow>
                 if err = InvalidClusterConfiguration
                 then Ok ((None, None), with_status (\<lambda>s. s\<lparr>AppStatus_ErrorMessage := err\<rparr>) application1, w1)
                 else Ok ((None, Some err), application1, w1)
             | (None, w1) \<Rightarrow>
                 Ok ((None, None), with_status (\<lambda>s. s\<lparr>AppStatus_Generated := Some resourceRef\<rparr>) application1, w1))"

definition app_reconcile ::
  "go_env \<Rightarrow> range_ord \<Rightarrow> 'w AppReconciler \<Rightarrow> FybrikApplication \<Rightarrow> 'w \<Rightarrow> 'w app_reconciled" where
  "app_reconcile env ord r application w =
     go_bind (initStatus application) (\<lambda>application1.
       if length (AppSpec_Data (App_Spec application1)) = 0 then Ok ((None, None), application1, w)
       else
         (case GetWorkloadCluster env r application1 w of
            Inl err \<Rightarrow> Ok ((None, Some err), application1, w)
          | Inr workloadCluster \<Rightarrow>
              go_bind (requirements_loop env r workloadCluster (AppSpec_Data (App_Spec application1)) application1 [])
                (\<lambda>(application2, requirements).
                   if length requirements = 0 then Ok ((None, None), application2, w)
                   else
                     go_bind (buildSolution env ord r requirements application2 w)
                       (\<lambda>(solution, application3, w1).
                          case solution of
                            Inl err \<Rightarrow> Ok ((None, Some err), application3, w1)
                          | Inr (provisionedStorage, plotterSpec) \<Rightarrow>
                              go_bind (getErrorMessages ord application3)
                                (\<lambda>errorMsg.
                                   if errorMsg \<noteq> [] then Ok ((None, None), application3, w1)
                                   else
                                     (case updateProvisionedStorageStatus env ord (AR_Provision r)
                                             provisionedStorage application3 w1 of
                                        ((storageReady, allocationErr), application4, w2) \<Rightarrow>
                                          if \<not> storageReady then Ok ((Some 2, allocationErr), application4, w2)
                                          else generate_resource r plotterSpec application4 w2))))))"

definition generation_complete ::
  "'w ContextInterface \<Rightarrow> FybrikApplicationStatus \<Rightarrow> int64 \<Rightarrow> 'w \<Rightarrow> bool go" where
  "generation_complete ri observedStatus appVersion w =
     (if ResourceExists ri (AppStatus_Generated observedStatus) w
      then (case AppStatus_Generated observedStatus of
              None \<Rightarrow> Panic ''nil pointer dereference''
            | Some ref \<Rightarrow> Ok (ResourceReference_AppVersion ref = appVersion))
      else Ok False)"

text \<open>Validation, when no webhook is in charge: the application, or the early end of \<open>Reconcile\<close>.\<close>

definition validate_application ::
  "go_env \<Rightarrow> 'w AppReconciler \<Rightarrow> FybrikApplication \<Rightarrow> 'w \<Rightarrow>
     ((Result \<times> string option) \<times> 'w) + FybrikApplication" where
  "validate_application env r application w =
     (let observedStatus = App_Status application;
          appVersion = Meta_Generation (App_Meta application)
      in if \<not> webhooks_enabled env \<and>
            (AppStatus_ValidApplication observedStatus = [] \<or>
             AppStatus_ValidatedGeneration observedStatus \<noteq> appVersion)
         then
           (case ValidateFybrikApplication (AR_Taxonomy r) application ApplicationTaxonomy of
              Some err \<Rightarrow>
                (case UpdateStatus Application_kind (AR_Client r)
                        (with_status (\<lambda>s. s\<lparr>AppStatus_ValidatedGeneration := appVersion,
                           AppStatus_ErrorMessage := err, AppStatus_ValidApplication := ConditionFalse\<rparr>) application)
                        observedStatus w of
                   (err', _, w1) \<Rightarrow> Inl ((None, map_option api_message err'), w1))
            | None \<Rightarrow>
                Inr (with_status (\<lambda>s. s\<lparr>AppStatus_ValidatedGeneration := appVersion,
                       AppStatus_ValidApplication := ConditionTrue\<rparr>) application))
         else Inr application)"

text \<open>The end of \<open>Reconcile\<close>: the status is stored and a new attempt is requested if it is not ready.\<close>

definition finish_reconcile ::
  "range_ord \<Rightarrow> 'w AppReconciler \<Rightarrow> FybrikApplicationStatus \<Rightarrow> FybrikApplication \<Rightarrow> 'w \<Rightarrow> 'w reconciled" where
  "finish_reconcile ord r observedStatus application w =
     go_bind (isReady application)
       (\<lambda>ready.
          let application1 = with_status (\<lambda>s. s\<lparr>AppStatus_Ready := ready\<rparr>) application
          in case (if \<not> is_deleted Application_kind application1
                   then UpdateStatus Application_kind (AR_Client r) application1 observedStatus w
                   else (None, application1, w)) of
               (Some err, _, w1) \<Rightarrow> Ok ((None, Some (api_message err)), w1)
             | (None, application2, w1) \<Rightarrow>
                 go_bind (getErrorMessages ord application2)
                   (\<lambda>_. go_bind (isReady application2)
                      (\<lambda>ready'. Ok ((if \<not> ready' then Some 10 else None, None), w1))))"

definition Application_Reconcile ::
  "go_env \<Rightarrow> range_ord \<Rightarrow> 'w AppReconciler \<Rightarrow> NamespacedName \<Rightarrow> 'w \<Rightarrow> 'w reconciled" where
  "Application_Reconcile env ord r req w =
     (case K8s_Get (AR_Client r) req w of
        Inl err \<Rightarrow> Ok ((None, map_option api_message (IgnoreNotFound err)), w)
      | Inr application0 \<Rightarrow>
          (case app_reconcileFinalizers env ord r application0 w of
             (Some err, _, w1) \<Rightarrow> Ok ((None, Some err), w1)
           | (None, application, w1) \<Rightarrow>
               if is_deleted Application_kind application then Ok ((None, None), w1)
               else
                 let observedStatus = App_Status application;
                     appVersion = Meta_Generation (App_Meta application)
                 in (case validate_application env r application w1 of
                       Inl early \<Rightarrow> Ok early
                     | Inr application1 \<Rightarrow>
                         if AppStatus_ValidApplication (App_Status application1) = ConditionFalse
                         then Ok ((None, None), w1)
                         else
                           go_bind (generation_complete (AR_ResourceInterface r) observedStatus appVersion w1)
                             (\<lambda>generationComplete.
                                if \<not> generationComplete \<or>
                                   AppStatus_ObservedGeneration observedStatus \<noteq> appVersion
                                then
                                  go_bind (app_reconcile env ord r application1 w1)
                                    (\<lambda>((result, err), application2, w2).
                                       case err of
                                         Some e \<Rightarrow>
                                           Ok ((result, Some e),
                                             snd (snd (UpdateStatus Application_kind (AR_Client r) application2
                                               observedStatus w2)))
                                       | None \<Rightarrow>
                                           finish_reconcile ord r observedStatus
                                             (with_status (\<lambda>s. s\<lparr>AppStatus_ObservedGeneration := appVersion\<rparr>)
                                                application2) w2)
                                else
                                  (case GetResourceStatus (AR_ResourceInterface r)
                                          (AppStatus_Generated (App_Status application1)) w1 of
                                     Inl err \<Rightarrow> Ok ((None, Some err), w1)
                                   | Inr resourceStatus \<Rightarrow>
                                       go_bind (checkReadiness env (AR_Provision r) resourceStatus application1 w1)
                                         (\<lambda>(application2, w2).
                                            finish_reconcile ord r observedStatus application2 w2))))))"

text \<open>The requests that the controller makes of a change of a plotter.\<close>

definition plotter_requests :: "Plotter \<Rightarrow> NamespacedName list" where
  "plotter_requests a =
     (let labels = Meta_Labels (Plotter_Meta a)
      in if labels = fmempty then []
         else if Meta_DeletionTimestamp (Plotter_Meta a) \<noteq> None then []
         else (case (fmlookup labels ApplicationNamespaceLabel, fmlookup labels ApplicationNameLabel) of
                 (Some namespace, Some name) \<Rightarrow> [\<lparr>NN_Name = name, NN_Namespace = namespace\<rparr>]
               | _ \<Rightarrow> []))"

end
