(* ===== verification/Application_Progress.thy ===== *)
theory Application_Progress
  imports Application_Controller
begin

text \<open>
  What the reconciliation of an application guarantees: the plotter it writes carries the governance
  decisions, an asset is reported ready only when the plotter is, and a deleted application gives its
  storage and its plotter back.
\<close>

section \<open>What changes in an application\<close>

text \<open>Two versions of an application that differ in their conditions, endpoints and messages only.\<close>

definition same_app :: "FybrikApplication \<Rightarrow> FybrikApplication \<Rightarrow> bool" where
  "same_app a a' \<longleftrightarrow> App_Spec a' = App_Spec a \<and> App_Meta a' = App_Meta a \<and>
     AppStatus_Generated (App_Status a') = AppStatus_Generated (App_Status a) \<and>
     AppStatus_ProvisionedStorage (App_Status a') = AppStatus_ProvisionedStorage (App_Status a)"

lemma same_appD:
  assumes "same_app a a'"
  shows "App_Spec a' = App_Spec a" "App_Meta a' = App_Meta a"
    "AppStatus_Generated (App_Status a') = AppStatus_Generated (App_Status a)"
    "AppStatus_ProvisionedStorage (App_Status a') = AppStatus_ProvisionedStorage (App_Status a)"
  using assms by (simp_all add: same_app_def)

lemma same_app_refl [simp]: "same_app a a"
  by (simp add: same_app_def)

lemma same_app_trans: "same_app a b \<Longrightarrow> same_app b c \<Longrightarrow> same_app a c"
  by (simp add: same_app_def)

lemma same_put: "put_asset_state a x st = Ok a' \<Longrightarrow> same_app a a'"
  by (auto simp: put_asset_state_def same_app_def split: option.splits)

lemma same_set_condition: "set_condition a x i f = Ok a' \<Longrightarrow> same_app a a'"
  by (auto simp: set_condition_def go_bind_Ok_iff Let_def dest: same_put)

lemma same_setters:
  "setErrorCondition a x msg = Ok a' \<Longrightarrow> same_app a a'"
  "setDenyCondition a x msg = Ok a' \<Longrightarrow> same_app a a'"
  "setReadyCondition a x = Ok a' \<Longrightarrow> same_app a a'"
  by (auto simp: setErrorCondition_def setDenyCondition_def setReadyCondition_def Let_def dest: same_set_condition)

lemma same_AnalyzeError: "AnalyzeError a x err = Ok a' \<Longrightarrow> same_app a a'"
  by (auto simp: AnalyzeError_def dest: same_setters split: if_splits)

lemma same_reset_loop: "reset_loop assets a = Ok a' \<Longrightarrow> same_app a a'"
proof (induction assets arbitrary: a)
  case (Cons asset assets)
  then obtain a1 where 1: "resetAssetState a (DataSetID asset) = Ok a1" "reset_loop assets a1 = Ok a'"
    by (auto simp: go_bind_Ok_iff)
  from same_put [OF 1(1) [unfolded resetAssetState_eq]] Cons.IH [OF 1(2)] show ?case by (rule same_app_trans)
qed simp

lemma same_initStatus: "initStatus a = Ok a' \<Longrightarrow> same_app a a'"
  using same_reset_loop by (fastforce simp: initStatus_def same_app_def)

lemma same_requirements_loop:
  "requirements_loop env r c datasets a reqs = Ok (a', reqs') \<Longrightarrow> same_app a a'"
proof (induction datasets arbitrary: a reqs)
  case (Cons dataset datasets)
  show ?case
  proof (cases "constructDataInfo env r a c dataset")
    case (Inl err)
    with Cons.prems obtain a1 where 1: "AnalyzeError a (DataSetID dataset) err = Ok a1"
      "requirements_loop env r c datasets a1 reqs = Ok (a', reqs')"
      by (auto simp: go_bind_Ok_iff)
    from same_AnalyzeError [OF 1(1)] Cons.IH [OF 1(2)] show ?thesis by (rule same_app_trans)
  next
    case (Inr req)
    with Cons.prems have "requirements_loop env r c datasets a (reqs @ [req]) = Ok (a', reqs')" by simp
    from Cons.IH [OF this] show ?thesis .
  qed
qed simp

lemma same_endpoints: "setReadModulesEndpoints a flows = Ok a' \<Longrightarrow> same_app a a'"
proof -
  assume "setReadModulesEndpoints a flows = Ok a'"
  then obtain m where "go_fold (endpoint_step m) (AppSpec_Data (App_Spec a)) a = Ok a'"
    by (auto simp: setReadModulesEndpoints_def go_bind_Ok_iff)
  then show ?thesis
    by (rule go_fold_invariant [where P = "same_app a", OF same_app_refl, rotated])
      (auto simp: endpoint_step_def dest: same_put intro: same_app_trans)
qed

text \<open>The lookup of the policy decisions, and so the whole requirements, only read the specification.\<close>

lemma requests_same:
  assumes "same_app a a'"
  shows "request_creds env a' = request_creds env a"
    and "ConstructOpenAPIReq x a' act = ConstructOpenAPIReq x a act"
    and "CreateDataRequest env a' ctx md = CreateDataRequest env a ctx md"
    and "GetFybrikApplicationUUID a' = GetFybrikApplicationUUID a"
  by (simp_all add: request_creds_def ConstructOpenAPIReq_def CreateDataRequest_def
      GetFybrikApplicationUUID_def Let_def same_appD [OF assms])

lemma LookupPolicyDecisions_same:
  assumes "same_app a a'"
  shows "LookupPolicyDecisions env pm x a' act = LookupPolicyDecisions env pm x a act"
  unfolding LookupPolicyDecisions_def requests_same [OF assms] ..

lemma constructDataInfo_same:
  assumes "same_app a a'"
  shows "constructDataInfo env r a' c ctx = constructDataInfo env r a c ctx"
  unfolding constructDataInfo_def requests_same [OF assms] LookupPolicyDecisions_same [OF assms]
    same_appD [OF assms] ..

lemma GetWorkloadCluster_same:
  "same_app a a' \<Longrightarrow> GetWorkloadCluster env r a' w = GetWorkloadCluster env r a w"
  by (simp add: GetWorkloadCluster_def same_app_def)

section \<open>Governance\<close>

text \<open>
  A flow is governed when it belongs to a dataset of the application and, if the workload reads the
  data, the policy manager permitted the reading in the workload's region and every action it demanded
  is performed by the flow.
\<close>

definition reads_data :: "go_env \<Rightarrow> FybrikApplication \<Rightarrow> bool" where
  "reads_data env application \<longleftrightarrow>
     LabelSelector_Size env (Selector_WorkloadSelector (AppSpec_Selector (App_Spec application))) > 0"

definition performs :: "Flow \<Rightarrow> Action list \<Rightarrow> bool" where
  "performs flow actions \<longleftrightarrow>
     list_all (\<lambda>a. list_ex (\<lambda>sf. a \<in> set (subflow_actions sf)) (Flow_SubFlows flow)) actions"

definition governed_flow :: "go_env \<Rightarrow> 'w AppReconciler \<Rightarrow> FybrikApplication \<Rightarrow> Cluster \<Rightarrow> Flow \<Rightarrow> bool" where
  "governed_flow env r application cluster flow \<longleftrightarrow>
     Flow_AssetID flow \<in> declared application \<and>
     (reads_data env application \<longrightarrow>
       (case LookupPolicyDecisions env (AR_PolicyManager r) (Flow_AssetID flow) application (read_request cluster) of
          (actions, None) \<Rightarrow> performs flow actions
        | (_, Some _) \<Rightarrow> False))"

definition governed_item :: "go_env \<Rightarrow> 'w AppReconciler \<Rightarrow> FybrikApplication \<Rightarrow> Cluster \<Rightarrow> DataInfo \<Rightarrow> bool" where
  "governed_item env r application cluster item \<longleftrightarrow>
     DataSetID (DataInfo_Context item) \<in> declared application \<and>
     (reads_data env application \<longrightarrow>
       LookupPolicyDecisions env (AR_PolicyManager r) (DataSetID (DataInfo_Context item)) application
         (read_request cluster) = (DataInfo_Actions item, None))"

lemma constructDataInfo_governed:
  assumes "constructDataInfo env r application cluster ctx = Inr item"
    and "ctx \<in> set (AppSpec_Data (App_Spec application))"
  shows "governed_item env r application cluster item"
proof -
  have item: "DataInfo_Context item = ctx"
    and actions: "reads_data env application \<Longrightarrow>
      LookupPolicyDecisions env (AR_PolicyManager r) (DataSetID ctx) application (read_request cluster) =
        (DataInfo_Actions item, None)"
    using assms(1)
    by (auto simp: constructDataInfo_def Let_def CreateDataRequest_def reads_data_def fmget_def
        split: sum.splits option.splits prod.splits if_splits)
  with assms(2) show ?thesis by (auto simp: governed_item_def)
qed

lemma requirements_governed:
  assumes "requirements_loop env r cluster datasets a reqs = Ok (a', reqs')"
    and "same_app application a"
    and "set datasets \<subseteq> set (AppSpec_Data (App_Spec application))"
    and "list_all (governed_item env r application cluster) reqs"
  shows "list_all (governed_item env r application cluster) reqs'"
  using assms
proof (induction datasets arbitrary: a reqs)
  case Nil
  then show ?case by simp
next
  case (Cons dataset datasets)
  have sub: "set datasets \<subseteq> set (AppSpec_Data (App_Spec application))"
    and mem: "dataset \<in> set (AppSpec_Data (App_Spec application))" using Cons.prems(3) by auto
  show ?case
  proof (cases "constructDataInfo env r a cluster dataset")
    case (Inl err)
    with Cons.prems(1) obtain a1 where 1: "AnalyzeError a (DataSetID dataset) err = Ok a1"
      "requirements_loop env r cluster datasets a1 reqs = Ok (a', reqs')"
      by (auto simp: go_bind_Ok_iff)
    from Cons.IH [OF 1(2) same_app_trans [OF Cons.prems(2) same_AnalyzeError [OF 1(1)]] sub Cons.prems(4)]
    show ?thesis .
  next
    case (Inr req)
    with Cons.prems(1) have rest: "requirements_loop env r cluster datasets a (reqs @ [req]) = Ok (a', reqs')"
      by simp
    have "constructDataInfo env r application cluster dataset = Inr req"
      using Inr constructDataInfo_same [OF Cons.prems(2), of env r cluster dataset] by simp
    from constructDataInfo_governed [OF this mem] Cons.prems(4)
    have "list_all (governed_item env r application cluster) (reqs @ [req])" by simp
    from Cons.IH [OF rest Cons.prems(2) sub this] show ?thesis .
  qed
qed

lemma solution_step_E:
  assumes "solution_step env ord r accounts p item (a, spec, gen) = Ok (a', spec', gen')"
  obtains "a' = a"
    "AddFlowInfoForAsset env ord accounts (AR_Provision r) (AR_Templates r) p item a spec gen = Ok (None, spec', gen')"
  | err where "AnalyzeError a (DataSetID (DataInfo_Context item)) err = Ok a'" "spec' = spec"
proof -
  from assms obtain err where
    add: "AddFlowInfoForAsset env ord accounts (AR_Provision r) (AR_Templates r) p item a spec gen = Ok (err, spec', gen')"
    and rest: "case err of None \<Rightarrow> a' = a
      | Some e \<Rightarrow> AnalyzeError a (DataSetID (DataInfo_Context item)) e = Ok a'"
    by (auto simp: solution_step_def go_bind_Ok_iff split: option.splits)
  show thesis
  proof (cases err)
    case None
    with add rest show ?thesis by (intro that(1)) simp_all
  next
    case (Some e)
    with add rest AddFlowInfoForAsset_error show ?thesis by (intro that(2) [of e]) (simp, blast)
  qed
qed

definition governed_spec :: "go_env \<Rightarrow> 'w AppReconciler \<Rightarrow> FybrikApplication \<Rightarrow> Cluster \<Rightarrow> PlotterSpec \<Rightarrow> bool" where
  "governed_spec env r application cluster spec \<longleftrightarrow>
     plotter_ok spec \<and> list_all (governed_flow env r application cluster) (PlotterSpec_Flows spec)"

lemma solution_step_governed:
  assumes ord: "range_order ord"
    and step: "solution_step env ord r accounts p item (a, spec, gen) = Ok (a', spec', gen')"
    and item: "governed_item env r application cluster item"
    and spec: "governed_spec env r application cluster spec" and same: "same_app application a"
  shows "governed_spec env r application cluster spec' \<and> same_app application a'"
  using step
proof (cases rule: solution_step_E)
  case 1
  from added_flow [OF ord 1(2)] obtain flow where
    flow: "PlotterSpec_Flows spec' = PlotterSpec_Flows spec @ [flow]"
      "Flow_AssetID flow = DataSetID (DataInfo_Context item)"
    and acts: "\<forall>a\<in>set (DataInfo_Actions item). \<exists>sf\<in>set (Flow_SubFlows flow). a \<in> set (subflow_actions sf)"
    by blast
  have "performs flow (DataInfo_Actions item)"
    using acts by (simp add: performs_def list_all_iff list_ex_iff)
  with item flow(2) have "governed_flow env r application cluster flow"
    by (simp add: governed_flow_def governed_item_def)
  moreover have "plotter_ok spec'"
    using spec added_closed [OF _ 1(2)] by (simp add: governed_spec_def)
  ultimately show ?thesis using spec flow(1) same 1(1) by (simp add: governed_spec_def)
next
  case (2 err)
  then show ?thesis using spec same same_AnalyzeError [OF 2(1)] same_app_trans by blast
qed

lemma solution_fold_governed:
  assumes ord: "range_order ord"
    and run: "go_fold (solution_step env ord r accounts p) items (a, spec, gen) = Ok (a', spec', gen')"
    and items: "list_all (governed_item env r application cluster) items"
    and spec: "governed_spec env r application cluster spec" and same: "same_app application a"
  shows "governed_spec env r application cluster spec' \<and> same_app application a'"
  using run items spec same
proof (induction items arbitrary: a spec gen)
  case Nil
  then show ?case by simp
next
  case (Cons item items)
  then obtain a1 spec1 gen1 where
    1: "solution_step env ord r accounts p item (a, spec, gen) = Ok (a1, spec1, gen1)"
    "go_fold (solution_step env ord r accounts p) items (a1, spec1, gen1) = Ok (a', spec', gen')"
    by (auto simp: go_bind_Ok_iff)
  from solution_step_governed [OF ord 1(1)] Cons.prems(2-4)
  have "governed_spec env r application cluster spec1" "same_app application a1" by auto
  from Cons.IH [OF 1(2) _ this] Cons.prems(2) show ?case by simp
qed

lemma buildSolution_governed:
  assumes ord: "range_order ord"
    and run: "buildSolution env ord r items a w = Ok (Inr (storage, spec), a', w')"
    and items: "list_all (governed_item env r application cluster) items" and same: "same_app application a"
  shows "governed_spec env r application cluster spec" and "same_app application a'"
proof -
  obtain p gen where
    "go_fold (solution_step env ord r (AR_ListAccounts r w) p) items
      (a, initial_spec env a, \<lparr>Gen_ProvisionedStorage = fmempty, Gen_World = w\<rparr>) = Ok (a', spec, gen)"
    using run by (auto simp: buildSolution_def Let_def go_bind_Ok_iff split: sum.splits)
  from solution_fold_governed [OF ord this items _ same]
  show "governed_spec env r application cluster spec" "same_app application a'"
    by (simp_all add: governed_spec_def initial_spec_def plotter_ok_def)
qed

lemma buildSolution_same:
  assumes "buildSolution env ord r items a w = Ok (res, a', w')"
  shows "same_app a a'"
proof (cases "a' = a")
  case False
  with assms obtain p spec gen where
    fold: "go_fold (solution_step env ord r (AR_ListAccounts r w) p) items
      (a, initial_spec env a, \<lparr>Gen_ProvisionedStorage = fmempty, Gen_World = w\<rparr>) = Ok (a', spec, gen)"
    by (auto simp: buildSolution_def Let_def go_bind_Ok_iff split: sum.splits)
  have "same_app a (fst (a', spec, gen))"
  proof (rule go_fold_invariant [where P = "\<lambda>st. same_app a (fst st)", OF _ _ fold])
    fix item st st'
    assume "same_app a (fst st)" "solution_step env ord r (AR_ListAccounts r w) p item st = Ok st'"
    then show "same_app a (fst st')"
      by (cases st; cases st') (auto elim!: solution_step_E dest: same_AnalyzeError intro: same_app_trans)
  qed simp
  then show ?thesis by simp
qed simp

lemma generate_resource_E:
  assumes "generate_resource r spec a w = Ok (res, a', w')"
  obtains "AppStatus_Generated (App_Status a') = AppStatus_Generated (App_Status a)"
  | owner ref labels uuid where
    "ref = CreateResourceReference (AR_ResourceInterface r) owner"
    "ResourceReference_AppVersion owner = Meta_Generation (App_Meta a)"
    "CreateOrUpdateResource (AR_ResourceInterface r) owner ref spec labels uuid w = (None, w')"
    "AppStatus_Generated (App_Status a') = Some ref" "res = (None, None)"
proof -
  from assms obtain a1 where a1: "setReadModulesEndpoints a (PlotterSpec_Flows spec) = Ok a1"
    by (auto simp: generate_resource_def go_bind_Ok_iff)
  note same = same_appD [OF same_endpoints [OF a1]]
  let ?ri = "AR_ResourceInterface r"
  let ?owner = "\<lparr>ResourceReference_Name = Meta_Name (App_Meta a), ResourceReference_Namespace = Meta_Namespace (App_Meta a),
    ResourceReference_Kind = [], ResourceReference_AppVersion = Meta_Generation (App_Meta a)\<rparr>"
  let ?ref = "CreateResourceReference ?ri ?owner"
  obtain err w1 where upd: "CreateOrUpdateResource ?ri ?owner ?ref spec (Meta_Labels (App_Meta a))
      (GetFybrikApplicationUUID a1) w = (err, w1)" by fastforce
  show thesis
  proof (cases err)
    case None
    with assms a1 upd have "a' = with_status (\<lambda>s. s\<lparr>AppStatus_Generated := Some ?ref\<rparr>) a1" "w' = w1" "res = (None, None)"
      by (auto simp: generate_resource_def Let_def same)
    with upd None show ?thesis by (intro that(2) [of ?ref ?owner]) simp_all
  next
    case (Some e)
    with assms a1 upd have "AppStatus_Generated (App_Status a') = AppStatus_Generated (App_Status a1)"
      by (auto simp: generate_resource_def Let_def same(2) split: if_splits)
    then show ?thesis by (intro that(1)) (simp add: same)
  qed
qed

lemma storage_status_frame:
  assumes "updateProvisionedStorageStatus env ord prov storage a w = (res, a', w')"
  shows "\<exists>st. a' = with_status (\<lambda>s. s\<lparr>AppStatus_ProvisionedStorage := st\<rparr>) a"
  using assms unfolding updateProvisionedStorageStatus_def Let_def by (auto split: prod.splits)

lemma app_reconcile_E:
  assumes ord: "range_order ord" and run: "app_reconcile env ord r application w = Ok (res, a', w')"
  obtains "AppStatus_Generated (App_Status a') = AppStatus_Generated (App_Status application)"
  | cluster spec w2 owner ref labels uuid where
    "GetWorkloadCluster env r application w = Inr cluster" "governed_spec env r application cluster spec"
    "ref = CreateResourceReference (AR_ResourceInterface r) owner"
    "ResourceReference_AppVersion owner = Meta_Generation (App_Meta application)"
    "CreateOrUpdateResource (AR_ResourceInterface r) owner ref spec labels uuid w2 = (None, w')"
    "AppStatus_Generated (App_Status a') = Some ref" "res = (None, None)"
proof -
  from run obtain a1 where a1: "initStatus application = Ok a1"
    by (auto simp: app_reconcile_def go_bind_Ok_iff)
  note same1 = same_initStatus [OF a1]
  show thesis
  proof (cases "AppStatus_Generated (App_Status a') = AppStatus_Generated (App_Status application)")
    case True
    then show ?thesis by (rule that(1))
  next
    case False
    obtain cluster where cluster: "GetWorkloadCluster env r a1 w = Inr cluster"
      using run a1 False same_appD(3) [OF same1] by (auto simp: app_reconcile_def split: sum.splits if_splits)
    obtain a2 reqs where reqs: "requirements_loop env r cluster (AppSpec_Data (App_Spec a1)) a1 [] = Ok (a2, reqs)"
      using run a1 False same_appD(3) [OF same1] cluster
      by (auto simp: app_reconcile_def go_bind_Ok_iff split: if_splits)
    note same2 = same_app_trans [OF same1 same_requirements_loop [OF reqs]]
    obtain sol a3 w1 where sol: "buildSolution env ord r reqs a2 w = Ok (sol, a3, w1)"
      using run a1 False same_appD(3) [OF same1] same_appD(3) [OF same2] cluster reqs
      by (auto simp: app_reconcile_def go_bind_Ok_iff split: if_splits)
    note same3 = same_app_trans [OF same2 buildSolution_same [OF sol]]
    obtain storage spec where inr: "sol = Inr (storage, spec)"
      using run a1 False same_appD(3) [OF same1] same_appD(3) [OF same2] same_appD(3) [OF same3] cluster reqs sol
      by (cases sol) (auto simp: app_reconcile_def split: if_splits)
    obtain ready a4 w2 where upd: "updateProvisionedStorageStatus env ord (AR_Provision r) storage a3 w1 = (ready, a4, w2)"
      by (rule prod_cases3)
    from storage_status_frame [OF this]
    obtain st where a4: "a4 = with_status (\<lambda>s. s\<lparr>AppStatus_ProvisionedStorage := st\<rparr>) a3" by (rule exE)
    have same4: "App_Meta a4 = App_Meta application"
      "AppStatus_Generated (App_Status a4) = AppStatus_Generated (App_Status application)"
      using same_appD(2,3) [OF same3] by (simp_all add: a4)
    have gen: "generate_resource r spec a4 w2 = Ok (res, a', w')"
      using run a1 False same_appD(3) [OF same1] same_appD(3) [OF same2] same_appD(3) [OF same3] same4(2)
        cluster reqs sol upd
      by (cases ready) (auto simp: app_reconcile_def inr go_bind_Ok_iff split: if_splits)
    have items: "list_all (governed_item env r application cluster) reqs"
      by (rule requirements_governed [OF reqs same1]) (simp_all add: same_appD(1) [OF same1])
    have gov: "governed_spec env r application cluster spec"
      by (rule buildSolution_governed(1) [OF ord sol [unfolded inr] items same2])
    have cl: "GetWorkloadCluster env r application w = Inr cluster"
      using cluster GetWorkloadCluster_same [OF same1] by metis
    from gen show ?thesis
    proof (cases rule: generate_resource_E)
      case 1
      with same4(2) False show ?thesis by simp
    next
      case (2 owner ref labels uuid)
      show ?thesis by (rule that(2) [OF cl gov 2(1) _ 2(3,4,5)]) (simp add: 2(2) same4(1))
    qed
  qed
qed

section \<open>Conditions\<close>

text \<open>An application whose conditions are in place and of which no asset is ready.\<close>

definition pending :: "FybrikApplication \<Rightarrow> FybrikApplication \<Rightarrow> bool" where
  "pending application a \<longleftrightarrow> App_Spec a = App_Spec application \<and> App_Meta a = App_Meta application \<and>
     conditions_ok a \<and> (\<forall>x\<in>declared application. status_of a x ReadyConditionIndex = ConditionFalse)"

lemma pending_initStatus: "initStatus application = Ok a \<Longrightarrow> pending application a"
  using initStatus_Ok [of application] same_initStatus [of application a] by (auto simp: pending_def same_app_def)

lemma pending_update:
  assumes "pending application a" "updated_asset u \<in> declared application"
    "\<not> updates_status u (updated_asset u) ReadyConditionIndex" "apply_update u a = Ok a'"
  shows "pending application a'"
proof -
  have "updated_asset u \<in> declared a" using assms(1,2) by (simp add: pending_def)
  with apply_update_Ok [of a u] assms(1,4) have 1: "conditions_ok a'"
    "\<And>x j. status_of a' x j = (if updates_status u x j then ConditionTrue else status_of a x j)"
    by (auto simp: pending_def)
  have "same_app a a'" using assms(4) by (cases u) (auto dest: same_setters)
  with 1 assms(1,3) show ?thesis
    by (auto simp: pending_def updates_status_def dest: same_appD(1,2))
qed

lemma pending_AnalyzeError:
  assumes "pending application a" "x \<in> declared application" "AnalyzeError a x err = Ok a'"
  shows "pending application a'"
proof (cases "err \<in> {InvalidAssetID, ReadAccessDenied, CopyNotAllowed, WriteNotAllowed, InvalidAssetDataStore}")
  case True
  show ?thesis by (rule pending_update [OF assms(1), of "SetDeny x err"])
      (use True assms(2,3) in \<open>simp_all add: AnalyzeError_def updates_status_def\<close>)
next
  case False
  show ?thesis by (rule pending_update [OF assms(1), of "SetError x err"])
      (use False assms(2,3) in \<open>simp_all add: AnalyzeError_def updates_status_def\<close>)
qed

lemma pending_requirements:
  assumes "requirements_loop env r c datasets a reqs = Ok (a', reqs')" "pending application a"
    "set datasets \<subseteq> set (AppSpec_Data (App_Spec application))"
  shows "pending application a'"
  using assms
proof (induction datasets arbitrary: a reqs)
  case Nil
  then show ?case by simp
next
  case (Cons dataset datasets)
  show ?case
  proof (cases "constructDataInfo env r a c dataset")
    case (Inl err)
    with Cons.prems obtain a1 where 1: "AnalyzeError a (DataSetID dataset) err = Ok a1"
      "requirements_loop env r c datasets a1 reqs = Ok (a', reqs')" by (auto simp: go_bind_Ok_iff)
    have "pending application a1"
      by (rule pending_AnalyzeError [OF Cons.prems(2) _ 1(1)]) (use Cons.prems(3) in auto)
    from Cons.IH [OF 1(2) this] Cons.prems(3) show ?thesis by simp
  next
    case (Inr req)
    with Cons.prems(1) have "requirements_loop env r c datasets a (reqs @ [req]) = Ok (a', reqs')" by simp
    from Cons.IH [OF this Cons.prems(2)] Cons.prems(3) show ?thesis by simp
  qed
qed

lemma pending_solution:
  assumes "go_fold (solution_step env ord r accounts p) items (a, spec, gen) = Ok (a', spec', gen')"
    and "list_all (\<lambda>item. DataSetID (DataInfo_Context item) \<in> declared application) items"
    and "pending application a"
  shows "pending application a'"
  using assms
proof (induction items arbitrary: a spec gen)
  case Nil
  then show ?case by simp
next
  case (Cons item items)
  then obtain a1 spec1 gen1 where
    1: "solution_step env ord r accounts p item (a, spec, gen) = Ok (a1, spec1, gen1)"
    "go_fold (solution_step env ord r accounts p) items (a1, spec1, gen1) = Ok (a', spec', gen')"
    by (auto simp: go_bind_Ok_iff)
  from Cons.prems(2) have x: "DataSetID (DataInfo_Context item) \<in> declared application" by simp
  from 1(1) have "pending application a1"
    by (cases rule: solution_step_E) (use Cons.prems(3) pending_AnalyzeError [OF Cons.prems(3) x] in blast)+
  from Cons.IH [OF 1(2) _ this] Cons.prems(2) show ?case by simp
qed

lemma pending_buildSolution:
  assumes "buildSolution env ord r items a w = Ok (sol, a', w')"
    and "list_all (\<lambda>item. DataSetID (DataInfo_Context item) \<in> declared application) items"
    and "pending application a"
  shows "pending application a'"
proof (cases "a' = a")
  case False
  with assms(1) obtain p spec gen where
    "go_fold (solution_step env ord r (AR_ListAccounts r w) p) items
      (a, initial_spec env a, \<lparr>Gen_ProvisionedStorage = fmempty, Gen_World = w\<rparr>) = Ok (a', spec, gen)"
    by (auto simp: buildSolution_def Let_def go_bind_Ok_iff split: sum.splits)
  from pending_solution [OF this assms(2,3)] show ?thesis .
qed (use assms(3) in simp)

text \<open>Changes of the status beside the conditions.\<close>

lemma conditions_frame:
  assumes "AppStatus_AssetStates (App_Status a') = AppStatus_AssetStates (App_Status a)"
  shows "status_of a' = status_of a" and "App_Spec a' = App_Spec a \<Longrightarrow> conditions_ok a' = conditions_ok a"
proof -
  have "asset_states a' = asset_states a" using assms by (simp add: asset_states_def)
  with assms show "status_of a' = status_of a" "App_Spec a' = App_Spec a \<Longrightarrow> conditions_ok a' = conditions_ok a"
    by (simp_all add: fun_eq_iff status_of_def condition_of_def conditions_ok_def)
qed

lemma pending_frame:
  assumes "pending application a" "AppStatus_AssetStates (App_Status a') = AppStatus_AssetStates (App_Status a)"
    "App_Spec a' = App_Spec a" "App_Meta a' = App_Meta a"
  shows "pending application a'"
  using assms(1,3,4) conditions_frame [OF assms(2)] by (simp add: pending_def)

lemma pending_endpoint:
  assumes "pending application a" "asset \<in> set (AppSpec_Data (App_Spec application))"
    "endpoint_step m asset a = Ok a'"
  shows "pending application a'"
proof -
  let ?x = "DataSetID asset"
  let ?st = "(fmget AssetState_zero (asset_states a) ?x)\<lparr>AssetState_Endpoint := fmget Connection_zero m ?x\<rparr>"
  have put: "put_asset_state a ?x ?st = Ok a'" using assms(3) by (simp add: endpoint_step_def)
  have dom: "?x |\<in>| fmdom (asset_states a)"
    using assms(1,2) declared_states by (auto simp: pending_def)
  then obtain st where st: "fmlookup (asset_states a) ?x = Some st" by (auto simp: fmlookup_dom_iff)
  have states: "asset_states a' = fmupd ?x ?st (asset_states a)"
    "AppStatus_AssetStates (App_Status a') \<noteq> None" "App_Spec a' = App_Spec a"
    using put_asset_state_Ok [OF put] by simp_all
  have ok: "state_ok ?st" using assms(1) st by (auto simp: pending_def conditions_ok_def fmget_def state_ok_def dest: fmpredD)
  have "conditions_ok a'"
    using assms(1) ok unfolding conditions_ok_def pending_def states
    by (auto simp: fmpred_iff list_all_iff states split: if_splits)
  moreover have "status_of a' y j = status_of a y j" for y j
    using st by (auto simp: status_of_def condition_of_def states fmget_def)
  ultimately show ?thesis
    using assms(1) same_appD(1,2) [OF same_put [OF put]] by (simp add: pending_def)
qed

lemma pending_endpoints:
  assumes "setReadModulesEndpoints a flows = Ok a'" "pending application a"
  shows "pending application a'"
proof -
  obtain m where m: "go_fold (endpoint_step m) (AppSpec_Data (App_Spec a)) a = Ok a'"
    using assms(1) by (auto simp: setReadModulesEndpoints_def go_bind_Ok_iff)
  show ?thesis
    by (rule go_fold_invariant [where P = "pending application", OF assms(2) _ m])
      (rule pending_endpoint, use assms(2) in \<open>simp_all add: pending_def\<close>)
qed

lemma pending_generate:
  assumes "generate_resource r spec a w = Ok (res, a', w')" "pending application a"
  shows "pending application a'"
proof -
  from assms(1) obtain a1 where a1: "setReadModulesEndpoints a (PlotterSpec_Flows spec) = Ok a1"
    by (auto simp: generate_resource_def go_bind_Ok_iff)
  from pending_endpoints [OF a1 assms(2)] have p: "pending application a1" .
  have "AppStatus_AssetStates (App_Status a') = AppStatus_AssetStates (App_Status a1)"
    "App_Spec a' = App_Spec a1" "App_Meta a' = App_Meta a1"
    using assms(1) a1 by (auto simp: generate_resource_def Let_def split: prod.splits option.splits if_splits)
  with p show ?thesis by (rule pending_frame)
qed

lemma governed_declared:
  "list_all (governed_item env r application cluster) items \<Longrightarrow>
     list_all (\<lambda>item. DataSetID (DataInfo_Context item) \<in> declared application) items"
  by (auto simp: list_all_iff governed_item_def)

lemma app_reconcile_pending:
  assumes run: "app_reconcile env ord r application w = Ok (res, a', w')"
  shows "pending application a'"
proof -
  from run obtain a1 where a1: "initStatus application = Ok a1"
    by (auto simp: app_reconcile_def go_bind_Ok_iff)
  note same1 = same_initStatus [OF a1] and p1 = pending_initStatus [OF a1]
  show ?thesis
  proof (cases "a' = a1")
    case True
    with p1 show ?thesis by simp
  next
    case n1: False
    obtain cluster where cluster: "GetWorkloadCluster env r a1 w = Inr cluster"
      using run a1 n1 by (auto simp: app_reconcile_def split: sum.splits if_splits)
    obtain a2 reqs where reqs: "requirements_loop env r cluster (AppSpec_Data (App_Spec a1)) a1 [] = Ok (a2, reqs)"
      using run a1 n1 cluster by (auto simp: app_reconcile_def go_bind_Ok_iff split: if_splits)
    have p2: "pending application a2"
      by (rule pending_requirements [OF reqs p1]) (simp add: same_appD(1) [OF same1])
    have items: "list_all (\<lambda>item. DataSetID (DataInfo_Context item) \<in> declared application) reqs"
      by (rule governed_declared, rule requirements_governed [OF reqs same1]) (simp_all add: same_appD(1) [OF same1])
    show ?thesis
    proof (cases "a' = a2")
      case True
      with p2 show ?thesis by simp
    next
      case n2: False
      obtain sol a3 w1 where sol: "buildSolution env ord r reqs a2 w = Ok (sol, a3, w1)"
        using run a1 n1 n2 cluster reqs by (auto simp: app_reconcile_def go_bind_Ok_iff split: if_splits)
      note p3 = pending_buildSolution [OF sol items p2]
      show ?thesis
      proof (cases "a' = a3")
        case True
        with p3 show ?thesis by simp
      next
        case n3: False
        obtain storage spec where inr: "sol = Inr (storage, spec)"
          using run a1 n1 n2 n3 cluster reqs sol by (cases sol) (auto simp: app_reconcile_def split: if_splits)
        obtain ready a4 w2 where upd: "updateProvisionedStorageStatus env ord (AR_Provision r) storage a3 w1 = (ready, a4, w2)"
          by (rule prod_cases3)
        from storage_status_frame [OF this]
        obtain st where a4: "a4 = with_status (\<lambda>s. s\<lparr>AppStatus_ProvisionedStorage := st\<rparr>) a3" by (rule exE)
        have p4: "pending application a4" by (rule pending_frame [OF p3]) (simp_all add: a4)
        have "a' = a4 \<or> generate_resource r spec a4 w2 = Ok (res, a', w')"
          using run a1 n1 n2 n3 cluster reqs sol upd
          by (cases ready) (auto simp: app_reconcile_def inr go_bind_Ok_iff split: if_splits)
        then show ?thesis
        proof
          assume "a' = a4"
          with p4 show ?thesis by simp
        next
          assume "generate_resource r spec a4 w2 = Ok (res, a', w')"
          from pending_generate [OF this p4] show ?thesis .
        qed
      qed
    qed
  qed
qed

section \<open>Readiness\<close>

text \<open>The state of the plotter makes a dataset ready that is not to be registered in a catalog.\<close>

definition makes_ready :: "ObservedState \<Rightarrow> DataContext \<Rightarrow> bool" where
  "makes_ready state ctx \<longleftrightarrow> ObservedState_Error state = [] \<and> ObservedState_Ready state \<and>
     CatalogID (CopyRequirements_Catalog (Requirements_Copy (DataContext_Requirements ctx))) = []"

definition denied :: "FybrikApplication \<Rightarrow> string \<Rightarrow> bool" where
  "denied a x \<longleftrightarrow> status_of a x DenyConditionIndex = ConditionTrue"

lemma update_total:
  assumes "conditions_ok a" "updated_asset u \<in> declared a"
  obtains a' where "apply_update u a = Ok a'" "conditions_ok a'" "same_app a a'"
    "\<And>x j. status_of a' x j = (if updates_status u x j then ConditionTrue else status_of a x j)"
proof -
  from apply_update_Ok [OF assms] obtain a' where a': "apply_update u a = Ok a'" "conditions_ok a'"
    "\<And>x j. status_of a' x j = (if updates_status u x j then ConditionTrue else status_of a x j)" by blast
  have "same_app a a'" using a'(1) by (cases u) (auto dest: same_setters)
  with a' show thesis by (intro that)
qed

text \<open>A step sets the ready condition when it should, otherwise at most the error condition.\<close>

lemma readiness_step_cases:
  assumes "conditions_ok a" "DataSetID ctx \<in> declared a"
  obtains "denied a (DataSetID ctx)" "readiness_step env prov state ctx (a, w) = Ok (a, w)"
  | a' where "\<not> denied a (DataSetID ctx)" "makes_ready state ctx"
    "apply_update (SetReady (DataSetID ctx)) a = Ok a'" "readiness_step env prov state ctx (a, w) = Ok (a', w)"
  | "\<not> makes_ready state ctx" "ObservedState_Error state = []"
    "readiness_step env prov state ctx (a, w) = Ok (a, w)"
  | msg a' w' where "\<not> denied a (DataSetID ctx)" "\<not> makes_ready state ctx"
    "apply_update (SetError (DataSetID ctx) msg) a = Ok a'" "readiness_step env prov state ctx (a, w) = Ok (a', w')"
proof -
  let ?x = "DataSetID ctx"
  obtain st where st: "fmlookup (asset_states a) ?x = Some st"
    using declared_states [OF assms] by (auto simp: fmlookup_dom_iff)
  have len: "length (AssetState_Conditions st) = 3"
    using assms(1) st by (auto simp: conditions_ok_def intro!: state_ok_length dest: fmpredD)
  have deny: "denied a ?x \<longleftrightarrow> Condition_Status (AssetState_Conditions st ! DenyConditionIndex) = ConditionTrue"
    using st by (simp add: denied_def status_of_def condition_of_def fmget_def)
  have get: "slice_get (AssetState_Conditions (fmget AssetState_zero (asset_states a) ?x)) DenyConditionIndex =
      Ok (AssetState_Conditions st ! DenyConditionIndex)"
    using st len by (simp add: slice_get_def fmget_def)
  obtain ra where ready: "apply_update (SetReady ?x) a = Ok ra"
    using apply_update_Ok [OF assms(1), of "SetReady ?x"] assms(2) by auto
  have error: "\<exists>ea. setErrorCondition a ?x msg = Ok ea" for msg
    using apply_update_Ok [OF assms(1), of "SetError ?x msg"] assms(2) by auto
  define errs where "errs = (\<lambda>msg. SOME ea. setErrorCondition a ?x msg = Ok ea)"
  have errs: "setErrorCondition a ?x msg = Ok (errs msg)" for msg
    using someI_ex [OF error [of msg]] by (simp add: errs_def)
  note defs = readiness_step_def Let_def get deny [symmetric] errs go_bind.simps RegisterAsset_def
  consider "denied a ?x" | "\<not> denied a ?x" "makes_ready state ctx"
    | "\<not> denied a ?x" "\<not> makes_ready state ctx" by blast
  then show thesis
  proof cases
    case 1
    then show thesis by (intro that(1)) (simp_all add: defs del: One_nat_def)
  next
    case 2
    with ready show thesis by (intro that(2) [of ra]) (simp_all add: defs makes_ready_def del: One_nat_def)
  next
    case 3
    have "(ObservedState_Error state = [] \<and> readiness_step env prov state ctx (a, w) = Ok (a, w)) \<or>
        (\<exists>msg w'. readiness_step env prov state ctx (a, w) = Ok (errs msg, w'))"
      using 3 by (auto simp: defs makes_ready_def simp del: One_nat_def split: option.splits prod.splits)
    with 3 that(3) that(4) errs show thesis by (metis apply_update.simps(1))
  qed
qed

text \<open>What a run over the datasets does to the conditions.\<close>

definition readied :: "ObservedState \<Rightarrow> DataContext list \<Rightarrow> FybrikApplication \<Rightarrow> FybrikApplication \<Rightarrow> bool" where
  "readied state data a a' \<longleftrightarrow> conditions_ok a' \<and> same_app a a' \<and>
     (\<forall>x. status_of a' x DenyConditionIndex = status_of a x DenyConditionIndex) \<and>
     (\<forall>x. status_of a' x ReadyConditionIndex =
        (if \<not> denied a x \<and> (\<exists>ctx\<in>set data. DataSetID ctx = x \<and> makes_ready state ctx) then ConditionTrue
         else status_of a x ReadyConditionIndex))"

lemma readiness_step_readied:
  assumes "conditions_ok a" "DataSetID ctx \<in> declared a"
  shows "\<exists>a' w'. readiness_step env prov state ctx (a, w) = Ok (a', w') \<and> readied state [ctx] a a'"
  using assms
proof (cases rule: readiness_step_cases [where env = env and prov = prov and state = state and w = w])
  case 1
  with assms show ?thesis by (auto simp: readied_def)
next
  case (2 a')
  from update_total [OF assms(1), of "SetReady (DataSetID ctx)"] assms(2) obtain b where
    b: "apply_update (SetReady (DataSetID ctx)) a = Ok b" "conditions_ok b" "same_app a b"
    "\<And>x j. status_of b x j = (if updates_status (SetReady (DataSetID ctx)) x j then ConditionTrue else status_of a x j)"
    by auto
  from b(1) 2(3) have "b = a'" by simp
  with b 2 show ?thesis by (auto simp: readied_def denied_def updates_status_def)
next
  case 3
  with assms show ?thesis by (auto simp: readied_def)
next
  case (4 msg a' w')
  from update_total [OF assms(1), of "SetError (DataSetID ctx) msg"] assms(2) obtain b where
    b: "apply_update (SetError (DataSetID ctx) msg) a = Ok b" "conditions_ok b" "same_app a b"
    "\<And>x j. status_of b x j = (if updates_status (SetError (DataSetID ctx) msg) x j then ConditionTrue else status_of a x j)"
    by auto
  from b(1) 4(3) have "b = a'" by simp
  with b 4 show ?thesis by (auto simp: readied_def denied_def updates_status_def)
qed

lemma readied_trans:
  "readied state xs a b \<Longrightarrow> readied state ys b c \<Longrightarrow> readied state (xs @ ys) a c"
  by (auto simp: readied_def denied_def intro: same_app_trans)

lemma readiness_fold:
  assumes "conditions_ok a" "DataSetID ` set data \<subseteq> declared a"
  shows "\<exists>a' w'. go_fold (readiness_step env prov state) data (a, w) = Ok (a', w') \<and> readied state data a a'"
  using assms
proof (induction data arbitrary: a w)
  case Nil
  then show ?case by (simp add: readied_def)
next
  case (Cons ctx data)
  from readiness_step_readied [OF Cons.prems(1), of ctx env prov state w] Cons.prems(2) obtain b w1 where
    b: "readiness_step env prov state ctx (a, w) = Ok (b, w1)" "readied state [ctx] a b" by auto
  then have "conditions_ok b" "DataSetID ` set data \<subseteq> declared b"
    using Cons.prems(2) same_appD(1) by (auto simp: readied_def)
  from Cons.IH [OF this, of w1] obtain c w2 where
    "go_fold (readiness_step env prov state) data (b, w1) = Ok (c, w2)" "readied state data b c" by blast
  with b readied_trans [OF b(2), of data c] show ?case by auto
qed

lemma checkReadiness_readied:
  assumes "conditions_ok a"
  shows "\<exists>a' w'. checkReadiness env prov state a w = Ok (a', w') \<and> readied state (AppSpec_Data (App_Spec a)) a a'"
proof -
  have "AppStatus_AssetStates (App_Status a) \<noteq> None" using assms by (simp add: conditions_ok_def)
  then have "checkReadiness env prov state a w =
      go_fold (readiness_step env prov state) (AppSpec_Data (App_Spec a)) (a, w)" by (auto simp: checkReadiness_def)
  with readiness_fold [OF assms subset_refl, of env prov state w] show ?thesis by simp
qed

section \<open>The end of a reconciliation\<close>

lemma ready_loop_total:
  "fmpred (\<lambda>_. state_ok) states \<Longrightarrow> \<exists>b. ready_loop states data = Ok b"
proof (induction data)
  case (Cons ctx data)
  show ?case
  proof (cases "fmlookup states (DataSetID ctx)")
    case None
    then have "ready_loop states (ctx # data) = Ok False" by (simp add: fmget_def AssetState_zero_def Let_def)
    then show ?thesis ..
  next
    case (Some st)
    with Cons.prems have "length (AssetState_Conditions st) = 3" by (auto intro!: state_ok_length dest: fmpredD)
    with Some Cons.IH [OF Cons.prems] show ?thesis by (auto simp: fmget_def slice_get_def Let_def)
  qed
qed auto

lemma error_loop_total:
  "\<forall>(k, st)\<in>set kvs. state_ok st \<Longrightarrow> \<exists>msgs'. error_loop kvs msgs = Ok msgs'"
  by (induction kvs msgs rule: error_loop.induct) (auto simp: slice_get_def state_ok_length)

lemma status_total:
  assumes "range_order ord" "AppStatus_AssetStates (App_Status a) \<noteq> None"
    "fmpred (\<lambda>_. state_ok) (asset_states a)"
  shows "\<exists>b. isReady a = Ok b" and "\<exists>msg. getErrorMessages ord a = Ok msg"
proof -
  show "\<exists>b. isReady a = Ok b"
    using assms(2,3) ready_loop_total by (auto simp: isReady_def asset_states_def)
  have "\<forall>(k, st)\<in>set (fmrange ord (asset_states a)). state_ok st"
    using assms(3) by (auto simp: fmpred_iff fmrange_set [OF assms(1)])
  from error_loop_total [OF this, of "[]"] show "\<exists>msg. getErrorMessages ord a = Ok msg"
    by (auto simp: getErrorMessages_def)
qed

text \<open>A reconciliation that gets to its end returns, and stores the status it computed.\<close>

lemma finish_reconcile_end:
  assumes api: "api_contract Application_kind (AR_Client r)" and retry: "retry_contract (AR_Client r)"
    and changed: "\<forall>s s'. \<not> K8s_StatusUnchanged (AR_Client r) s s'" and ord: "range_order ord"
    and ok: "conditions_ok a" and alive: "\<not> is_deleted Application_kind a"
  obtains ready res err w' where "isReady a = Ok ready" "finish_reconcile ord r observed a w = Ok ((res, err), w')"
    "err = None \<Longrightarrow> \<exists>stored. K8s_Get (AR_Client r) (object_key Application_kind a) w' = Inr stored \<and>
       App_Status stored = (App_Status a)\<lparr>AppStatus_Ready := ready\<rparr>"
proof -
  note kind = Application_kind_def
  from ok have states: "AppStatus_AssetStates (App_Status a) \<noteq> None" "fmpred (\<lambda>_. state_ok) (asset_states a)"
    by (simp_all add: conditions_ok_def)
  from status_total(1) [OF ord states] obtain ready where ready: "isReady a = Ok ready" by blast
  let ?a = "with_status (\<lambda>s. s\<lparr>AppStatus_Ready := ready\<rparr>) a"
  have alive': "\<not> is_deleted Application_kind ?a" and key: "object_key Application_kind ?a = object_key Application_kind a"
    using alive by (simp_all add: is_deleted_def object_key_def kind)
  obtain e a2 w1 where upd: "UpdateStatus Application_kind (AR_Client r) ?a observed w = (e, a2, w1)"
    by (rule prod_cases3)
  show thesis
  proof (cases e)
    case (Some err)
    show thesis by (rule that [OF ready, of None "Some (api_message err)" w1])
      (use Some upd alive' in \<open>simp_all add: finish_reconcile_def ready Let_def\<close>)
  next
    case None
    note upd' = upd [unfolded None]
    from application_kind.UpdateStatus_reaches [OF api retry upd' changed [rule_format]]
    have stored: "\<exists>stored. K8s_Get (AR_Client r) (object_key Application_kind a) w1 = Inr stored \<and>
        App_Status stored = (App_Status a)\<lparr>AppStatus_Ready := ready\<rparr>"
      and a2: "App_Status a2 = App_Status ?a" unfolding key by (simp_all add: kind)
    from a2 states have "AppStatus_AssetStates (App_Status a2) \<noteq> None" "fmpred (\<lambda>_. state_ok) (asset_states a2)"
      by (simp_all add: asset_states_def)
    from status_total [OF ord this] obtain ready' msg where
      "isReady a2 = Ok ready'" "getErrorMessages ord a2 = Ok msg" by blast
    then show thesis
      by (intro that [OF ready, of "if \<not> ready' then Some 10 else None" None w1] stored)
        (simp add: finish_reconcile_def ready alive' upd' Let_def)
  qed
qed

section \<open>A whole reconciliation\<close>

text \<open>An application at work: not being deleted, with datasets and with the finalizer of its controller.\<close>

definition at_work :: "'w AppReconciler \<Rightarrow> FybrikApplication \<Rightarrow> bool" where
  "at_work r a \<longleftrightarrow> \<not> is_deleted Application_kind a \<and> AppSpec_Data (App_Spec a) \<noteq> [] \<and>
     K8s_ContainsFinalizer (AR_Client r) a (finalizer_name (AR_Name r))"

text \<open>The conditions are in place once the current generation was observed.\<close>

definition status_ok :: "FybrikApplication \<Rightarrow> bool" where
  "status_ok a \<longleftrightarrow> (AppStatus_ObservedGeneration (App_Status a) = Meta_Generation (App_Meta a) \<longrightarrow> conditions_ok a)"

lemma finalizers_idle: "at_work r a \<Longrightarrow> app_reconcileFinalizers env ord r a w = (None, a, w)"
  by (simp add: at_work_def app_reconcileFinalizers_def Let_def)

definition same_conditions :: "FybrikApplication \<Rightarrow> FybrikApplication \<Rightarrow> bool" where
  "same_conditions a b \<longleftrightarrow> App_Spec b = App_Spec a \<and> App_Meta b = App_Meta a \<and>
     AppStatus_AssetStates (App_Status b) = AppStatus_AssetStates (App_Status a) \<and>
     AppStatus_Generated (App_Status b) = AppStatus_Generated (App_Status a) \<and>
     AppStatus_ObservedGeneration (App_Status b) = AppStatus_ObservedGeneration (App_Status a)"

lemma same_conditionsD:
  assumes "same_conditions a b"
  shows "App_Spec b = App_Spec a" "App_Meta b = App_Meta a"
    "AppStatus_AssetStates (App_Status b) = AppStatus_AssetStates (App_Status a)"
    "AppStatus_Generated (App_Status b) = AppStatus_Generated (App_Status a)"
    "is_deleted Application_kind b = is_deleted Application_kind a"
    "object_key Application_kind b = object_key Application_kind a"
    "conditions_ok b = conditions_ok a" "status_of b = status_of a"
  using assms conditions_frame [of b a]
  by (simp_all add: same_conditions_def is_deleted_def object_key_def Application_kind_def)

lemma validate_application_Inr:
  "validate_application env r a w = Inr a1 \<Longrightarrow> same_conditions a a1"
  by (auto simp: validate_application_def Let_def same_conditions_def split: if_splits option.splits prod.splits)

lemma validate_application_Inl:
  assumes "validate_application env r a w = Inl ((res, err), w')"
  obtains a1 e a2 where "same_conditions a a1"
    "UpdateStatus Application_kind (AR_Client r) a1 (App_Status a) w = (e, a2, w')" "err = map_option api_message e"
  using assms that [of "with_status (\<lambda>s. s\<lparr>AppStatus_ValidatedGeneration := Meta_Generation (App_Meta a),
      AppStatus_ErrorMessage := m, AppStatus_ValidApplication := ConditionFalse\<rparr>) a" for m]
  by (auto simp: validate_application_def Let_def same_conditions_def split: if_splits option.splits prod.splits)

lemma generation_complete_True:
  "generation_complete ri s v w = Ok True \<Longrightarrow>
     \<exists>ref. AppStatus_Generated s = Some ref \<and> ResourceReference_AppVersion ref = v \<and> ResourceExists ri (Some ref) w"
  by (auto simp: generation_complete_def split: if_splits option.splits)

text \<open>What a reconciliation without an error leaves of the conditions.\<close>

lemma Application_Reconcile_E:
  assumes api: "api_contract Application_kind (AR_Client r)" and retry: "retry_contract (AR_Client r)"
    and changed: "\<forall>s s'. \<not> K8s_StatusUnchanged (AR_Client r) s s'" and ord: "range_order ord"
    and get: "K8s_Get (AR_Client r) req w = Inr a" and work: "at_work r a" and ok: "status_ok a"
    and run: "Application_Reconcile env ord r req w = Ok ((res, None), w')"
    and stored: "K8s_Get (AR_Client r) req w' = Inr stored"
  obtains (kept) "AppStatus_AssetStates (App_Status stored) = AppStatus_AssetStates (App_Status a)"
    "AppStatus_ObservedGeneration (App_Status stored) = AppStatus_ObservedGeneration (App_Status a)"
  | (generated) a2 where "pending a a2"
    "AppStatus_AssetStates (App_Status stored) = AppStatus_AssetStates (App_Status a2)"
  | (checked) a1 ref state a2 where "same_conditions a a1" "AppStatus_Generated (App_Status a) = Some ref"
    "ResourceReference_AppVersion ref = Meta_Generation (App_Meta a)"
    "ResourceExists (AR_ResourceInterface r) (Some ref) w"
    "GetResourceStatus (AR_ResourceInterface r) (Some ref) w = Inr state"
    "readied state (AppSpec_Data (App_Spec a)) a1 a2"
    "AppStatus_AssetStates (App_Status stored) = AppStatus_AssetStates (App_Status a2)"
proof -
  from work have alive: "\<not> is_deleted Application_kind a" by (simp add: at_work_def)
  from api_contractD(5) [OF api get] have key: "object_key Application_kind a = req" .
  note fin = finalizers_idle [OF work, of env ord w]
  note finish = finish_reconcile_end [OF api retry changed ord, of _ "App_Status a"]
  have finished: "AppStatus_AssetStates (App_Status stored) = AppStatus_AssetStates (App_Status b)"
    if "finish_reconcile ord r (App_Status a) b v = Ok ((res, None), w')" "conditions_ok b"
      "\<not> is_deleted Application_kind b" "object_key Application_kind b = req" for b v
    using that(2,3) by (rule finish [where w = v]) (use that(1,4) stored in auto)
  show thesis
  proof (cases "validate_application env r a w")
    case (Inl early)
    with run get fin alive have "early = ((res, None), w')" by (simp add: Application_Reconcile_def)
    with Inl obtain a1 a2 where same: "same_conditions a a1"
      and upd: "UpdateStatus Application_kind (AR_Client r) a1 (App_Status a) w = (None, a2, w')"
      by (auto elim!: validate_application_Inl)
    from application_kind.UpdateStatus_reaches(1) [OF api retry upd changed [rule_format]] stored
    have "App_Status stored = App_Status a1"
      by (simp add: same_conditionsD(6) [OF same] key) (simp add: Application_kind_def)
    with same show thesis by (intro kept) (simp_all add: same_conditions_def)
  next
    case (Inr a1)
    note same = validate_application_Inr [OF Inr]
    show thesis
    proof (cases "AppStatus_ValidApplication (App_Status a1) = ConditionFalse")
      case True
      with run get fin alive Inr have "w' = w" by (simp add: Application_Reconcile_def Let_def)
      with stored get show thesis by (intro kept) simp_all
    next
      case valid: False
      obtain complete where complete: "generation_complete (AR_ResourceInterface r) (App_Status a)
          (Meta_Generation (App_Meta a)) w = Ok complete"
        using run get fin alive Inr valid by (auto simp: Application_Reconcile_def Let_def go_bind_Ok_iff)
      show thesis
      proof (cases "\<not> complete \<or> AppStatus_ObservedGeneration (App_Status a) \<noteq> Meta_Generation (App_Meta a)")
        case True
        then obtain result err a2 w2 where rec: "app_reconcile env ord r a1 w = Ok ((result, err), a2, w2)"
          using run get fin alive Inr valid complete by (auto simp: Application_Reconcile_def Let_def go_bind_Ok_iff)
        let ?a3 = "with_status (\<lambda>s. s\<lparr>AppStatus_ObservedGeneration := Meta_Generation (App_Meta a)\<rparr>) a2"
        from app_reconcile_pending [OF rec] have "pending a a2"
          by (simp add: pending_def same_conditionsD(1,2) [OF same])
        then have p: "pending a ?a3" by (rule pending_frame) simp_all
        have "finish_reconcile ord r (App_Status a) ?a3 w2 = Ok ((res, None), w')"
          using run get fin alive Inr valid complete True rec
          by (auto simp: Application_Reconcile_def Let_def split: option.splits)
        from finished [OF this] p alive key
        have "AppStatus_AssetStates (App_Status stored) = AppStatus_AssetStates (App_Status ?a3)"
          by (simp add: pending_def is_deleted_def object_key_def Application_kind_def)
        with p show thesis by (rule generated)
      next
        case False
        with ok have "conditions_ok a1" by (simp add: same_conditionsD(7) [OF same] status_ok_def)
        obtain ref where ref: "AppStatus_Generated (App_Status a) = Some ref"
          "ResourceReference_AppVersion ref = Meta_Generation (App_Meta a)"
          "ResourceExists (AR_ResourceInterface r) (Some ref) w"
          using generation_complete_True [of "AR_ResourceInterface r" "App_Status a" "Meta_Generation (App_Meta a)" w]
            complete False by auto
        obtain state where state: "GetResourceStatus (AR_ResourceInterface r) (Some ref) w = Inr state"
          using run get fin alive Inr valid complete False ref(1) same_conditionsD(4) [OF same]
          by (cases "GetResourceStatus (AR_ResourceInterface r) (Some ref) w") (auto simp: Application_Reconcile_def Let_def)
        from checkReadiness_readied [OF \<open>conditions_ok a1\<close>, of env "AR_Provision r" state w] obtain a2 w2 where
          chk: "checkReadiness env (AR_Provision r) state a1 w = Ok (a2, w2)"
          and ready: "readied state (AppSpec_Data (App_Spec a)) a1 a2"
          by (auto simp: same_conditionsD(1) [OF same])
        have "finish_reconcile ord r (App_Status a) a2 w2 = Ok ((res, None), w')"
          using run get fin alive Inr valid complete False ref(1) state chk same_conditionsD(4) [OF same]
          by (simp add: Application_Reconcile_def Let_def)
        from finished [OF this] ready alive key same_conditionsD(5,6) [OF same]
        have "AppStatus_AssetStates (App_Status stored) = AppStatus_AssetStates (App_Status a2)"
          by (simp add: readied_def is_deleted_def object_key_def Application_kind_def same_app_def)
        from checked [OF same ref state ready this] show thesis .
      qed
    qed
  qed
qed

section \<open>The end of an application\<close>

definition dataset_gone :: "'w ProvisionInterface \<Rightarrow> go_env \<Rightarrow> 'w \<Rightarrow> DatasetDetails \<Rightarrow> bool" where
  "dataset_gone prov env w d \<longleftrightarrow>
     (\<exists>err. GetDatasetStatus prov (getBucketResourceRef env (DatasetDetails_DatasetRef d)) w = Inl err)"

lemma dataset_gone_delete:
  assumes "provision prov"
    and del: "DeleteDataset prov (getBucketResourceRef env (DatasetDetails_DatasetRef d)) w = (None, w')"
  shows "dataset_gone prov env w' d" and "dataset_gone prov env w d' \<Longrightarrow> dataset_gone prov env w' d'"
proof -
  show gone: "dataset_gone prov env w' d"
    using provision.status_delete [OF assms] by (simp add: dataset_gone_def)
  assume other: "dataset_gone prov env w d'"
  show "dataset_gone prov env w' d'"
  proof (cases "DatasetDetails_DatasetRef d' = DatasetDetails_DatasetRef d")
    case True
    with gone show ?thesis by (simp add: dataset_gone_def)
  next
    case False
    with other del provision.status_other_delete [OF assms(1), of
        "getBucketResourceRef env (DatasetDetails_DatasetRef d')" "getBucketResourceRef env (DatasetDetails_DatasetRef d)" w]
    show ?thesis by (simp add: dataset_gone_def getBucketResourceRef_def)
  qed
qed

lemma delete_datasets:
  assumes "provision prov" and "fold (delete_dataset_step env prov) kvs (ks, es, w) = (ks', [], w')"
  shows "es = [] \<and> ks' = ks @ map fst kvs \<and> (\<forall>(x, d)\<in>set kvs. dataset_gone prov env w' d) \<and>
    (\<forall>d. dataset_gone prov env w d \<longrightarrow> dataset_gone prov env w' d)"
  using assms(2)
proof (induction kvs arbitrary: ks es w)
  case Nil
  then show ?case by simp
next
  case (Cons kv kvs)
  let ?d = "snd kv"
  obtain err w1 where del: "DeleteDataset prov (getBucketResourceRef env (DatasetDetails_DatasetRef ?d)) w = (err, w1)"
    by (rule prod.exhaust)
  then have step: "delete_dataset_step env prov kv (ks, es, w) =
      (case err of None \<Rightarrow> (ks @ [fst kv], es, w1) | Some e \<Rightarrow> (ks, es @ [e], w1))"
    by (simp add: delete_dataset_step_def split: option.splits)
  show ?case
  proof (cases err)
    case (Some e)
    with Cons.prems step have "fold (delete_dataset_step env prov) kvs (ks, es @ [e], w1) = (ks', [], w')"
      by simp
    from Cons.IH [OF this] show ?thesis by simp
  next
    case None
    with Cons.prems step have "fold (delete_dataset_step env prov) kvs (ks @ [fst kv], es, w1) = (ks', [], w')"
      by simp
    from Cons.IH [OF this] dataset_gone_delete [OF assms(1) del [unfolded None]] show ?thesis
      by (cases kv) auto
  qed
qed

lemma fold_fmdrop: "fmlookup (fold fmdrop ks m) x = (if x \<in> set ks then None else fmlookup m x)"
  by (induction ks arbitrary: m) auto

lemma fmdrop_all_range:
  assumes "range_order ord"
  shows "fold fmdrop (map fst (fmrange ord m)) m = fmempty"
proof (rule fmap_ext)
  fix x
  show "fmlookup (fold fmdrop (map fst (fmrange ord m)) m) x = fmlookup fmempty x"
    using fmrange_set [OF assms, of x _ m] by (cases "fmlookup m x") (force simp: fold_fmdrop)+
qed

section \<open>Applications without permitted data\<close>

lemma requirements_loop_none:
  assumes "pending application a" "set datasets \<subseteq> set (AppSpec_Data (App_Spec application))"
    "\<forall>ctx\<in>set datasets. \<exists>err. constructDataInfo env r application cluster ctx = Inl err"
    "same_app application a"
  shows "\<exists>a'. requirements_loop env r cluster datasets a [] = Ok (a', []) \<and> same_app application a'"
  using assms
proof (induction datasets arbitrary: a)
  case Nil
  then show ?case by simp
next
  case (Cons ctx datasets)
  then obtain err where err: "constructDataInfo env r application cluster ctx = Inl err" by auto
  then have err': "constructDataInfo env r a cluster ctx = Inl err"
    by (subst constructDataInfo_same [OF Cons.prems(4)])
  have x: "DataSetID ctx \<in> declared application" using Cons.prems(2) by auto
  have "\<exists>a1. apply_update u a = Ok a1" if "updated_asset u = DataSetID ctx" for u
    using apply_update_Ok [of a u] Cons.prems(1) x that by (auto simp: pending_def)
  from this [of "SetDeny (DataSetID ctx) err"] this [of "SetError (DataSetID ctx) err"]
  obtain a1 where a1: "AnalyzeError a (DataSetID ctx) err = Ok a1"
    by (fastforce simp: AnalyzeError_def)
  from Cons.IH [OF pending_AnalyzeError [OF Cons.prems(1) x a1] _ _ same_app_trans [OF Cons.prems(4) same_AnalyzeError [OF a1]]]
  show ?case using Cons.prems(2,3) err' a1 by simp
qed

end
