(* ===== verification/Application_Claims.thy ===== *)
theory Application_Claims
  imports Application_Progress
begin

text \<open>
  What the application controller guarantees over a whole reconciliation: the plotter it writes obeys
  the decisions of the policy manager, an asset becomes ready only when the plotter of the current
  version is, a ready plotter makes the application ready, and the finalizer of an application goes
  only after its storage and its plotter.
\<close>

section \<open>Governance\<close>

text \<open>
  C27: A plotter is generated only from permitted data. Whenever a reconciliation records a new
  generated resource, the plotter stored under that reference is closed (every flow, step and template
  it names exists), each of its flows belongs to a dataset of the application, and if the workload
  reads data the policy manager permitted the reading of that dataset in the workload's region and
  every action it demanded is performed by a step of the flow.
\<close>

theorem generated_plotter_governed:
  assumes "plotter_api client" and "AR_ResourceInterface r = PlotterInterface env client"
    and "range_order ord" and "app_reconcile env ord r application w = Ok (res, application', w')"
    and "AppStatus_Generated (App_Status application') = Some ref"
    and "AppStatus_Generated (App_Status application) \<noteq> Some ref"
  shows "\<exists>cluster p. GetWorkloadCluster env r application w = Inr cluster \<and>
    Client_GetPlotter client w' (reference_key ref) = Inr p \<and>
    governed_spec env r application cluster (Plotter_Spec p)"
  using assms(3,4)
proof (cases rule: app_reconcile_E)
  case 1
  with assms(5,6) show ?thesis by simp
next
  case (2 cluster spec w2 owner ref' labels uuid)
  from 2(6) assms(5) have "ref' = ref" by simp
  with 2(5) assms(2) have "Plotter_CreateOrUpdateResource client owner ref spec labels uuid w2 = (None, w')"
    by (simp add: PlotterInterface_def)
  from created_plotter [OF assms(1) this] 2(1,2) show ?thesis by blast
qed

section \<open>Readiness\<close>

text \<open>
  C28: The conditions of an application are in place whenever the current generation was observed, and
  every reconciliation that ends without an error keeps them so, whether it validated, generated a
  plotter or checked its state: no later reconciliation reads a condition that is not there.
\<close>

theorem application_status_kept:
  assumes "api_contract Application_kind (AR_Client r)" and "retry_contract (AR_Client r)"
    and "\<forall>s s'. \<not> K8s_StatusUnchanged (AR_Client r) s s'" and "range_order ord"
    and "K8s_Get (AR_Client r) req w = Inr a" and "at_work r a" and "status_ok a"
    and "Application_Reconcile env ord r req w = Ok ((res, None), w')"
    and "K8s_Get (AR_Client r) req w' = Inr stored"
  shows "status_ok (a\<lparr>App_Status := App_Status stored\<rparr>)"
  using assms
proof (cases rule: Application_Reconcile_E)
  case kept
  then show ?thesis using assms(7) conditions_frame(2) [of "a\<lparr>App_Status := App_Status stored\<rparr>" a]
    by (simp add: status_ok_def)
next
  case (generated a2)
  then show ?thesis using conditions_frame(2) [of "a\<lparr>App_Status := App_Status stored\<rparr>" a2]
    by (simp add: status_ok_def pending_def)
next
  case (checked a1 ref state a2)
  then show ?thesis
    using conditions_frame(2) [of "a\<lparr>App_Status := App_Status stored\<rparr>" a2]
    by (simp add: status_ok_def readied_def same_app_def same_conditionsD(1))
qed

text \<open>
  C29: An asset becomes ready only together with its plotter. If a reconciliation without an error
  leaves a dataset of the application ready that was not ready before, then the plotter that was
  generated for the current version of the application exists, reported that it is ready and reported
  no error, and access to the dataset was not denied.
\<close>

theorem asset_becomes_ready:
  assumes "api_contract Application_kind (AR_Client r)" and "retry_contract (AR_Client r)"
    and "\<forall>s s'. \<not> K8s_StatusUnchanged (AR_Client r) s s'" and "range_order ord"
    and "K8s_Get (AR_Client r) req w = Inr a" and "at_work r a" and "status_ok a"
    and "Application_Reconcile env ord r req w = Ok ((res, None), w')"
    and "K8s_Get (AR_Client r) req w' = Inr stored"
    and "x \<in> declared a" and "status_of a x ReadyConditionIndex \<noteq> ConditionTrue"
    and "status_of stored x ReadyConditionIndex = ConditionTrue"
  shows "\<exists>ref state. AppStatus_Generated (App_Status a) = Some ref \<and>
    ResourceReference_AppVersion ref = Meta_Generation (App_Meta a) \<and>
    ResourceExists (AR_ResourceInterface r) (Some ref) w \<and>
    GetResourceStatus (AR_ResourceInterface r) (Some ref) w = Inr state \<and>
    ObservedState_Ready state \<and> ObservedState_Error state = [] \<and> \<not> denied a x"
  using assms(1-9)
proof (cases rule: Application_Reconcile_E)
  case kept
  with assms(11,12) conditions_frame(1) [OF kept(1)] show ?thesis by simp
next
  case (generated a2)
  with assms(10,12) conditions_frame(1) [OF generated(2)] show ?thesis by (auto simp: pending_def)
next
  case (checked a1 ref state a2)
  have "status_of a2 x ReadyConditionIndex = ConditionTrue"
    using assms(12) conditions_frame(1) [OF checked(7)] by simp
  with checked(6) assms(11) have "\<not> denied a1 x" "ObservedState_Ready state" "ObservedState_Error state = []"
    by (auto simp: readied_def makes_ready_def same_conditionsD(8) [OF checked(1)] split: if_splits)
  with checked(2-5) show ?thesis by (simp add: denied_def same_conditionsD(8) [OF checked(1)])
qed


text \<open>
  C31: Readiness is never taken back. Once an application is ready, checking a plotter that reports an
  error or is no longer ready leaves the application ready: the conditions only ever go from false to
  true until a new generation resets them.
\<close>

theorem ready_is_never_taken_back:
  assumes "conditions_ok a" and "isReady a = Ok True"
  shows "\<exists>a' w'. checkReadiness env prov \<lparr>ObservedState_Ready = False, ObservedState_Error = msg\<rparr> a w = Ok (a', w') \<and>
    isReady a' = Ok True"
proof -
  let ?state = "\<lparr>ObservedState_Ready = False, ObservedState_Error = msg\<rparr>"
  from checkReadiness_readied [OF assms(1), of env prov ?state w] obtain a' w' where
    chk: "checkReadiness env prov ?state a w = Ok (a', w')"
    and ready: "readied ?state (AppSpec_Data (App_Spec a)) a a'" by blast
  have frame: "App_Spec a' = App_Spec a" "conditions_ok a'"
    "\<And>x. status_of a' x ReadyConditionIndex = status_of a x ReadyConditionIndex"
    "\<And>x. status_of a' x DenyConditionIndex = status_of a x DenyConditionIndex"
    using ready by (simp_all add: readied_def same_app_def makes_ready_def)
  from frame assms(2) have "isReady a' = Ok True"
    by (simp add: isReady_eq [OF assms(1)] isReady_eq [OF frame(2)])
  with chk show ?thesis by blast
qed

section \<open>Denied applications\<close>

text \<open>
  C32: When no dataset of the application is permitted any more, the reconciliation ends without an
  error and leaves the world as it is: the plotter of the previous version stays recorded and deployed.
\<close>

theorem denied_application_keeps_plotter:
  assumes "AppSpec_Data (App_Spec application) \<noteq> []" and "GetWorkloadCluster env r application w = Inr cluster"
    and "\<forall>ctx\<in>set (AppSpec_Data (App_Spec application)).
      \<exists>err. constructDataInfo env r application cluster ctx = Inl err"
  shows "\<exists>application'. app_reconcile env ord r application w = Ok ((None, None), application', w) \<and>
    AppStatus_Generated (App_Status application') = AppStatus_Generated (App_Status application)"
proof -
  obtain a1 where a1: "initStatus application = Ok a1" using initStatus_Ok [of application] by blast
  note same = same_initStatus [OF a1]
  from requirements_loop_none [OF pending_initStatus [OF a1] subset_refl assms(3) same] obtain a2 where
    "requirements_loop env r cluster (AppSpec_Data (App_Spec application)) a1 [] = Ok (a2, [])"
    "same_app application a2" by blast
  then show ?thesis using assms(1,2) a1 GetWorkloadCluster_same [OF same, of env r w]
    by (simp add: app_reconcile_def same_app_def same_appD(1) [OF same])
qed

section \<open>Deletion\<close>

text \<open>
  C33: The finalizer of an application that is being deleted is removed only when all of its provisioned
  storage is gone and, after that, the deletion of its plotter succeeded; if one of these fails, the
  error is returned and the application keeps its finalizer.
\<close>

theorem application_finalizer_safe:
  assumes ord: "range_order ord" and prov: "provision (AR_Provision r)" and "is_deleted Application_kind a"
    and "K8s_ContainsFinalizer (AR_Client r) a (finalizer_name (AR_Name r))"
    and run: "app_reconcileFinalizers env ord r a w = (err, a', w')"
  shows "(err \<noteq> None \<and> App_Meta a' = App_Meta a) \<or>
    (\<exists>a1 w1 w2 err1.
       UpdateFinalizers Application_kind (AR_Client r)
         (K8s_RemoveFinalizer (AR_Client r) (finalizer_name (AR_Name r)) a1) w2 = (err1, a', w') \<and>
       err = map_option api_message err1 \<and> App_Meta a1 = App_Meta a \<and>
       AppStatus_ProvisionedStorage (App_Status a1) = fmempty \<and> AppStatus_Generated (App_Status a1) = None \<and>
       (\<forall>x d. fmlookup (AppStatus_ProvisionedStorage (App_Status a)) x = Some d \<longrightarrow>
          dataset_gone (AR_Provision r) env w1 d) \<and>
       (case AppStatus_Generated (App_Status a) of None \<Rightarrow> w2 = w1
        | Some ref \<Rightarrow> DeleteResource (AR_ResourceInterface r) ref w1 = (None, w2)))"
proof -
  let ?storage = "AppStatus_ProvisionedStorage (App_Status a)"
  obtain ks es w1 where fold: "fold (delete_dataset_step env (AR_Provision r)) (fmrange ord ?storage) ([], [], w) = (ks, es, w1)"
    by (rule prod_cases3)
  obtain derr a1 w2 where del: "app_deleteExternalResources env ord r a w = (derr, a1, w2)" by (rule prod_cases3)
  show ?thesis
  proof (cases derr)
    case (Some e)
    with del assms(3,4) run have "err = Some e" "a' = a1" by (simp_all add: app_reconcileFinalizers_def Let_def)
    moreover have "App_Meta a1 = App_Meta a"
      using del fold by (auto simp: app_deleteExternalResources_def Let_def split: if_splits option.splits prod.splits)
    ultimately show ?thesis by simp
  next
    case None
    then have es: "es = []" and gen: "case AppStatus_Generated (App_Status a) of None \<Rightarrow> w2 = w1
        | Some ref \<Rightarrow> DeleteResource (AR_ResourceInterface r) ref w1 = (None, w2)"
      and a1: "App_Meta a1 = App_Meta a" "AppStatus_Generated (App_Status a1) = None"
        "AppStatus_ProvisionedStorage (App_Status a1) = fold fmdrop ks ?storage"
      using del fold by (auto simp: app_deleteExternalResources_def Let_def split: if_splits option.splits prod.splits)
    from delete_datasets [OF prov fold [unfolded es]] have ks: "ks = map fst (fmrange ord ?storage)"
      and gone: "\<forall>(x, d)\<in>set (fmrange ord ?storage). dataset_gone (AR_Provision r) env w1 d" by simp_all
    have "\<forall>x d. fmlookup ?storage x = Some d \<longrightarrow> dataset_gone (AR_Provision r) env w1 d"
      using gone fmrange_set [OF ord, of _ _ ?storage] by fast
    moreover from None del assms(3,4) run obtain err1 where
      "UpdateFinalizers Application_kind (AR_Client r)
         (K8s_RemoveFinalizer (AR_Client r) (finalizer_name (AR_Name r)) a1) w2 = (err1, a', w')"
      "err = map_option api_message err1"
      by (auto simp: app_reconcileFinalizers_def Let_def split: prod.splits)
    moreover have "AppStatus_ProvisionedStorage (App_Status a1) = fmempty"
      by (simp add: a1(3) ks fmdrop_all_range [OF ord])
    ultimately show ?thesis using a1(1,2) gen by blast
  qed
qed

section \<open>A control plane with one application\<close>

text \<open>The store of applications, the store of plotters and the provisioned buckets in one world.\<close>

type_synonym control_world = "FybrikApplication api_store \<times> (NamespacedName, Plotter) fmap \<times> ProvisionTest"

definition control_plotters :: "control_world PlotterClient" where
  "control_plotters =
     (let cl = plotter_store_client
      in \<lparr>Client_GetPlotter = (\<lambda>w. Client_GetPlotter cl (fst (snd w))),
          Client_CreateOrUpdatePlotter = (\<lambda>p f w.
            case Client_CreateOrUpdatePlotter cl p f (fst (snd w)) of (e, s) \<Rightarrow> (e, fst w, s, snd (snd w))),
          Client_DeletePlotter = (\<lambda>p w.
            case Client_DeletePlotter cl p (fst (snd w)) of (e, s) \<Rightarrow> (e, fst w, s, snd (snd w)))\<rparr>)"

lemma control_plotters_lawful: "plotter_api control_plotters"
proof -
  note l = plotter_store_lawful
  show ?thesis unfolding plotter_api_def
  proof (intro conjI allI impI)
    fix p f w w'
    assume "Client_CreateOrUpdatePlotter control_plotters p f w = (None, w')"
    then have "Client_CreateOrUpdatePlotter plotter_store_client p f (fst (snd w)) = (None, fst (snd w'))"
      by (auto simp: control_plotters_def Let_def split: prod.splits)
    from plotter_apiD(1) [OF l this]
    show "\<exists>old new. Client_GetPlotter control_plotters w' (plotter_key p) = Inr new \<and>
        Plotter_Spec new = Plotter_Spec (f old) \<and> Meta_Labels (Plotter_Meta new) = Meta_Labels (Plotter_Meta (f old))"
      by (simp add: control_plotters_def Let_def)
  next
    fix w key p
    assume "Client_GetPlotter control_plotters w key = Inr p"
    then show "plotter_key p = key" by (intro plotter_apiD(2) [OF l]) (simp add: control_plotters_def Let_def)
  qed
qed

definition control_provision :: "control_world ProvisionInterface" where
  "control_provision =
     (let lift = (\<lambda>f w. case f (snd (snd w)) of (e, d) \<Rightarrow> (e, fst w, fst (snd w), d))
      in \<lparr>CreateDataset = (\<lambda>ref d owner. lift (Test_CreateDataset ref d owner)),
          DeleteDataset = (\<lambda>ref. lift (Test_DeleteDataset ref)),
          GetDatasetStatus = (\<lambda>ref w. Test_GetDatasetStatus ref (snd (snd w))),
          SetPersistent = (\<lambda>ref b. lift (Test_SetPersistent ref b))\<rparr>)"

text \<open>The policy manager gives its first answer to a request to read, its second to one to write.\<close>

definition control_plane :: "string list \<Rightarrow> string list \<Rightarrow> control_world AppReconciler" where
  "control_plane reading writing =
     \<lparr>AR_Name = ''app'', AR_Client = paired_client Application_kind,
      AR_LocalClient =
        \<lparr>Client_GetConfigMap = (\<lambda>_ _. Inl ''not found''), Client_GetBlueprint = (\<lambda>_ _. Inl ''not found''),
         Client_CreateOrUpdateBlueprint = (\<lambda>_ _ w. (None, w)), Client_DeleteBlueprint = (\<lambda>_ w. (None, w))\<rparr>,
      AR_ListModules = (\<lambda>_. Inr [sample_copy, sample_read]), AR_ListAccounts = (\<lambda>_. sample_accounts),
      AR_Taxonomy = refusing_taxonomy\<lparr>Tax_Validate := (\<lambda>_ _. Inr [])\<rparr>, AR_Templates = sample_templates,
      AR_PolicyManager =
        \<lparr>GetPoliciesDecisions = (\<lambda>req _. sample_answer
           (if RequestAction_ActionType (PolicyRequest_Action req) = policymanager_READ then reading else writing)),
         PM_TaxonomyCheck = (\<lambda>_. Inr []), PM_NewInvalid = (\<lambda>_ _. [])\<rparr>,
      AR_GetAssetInfo = (\<lambda>_ _. Inr (DataInfo_DataDetails sample_item)),
      AR_ResourceInterface = PlotterInterface sample_env control_plotters,
      AR_GetClusters = (\<lambda>_. Inr [Cluster_zero\<lparr>Cluster_Name := ''A''\<rparr>, Cluster_zero\<lparr>Cluster_Name := ''B''\<rparr>]),
      AR_Provision = control_provision, AR_Evaluate = Evaluate sorted_list_of_fset sample_opa\<rparr>"

definition control_app :: FybrikApplication where
  "control_app = (sample_app [])
     \<lparr>App_Spec := (App_Spec (sample_app []))
        \<lparr>AppSpec_Selector := (AppSpec_Selector (App_Spec (sample_app [])))\<lparr>Selector_ClusterName := ''A''\<rparr>,
         AppSpec_Data := [DataInfo_Context sample_item]\<rparr>,
      App_Meta := (App_Meta (sample_app []))\<lparr>Meta_Finalizers := [''app.finalizer'']\<rparr>\<rparr>"

definition control_ref :: ResourceReference where
  "control_ref = \<lparr>ResourceReference_Name = ''notebook-default'', ResourceReference_Namespace = ''fybrik-system'',
     ResourceReference_Kind = ''Plotter'', ResourceReference_AppVersion = 1\<rparr>"

definition control_request :: NamespacedName where
  "control_request = \<lparr>NN_Name = ''notebook'', NN_Namespace = ''default''\<rparr>"

definition control_store :: "FybrikApplication \<Rightarrow> FybrikApplication api_store" where
  "control_store a = \<lparr>Store_Objects = fmupd control_request a fmempty, Store_Conflicts = 1\<rparr>"

definition control_run :: "string list \<Rightarrow> string list \<Rightarrow> FybrikApplication \<Rightarrow> (Result \<times> string option) \<times> FybrikApplication \<times> control_world" where
  "control_run reading writing a =
     ok_value ((None, Some []), a, control_store a, fmempty, [])
       (app_reconcile sample_env sorted_list_of_fset (control_plane reading writing) a (control_store a, fmempty, []))"

lemma control_run_ok:
  "is_ok (app_reconcile sample_env sorted_list_of_fset (control_plane [''redact''] [''audit'']) control_app
     (control_store control_app, fmempty, []))"
  by code_simp

lemma control_run_generated:
  "AppStatus_Generated (App_Status (fst (snd (control_run [''redact''] [''audit''] control_app)))) = Some control_ref"
  by code_simp

theorem generated_plotter_governed_witness:
  "\<exists>cluster p. Client_GetPlotter control_plotters (snd (snd (control_run [''redact''] [''audit''] control_app)))
       (reference_key control_ref) = Inr p \<and>
     governed_spec sample_env (control_plane [''redact''] [''audit'']) control_app cluster (Plotter_Spec p)"
proof -
  have "app_reconcile sample_env sorted_list_of_fset (control_plane [''redact''] [''audit'']) control_app
     (control_store control_app, fmempty, []) = Ok (control_run [''redact''] [''audit''] control_app)"
    unfolding control_run_def by (rule is_okD [OF control_run_ok])
  then obtain res a' w' where run: "app_reconcile sample_env sorted_list_of_fset (control_plane [''redact''] [''audit''])
      control_app (control_store control_app, fmempty, []) = Ok (res, a', w')"
    and eq: "control_run [''redact''] [''audit''] control_app = (res, a', w')" by (metis prod_cases3)
  have gen: "AppStatus_Generated (App_Status a') = Some control_ref" using control_run_generated eq by simp
  have ri: "AR_ResourceInterface (control_plane [''redact''] [''audit'']) = PlotterInterface sample_env control_plotters"
    by (simp add: control_plane_def)
  have none: "AppStatus_Generated (App_Status control_app) \<noteq> Some control_ref"
    by (simp add: control_app_def sample_app_def)
  from generated_plotter_governed [OF control_plotters_lawful ri range_order_sorted run gen none] eq
  show ?thesis by auto
qed

text \<open>The same application after its plotter was generated and became ready.\<close>

definition control_deployed :: "int64 option \<Rightarrow> FybrikApplication" where
  "control_deployed deletion = control_app
     \<lparr>App_Meta := (App_Meta control_app)\<lparr>Meta_DeletionTimestamp := deletion\<rparr>,
      App_Status := (App_Status control_app)
        \<lparr>AppStatus_AssetStates := Some (fmupd ''asset'' fresh_state fmempty), AppStatus_ObservedGeneration := 1,
         AppStatus_ValidatedGeneration := 1, AppStatus_ValidApplication := ConditionTrue,
         AppStatus_Generated := Some control_ref,
         AppStatus_ProvisionedStorage :=
           fmupd ''asset'' \<lparr>DatasetDetails_DatasetRef = ''bucket'', DatasetDetails_SecretRef = ''secret''\<rparr> fmempty\<rparr>\<rparr>"

definition control_plotter :: Plotter where
  "control_plotter = (GetResourceSignature control_ref)
     \<lparr>Plotter_Status := (Plotter_Status Plotter_zero)
        \<lparr>PlotterStatus_ObservedState := \<lparr>ObservedState_Ready = True, ObservedState_Error = []\<rparr>\<rparr>\<rparr>"

definition control_world :: "FybrikApplication \<Rightarrow> control_world" where
  "control_world a =
     (control_store a, fmupd (reference_key control_ref) control_plotter fmempty,
      [\<lparr>Bucket_Name = ''bucket'', Bucket_Endpoint = ''http://s3'',
        Bucket_SecretRef = \<lparr>NN_Name = ''secret'', NN_Namespace = ''fybrik-system''\<rparr>\<rparr>])"

abbreviation control_permits :: "control_world AppReconciler" where
  "control_permits \<equiv> control_plane [''redact''] [''audit'']"

abbreviation control_denies :: "control_world AppReconciler" where
  "control_denies \<equiv> control_plane [''Deny''] [''audit'']"

definition control_Reconcile :: "(Result \<times> string option) \<times> control_world" where
  "control_Reconcile = ok_value ((None, Some []), control_world (control_deployed None))
     (Application_Reconcile sample_env sorted_list_of_fset control_permits control_request
        (control_world (control_deployed None)))"

lemma control_client: "AR_Client (control_plane reading writing) = paired_client Application_kind"
  by (simp add: control_plane_def)

lemma control_unchanged: "\<forall>s s'. \<not> K8s_StatusUnchanged (paired_client Application_kind) s s'"
  by (simp add: paired_client_def Let_def)

lemma control_get:
  "K8s_Get (paired_client Application_kind) control_request (control_world (control_deployed d)) = Inr (control_deployed d)"
  by (simp add: paired_client_def Let_def store_client_def store_get_def control_world_def control_store_def
      object_key_def Application_kind_def control_deployed_def control_app_def sample_app_def control_request_def)

lemma control_at_work: "at_work (control_plane reading writing) (control_deployed None)"
  by (simp add: at_work_def control_plane_def paired_client_def Let_def store_client_def get_finalizers_def
      is_deleted_def Application_kind_def finalizer_name_def control_deployed_def control_app_def sample_app_def)

lemma control_conditions: "conditions_ok (control_deployed None)"
  by (simp add: conditions_ok_def asset_states_def control_deployed_def control_app_def sample_item_def
      sample_context_def fmpred_iff)

lemma control_status: "status_ok (control_deployed None)"
  by (simp add: status_ok_def control_conditions)

lemma control_Reconcile_Ok:
  "Application_Reconcile sample_env sorted_list_of_fset control_permits control_request
     (control_world (control_deployed None)) = Ok ((None, None), snd control_Reconcile)"
proof -
  let ?run = "Application_Reconcile sample_env sorted_list_of_fset control_permits control_request
    (control_world (control_deployed None))"
  have "is_ok ?run \<and> fst control_Reconcile = (None, None)" by code_simp
  then show ?thesis by (cases ?run) (auto simp: control_Reconcile_def)
qed

lemma control_Reconcile_stored:
  "\<exists>stored. K8s_Get (paired_client Application_kind) control_request (snd control_Reconcile) = Inr stored \<and>
     status_of stored ''asset'' ReadyConditionIndex = ConditionTrue"
proof -
  have "(case K8s_Get (paired_client Application_kind) control_request (snd control_Reconcile) of Inl _ \<Rightarrow> False
    | Inr a \<Rightarrow> status_of a ''asset'' ReadyConditionIndex = ConditionTrue)" by code_simp
  then show ?thesis by (auto split: sum.splits)
qed

lemmas control_facts =
  application_kind.api_contract_paired retry_contract_paired control_unchanged range_order_sorted control_get

theorem application_status_kept_witness:
  "\<exists>stored. K8s_Get (paired_client Application_kind) control_request (snd control_Reconcile) = Inr stored \<and>
     status_ok ((control_deployed None)\<lparr>App_Status := App_Status stored\<rparr>)"
proof -
  obtain stored where stored: "K8s_Get (paired_client Application_kind) control_request (snd control_Reconcile) = Inr stored"
    using control_Reconcile_stored by blast
  with application_status_kept [where r = control_permits, unfolded control_client, OF control_facts
      control_at_work control_status control_Reconcile_Ok]
  show ?thesis by blast
qed

theorem asset_becomes_ready_witness:
  "\<exists>ref state. AppStatus_Generated (App_Status (control_deployed None)) = Some ref \<and>
     GetResourceStatus (AR_ResourceInterface control_permits) (Some ref) (control_world (control_deployed None)) = Inr state \<and>
     ObservedState_Ready state"
proof -
  obtain stored where stored: "K8s_Get (paired_client Application_kind) control_request (snd control_Reconcile) = Inr stored"
    "status_of stored ''asset'' ReadyConditionIndex = ConditionTrue" using control_Reconcile_stored by blast
  have "''asset'' \<in> declared (control_deployed None)"
    by (simp add: control_deployed_def control_app_def sample_item_def sample_context_def)
  moreover have "status_of (control_deployed None) ''asset'' ReadyConditionIndex \<noteq> ConditionTrue" by code_simp
  ultimately show ?thesis
    using asset_becomes_ready [where r = control_permits, unfolded control_client, OF control_facts
        control_at_work control_status control_Reconcile_Ok stored(1) _ _ stored(2)] by blast
qed


text \<open>The conditions of the application once its asset is ready.\<close>

definition control_ready :: FybrikApplication where
  "control_ready = ok_value control_app (setReadyCondition (control_deployed None) ''asset'')"

theorem ready_is_never_taken_back_witness:
  "\<exists>a' w'. checkReadiness sample_env Test_provision \<lparr>ObservedState_Ready = False, ObservedState_Error = ''lost''\<rparr>
     control_ready [] = Ok (a', w') \<and> isReady a' = Ok True"
proof -
  have "setReadyCondition (control_deployed None) ''asset'' = Ok control_ready \<and> conditions_ok control_ready"
    using apply_update_Ok [OF control_conditions, of "SetReady ''asset''"]
    by (auto simp: control_ready_def control_deployed_def control_app_def sample_item_def sample_context_def)
  moreover have "isReady control_ready = Ok True" by code_simp
  ultimately show ?thesis by (intro ready_is_never_taken_back) simp_all
qed

theorem denied_application_keeps_plotter_witness:
  "\<exists>application'. app_reconcile sample_env sorted_list_of_fset control_denies (control_deployed None)
       (control_world (control_deployed None)) = Ok ((None, None), application', control_world (control_deployed None)) \<and>
     AppStatus_Generated (App_Status application') = Some control_ref"
proof -
  let ?a = "control_deployed None" and ?w = "control_world (control_deployed None)"
  let ?c = "Cluster_zero\<lparr>Cluster_Name := ''A''\<rparr>"
  have data: "AppSpec_Data (App_Spec ?a) = [DataInfo_Context sample_item]"
    by (simp add: control_deployed_def control_app_def)
  have cluster: "GetWorkloadCluster sample_env control_denies ?a ?w = Inr ?c"
    by (simp add: GetWorkloadCluster_def control_deployed_def control_app_def control_plane_def)
  have "constructDataInfo sample_env control_denies ?a ?c (DataInfo_Context sample_item) = Inl ReadAccessDenied"
    by code_simp
  with denied_application_keeps_plotter [OF _ cluster, of sorted_list_of_fset] data show ?thesis
    by (simp add: control_deployed_def)
qed

lemma control_provision_lawful: "provision control_provision"
proof -
  have "provision Test_provision" by unfold_locales
  then show ?thesis unfolding provision_def
    by (auto simp: control_provision_def Test_provision_def Let_def case_prod_beta prod_eq_iff)
qed

theorem application_finalizer_safe_witness:
  "\<exists>a' w' w1. app_reconcileFinalizers sample_env sorted_list_of_fset control_permits (control_deployed (Some 7))
       (control_world (control_deployed (Some 7))) = (None, a', w') \<and>
     get_finalizers Application_kind a' = [] \<and>
     dataset_gone control_provision sample_env w1
       \<lparr>DatasetDetails_DatasetRef = ''bucket'', DatasetDetails_SecretRef = ''secret''\<rparr>"
proof -
  let ?a = "control_deployed (Some 7)"
  let ?run = "app_reconcileFinalizers sample_env sorted_list_of_fset control_permits ?a (control_world ?a)"
  have "fst ?run = None \<and> get_finalizers Application_kind (fst (snd ?run)) = []" by code_simp
  then obtain a' w' where run: "?run = (None, a', w')" and fin: "get_finalizers Application_kind a' = []"
    by (cases ?run) auto
  have deleted: "is_deleted Application_kind ?a"
    by (simp add: is_deleted_def Application_kind_def control_deployed_def)
  have has: "K8s_ContainsFinalizer (AR_Client control_permits) ?a (finalizer_name (AR_Name control_permits))"
    by (simp add: control_plane_def paired_client_def Let_def store_client_def get_finalizers_def
        Application_kind_def finalizer_name_def control_deployed_def control_app_def)
  have prov: "provision (AR_Provision control_permits)" using control_provision_lawful by (simp add: control_plane_def)
  have storage: "fmlookup (AppStatus_ProvisionedStorage (App_Status ?a)) ''asset'' =
      Some \<lparr>DatasetDetails_DatasetRef = ''bucket'', DatasetDetails_SecretRef = ''secret''\<rparr>"
    by (simp add: control_deployed_def)
  have "AR_Provision control_permits = control_provision" by (simp add: control_plane_def)
  with application_finalizer_safe [OF range_order_sorted prov deleted has run] obtain w1 where
    "\<forall>x d. fmlookup (AppStatus_ProvisionedStorage (App_Status ?a)) x = Some d \<longrightarrow>
       dataset_gone control_provision sample_env w1 d" by auto
  from this [rule_format, OF storage] have "dataset_gone control_provision sample_env w1
       \<lparr>DatasetDetails_DatasetRef = ''bucket'', DatasetDetails_SecretRef = ''secret''\<rparr>" .
  with run fin show ?thesis by blast
qed

end
