(* ===== verification/Helm.thy ===== *)
theory Helm
  imports K8s_Client
begin

text \<open>
  \<^verbatim>\<open>src/pkg/helm/helm.go\<close>: the interface through which the Blueprint controller installs charts, its
  fake implementation and the one over the Helm library.

  \<open>'c\<close> is the type of loaded charts and \<open>'w\<close> the world. A resource of a release is the JSON object of
  an unstructured resource. The locale \<open>helmer\<close> is what the controller relies on; the fake
  implementation keeps it. The Helm library, the file system and the cluster behind the second
  implementation are the parameter record \<open>HelmLib\<close>.
\<close>

section \<open>The interface\<close>

type_synonym unstructured = "(string, json) fmap"

type_synonym helm_values = "(string, json) fmap"

text \<open>\<open>Info\<close> of a release is a pointer; the code reads its status.\<close>

record Release =
  Release_Name :: string
  Release_Status :: string

abbreviation StatusDeployed :: string where
  "StatusDeployed \<equiv> ''deployed''"

abbreviation StatusFailed :: string where
  "StatusFailed \<equiv> ''failed''"

record ('c, 'w) HelmInterface =
  Helm_Uninstall :: "string \<Rightarrow> string \<Rightarrow> 'w \<Rightarrow> string option \<times> 'w"
  Helm_Install :: "'c \<Rightarrow> string \<Rightarrow> string \<Rightarrow> helm_values \<Rightarrow> 'w \<Rightarrow> (Release option \<times> string option) \<times> 'w"
  Helm_Upgrade :: "'c \<Rightarrow> string \<Rightarrow> string \<Rightarrow> helm_values \<Rightarrow> 'w \<Rightarrow> (Release option \<times> string option) \<times> 'w"
  Helm_Status :: "string \<Rightarrow> string \<Rightarrow> 'w \<Rightarrow> Release option \<times> string option"
  Helm_RegistryLogin :: "string \<Rightarrow> string \<Rightarrow> string \<Rightarrow> bool \<Rightarrow> 'w \<Rightarrow> string option \<times> 'w"
  Helm_RegistryLogout :: "string \<Rightarrow> 'w \<Rightarrow> string option \<times> 'w"
  Helm_Pull :: "string \<Rightarrow> string \<Rightarrow> 'w \<Rightarrow> string option \<times> 'w"
  Helm_Load :: "string \<Rightarrow> string \<Rightarrow> 'w \<Rightarrow> string + 'c"
  Helm_Package :: "string \<Rightarrow> string \<Rightarrow> string \<Rightarrow> 'w \<Rightarrow> string option \<times> 'w"
  Helm_GetResources :: "string \<Rightarrow> string \<Rightarrow> 'w \<Rightarrow> unstructured list \<times> string option"

text \<open>A release that exists and is deployed.\<close>

definition release_deployed :: "('c, 'w) HelmInterface \<Rightarrow> string \<Rightarrow> string \<Rightarrow> 'w \<Rightarrow> bool" where
  "release_deployed h ns r w \<longleftrightarrow>
     (case Helm_Status h ns r w of
        (Some rel, None) \<Rightarrow> Release_Status rel = StatusDeployed
      | _ \<Rightarrow> False)"

text \<open>
  What the controller relies on: a chart that was installed or upgraded without an error is deployed,
  and this, logging in or out, or pulling a chart does not take another release away.
\<close>

locale helmer =
  fixes h :: "('c, 'w) HelmInterface"
  assumes install_deploys:
    "Helm_Install h chart ns r vals w = ((rel, None), w') \<Longrightarrow> release_deployed h ns r w'"
    and upgrade_deploys:
    "Helm_Upgrade h chart ns r vals w = ((rel, None), w') \<Longrightarrow> release_deployed h ns r w'"
    and install_keeps:
    "release_deployed h ns r w \<Longrightarrow> Helm_Install h chart ns' r' vals w = ((rel, None), w') \<Longrightarrow>
       release_deployed h ns r w'"
    and upgrade_keeps:
    "release_deployed h ns r w \<Longrightarrow> Helm_Upgrade h chart ns' r' vals w = ((rel, None), w') \<Longrightarrow>
       release_deployed h ns r w'"
    and login_keeps:
    "release_deployed h ns r w \<Longrightarrow> release_deployed h ns r (snd (Helm_RegistryLogin h host user pw insecure w))"
    and logout_keeps:
    "release_deployed h ns r w \<Longrightarrow> release_deployed h ns r (snd (Helm_RegistryLogout h host w))"
    and pull_keeps:
    "release_deployed h ns r w \<Longrightarrow> release_deployed h ns r (snd (Helm_Pull h ref dest w))"

section \<open>The fake implementation\<close>

record Fake =
  Fake_Release :: "Release option"
  Fake_Resources :: "unstructured list"

definition Fake_Uninstall :: "string \<Rightarrow> string \<Rightarrow> Fake \<Rightarrow> string option \<times> Fake" where
  "Fake_Uninstall kubeNamespace releaseName r = (None, r\<lparr>Fake_Release := None\<rparr>)"

definition Fake_Install ::
  "unit \<Rightarrow> string \<Rightarrow> string \<Rightarrow> helm_values \<Rightarrow> Fake \<Rightarrow> (Release option \<times> string option) \<times> Fake" where
  "Fake_Install chart kubeNamespace releaseName vals r =
     (let rel = Some \<lparr>Release_Name = releaseName, Release_Status = StatusDeployed\<rparr>
      in ((rel, None), r\<lparr>Fake_Release := rel\<rparr>))"

definition Fake_Upgrade ::
  "unit \<Rightarrow> string \<Rightarrow> string \<Rightarrow> helm_values \<Rightarrow> Fake \<Rightarrow> (Release option \<times> string option) \<times> Fake" where
  "Fake_Upgrade chart kubeNamespace releaseName vals r =
     (let rel = Some \<lparr>Release_Name = releaseName, Release_Status = StatusDeployed\<rparr>
      in ((rel, None), r\<lparr>Fake_Release := rel\<rparr>))"

definition Fake_Status :: "string \<Rightarrow> string \<Rightarrow> Fake \<Rightarrow> Release option \<times> string option" where
  "Fake_Status kubeNamespace releaseName r = (Fake_Release r, None)"

definition Fake_RegistryLogin :: "string \<Rightarrow> string \<Rightarrow> string \<Rightarrow> bool \<Rightarrow> Fake \<Rightarrow> string option \<times> Fake" where
  "Fake_RegistryLogin hostname username password insecure r = (None, r)"

definition Fake_RegistryLogout :: "string \<Rightarrow> Fake \<Rightarrow> string option \<times> Fake" where
  "Fake_RegistryLogout hostname r = (None, r)"

definition Fake_Pull :: "string \<Rightarrow> string \<Rightarrow> Fake \<Rightarrow> string option \<times> Fake" where
  "Fake_Pull ref destination r = (None, r)"

text \<open>The fake chart is the nil pointer.\<close>

definition Fake_Load :: "string \<Rightarrow> string \<Rightarrow> Fake \<Rightarrow> string + unit" where
  "Fake_Load ref chartPath r = Inr ()"

definition Fake_GetResources :: "string \<Rightarrow> string \<Rightarrow> Fake \<Rightarrow> unstructured list \<times> string option" where
  "Fake_GetResources kubeNamespace releaseName r = (Fake_Resources r, None)"

definition Fake_Package :: "string \<Rightarrow> string \<Rightarrow> string \<Rightarrow> Fake \<Rightarrow> string option \<times> Fake" where
  "Fake_Package chartPath destinationPath version r = (None, r)"

definition NewEmptyFake :: Fake where
  "NewEmptyFake = \<lparr>Fake_Release = Some \<lparr>Release_Name = [], Release_Status = []\<rparr>, Fake_Resources = []\<rparr>"

definition NewFake :: "Release option \<Rightarrow> unstructured list \<Rightarrow> Fake" where
  "NewFake release resources = \<lparr>Fake_Release = release, Fake_Resources = resources\<rparr>"

definition Fake_helm :: "(unit, Fake) HelmInterface" where
  "Fake_helm =
     \<lparr>Helm_Uninstall = Fake_Uninstall, Helm_Install = Fake_Install, Helm_Upgrade = Fake_Upgrade,
      Helm_Status = Fake_Status, Helm_RegistryLogin = Fake_RegistryLogin,
      Helm_RegistryLogout = Fake_RegistryLogout, Helm_Pull = Fake_Pull, Helm_Load = Fake_Load,
      Helm_Package = Fake_Package, Helm_GetResources = Fake_GetResources\<rparr>"

lemmas Fake_defs =
  Fake_helm_def Fake_Uninstall_def Fake_Install_def Fake_Upgrade_def Fake_Status_def
  Fake_RegistryLogin_def Fake_RegistryLogout_def Fake_Pull_def Fake_Load_def Fake_Package_def
  Fake_GetResources_def

interpretation fake: helmer Fake_helm
  by unfold_locales (auto simp: Fake_defs release_deployed_def Let_def)

section \<open>The implementation over the Helm library\<close>

text \<open>
  A configuration is the result of \<open>actionConfig.Init\<close>. \<open>Lib_Build\<close> builds the objects of a manifest
  and \<open>Lib_Refresh\<close> reads the current state of one of them; \<open>None\<close> stands for an object that is not
  unstructured.
\<close>

record ('cfg, 'c, 'o, 'w) HelmLib =
  Lib_Init :: "string \<Rightarrow> string + 'cfg"
  Lib_Uninstall :: "'cfg \<Rightarrow> string \<Rightarrow> 'w \<Rightarrow> string option \<times> 'w"
  Lib_Install :: "'cfg \<Rightarrow> string \<Rightarrow> string \<Rightarrow> 'c \<Rightarrow> helm_values \<Rightarrow> 'w \<Rightarrow> (Release option \<times> string option) \<times> 'w"
  Lib_Upgrade :: "'cfg \<Rightarrow> string \<Rightarrow> string \<Rightarrow> 'c \<Rightarrow> helm_values \<Rightarrow> 'w \<Rightarrow> (Release option \<times> string option) \<times> 'w"
  Lib_Status :: "'cfg \<Rightarrow> string \<Rightarrow> 'w \<Rightarrow> Release option \<times> string option"
  Lib_Login :: "'cfg \<Rightarrow> string \<Rightarrow> string \<Rightarrow> string \<Rightarrow> bool \<Rightarrow> 'w \<Rightarrow> string option \<times> 'w"
  Lib_Logout :: "'cfg \<Rightarrow> string \<Rightarrow> 'w \<Rightarrow> string option \<times> 'w"
  Lib_PullRun :: "'cfg \<Rightarrow> string \<Rightarrow> string \<Rightarrow> string \<Rightarrow> 'w \<Rightarrow> string option \<times> 'w"
  Lib_PackageRun :: "string option \<Rightarrow> string \<Rightarrow> string \<Rightarrow> 'w \<Rightarrow> string option \<times> 'w"
  Lib_Loader :: "string \<Rightarrow> 'w \<Rightarrow> string + 'c"
  Lib_ParseReference :: "string \<Rightarrow> string + (string \<times> string)"
  Lib_FileExists :: "string \<Rightarrow> 'w \<Rightarrow> bool"
  Lib_Manifest :: "'cfg \<Rightarrow> string \<Rightarrow> 'w \<Rightarrow> string + string"
  Lib_Build :: "'cfg \<Rightarrow> string \<Rightarrow> 'w \<Rightarrow> string + 'o list"
  Lib_Refresh :: "'o \<Rightarrow> 'w \<Rightarrow> string + unstructured option"

abbreviation chartsMountPath :: string where
  "chartsMountPath \<equiv> ''/opt/fybrik/charts/''"

definition getConfig :: "('cfg, 'c, 'o, 'w) HelmLib \<Rightarrow> string \<Rightarrow> string + 'cfg" where
  "getConfig lib kubeNamespace =
     Lib_Init lib (if kubeNamespace = [] then ''default'' else kubeNamespace)"

definition ChartRef :: "string \<Rightarrow> string \<Rightarrow> string \<Rightarrow> string \<Rightarrow> string" where
  "ChartRef hostname namespace name tagname = hostname @ ''/'' @ namespace @ ''/'' @ name @ '':'' @ tagname"

definition HelmImpl_Uninstall ::
  "('cfg, 'c, 'o, 'w) HelmLib \<Rightarrow> string \<Rightarrow> string \<Rightarrow> 'w \<Rightarrow> string option \<times> 'w" where
  "HelmImpl_Uninstall lib kubeNamespace releaseName w =
     (case getConfig lib kubeNamespace of
        Inl err \<Rightarrow> (Some err, w)
      | Inr cfg \<Rightarrow> Lib_Uninstall lib cfg releaseName w)"

text \<open>\<open>filepath.Split\<close> cuts after the last slash.\<close>

definition path_base :: "string \<Rightarrow> string" where
  "path_base p = last (split_on CHR ''/'' p)"

definition HelmImpl_Load :: "('cfg, 'c, 'o, 'w) HelmLib \<Rightarrow> string \<Rightarrow> string \<Rightarrow> 'w \<Rightarrow> string + 'c" where
  "HelmImpl_Load lib ref chartPath w =
     (case Lib_Loader lib (chartsMountPath @ ref) w of
        Inr chart \<Rightarrow> Inr chart
      | Inl _ \<Rightarrow>
          (case Lib_ParseReference lib ref of
             Inl err \<Rightarrow> Inl err
           | Inr (repo, tag) \<Rightarrow>
               Lib_Loader lib (chartPath @ ''/'' @ path_base repo @ ''-'' @ tag @ ''.tgz'') w))"

definition HelmImpl_Install ::
  "('cfg, 'c, 'o, 'w) HelmLib \<Rightarrow> 'c \<Rightarrow> string \<Rightarrow> string \<Rightarrow> helm_values \<Rightarrow> 'w \<Rightarrow>
     (Release option \<times> string option) \<times> 'w" where
  "HelmImpl_Install lib chart kubeNamespace releaseName vals w =
     (case getConfig lib kubeNamespace of
        Inl err \<Rightarrow> ((None, Some err), w)
      | Inr cfg \<Rightarrow> Lib_Install lib cfg releaseName kubeNamespace chart vals w)"

definition HelmImpl_Upgrade ::
  "('cfg, 'c, 'o, 'w) HelmLib \<Rightarrow> 'c \<Rightarrow> string \<Rightarrow> string \<Rightarrow> helm_values \<Rightarrow> 'w \<Rightarrow>
     (Release option \<times> string option) \<times> 'w" where
  "HelmImpl_Upgrade lib chart kubeNamespace releaseName vals w =
     (case getConfig lib kubeNamespace of
        Inl err \<Rightarrow> ((None, Some err), w)
      | Inr cfg \<Rightarrow> Lib_Upgrade lib cfg releaseName kubeNamespace chart vals w)"

definition HelmImpl_Status ::
  "('cfg, 'c, 'o, 'w) HelmLib \<Rightarrow> string \<Rightarrow> string \<Rightarrow> 'w \<Rightarrow> Release option \<times> string option" where
  "HelmImpl_Status lib kubeNamespace releaseName w =
     (case getConfig lib kubeNamespace of
        Inl err \<Rightarrow> (None, Some err)
      | Inr cfg \<Rightarrow> Lib_Status lib cfg releaseName w)"

definition HelmImpl_RegistryLogin ::
  "('cfg, 'c, 'o, 'w) HelmLib \<Rightarrow> string \<Rightarrow> string \<Rightarrow> string \<Rightarrow> bool \<Rightarrow> 'w \<Rightarrow> string option \<times> 'w" where
  "HelmImpl_RegistryLogin lib hostname username password insecure w =
     (case getConfig lib [] of
        Inl err \<Rightarrow> (Some err, w)
      | Inr cfg \<Rightarrow> Lib_Login lib cfg hostname username password insecure w)"

definition HelmImpl_RegistryLogout ::
  "('cfg, 'c, 'o, 'w) HelmLib \<Rightarrow> string \<Rightarrow> 'w \<Rightarrow> string option \<times> 'w" where
  "HelmImpl_RegistryLogout lib hostname w =
     (case getConfig lib [] of
        Inl err \<Rightarrow> (Some err, w)
      | Inr cfg \<Rightarrow> Lib_Logout lib cfg hostname w)"

definition HelmImpl_Package ::
  "('cfg, 'c, 'o, 'w) HelmLib \<Rightarrow> string \<Rightarrow> string \<Rightarrow> string \<Rightarrow> 'w \<Rightarrow> string option \<times> 'w" where
  "HelmImpl_Package lib chartPath destinationPath version w =
     Lib_PackageRun lib (if version \<noteq> [] then Some version else None) destinationPath chartPath w"

definition HelmImpl_Pull ::
  "('cfg, 'c, 'o, 'w) HelmLib \<Rightarrow> string \<Rightarrow> string \<Rightarrow> 'w \<Rightarrow> string option \<times> 'w" where
  "HelmImpl_Pull lib ref destination w =
     (if Lib_FileExists lib (chartsMountPath @ ref) w then (None, w)
      else
        (case Lib_ParseReference lib ref of
           Inl err \<Rightarrow> (Some err, w)
         | Inr (repo, tag) \<Rightarrow>
             (case getConfig lib [] of
                Inl err \<Rightarrow> (Some err, w)
              | Inr cfg \<Rightarrow> Lib_PullRun lib cfg tag destination (''oci://'' @ repo) w)))"

text \<open>An error ends the loop with the resources collected so far.\<close>

fun refresh_loop ::
  "('cfg, 'c, 'o, 'w) HelmLib \<Rightarrow> 'o list \<Rightarrow> 'w \<Rightarrow> unstructured list \<Rightarrow> unstructured list \<times> string option" where
  "refresh_loop lib [] w resources = (resources, None)"
| "refresh_loop lib (res # rest) w resources =
     (case Lib_Refresh lib res w of
        Inl err \<Rightarrow> (resources, Some err)
      | Inr None \<Rightarrow> (resources, Some ''invalid runtime object'')
      | Inr (Some unstr) \<Rightarrow> refresh_loop lib rest w (resources @ [unstr]))"

definition HelmImpl_GetResources ::
  "('cfg, 'c, 'o, 'w) HelmLib \<Rightarrow> string \<Rightarrow> string \<Rightarrow> 'w \<Rightarrow> unstructured list \<times> string option" where
  "HelmImpl_GetResources lib kubeNamespace releaseName w =
     (case getConfig lib kubeNamespace of
        Inl err \<Rightarrow> ([], Some err)
      | Inr config \<Rightarrow>
          (case Lib_Manifest lib config releaseName w of
             Inl err \<Rightarrow> ([], Some err)
           | Inr manifest \<Rightarrow>
               (case Lib_Build lib config manifest w of
                  Inl err \<Rightarrow> ([], Some err)
                | Inr resourceList \<Rightarrow> refresh_loop lib resourceList w [])))"

definition HelmImpl :: "('cfg, 'c, 'o, 'w) HelmLib \<Rightarrow> ('c, 'w) HelmInterface" where
  "HelmImpl lib =
     \<lparr>Helm_Uninstall = HelmImpl_Uninstall lib, Helm_Install = HelmImpl_Install lib,
      Helm_Upgrade = HelmImpl_Upgrade lib, Helm_Status = HelmImpl_Status lib,
      Helm_RegistryLogin = HelmImpl_RegistryLogin lib, Helm_RegistryLogout = HelmImpl_RegistryLogout lib,
      Helm_Pull = HelmImpl_Pull lib, Helm_Load = HelmImpl_Load lib, Helm_Package = HelmImpl_Package lib,
      Helm_GetResources = HelmImpl_GetResources lib\<rparr>"

lemma refresh_loop_all:
  "refresh_loop lib objs w acc = (resources, None) \<longleftrightarrow>
     (\<exists>us. map (\<lambda>obj. Lib_Refresh lib obj w) objs = map (Inr \<circ> Some) us \<and> resources = acc @ us)"
proof (induction objs arbitrary: acc)
  case Nil
  then show ?case by auto
next
  case (Cons obj objs)
  show ?case by (auto simp: Cons.IH Cons_eq_map_conv split: sum.splits option.splits)
qed

end
