(* ===== verification/Blueprint_Controller.thy ===== *)
theory Blueprint_Controller
  imports Helm Plotter_Reconcile
begin

text \<open>
  \<^verbatim>\<open>src/manager/controllers/app/blueprint_controller.go\<close>: the controller that installs the modules of a
  blueprint as Helm releases and watches them. The registry credentials, the temporary directory, the
  list of modules, \<open>kstatus\<close> and the label selectors are the parameter record \<open>BlueprintLib\<close>, whose
  type \<open>'r\<close> is that of a selector requirement.

  The labels that the reconciliation adds to a module's arguments go into a map that the in-memory
  blueprint shares; only the status of that object is written afterwards, so that they appear in the
  values of the charts alone. \<open>errors.WithMessage\<close> and \<open>errors.Wrap\<close> put their message and a colon
  before the error, and give nil for a nil error.
\<close>

section \<open>Arguments of a module as values of its chart\<close>

text \<open>
  \<open>StructToMap\<close> of the arguments: their JSON form, following the tags of the structs. An empty
  optional field is left out.
\<close>

definition json_omit :: "bool \<Rightarrow> string \<Rightarrow> json \<Rightarrow> (string, json) fmap \<Rightarrow> (string, json) fmap" where
  "json_omit absent key v m = (if absent then m else fmupd key v m)"

definition json_strings :: "(string, string) fmap \<Rightarrow> json" where
  "json_strings m = JObj (fmmap JStr m)"

definition Vault_json :: "Vault \<Rightarrow> json" where
  "Vault_json v = JObj (fmupd ''role'' (JStr (Vault_Role v)) (fmupd ''secretPath'' (JStr (Vault_SecretPath v))
     (fmupd ''address'' (JStr (Vault_Address v)) (fmupd ''authPath'' (JStr (Vault_AuthPath v)) fmempty))))"

definition DataStore_json :: "DataStore \<Rightarrow> json" where
  "DataStore_json d = JObj (fmupd ''vault'' (JObj (fmmap Vault_json (DataStore_Vault d)))
     (fmupd ''connection'' (Connection_MarshalJSON (DataStore_Connection d))
       (json_omitempty ''format'' (DataStore_Format d) fmempty)))"

definition Actions_json :: "Action list \<Rightarrow> (string, json) fmap \<Rightarrow> (string, json) fmap" where
  "Actions_json actions = json_omit (actions = []) ''transformations'' (JArr (map Action_MarshalJSON actions))"

definition CopyArgs_json :: "CopyModuleArgs \<Rightarrow> json" where
  "CopyArgs_json c = JObj (fmupd ''source'' (DataStore_json (CopyArgs_Source c))
     (fmupd ''destination'' (DataStore_json (CopyArgs_Destination c))
       (fmupd ''assetID'' (JStr (CopyArgs_AssetID c)) (Actions_json (CopyArgs_Transformations c) fmempty))))"

definition ReadArgs_json :: "ReadModuleArgs \<Rightarrow> json" where
  "ReadArgs_json r = JObj (fmupd ''source'' (DataStore_json (ReadArgs_Source r))
     (fmupd ''assetID'' (JStr (ReadArgs_AssetID r)) (Actions_json (ReadArgs_Transformations r) fmempty)))"

definition WriteArgs_json :: "WriteModuleArgs \<Rightarrow> json" where
  "WriteArgs_json w = JObj (fmupd ''destination'' (DataStore_json (WriteArgs_Destination w))
     (fmupd ''assetID'' (JStr (WriteArgs_AssetID w)) (Actions_json (WriteArgs_Transformations w) fmempty)))"

definition Requirement_json :: "LabelSelectorRequirement \<Rightarrow> json" where
  "Requirement_json r = JObj (fmupd ''key'' (JStr (Requirement_Key r))
     (fmupd ''operator'' (JStr (Requirement_Operator r))
       (json_omit (Requirement_Values r = []) ''values'' (JArr (map JStr (Requirement_Values r))) fmempty)))"

definition LabelSelector_json :: "LabelSelector \<Rightarrow> json" where
  "LabelSelector_json s = JObj
     (json_omit (Selector_MatchLabels s = fmempty) ''matchLabels'' (json_strings (Selector_MatchLabels s))
       (json_omit (Selector_MatchExpressions s = []) ''matchExpressions''
         (JArr (map Requirement_json (Selector_MatchExpressions s))) fmempty))"

definition Arguments_StructToMap :: "ModuleArguments \<Rightarrow> helm_values" where
  "Arguments_StructToMap a =
     json_omit (Arguments_Labels a = fmempty) ''labels'' (json_strings (Arguments_Labels a))
      (fmupd ''appSelector'' (LabelSelector_json (Arguments_AppSelector a))
       ((case Arguments_Copy a of None \<Rightarrow> (\<lambda>m. m) | Some c \<Rightarrow> fmupd ''copy'' (CopyArgs_json c))
        (json_omit (Arguments_Read a = []) ''read'' (JArr (map ReadArgs_json (Arguments_Read a)))
         (json_omit (Arguments_Write a = []) ''write'' (JArr (map WriteArgs_json (Arguments_Write a))) fmempty))))"

primrec copy_value :: "json \<Rightarrow> json" where
  "copy_value JNull = JNull"
| "copy_value (JBool b) = JBool b"
| "copy_value (JNum n) = JNum n"
| "copy_value (JStr s) = JStr s"
| "copy_value (JArr xs) = JArr xs"
| "copy_value (JObj m) = JObj (fmmap copy_value m)"

definition CopyMap :: "(string, json) fmap \<Rightarrow> (string, json) fmap" where
  "CopyMap m = fmmap copy_value m"

text \<open>
  The loop of \<open>SetMapField\<close> walks down the nested maps and writes in place; the result is the whole
  map after the walk and whether the field was set.
\<close>

fun set_path :: "(string, json) fmap \<Rightarrow> string list \<Rightarrow> json \<Rightarrow> (string, json) fmap \<times> bool" where
  "set_path obj [] v = (obj, True)"
| "set_path obj [component] v = (fmupd component v obj, True)"
| "set_path obj (component # c # rest) v =
     (case fmlookup obj component of
        None \<Rightarrow> (case set_path fmempty (c # rest) v of (m, ok) \<Rightarrow> (fmupd component (JObj m) obj, ok))
      | Some (JObj m) \<Rightarrow> (case set_path m (c # rest) v of (m', ok) \<Rightarrow> (fmupd component (JObj m') obj, ok))
      | Some _ \<Rightarrow> (obj, False))"

definition SetMapField :: "(string, json) fmap \<Rightarrow> string \<Rightarrow> json \<Rightarrow> (string, json) fmap \<times> bool" where
  "SetMapField obj k v = set_path obj (split_on CHR ''.'' k) v"

section \<open>Installing a chart\<close>

record Secret =
  Secret_Type :: string
  Secret_Data :: "(string, string) fmap"

record Credentials =
  Cred_Username :: string
  Cred_Password :: string

record ('r, 'w) BlueprintLib =
  BL_GetSecret :: "NamespacedName \<Rightarrow> 'w \<Rightarrow> string + Secret"
  BL_ParseDomain :: "string \<Rightarrow> string + string"
  BL_KeyringLookup :: "Secret list \<Rightarrow> string \<Rightarrow> Credentials list \<times> bool"
  BL_TempDir :: "'w \<Rightarrow> string + string"
  BL_ListModules :: "'w \<Rightarrow> string + FybrikModule list"
  BL_KStatus :: "unstructured \<Rightarrow> string + (string \<times> string)"
  BL_LabelsParse :: "string \<Rightarrow> string + 'r list"
  BL_Matches :: "'r \<Rightarrow> (string \<Rightarrow> bool) \<Rightarrow> (string \<Rightarrow> string) \<Rightarrow> bool"
  BL_GetKind :: "unstructured \<Rightarrow> string"

definition getDomainFromImageName :: "('r, 'w) BlueprintLib \<Rightarrow> string \<Rightarrow> string + string" where
  "getDomainFromImageName lib imageName =
     (case BL_ParseDomain lib imageName of
        Inl err \<Rightarrow> Inl (with_message (''couldn'' @ [CHR 0x27] @ ''t parse image name: '' @ imageName) err)
      | Inr domain \<Rightarrow> Inr domain)"

definition chart_values :: "range_ord \<Rightarrow> ChartSpec \<Rightarrow> helm_values \<Rightarrow> helm_values" where
  "chart_values ord chartSpec args =
     fold (\<lambda>(k, v) args. fst (SetMapField args k (JStr v))) (fmrange ord (ChartSpec_Values chartSpec))
       (CopyMap args)"

text \<open>The login loop stops at the first credentials that are accepted.\<close>

fun login_loop ::
  "('c, 'w) HelmInterface \<Rightarrow> string \<Rightarrow> Credentials list \<Rightarrow> 'w \<Rightarrow> string \<times> 'w" where
  "login_loop h repoToPull [] w = ([], w)"
| "login_loop h repoToPull (cred # creds) w =
     (case Helm_RegistryLogin h repoToPull (Cred_Username cred) (Cred_Password cred) False w of
        (None, w1) \<Rightarrow> (repoToPull, w1)
      | (Some _, w1) \<Rightarrow> login_loop h repoToPull creds w1)"

text \<open>The registry that was logged in to, or an error.\<close>

definition registry_login ::
  "go_env \<Rightarrow> ('r, 'w) BlueprintLib \<Rightarrow> ('c, 'w) HelmInterface \<Rightarrow> ChartSpec \<Rightarrow> 'w \<Rightarrow> (string + string) \<times> 'w" where
  "registry_login env lib h chartSpec w =
     (if ChartSpec_ChartPullSecret chartSpec = [] then (Inr [], w)
      else
        (case BL_GetSecret lib \<lparr>NN_Name = ChartSpec_ChartPullSecret chartSpec,
                NN_Namespace = GetSystemNamespace env\<rparr> w of
           Inl err \<Rightarrow>
             (Inl (with_message (''could not find ChartPullSecret: '' @ ChartSpec_ChartPullSecret chartSpec) err), w)
         | Inr pullSecret \<Rightarrow>
             if Secret_Type pullSecret \<noteq> ''kubernetes.io/dockerconfigjson'' then (Inr [], w)
             else
               (case getDomainFromImageName lib (ChartSpec_Name chartSpec) of
                  Inl err \<Rightarrow>
                    (Inl (with_message (ChartSpec_Name chartSpec @ '': failed to parse image name'') err), w)
                | Inr repoToPull \<Rightarrow>
                    (case BL_KeyringLookup lib [pullSecret] (ChartSpec_Name chartSpec) of
                       (creds, withCredentials) \<Rightarrow>
                         if withCredentials
                         then (case login_loop h repoToPull creds w of (host, w1) \<Rightarrow> (Inr host, w1))
                         else (Inr [], w)))))"

definition install_or_upgrade ::
  "('c, 'w) HelmInterface \<Rightarrow> ChartSpec \<Rightarrow> 'c \<Rightarrow> string \<Rightarrow> string \<Rightarrow> helm_values \<Rightarrow> 'w \<Rightarrow> (string option \<times> 'w) go" where
  "install_or_upgrade h chartSpec chart kubeNamespace releaseName args w =
     (let finish = (\<lambda>what. \<lambda>((rel, err), w').
            case err of
              Some e \<Rightarrow> Ok (Some (with_message (ChartSpec_Name chartSpec @ what) e), w')
            | None \<Rightarrow>
                (case rel of
                   None \<Rightarrow> Panic ''nil pointer dereference''
                 | Some _ \<Rightarrow> Ok (None, w')))
      in case Helm_Status h kubeNamespace releaseName w of
           (Some rel, None) \<Rightarrow>
             finish '': failed upgrade'' (Helm_Upgrade h chart kubeNamespace releaseName args w)
         | _ \<Rightarrow> finish '': failed install'' (Helm_Install h chart kubeNamespace releaseName args w))"

text \<open>
  After a failed logout the function wraps the error of the pull before it, which is nil at that
  point: it returns no error.
\<close>

definition applyChartResource ::
  "go_env \<Rightarrow> range_ord \<Rightarrow> ('r, 'w) BlueprintLib \<Rightarrow> ('c, 'w) HelmInterface \<Rightarrow> ChartSpec \<Rightarrow> helm_values \<Rightarrow>
     Blueprint \<Rightarrow> string \<Rightarrow> 'w \<Rightarrow> (string option \<times> 'w) go" where
  "applyChartResource env ord lib h chartSpec args blueprint releaseName w =
     (let kubeNamespace = BlueprintSpec_ModulesNamespace (Blueprint_Spec blueprint);
          args = chart_values ord chartSpec args;
          name = ChartSpec_Name chartSpec
      in case registry_login env lib h chartSpec w of
           (Inl err, w1) \<Rightarrow> Ok (Some err, w1)
         | (Inr registrySuccessfulLogin, w1) \<Rightarrow>
             (case BL_TempDir lib w1 of
                Inl err \<Rightarrow>
                  Ok (Some (with_message (name @ '': failed to create temporary directory for chart pull'') err), w1)
              | Inr tmpDir \<Rightarrow>
                  (case Helm_Pull h name tmpDir w1 of
                     (Some err, w2) \<Rightarrow> Ok (Some (with_message (name @ '': failed chart pull'') err), w2)
                   | (None, w2) \<Rightarrow>
                       (case (if registrySuccessfulLogin \<noteq> []
                              then Helm_RegistryLogout h registrySuccessfulLogin w2 else (None, w2)) of
                          (Some logoutErr, w3) \<Rightarrow> Ok (None, w3)
                        | (None, w3) \<Rightarrow>
                            (case Helm_Load h name tmpDir w3 of
                               Inl err \<Rightarrow> Ok (Some (with_message (name @ '': failed chart load'') err), w3)
                             | Inr chart \<Rightarrow>
                                 install_or_upgrade h chartSpec chart kubeNamespace releaseName args w3)))))"

section \<open>The state of a release\<close>

definition find_indicator :: "string \<Rightarrow> FybrikModule list \<Rightarrow> ResourceStatusIndicator option" where
  "find_indicator k modules =
     find (\<lambda>res. Indicator_Kind res = k) (concat (map (\<lambda>m. ModuleSpec_StatusIndicators (Module_Spec m)) modules))"

definition getExpectedResults ::
  "('r, 'w) BlueprintLib \<Rightarrow> string \<Rightarrow> 'w \<Rightarrow> string + ResourceStatusIndicator option" where
  "getExpectedResults lib k w =
     (case BL_ListModules lib w of
        Inl err \<Rightarrow> Inl err
      | Inr modules \<Rightarrow> Inr (find_indicator k modules))"

definition matchesCondition ::
  "go_env \<Rightarrow> ('r, 'w) BlueprintLib \<Rightarrow> unstructured \<Rightarrow> string \<Rightarrow> bool" where
  "matchesCondition env lib res condition =
     (case BL_LabelsParse lib condition of
        Inl err \<Rightarrow> False
      | Inr requirements \<Rightarrow>
          list_all (\<lambda>req. BL_Matches lib req (UnstructuredAsLabels_Has env res) (UnstructuredAsLabels_Get env res))
            requirements)"

definition getErrorMessage :: "go_env \<Rightarrow> unstructured \<Rightarrow> string \<Rightarrow> string" where
  "getErrorMessage env res fieldPath =
     (if \<not> UnstructuredAsLabels_Has env res fieldPath then [] else UnstructuredAsLabels_Get env res fieldPath)"

abbreviation FailedStatus :: string where
  "FailedStatus \<equiv> ''Failed''"

abbreviation CurrentStatus :: string where
  "CurrentStatus \<equiv> ''Current''"

definition checkResourceStatus ::
  "go_env \<Rightarrow> ('r, 'w) BlueprintLib \<Rightarrow> unstructured \<Rightarrow> 'w \<Rightarrow> ConditionStatus \<times> string" where
  "checkResourceStatus env lib res w =
     (case getExpectedResults lib (BL_GetKind lib res) w of
        Inl err \<Rightarrow> (ConditionUnknown, [])
      | Inr None \<Rightarrow>
          (case BL_KStatus lib res of
             Inl err \<Rightarrow> (ConditionUnknown, [])
           | Inr (status, message) \<Rightarrow>
               if status = FailedStatus then (ConditionFalse, message)
               else if status = CurrentStatus then (ConditionTrue, [])
               else (ConditionUnknown, []))
      | Inr (Some expected) \<Rightarrow>
          if matchesCondition env lib res (Indicator_SuccessCondition expected) then (ConditionTrue, [])
          else if matchesCondition env lib res (Indicator_FailureCondition expected)
               then (ConditionFalse, getErrorMessage env res (Indicator_ErrorMessage expected))
          else (ConditionUnknown, []))"

fun resources_loop ::
  "go_env \<Rightarrow> ('r, 'w) BlueprintLib \<Rightarrow> 'w \<Rightarrow> nat \<Rightarrow> unstructured list \<Rightarrow> (ConditionStatus \<times> string) + nat" where
  "resources_loop env lib w numReady [] = Inr numReady"
| "resources_loop env lib w numReady (res # resources) =
     (case checkResourceStatus env lib res w of
        (state, errMsg) \<Rightarrow>
          if state = ConditionFalse then Inl (state, errMsg)
          else resources_loop env lib w (if state = ConditionTrue then numReady + 1 else numReady) resources)"

definition checkReleaseStatus ::
  "go_env \<Rightarrow> ('r, 'w) BlueprintLib \<Rightarrow> ('c, 'w) HelmInterface \<Rightarrow> string \<Rightarrow> string \<Rightarrow> 'w \<Rightarrow>
     ConditionStatus \<times> string" where
  "checkReleaseStatus env lib h releaseName namespace w =
     (case Helm_GetResources h namespace releaseName w of
        (_, Some err) \<Rightarrow> (ConditionUnknown, [])
      | (resources, None) \<Rightarrow>
          (case resources_loop env lib w 0 resources of
             Inl r \<Rightarrow> r
           | Inr numReady \<Rightarrow>
               if numReady = length resources then (ConditionTrue, []) else (ConditionUnknown, [])))"

section \<open>Reconciliation\<close>

definition updateModuleState :: "string \<Rightarrow> bool \<Rightarrow> string \<Rightarrow> BlueprintStatus \<Rightarrow> BlueprintStatus" where
  "updateModuleState instanceName ready err status =
     status\<lparr>BlueprintStatus_ModulesState :=
       fmupd instanceName \<lparr>ObservedState_Ready = ready, ObservedState_Error = err\<rparr>
         (BlueprintStatus_ModulesState status)\<rparr>"

definition add_error :: "string \<Rightarrow> BlueprintStatus \<Rightarrow> BlueprintStatus" where
  "add_error msg status =
     status\<lparr>BlueprintStatus_ObservedState := (BlueprintStatus_ObservedState status)
       \<lparr>ObservedState_Error := ObservedState_Error (BlueprintStatus_ObservedState status) @ msg @ [CHR 0x0A]\<rparr>\<rparr>"

text \<open>The variables of the loop over the modules.\<close>

record 'w bp_state =
  BP_Status :: BlueprintStatus
  BP_NumReleases :: nat
  BP_NumReady :: nat
  BP_World :: 'w

definition labelled_arguments :: "Blueprint \<Rightarrow> BlueprintModule \<Rightarrow> ModuleArguments" where
  "labelled_arguments blueprint module =
     (let args = BlueprintModule_Arguments module;
          uuid = GetFybrikApplicationUUIDfromAnnotations (Meta_Annotations (Blueprint_Meta blueprint))
      in args\<lparr>Arguments_Labels :=
           fmupd FybrikAppUUID uuid
             (fmupd BlueprintNamespaceLabel (Meta_Namespace (Blueprint_Meta blueprint))
               (fmupd BlueprintNameLabel (Meta_Name (Blueprint_Meta blueprint)) (Arguments_Labels args)))\<rparr>)"

definition blueprint_release :: "go_env \<Rightarrow> Blueprint \<Rightarrow> string \<Rightarrow> string go" where
  "blueprint_release env blueprint instanceName =
     GetReleaseName env (fmget [] (Meta_Labels (Blueprint_Meta blueprint)) ApplicationNameLabel)
       (fmget [] (Meta_Labels (Blueprint_Meta blueprint)) ApplicationNamespaceLabel) instanceName"

text \<open>The branch that applies the chart.\<close>

definition apply_module ::
  "go_env \<Rightarrow> range_ord \<Rightarrow> ('r, 'w) BlueprintLib \<Rightarrow> ('c, 'w) HelmInterface \<Rightarrow> Blueprint \<Rightarrow> string \<Rightarrow> BlueprintModule \<Rightarrow>
     string \<Rightarrow> 'w bp_state \<Rightarrow> 'w bp_state go" where
  "apply_module env ord lib h blueprint instanceName module releaseName st =
     go_bind (applyChartResource env ord lib h (BlueprintModule_Chart module)
                (Arguments_StructToMap (labelled_arguments blueprint module)) blueprint releaseName (BP_World st))
       (\<lambda>(err, w1).
          Ok (case err of
                Some e \<Rightarrow>
                  st\<lparr>BP_World := w1,
                     BP_Status := updateModuleState instanceName False e
                       (add_error (with_message ''ChartDeploymentFailure: '' e) (BP_Status st))\<rparr>
              | None \<Rightarrow>
                  st\<lparr>BP_World := w1, BP_Status := updateModuleState instanceName False [] (BP_Status st)\<rparr>))"

text \<open>The branch that checks the resources of a deployed release.\<close>

definition check_module ::
  "go_env \<Rightarrow> ('r, 'w) BlueprintLib \<Rightarrow> ('c, 'w) HelmInterface \<Rightarrow> string \<Rightarrow> string \<Rightarrow> string \<Rightarrow> 'w bp_state \<Rightarrow> 'w bp_state" where
  "check_module env lib h modulesNamespace instanceName releaseName st =
     (case checkReleaseStatus env lib h releaseName modulesNamespace (BP_World st) of
        (status, errMsg) \<Rightarrow>
          if status = ConditionFalse
          then st\<lparr>BP_Status := updateModuleState instanceName False errMsg
                 (add_error (''ResourceAllocationFailure: '' @ errMsg) (BP_Status st))\<rparr>
          else if status = ConditionTrue
          then st\<lparr>BP_Status := updateModuleState instanceName True [] (BP_Status st),
                  BP_NumReady := BP_NumReady st + 1\<rparr>
          else st)"

definition record_release :: "string \<Rightarrow> 'w bp_state \<Rightarrow> 'w bp_state" where
  "record_release releaseName st =
     st\<lparr>BP_Status := (BP_Status st)
       \<lparr>BlueprintStatus_Releases :=
          fmupd releaseName (BlueprintStatus_ObservedGeneration (BP_Status st))
            (BlueprintStatus_Releases (BP_Status st))\<rparr>\<rparr>"

definition module_step ::
  "go_env \<Rightarrow> range_ord \<Rightarrow> ('r, 'w) BlueprintLib \<Rightarrow> ('c, 'w) HelmInterface \<Rightarrow> Blueprint \<Rightarrow> bool \<Rightarrow>
     string \<times> BlueprintModule \<Rightarrow> 'w bp_state \<Rightarrow> 'w bp_state go" where
  "module_step env ord lib h blueprint updateRequired kv st =
     (case kv of (instanceName, module) \<Rightarrow>
        go_bind (blueprint_release env blueprint instanceName) (\<lambda>releaseName.
          let modulesNamespace = BlueprintSpec_ModulesNamespace (Blueprint_Spec blueprint);
              st = st\<lparr>BP_NumReleases := BP_NumReleases st + 1\<rparr>
          in go_bind
               (case Helm_Status h modulesNamespace releaseName (BP_World st) of
                  (Some rel, None) \<Rightarrow>
                    if updateRequired \<or> Release_Status rel = StatusFailed
                    then apply_module env ord lib h blueprint instanceName module releaseName st
                    else if Release_Status rel = StatusDeployed
                    then Ok (check_module env lib h modulesNamespace instanceName releaseName st)
                    else Ok st
                | _ \<Rightarrow> apply_module env ord lib h blueprint instanceName module releaseName st)
               (\<lambda>st'. Ok (record_release releaseName st'))))"

definition cleanup_step ::
  "('c, 'w) HelmInterface \<Rightarrow> string \<Rightarrow> string \<times> int64 \<Rightarrow> 'w bp_state \<Rightarrow> 'w bp_state" where
  "cleanup_step h modulesNamespace kv st =
     (case kv of (release, version) \<Rightarrow>
        if version = BlueprintStatus_ObservedGeneration (BP_Status st) then st
        else
          (case Helm_Uninstall h modulesNamespace release (BP_World st) of
             (Some err, w1) \<Rightarrow> st\<lparr>BP_World := w1\<rparr>
           | (None, w1) \<Rightarrow>
               st\<lparr>BP_World := w1, BP_Status := (BP_Status st)
                 \<lparr>BlueprintStatus_Releases := fmdrop release (BlueprintStatus_Releases (BP_Status st))\<rparr>\<rparr>))"

definition blueprint_start :: "Blueprint \<Rightarrow> 'w \<Rightarrow> 'w bp_state" where
  "blueprint_start blueprint w =
     \<lparr>BP_Status = (Blueprint_Status blueprint)
        \<lparr>BlueprintStatus_ObservedGeneration := Meta_Generation (Blueprint_Meta blueprint),
         BlueprintStatus_ObservedState := \<lparr>ObservedState_Ready = False, ObservedState_Error = []\<rparr>\<rparr>,
      BP_NumReleases = 0, BP_NumReady = 0, BP_World = w\<rparr>"

definition blueprint_reconcile ::
  "go_env \<Rightarrow> range_ord \<Rightarrow> ('r, 'w) BlueprintLib \<Rightarrow> ('c, 'w) HelmInterface \<Rightarrow> Blueprint \<Rightarrow> 'w \<Rightarrow>
     (Result \<times> Blueprint \<times> 'w) go" where
  "blueprint_reconcile env ord lib h blueprint w =
     (let updateRequired =
            (BlueprintStatus_ObservedGeneration (Blueprint_Status blueprint) \<noteq>
             Meta_Generation (Blueprint_Meta blueprint))
      in go_bind (go_fold (module_step env ord lib h blueprint updateRequired)
                    (fmrange ord (BlueprintSpec_Modules (Blueprint_Spec blueprint))) (blueprint_start blueprint w))
           (\<lambda>st.
              let st1 = fold (cleanup_step h (BlueprintSpec_ModulesNamespace (Blueprint_Spec blueprint)))
                          (fmrange ord (BlueprintStatus_Releases (BP_Status st))) st;
                  status = BP_Status st1
              in if BP_NumReady st1 = BP_NumReleases st1
                 then Ok (None,
                        blueprint\<lparr>Blueprint_Status := status\<lparr>BlueprintStatus_ObservedState :=
                          (BlueprintStatus_ObservedState status)\<lparr>ObservedState_Ready := True\<rparr>\<rparr>\<rparr>,
                        BP_World st1)
                 else Ok (if ObservedState_Error (BlueprintStatus_ObservedState status) = [] then Some 2 else None,
                        blueprint\<lparr>Blueprint_Status := status\<rparr>, BP_World st1)))"

section \<open>Finalizers and Reconcile\<close>

definition uninstall_step ::
  "('c, 'w) HelmInterface \<Rightarrow> string \<Rightarrow> string \<times> int64 \<Rightarrow> string list \<times> 'w \<Rightarrow> string list \<times> 'w" where
  "uninstall_step h modulesNamespace kv ew =
     (case ew of (errs, w) \<Rightarrow>
        (case Helm_Uninstall h modulesNamespace (fst kv) w of
           (Some err, w1) \<Rightarrow> (errs @ [err], w1)
         | (None, w1) \<Rightarrow> (errs, w1)))"

definition blueprint_deleteExternalResources ::
  "range_ord \<Rightarrow> ('c, 'w) HelmInterface \<Rightarrow> Blueprint \<Rightarrow> 'w \<Rightarrow> string option \<times> 'w" where
  "blueprint_deleteExternalResources ord h blueprint w =
     (case fold (uninstall_step h (BlueprintSpec_ModulesNamespace (Blueprint_Spec blueprint)))
             (fmrange ord (BlueprintStatus_Releases (Blueprint_Status blueprint))) ([], w) of
        (errs, w1) \<Rightarrow> if length errs = 0 then (None, w1) else (Some (strings_Join errs ''; ''), w1))"

text \<open>An error of the deletion is only logged.\<close>

definition blueprint_reconcileFinalizers ::
  "string \<Rightarrow> range_ord \<Rightarrow> ('c, 'w) HelmInterface \<Rightarrow> (Blueprint, BlueprintStatus, 'w) K8sClient \<Rightarrow> Blueprint \<Rightarrow> 'w \<Rightarrow>
     string option \<times> Blueprint \<times> 'w" where
  "blueprint_reconcileFinalizers controller ord h cl blueprint w =
     (let finalizerName = finalizer_name controller;
          hasFinalizer = K8s_ContainsFinalizer cl blueprint finalizerName
      in if is_deleted Blueprint_kind blueprint
         then if hasFinalizer
              then (case blueprint_deleteExternalResources ord h blueprint w of
                      (_, w1) \<Rightarrow>
                        (case UpdateFinalizers Blueprint_kind cl
                                (K8s_RemoveFinalizer cl finalizerName blueprint) w1 of
                           (err, blueprint', w2) \<Rightarrow> (map_option api_message err, blueprint', w2)))
              else (None, blueprint, w)
         else if \<not> hasFinalizer
              then (case UpdateFinalizers Blueprint_kind cl (K8s_AddFinalizer cl finalizerName blueprint) w of
                      (err, blueprint', w1) \<Rightarrow> (map_option api_message err, blueprint', w1))
              else (None, blueprint, w))"

definition Blueprint_Reconcile ::
  "string \<Rightarrow> go_env \<Rightarrow> range_ord \<Rightarrow> ('r, 'w) BlueprintLib \<Rightarrow> ('c, 'w) HelmInterface \<Rightarrow>
     (Blueprint, BlueprintStatus, 'w) K8sClient \<Rightarrow> NamespacedName \<Rightarrow> 'w \<Rightarrow> 'w reconciled" where
  "Blueprint_Reconcile controller env ord lib h cl req w =
     (case K8s_Get cl req w of
        Inl err \<Rightarrow> Ok ((None, map_option api_message (IgnoreNotFound err)), w)
      | Inr blueprint \<Rightarrow>
          (case blueprint_reconcileFinalizers controller ord h cl blueprint w of
             (Some err, _, w1) \<Rightarrow> Ok ((None, Some err), w1)
           | (None, blueprint1, w1) \<Rightarrow>
               if is_deleted Blueprint_kind blueprint1 then Ok ((None, None), w1)
               else
                 let observedStatus = Blueprint_Status blueprint1
                 in go_bind (blueprint_reconcile env ord lib h blueprint1 w1)
                      (\<lambda>(result, blueprint2, w2).
                         if Blueprint_Status blueprint2 \<noteq> observedStatus
                         then (case UpdateStatus Blueprint_kind cl blueprint2 observedStatus w2 of
                                 (Some err, _, w3) \<Rightarrow>
                                   Ok ((None, Some (with_message ''failed to update blueprint status''
                                     (api_message err))), w3)
                               | (None, _, w3) \<Rightarrow> Ok ((result, None), w3))
                         else Ok ((result, None), w2))))"

text \<open>The event filter: only resources of the system namespace are reconciled.\<close>

definition blueprint_event_accepted :: "go_env \<Rightarrow> Blueprint \<Rightarrow> bool" where
  "blueprint_event_accepted env blueprint \<longleftrightarrow>
     Meta_Namespace (Blueprint_Meta blueprint) = GetSystemNamespace env"

section \<open>Fields of nested maps\<close>

lemma fmmap_id:
  assumes "\<And>v. v \<in> fmran' m \<Longrightarrow> f v = v"
  shows "fmmap f m = m"
proof (intro fmap_ext)
  fix x
  show "fmlookup (fmmap f m) x = fmlookup m x"
    using assms by (cases "fmlookup m x") (auto simp: fmlookup_ran'_iff)
qed

lemma copy_value_id [simp]: "copy_value v = v"
  by (induction v) (simp_all add: fmmap_id)

lemma CopyMap_id [simp]: "CopyMap m = m"
  by (simp add: CopyMap_def fmmap_id)

fun get_path :: "(string, json) fmap \<Rightarrow> string list \<Rightarrow> json option" where
  "get_path obj [] = Some (JObj obj)"
| "get_path obj [component] = fmlookup obj component"
| "get_path obj (component # c # rest) =
     (case fmlookup obj component of Some (JObj m) \<Rightarrow> get_path m (c # rest) | _ \<Rightarrow> None)"

lemma fmupd_same: "fmlookup m k = Some v \<Longrightarrow> fmupd k v m = m"
  by (intro fmap_ext) auto

lemma set_path_empty: "snd (set_path fmempty path v)"
  by (induction path rule: induct_list012) (simp_all add: case_prod_beta)

lemma set_path_get: "path \<noteq> [] \<Longrightarrow> snd (set_path obj path v) \<Longrightarrow> get_path (fst (set_path obj path v)) path = Some v"
  by (induction obj path v rule: set_path.induct)
    (auto simp: case_prod_beta split: option.splits json.splits)

lemma set_path_fail: "\<not> snd (set_path obj path v) \<Longrightarrow> fst (set_path obj path v) = obj"
proof (induction obj path v rule: set_path.induct)
  case (3 obj component c rest v)
  show ?case
  proof (cases "fmlookup obj component")
    case None
    with "3.prems" set_path_empty [of "c # rest" v] show ?thesis by (simp add: case_prod_beta)
  next
    case (Some j)
    then show ?thesis
      using "3.prems" "3.IH"(2) [OF Some] by (cases j) (simp_all add: case_prod_beta fmupd_same)
  qed
qed simp_all

lemma set_path_frame:
  assumes "\<not> prefix p path" and "\<not> prefix path p" and "set_path obj path v = (obj', ok)"
  shows "get_path obj' p = get_path obj p"
  using assms
proof (induction obj path v arbitrary: obj' ok p rule: set_path.induct)
  case (1 obj v)
  then show ?case by simp
next
  case (2 obj component v)
  from "2.prems"(1) obtain d q where p: "p = d # q" by (cases p) auto
  with "2.prems" show ?case by (cases q) (auto split: option.splits)
next
  case (3 obj component c rest v)
  from "3.prems"(1) obtain d q where p: "p = d # q" by (cases p) auto
  show ?case
  proof (cases "d = component")
    case False
    have "fmlookup obj' d = fmlookup obj d"
      using "3.prems"(3) False by (auto simp: case_prod_beta split: option.splits json.splits)
    with p show ?thesis by (cases q) simp_all
  next
    case True
    with p "3.prems"(1,2) have q: "\<not> prefix q (c # rest)" "\<not> prefix (c # rest) q" by auto
    then obtain e q' where q': "q = e # q'" by (cases q) auto
    show ?thesis
    proof (cases "fmlookup obj component")
      case None
      obtain m ok' where m: "set_path fmempty (c # rest) v = (m, ok')" by force
      from "3.IH"(1) [OF None q m] have "get_path m q = None" using q' by (cases q') simp_all
      with "3.prems"(3) None m p True q' show ?thesis by auto
    next
      case (Some j)
      show ?thesis
      proof (cases j)
        case (JObj m)
        obtain m' ok' where m': "set_path m (c # rest) v = (m', ok')" by force
        from "3.IH"(2) [OF Some JObj q m'] "3.prems"(3) Some JObj m' p True q' show ?thesis by auto
      qed (use "3.prems"(3) Some in auto)
    qed
  qed
qed



end
