(* ===== verification/Blueprint_Progress.thy ===== *)
theory Blueprint_Progress
  imports Blueprint_Controller
begin

text \<open>
  What the reconciliation of a blueprint achieves: when it is marked ready, which releases remain, and
  that a blueprint whose charts were installed becomes ready. The last result is proved once for every
  Helm implementation that keeps the contract \<open>helmer\<close>.
\<close>

section \<open>The state of a release\<close>

lemma resources_loop_Inr:
  "resources_loop env lib w n resources = Inr m \<Longrightarrow>
     m = n + length (filter (\<lambda>res. fst (checkResourceStatus env lib res w) = ConditionTrue) resources) \<and>
     list_all (\<lambda>res. fst (checkResourceStatus env lib res w) \<noteq> ConditionFalse) resources"
  by (induction env lib w n resources rule: resources_loop.induct) (auto split: prod.splits if_splits)

lemma resources_loop_Inl:
  "resources_loop env lib w n resources = Inl r \<Longrightarrow>
     \<exists>res\<in>set resources. checkResourceStatus env lib res w = r \<and> fst r = ConditionFalse"
proof (induction resources arbitrary: n)
  case (Cons res resources)
  obtain state errMsg where res: "checkResourceStatus env lib res w = (state, errMsg)" by force
  show ?case
  proof (cases "state = ConditionFalse")
    case True
    with Cons.prems res have "r = (ConditionFalse, errMsg)" by simp
    with res True show ?thesis by simp
  next
    case False
    with Cons.prems res have "resources_loop env lib w (if state = ConditionTrue then n + 1 else n) resources = Inl r"
      by simp
    from Cons.IH [OF this] show ?thesis by simp
  qed
qed simp

lemma length_filter_all: "length (filter P xs) = length xs \<longleftrightarrow> list_all P xs"
proof (induction xs)
  case (Cons x xs)
  then show ?case using length_filter_le [of P xs] by (auto simp del: length_filter_le)
qed simp

lemma checkReleaseStatus_True:
  "fst (checkReleaseStatus env lib h releaseName ns w) = ConditionTrue \<longleftrightarrow>
     (\<exists>resources. Helm_GetResources h ns releaseName w = (resources, None) \<and>
        list_all (\<lambda>res. fst (checkResourceStatus env lib res w) = ConditionTrue) resources)"
proof (cases "Helm_GetResources h ns releaseName w")
  case (Pair resources err)
  let ?P = "\<lambda>res. fst (checkResourceStatus env lib res w) = ConditionTrue"
  show ?thesis
  proof (cases err)
    case (Some e)
    with Pair show ?thesis by (simp add: checkReleaseStatus_def)
  next
    case None
    show ?thesis
    proof (cases "resources_loop env lib w 0 resources")
      case (Inl r)
      from resources_loop_Inl [OF this] obtain res where
        "res \<in> set resources" "checkResourceStatus env lib res w = r" "fst r = ConditionFalse" by blast
      then have "\<not> list_all ?P resources" "fst r \<noteq> ConditionTrue" by (force simp: list_all_iff)+
      with Pair None Inl show ?thesis by (simp add: checkReleaseStatus_def)
    next
      case (Inr m)
      from resources_loop_Inr [OF this] have "m = length resources \<longleftrightarrow> list_all ?P resources"
        by (simp add: length_filter_all)
      with Pair None Inr show ?thesis by (simp add: checkReleaseStatus_def)
    qed
  qed
qed

section \<open>When a blueprint is ready\<close>

text \<open>The release of a module instance is deployed and all of its resources are ready.\<close>

definition module_ready ::
  "go_env \<Rightarrow> ('r, 'w) BlueprintLib \<Rightarrow> ('c, 'w) HelmInterface \<Rightarrow> Blueprint \<Rightarrow> 'w \<Rightarrow> string \<Rightarrow> bool" where
  "module_ready env lib h blueprint w instanceName \<longleftrightarrow>
     (let ns = BlueprintSpec_ModulesNamespace (Blueprint_Spec blueprint)
      in case blueprint_release env blueprint instanceName of
           Ok releaseName \<Rightarrow>
             release_deployed h ns releaseName w \<and>
             fst (checkReleaseStatus env lib h releaseName ns w) = ConditionTrue
         | _ \<Rightarrow> False)"

definition update_required :: "Blueprint \<Rightarrow> bool" where
  "update_required blueprint \<longleftrightarrow>
     BlueprintStatus_ObservedGeneration (Blueprint_Status blueprint) \<noteq> Meta_Generation (Blueprint_Meta blueprint)"

lemma apply_module_counts:
  assumes "apply_module env ord lib h blueprint inst module r st = Ok st'"
  shows "BP_NumReady st' = BP_NumReady st" "BP_NumReleases st' = BP_NumReleases st"
    "BlueprintStatus_Releases (BP_Status st') = BlueprintStatus_Releases (BP_Status st)"
    "BlueprintStatus_ObservedGeneration (BP_Status st') = BlueprintStatus_ObservedGeneration (BP_Status st)"
    "\<exists>err. applyChartResource env ord lib h (BlueprintModule_Chart module)
       (Arguments_StructToMap (labelled_arguments blueprint module)) blueprint r (BP_World st) =
         Ok (err, BP_World st') \<and>
       (ObservedState_Error (BlueprintStatus_ObservedState (BP_Status st')) = [] \<longrightarrow> err = None \<and>
          ObservedState_Error (BlueprintStatus_ObservedState (BP_Status st)) = [])"
proof -
  from assms obtain err w1 where app: "applyChartResource env ord lib h (BlueprintModule_Chart module)
       (Arguments_StructToMap (labelled_arguments blueprint module)) blueprint r (BP_World st) = Ok (err, w1)"
    and st': "st' = (case err of
        Some e \<Rightarrow> st\<lparr>BP_World := w1, BP_Status := updateModuleState inst False e
          (add_error (with_message ''ChartDeploymentFailure: '' e) (BP_Status st))\<rparr>
      | None \<Rightarrow> st\<lparr>BP_World := w1, BP_Status := updateModuleState inst False [] (BP_Status st)\<rparr>)"
    by (auto simp: apply_module_def go_bind_Ok_iff)
  show "BP_NumReady st' = BP_NumReady st" "BP_NumReleases st' = BP_NumReleases st"
    "BlueprintStatus_Releases (BP_Status st') = BlueprintStatus_Releases (BP_Status st)"
    "BlueprintStatus_ObservedGeneration (BP_Status st') = BlueprintStatus_ObservedGeneration (BP_Status st)"
    by (cases err; simp add: st' updateModuleState_def add_error_def)+
  from app show "\<exists>err. applyChartResource env ord lib h (BlueprintModule_Chart module)
       (Arguments_StructToMap (labelled_arguments blueprint module)) blueprint r (BP_World st) =
         Ok (err, BP_World st') \<and>
       (ObservedState_Error (BlueprintStatus_ObservedState (BP_Status st')) = [] \<longrightarrow> err = None \<and>
          ObservedState_Error (BlueprintStatus_ObservedState (BP_Status st)) = [])"
    by (cases err) (auto simp: st' updateModuleState_def add_error_def)
qed

lemma check_module_counts:
  "BP_NumReleases (check_module env lib h ns inst r st) = BP_NumReleases st"
  "BP_World (check_module env lib h ns inst r st) = BP_World st"
  "BP_NumReady (check_module env lib h ns inst r st) =
     BP_NumReady st + (if fst (checkReleaseStatus env lib h r ns (BP_World st)) = ConditionTrue then 1 else 0)"
  "BlueprintStatus_Releases (BP_Status (check_module env lib h ns inst r st)) =
     BlueprintStatus_Releases (BP_Status st)"
  "BlueprintStatus_ObservedGeneration (BP_Status (check_module env lib h ns inst r st)) =
     BlueprintStatus_ObservedGeneration (BP_Status st)"
  by (auto simp: check_module_def updateModuleState_def add_error_def split: prod.splits)

lemma record_release_simps [simp]:
  "BP_NumReleases (record_release r st) = BP_NumReleases st"
  "BP_NumReady (record_release r st) = BP_NumReady st"
  "BP_World (record_release r st) = BP_World st"
  "BlueprintStatus_Releases (BP_Status (record_release r st)) =
     fmupd r (BlueprintStatus_ObservedGeneration (BP_Status st)) (BlueprintStatus_Releases (BP_Status st))"
  "BlueprintStatus_ObservedGeneration (BP_Status (record_release r st)) =
     BlueprintStatus_ObservedGeneration (BP_Status st)"
  "BlueprintStatus_ObservedState (BP_Status (record_release r st)) = BlueprintStatus_ObservedState (BP_Status st)"
  by (simp_all add: record_release_def)

text \<open>The three branches of one iteration.\<close>

lemma module_step_cases:
  assumes "module_step env ord lib h blueprint upd (inst, module) st = Ok st'"
  obtains r st1 where "blueprint_release env blueprint inst = Ok r" "st' = record_release r st1"
    "apply_module env ord lib h blueprint inst module r (st\<lparr>BP_NumReleases := BP_NumReleases st + 1\<rparr>) = Ok st1"
    "upd \<or> \<not> release_deployed h (BlueprintSpec_ModulesNamespace (Blueprint_Spec blueprint)) r (BP_World st)"
  | r st1 where "blueprint_release env blueprint inst = Ok r" "st' = record_release r st1"
    "st1 = check_module env lib h (BlueprintSpec_ModulesNamespace (Blueprint_Spec blueprint)) inst r
       (st\<lparr>BP_NumReleases := BP_NumReleases st + 1\<rparr>)"
    "\<not> upd" "release_deployed h (BlueprintSpec_ModulesNamespace (Blueprint_Spec blueprint)) r (BP_World st)"
  | r st1 where "blueprint_release env blueprint inst = Ok r" "st' = record_release r st1"
    "st1 = st\<lparr>BP_NumReleases := BP_NumReleases st + 1\<rparr>"
    "\<not> upd" "\<not> release_deployed h (BlueprintSpec_ModulesNamespace (Blueprint_Spec blueprint)) r (BP_World st)"
  using assms
  by (fastforce simp: module_step_def go_bind_Ok_iff release_deployed_def Let_def
      split: prod.splits option.splits if_splits)

lemma module_step_counts:
  assumes "module_step env ord lib h blueprint upd (inst, module) st = Ok st'"
  shows "BP_NumReleases st' = BP_NumReleases st + 1"
    and "BP_NumReady st' = BP_NumReady st +
      (if \<not> upd \<and> module_ready env lib h blueprint (BP_World st) inst then 1 else 0)"
    and "\<not> upd \<Longrightarrow> module_ready env lib h blueprint (BP_World st) inst \<Longrightarrow> BP_World st' = BP_World st"
    and "BlueprintStatus_ObservedGeneration (BP_Status st') = BlueprintStatus_ObservedGeneration (BP_Status st)"
    and "\<exists>r. blueprint_release env blueprint inst = Ok r \<and>
      BlueprintStatus_Releases (BP_Status st') =
        fmupd r (BlueprintStatus_ObservedGeneration (BP_Status st)) (BlueprintStatus_Releases (BP_Status st))"
proof -
  let ?st = "st\<lparr>BP_NumReleases := BP_NumReleases st + 1\<rparr>"
  let ?ns = "BlueprintSpec_ModulesNamespace (Blueprint_Spec blueprint)"
  have "BP_NumReleases st' = BP_NumReleases st + 1 \<and>
    BP_NumReady st' = BP_NumReady st +
      (if \<not> upd \<and> module_ready env lib h blueprint (BP_World st) inst then 1 else 0) \<and>
    (\<not> upd \<and> module_ready env lib h blueprint (BP_World st) inst \<longrightarrow> BP_World st' = BP_World st) \<and>
    BlueprintStatus_ObservedGeneration (BP_Status st') = BlueprintStatus_ObservedGeneration (BP_Status st) \<and>
    (\<exists>r. blueprint_release env blueprint inst = Ok r \<and>
      BlueprintStatus_Releases (BP_Status st') =
        fmupd r (BlueprintStatus_ObservedGeneration (BP_Status st)) (BlueprintStatus_Releases (BP_Status st)))"
    using assms
  proof (cases rule: module_step_cases)
    case (1 r st1)
    have "\<not> (\<not> upd \<and> module_ready env lib h blueprint (BP_World st) inst)"
      using 1(1,4) by (auto simp: module_ready_def Let_def)
    then show ?thesis using 1(1,2) apply_module_counts(1-4) [OF 1(3)] by auto
  next
    case (2 r st1)
    have "module_ready env lib h blueprint (BP_World st) inst \<longleftrightarrow>
        fst (checkReleaseStatus env lib h r ?ns (BP_World st)) = ConditionTrue"
      using 2(1,5) by (simp add: module_ready_def Let_def)
    then show ?thesis using 2 by (simp add: check_module_counts)
  next
    case (3 r st1)
    have "\<not> module_ready env lib h blueprint (BP_World st) inst"
      using 3(1,5) by (simp add: module_ready_def Let_def)
    then show ?thesis using 3 by simp
  qed
  then show "BP_NumReleases st' = BP_NumReleases st + 1"
    "BP_NumReady st' = BP_NumReady st +
      (if \<not> upd \<and> module_ready env lib h blueprint (BP_World st) inst then 1 else 0)"
    "\<not> upd \<Longrightarrow> module_ready env lib h blueprint (BP_World st) inst \<Longrightarrow> BP_World st' = BP_World st"
    "BlueprintStatus_ObservedGeneration (BP_Status st') = BlueprintStatus_ObservedGeneration (BP_Status st)"
    "\<exists>r. blueprint_release env blueprint inst = Ok r \<and>
      BlueprintStatus_Releases (BP_Status st') =
        fmupd r (BlueprintStatus_ObservedGeneration (BP_Status st)) (BlueprintStatus_Releases (BP_Status st))"
    by blast+
qed

lemma module_loop_counts:
  assumes "go_fold (module_step env ord lib h blueprint upd) kvs st = Ok st'"
  shows "BP_NumReleases st' = BP_NumReleases st + length kvs \<and> BP_NumReady st' \<le> BP_NumReady st + length kvs \<and>
    (BP_NumReady st' = BP_NumReady st + length kvs \<longleftrightarrow>
      list_all (\<lambda>kv. \<not> upd \<and> module_ready env lib h blueprint (BP_World st) (fst kv)) kvs)"
  using assms
proof (induction kvs arbitrary: st)
  case Nil
  then show ?case by simp
next
  case (Cons kv kvs)
  obtain inst module where kv: "kv = (inst, module)" by (cases kv)
  from Cons.prems kv obtain st1 where
    step: "module_step env ord lib h blueprint upd (inst, module) st = Ok st1"
    and rest: "go_fold (module_step env ord lib h blueprint upd) kvs st1 = Ok st'"
    by (auto simp: go_bind_Ok_iff)
  note counts = module_step_counts [OF step] and IH = Cons.IH [OF rest]
  show ?case
  proof (cases "\<not> upd \<and> module_ready env lib h blueprint (BP_World st) inst")
    case True
    with counts(2,3) have "BP_NumReady st1 = BP_NumReady st + 1" "BP_World st1 = BP_World st" by simp_all
    with IH counts(1) True kv show ?thesis by auto
  next
    case False
    with counts(2) have "BP_NumReady st1 = BP_NumReady st" by simp
    with IH counts(1) False kv show ?thesis by auto
  qed
qed

lemma cleanup_fold_simps:
  "BP_NumReady (fold (cleanup_step h ns) kvs st) = BP_NumReady st"
  "BP_NumReleases (fold (cleanup_step h ns) kvs st) = BP_NumReleases st"
  "BlueprintStatus_ObservedGeneration (BP_Status (fold (cleanup_step h ns) kvs st)) =
     BlueprintStatus_ObservedGeneration (BP_Status st)"
  "BlueprintStatus_ObservedState (BP_Status (fold (cleanup_step h ns) kvs st)) =
     BlueprintStatus_ObservedState (BP_Status st)"
  by (induction kvs arbitrary: st) (simp_all add: cleanup_step_def split: prod.splits option.splits)

lemma blueprint_reconcile_end:
  assumes "blueprint_reconcile env ord lib h blueprint w = Ok (result, blueprint', w')"
  obtains st st1 where
    "go_fold (module_step env ord lib h blueprint (update_required blueprint))
       (fmrange ord (BlueprintSpec_Modules (Blueprint_Spec blueprint))) (blueprint_start blueprint w) = Ok st"
    "st1 = fold (cleanup_step h (BlueprintSpec_ModulesNamespace (Blueprint_Spec blueprint)))
       (fmrange ord (BlueprintStatus_Releases (BP_Status st))) st"
    "w' = BP_World st1"
    "BlueprintStatus_Releases (Blueprint_Status blueprint') = BlueprintStatus_Releases (BP_Status st1)"
    "BlueprintStatus_ObservedGeneration (Blueprint_Status blueprint') =
       BlueprintStatus_ObservedGeneration (BP_Status st1)"
    "ObservedState_Error (BlueprintStatus_ObservedState (Blueprint_Status blueprint')) =
       ObservedState_Error (BlueprintStatus_ObservedState (BP_Status st1))"
    "ObservedState_Ready (BlueprintStatus_ObservedState (Blueprint_Status blueprint')) \<longleftrightarrow>
       BP_NumReady st1 = BP_NumReleases st1 \<or>
       ObservedState_Ready (BlueprintStatus_ObservedState (BP_Status st1))"
    "Blueprint_Meta blueprint' = Blueprint_Meta blueprint" "Blueprint_Spec blueprint' = Blueprint_Spec blueprint"
    "result = (if BP_NumReady st1 = BP_NumReleases st1 \<or>
         ObservedState_Error (BlueprintStatus_ObservedState (BP_Status st1)) \<noteq> [] then None else Some 2)"
proof -
  from assms obtain st where st: "go_fold (module_step env ord lib h blueprint (update_required blueprint))
       (fmrange ord (BlueprintSpec_Modules (Blueprint_Spec blueprint))) (blueprint_start blueprint w) = Ok st"
    by (auto simp: blueprint_reconcile_def go_bind_Ok_iff update_required_def Let_def)
  define st1 where "st1 = fold (cleanup_step h (BlueprintSpec_ModulesNamespace (Blueprint_Spec blueprint)))
       (fmrange ord (BlueprintStatus_Releases (BP_Status st))) st"
  show ?thesis
    by (rule that [OF st st1_def])
      (use assms st in \<open>auto simp: blueprint_reconcile_def update_required_def Let_def st1_def split: if_splits\<close>)
qed

lemma module_step_not_ready:
  assumes "module_step env ord lib h blueprint upd kv st = Ok st'"
    and "\<not> ObservedState_Ready (BlueprintStatus_ObservedState (BP_Status st))"
  shows "\<not> ObservedState_Ready (BlueprintStatus_ObservedState (BP_Status st'))"
proof -
  obtain inst module where kv: "kv = (inst, module)" by (cases kv)
  from assms(1) [unfolded kv] show ?thesis
  proof (cases rule: module_step_cases)
    case (1 r st1)
    then show ?thesis using assms(2)
      by (auto simp: apply_module_def go_bind_Ok_iff updateModuleState_def add_error_def split: option.splits)
  next
    case (2 r st1)
    then show ?thesis using assms(2)
      by (auto simp: check_module_def updateModuleState_def add_error_def split: prod.splits)
  next
    case (3 r st1)
    then show ?thesis using assms(2) by simp
  qed
qed

lemma fmrange_Nil_iff: "range_order ord \<Longrightarrow> fmrange ord m = [] \<longleftrightarrow> m = fmempty"
proof
  assume "range_order ord" "fmrange ord m = []"
  then have "fmlookup m k = None" for k using fmrange_set [of ord k _ m] by (cases "fmlookup m k") auto
  then show "m = fmempty" by (intro fmap_ext) simp
qed simp

text \<open>The names of the releases of a blueprint's modules.\<close>

definition current_release :: "go_env \<Rightarrow> Blueprint \<Rightarrow> string \<Rightarrow> bool" where
  "current_release env blueprint r \<longleftrightarrow>
     fBex (fmdom (BlueprintSpec_Modules (Blueprint_Spec blueprint)))
       (\<lambda>inst. blueprint_release env blueprint inst = Ok r)"

lemma blueprint_ready_iff:
  assumes ord: "range_order ord"
    and run: "blueprint_reconcile env ord lib h blueprint w = Ok (result, blueprint', w')"
  shows "ObservedState_Ready (BlueprintStatus_ObservedState (Blueprint_Status blueprint')) \<longleftrightarrow>
    BlueprintSpec_Modules (Blueprint_Spec blueprint) = fmempty \<or> \<not> update_required blueprint \<and>
    fBall (fmdom (BlueprintSpec_Modules (Blueprint_Spec blueprint))) (module_ready env lib h blueprint w)"
    (is "?ready \<longleftrightarrow> ?R")
    and "result = (if ObservedState_Ready (BlueprintStatus_ObservedState (Blueprint_Status blueprint')) \<or>
      ObservedState_Error (BlueprintStatus_ObservedState (Blueprint_Status blueprint')) \<noteq> [] then None else Some 2)"
proof -
  let ?mods = "BlueprintSpec_Modules (Blueprint_Spec blueprint)"
  let ?kvs = "fmrange ord ?mods"
  from run obtain st st1 where
    st: "go_fold (module_step env ord lib h blueprint (update_required blueprint)) ?kvs
      (blueprint_start blueprint w) = Ok st"
    and st1: "st1 = fold (cleanup_step h (BlueprintSpec_ModulesNamespace (Blueprint_Spec blueprint)))
       (fmrange ord (BlueprintStatus_Releases (BP_Status st))) st"
    and err: "ObservedState_Error (BlueprintStatus_ObservedState (Blueprint_Status blueprint')) =
       ObservedState_Error (BlueprintStatus_ObservedState (BP_Status st1))"
    and ready: "?ready \<longleftrightarrow> BP_NumReady st1 = BP_NumReleases st1 \<or>
       ObservedState_Ready (BlueprintStatus_ObservedState (BP_Status st1))"
    and res: "result = (if BP_NumReady st1 = BP_NumReleases st1 \<or>
         ObservedState_Error (BlueprintStatus_ObservedState (BP_Status st1)) \<noteq> [] then None else Some 2)"
    by (rule blueprint_reconcile_end)
  have "\<not> ObservedState_Ready (BlueprintStatus_ObservedState (BP_Status st))"
    by (rule go_fold_invariant [where P = "\<lambda>st. \<not> ObservedState_Ready (BlueprintStatus_ObservedState (BP_Status st))",
          OF _ _ st]) (auto simp: blueprint_start_def dest: module_step_not_ready)
  then have ready': "?ready \<longleftrightarrow> BP_NumReady st = BP_NumReleases st"
    using ready by (simp add: st1 cleanup_fold_simps)
  from module_loop_counts [OF st] have "BP_NumReady st = BP_NumReleases st \<longleftrightarrow>
      list_all (\<lambda>kv. \<not> update_required blueprint \<and> module_ready env lib h blueprint w (fst kv)) ?kvs"
    by (simp add: blueprint_start_def)
  also have "\<dots> \<longleftrightarrow> ?R"
    unfolding fmrange_Nil_iff [OF ord, symmetric] fmrange_keys [OF ord, symmetric] list_all_iff
    by (cases ?kvs) auto
  finally show "?ready \<longleftrightarrow> ?R" using ready' by simp
  show "result = (if ?ready \<or>
      ObservedState_Error (BlueprintStatus_ObservedState (Blueprint_Status blueprint')) \<noteq> [] then None else Some 2)"
    using res ready' err by (simp add: st1 cleanup_fold_simps)
qed

section \<open>Which releases remain\<close>

lemma module_loop_releases:
  assumes "go_fold (module_step env ord lib h blueprint upd) kvs st = Ok st'"
  shows "BlueprintStatus_ObservedGeneration (BP_Status st') = BlueprintStatus_ObservedGeneration (BP_Status st) \<and>
    fmlookup (BlueprintStatus_Releases (BP_Status st')) r =
      (if \<exists>kv\<in>set kvs. blueprint_release env blueprint (fst kv) = Ok r
       then Some (BlueprintStatus_ObservedGeneration (BP_Status st))
       else fmlookup (BlueprintStatus_Releases (BP_Status st)) r)"
  using assms
proof (induction kvs arbitrary: st)
  case Nil
  then show ?case by simp
next
  case (Cons kv kvs)
  obtain inst module where kv: "kv = (inst, module)" by (cases kv)
  from Cons.prems kv obtain st1 where
    step: "module_step env ord lib h blueprint upd (inst, module) st = Ok st1"
    and rest: "go_fold (module_step env ord lib h blueprint upd) kvs st1 = Ok st'"
    by (auto simp: go_bind_Ok_iff)
  from module_step_counts(4,5) [OF step] Cons.IH [OF rest] kv show ?case by auto
qed

lemma cleanup_fold_frame:
  assumes "r \<notin> fst ` set kvs \<or> (r, BlueprintStatus_ObservedGeneration (BP_Status st)) \<in> set kvs"
    and "distinct (map fst kvs)"
  shows "fmlookup (BlueprintStatus_Releases (BP_Status (fold (cleanup_step h ns) kvs st))) r =
    fmlookup (BlueprintStatus_Releases (BP_Status st)) r"
  using assms
proof (induction kvs arbitrary: st)
  case Nil
  then show ?case by simp
next
  case (Cons kv kvs)
  have gen: "BlueprintStatus_ObservedGeneration (BP_Status (cleanup_step h ns kv st)) =
      BlueprintStatus_ObservedGeneration (BP_Status st)"
    using cleanup_fold_simps(3) [of h ns "[kv]" st] by simp
  have step: "fmlookup (BlueprintStatus_Releases (BP_Status (cleanup_step h ns kv st))) r =
      fmlookup (BlueprintStatus_Releases (BP_Status st)) r"
    using Cons.prems by (force simp: cleanup_step_def split: prod.splits option.splits)
  have "r \<notin> fst ` set kvs \<or>
      (r, BlueprintStatus_ObservedGeneration (BP_Status (cleanup_step h ns kv st))) \<in> set kvs"
    using Cons.prems gen by force
  from Cons.IH [OF this] Cons.prems(2) step show ?case by simp
qed

text \<open>Uninstalling a release succeeds, or fails, at some moment.\<close>

definition uninstalled :: "('c, 'w) HelmInterface \<Rightarrow> string \<Rightarrow> string \<Rightarrow> bool" where
  "uninstalled h ns r \<longleftrightarrow> (\<exists>w w'. Helm_Uninstall h ns r w = (None, w'))"

definition uninstall_failed :: "('c, 'w) HelmInterface \<Rightarrow> string \<Rightarrow> string \<Rightarrow> bool" where
  "uninstall_failed h ns r \<longleftrightarrow> (\<exists>w err w'. Helm_Uninstall h ns r w = (Some err, w'))"

lemma cleanup_fold_stale:
  assumes "(r, v) \<in> set kvs" "v \<noteq> BlueprintStatus_ObservedGeneration (BP_Status st)" "distinct (map fst kvs)"
  shows "fmlookup (BlueprintStatus_Releases (BP_Status (fold (cleanup_step h ns) kvs st))) r = None \<and>
      uninstalled h ns r \<or>
    fmlookup (BlueprintStatus_Releases (BP_Status (fold (cleanup_step h ns) kvs st))) r =
      fmlookup (BlueprintStatus_Releases (BP_Status st)) r \<and> uninstall_failed h ns r"
  using assms
proof (induction kvs arbitrary: st)
  case Nil
  then show ?case by simp
next
  case (Cons kv kvs)
  have gen: "BlueprintStatus_ObservedGeneration (BP_Status (cleanup_step h ns kv st)) =
      BlueprintStatus_ObservedGeneration (BP_Status st)"
    using cleanup_fold_simps(3) [of h ns "[kv]" st] by simp
  show ?case
  proof (cases "kv = (r, v)")
    case True
    with Cons.prems have "r \<notin> fst ` set kvs" by auto
    then have "fmlookup (BlueprintStatus_Releases (BP_Status (fold (cleanup_step h ns) (kv # kvs) st))) r =
        fmlookup (BlueprintStatus_Releases (BP_Status (cleanup_step h ns kv st))) r"
      using cleanup_fold_frame [of r kvs "cleanup_step h ns kv st" h ns] Cons.prems(3) by simp
    moreover have "fmlookup (BlueprintStatus_Releases (BP_Status (cleanup_step h ns kv st))) r = None \<and>
        uninstalled h ns r \<or>
      fmlookup (BlueprintStatus_Releases (BP_Status (cleanup_step h ns kv st))) r =
        fmlookup (BlueprintStatus_Releases (BP_Status st)) r \<and> uninstall_failed h ns r"
      using True Cons.prems(2)
      by (cases "Helm_Uninstall h ns r (BP_World st)")
        (auto simp: cleanup_step_def uninstalled_def uninstall_failed_def split: option.splits)
    ultimately show ?thesis by simp
  next
    case False
    with Cons.prems have mem: "(r, v) \<in> set kvs" and ne: "fst kv \<noteq> r" by (auto simp: rev_image_eqI)
    have "fmlookup (BlueprintStatus_Releases (BP_Status (cleanup_step h ns kv st))) r =
        fmlookup (BlueprintStatus_Releases (BP_Status st)) r"
      using ne by (auto simp: cleanup_step_def split: prod.splits option.splits)
    with Cons.IH [OF mem, of "cleanup_step h ns kv st"] gen Cons.prems(2,3) show ?thesis by simp
  qed
qed

lemma current_release_range:
  assumes "range_order ord"
  shows "(\<exists>kv\<in>set (fmrange ord (BlueprintSpec_Modules (Blueprint_Spec blueprint))).
      blueprint_release env blueprint (fst kv) = Ok r) \<longleftrightarrow> current_release env blueprint r"
  unfolding current_release_def fmrange_keys [OF assms, symmetric] by simp

lemma blueprint_releases:
  assumes ord: "range_order ord"
    and run: "blueprint_reconcile env ord lib h blueprint w = Ok (result, blueprint', w')"
  defines "ns \<equiv> BlueprintSpec_ModulesNamespace (Blueprint_Spec blueprint)"
    and "gen \<equiv> Meta_Generation (Blueprint_Meta blueprint)"
    and "old \<equiv> BlueprintStatus_Releases (Blueprint_Status blueprint)"
    and "new \<equiv> BlueprintStatus_Releases (Blueprint_Status blueprint')"
  shows "current_release env blueprint r \<Longrightarrow> fmlookup new r = Some gen"
    and "\<not> current_release env blueprint r \<Longrightarrow> fmlookup old r = Some v \<Longrightarrow> v \<noteq> gen \<Longrightarrow>
      fmlookup new r = None \<and> uninstalled h ns r \<or> fmlookup new r = Some v \<and> uninstall_failed h ns r"
    and "\<not> current_release env blueprint r \<Longrightarrow> fmlookup old r \<in> {None, Some gen} \<Longrightarrow>
      fmlookup new r = fmlookup old r"
    and "BlueprintStatus_ObservedGeneration (Blueprint_Status blueprint') = gen"
proof -
  let ?kvs = "fmrange ord (BlueprintSpec_Modules (Blueprint_Spec blueprint))"
  from run obtain st st1 where
    st: "go_fold (module_step env ord lib h blueprint (update_required blueprint)) ?kvs
      (blueprint_start blueprint w) = Ok st"
    and st1: "st1 = fold (cleanup_step h ns) (fmrange ord (BlueprintStatus_Releases (BP_Status st))) st"
    and new: "new = BlueprintStatus_Releases (BP_Status st1)"
    and gen1: "BlueprintStatus_ObservedGeneration (Blueprint_Status blueprint') =
       BlueprintStatus_ObservedGeneration (BP_Status st1)"
    unfolding ns_def new_def by (rule blueprint_reconcile_end)
  have gen: "BlueprintStatus_ObservedGeneration (BP_Status st) = gen"
    and mid: "fmlookup (BlueprintStatus_Releases (BP_Status st)) r =
      (if current_release env blueprint r then Some gen else fmlookup old r)"
    using module_loop_releases [OF st, of r] current_release_range [OF ord, of blueprint env r]
    by (simp_all add: blueprint_start_def gen_def old_def)
  show "BlueprintStatus_ObservedGeneration (Blueprint_Status blueprint') = gen"
    using gen1 gen by (simp add: st1 cleanup_fold_simps)
  note set = fmrange_set [OF ord, of r _ "BlueprintStatus_Releases (BP_Status st)"]
    and distinct = fmrange_distinct_fst [OF ord, of "BlueprintStatus_Releases (BP_Status st)"]
  have keep: "fmlookup new r = fmlookup (BlueprintStatus_Releases (BP_Status st)) r"
    if "fmlookup (BlueprintStatus_Releases (BP_Status st)) r \<in> {None, Some gen}"
    unfolding new st1
  proof (rule cleanup_fold_frame [OF _ distinct])
    show "r \<notin> fst ` set (fmrange ord (BlueprintStatus_Releases (BP_Status st))) \<or>
        (r, BlueprintStatus_ObservedGeneration (BP_Status st))
          \<in> set (fmrange ord (BlueprintStatus_Releases (BP_Status st)))"
      using that set gen by force
  qed
  show "current_release env blueprint r \<Longrightarrow> fmlookup new r = Some gen"
    and "\<not> current_release env blueprint r \<Longrightarrow> fmlookup old r \<in> {None, Some gen} \<Longrightarrow>
      fmlookup new r = fmlookup old r"
    using keep mid by auto
  show "fmlookup new r = None \<and> uninstalled h ns r \<or> fmlookup new r = Some v \<and> uninstall_failed h ns r"
    if "\<not> current_release env blueprint r" "fmlookup old r = Some v" "v \<noteq> gen"
  proof -
    have mem: "(r, v) \<in> set (fmrange ord (BlueprintStatus_Releases (BP_Status st)))"
      using set mid that by simp
    from cleanup_fold_stale [OF mem, of st h ns] gen distinct that(3) mid that show ?thesis
      by (simp add: new st1)
  qed
qed

lemma fold_cleanup_current:
  assumes "\<And>kv. kv \<in> set kvs \<Longrightarrow> snd kv = BlueprintStatus_ObservedGeneration (BP_Status st)"
  shows "fold (cleanup_step h ns) kvs st = st"
  using assms
proof (induction kvs)
  case (Cons kv kvs)
  from Cons.prems [of kv] have "cleanup_step h ns kv st = st" by (cases kv) (simp add: cleanup_step_def)
  with Cons show ?case by simp
qed simp

text \<open>A blueprint that needs no update and whose releases are deployed is only checked.\<close>

lemma deployed_reconcile_total:
  assumes ord: "range_order ord"
    and upd: "\<not> update_required blueprint"
    and deployed: "\<And>r. current_release env blueprint r \<Longrightarrow>
      release_deployed h (BlueprintSpec_ModulesNamespace (Blueprint_Spec blueprint)) r w"
  shows "\<exists>x. blueprint_reconcile env ord lib h blueprint w = Ok x"
proof -
  let ?kvs = "fmrange ord (BlueprintSpec_Modules (Blueprint_Spec blueprint))"
  let ?ns = "BlueprintSpec_ModulesNamespace (Blueprint_Spec blueprint)"
  have "\<exists>t. go_fold (module_step env ord lib h blueprint False) ?kvs (blueprint_start blueprint w) = Ok t \<and> BP_World t = w"
  proof (rule go_fold_total)
    show "BP_World (blueprint_start blueprint w) = w" by (simp add: blueprint_start_def)
  next
    fix kv and st :: "'b bp_state"
    assume kv: "kv \<in> set ?kvs" and w: "BP_World st = w"
    obtain inst module where inst: "kv = (inst, module)" by (cases kv)
    obtain r where r: "blueprint_release env blueprint inst = Ok r"
      using GetReleaseName_Ok by (metis blueprint_release_def)
    with kv inst have "current_release env blueprint r"
      using current_release_range [OF ord, of blueprint env r] by force
    from deployed [OF this] obtain rel where
      "Helm_Status h ?ns r w = (Some rel, None)" "Release_Status rel = StatusDeployed"
      by (auto simp: release_deployed_def split: prod.splits option.splits)
    then show "\<exists>st'. module_step env ord lib h blueprint False kv st = Ok st' \<and> BP_World st' = w"
      by (simp add: module_step_def inst r w Let_def check_module_counts)
  qed
  then obtain t where
    "go_fold (module_step env ord lib h blueprint False) ?kvs (blueprint_start blueprint w) = Ok t" by blast
  then show ?thesis using upd by (simp add: blueprint_reconcile_def update_required_def Let_def)
qed

section \<open>Progress\<close>

context helmer
begin

lemma login_loop_keeps:
  "release_deployed h ns r w \<Longrightarrow> release_deployed h ns r (snd (login_loop h host creds w))"
proof (induction creds arbitrary: w)
  case (Cons cred creds)
  from login_keeps [OF Cons.prems, of host "Cred_Username cred" "Cred_Password cred" False]
  show ?case by (auto split: prod.splits option.splits intro: Cons.IH)
qed simp

lemma registry_login_keeps:
  "release_deployed h ns r w \<Longrightarrow> release_deployed h ns r (snd (registry_login env lib h chartSpec w))"
  using login_loop_keeps [of ns r w]
  by (auto simp: registry_login_def split: sum.splits prod.splits) (metis snd_conv)+

lemma install_or_upgrade_deploys:
  assumes "install_or_upgrade h chartSpec chart ns r vals w = Ok (None, w')"
  shows "release_deployed h ns r w'" and "release_deployed h ns' r' w \<Longrightarrow> release_deployed h ns' r' w'"
proof -
  have "(\<exists>rel. Helm_Install h chart ns r vals w = ((Some rel, None), w')) \<or>
      (\<exists>rel. Helm_Upgrade h chart ns r vals w = ((Some rel, None), w'))"
    using assms by (auto simp: install_or_upgrade_def Let_def split: prod.splits option.splits)
  then show "release_deployed h ns r w'" "release_deployed h ns' r' w \<Longrightarrow> release_deployed h ns' r' w'"
    by (auto intro: install_deploys upgrade_deploys install_keeps upgrade_keeps)
qed

lemma applyChartResource_deploys:
  assumes "applyChartResource env ord lib h chartSpec args blueprint r w = Ok (None, w')"
    and "\<And>host w. fst (Helm_RegistryLogout h host w) = None"
  shows "release_deployed h (BlueprintSpec_ModulesNamespace (Blueprint_Spec blueprint)) r w'"
    and "release_deployed h ns' r' w \<Longrightarrow> release_deployed h ns' r' w'"
proof -
  let ?ns = "BlueprintSpec_ModulesNamespace (Blueprint_Spec blueprint)"
  let ?vals = "chart_values ord chartSpec args"
  have logout: "\<And>host w err w3. Helm_RegistryLogout h host w = (err, w3) \<Longrightarrow> err = None"
    using assms(2) by (metis fst_conv)
  obtain host w1 tmp w2 w3 chart where
    login: "registry_login env lib h chartSpec w = (Inr host, w1)"
    and pull: "Helm_Pull h (ChartSpec_Name chartSpec) tmp w1 = (None, w2)"
    and out: "(if host \<noteq> [] then Helm_RegistryLogout h host w2 else (None, w2)) = (None, w3)"
    and inst: "install_or_upgrade h chartSpec chart ?ns r ?vals w3 = Ok (None, w')"
    using assms(1) unfolding applyChartResource_def Let_def
    by (auto split: prod.splits sum.splits option.splits if_splits dest: logout)
  from install_or_upgrade_deploys(1) [OF inst] show "release_deployed h ?ns r w'" .
  show "release_deployed h ns' r' w'" if "release_deployed h ns' r' w"
  proof (rule install_or_upgrade_deploys(2) [OF inst])
    from registry_login_keeps [OF that, of env lib chartSpec] login have "release_deployed h ns' r' w1" by simp
    from pull_keeps [OF this, of "ChartSpec_Name chartSpec" tmp] pull have w2: "release_deployed h ns' r' w2" by simp
    from logout_keeps [OF this, of host] out w2 show "release_deployed h ns' r' w3"
      by (simp split: if_splits)
  qed
qed

lemma module_loop_deploys:
  assumes "go_fold (module_step env ord lib h blueprint True) kvs st = Ok st'"
    and "ObservedState_Error (BlueprintStatus_ObservedState (BP_Status st')) = []"
    and logout: "\<And>host w. fst (Helm_RegistryLogout h host w) = None"
  defines "ns \<equiv> BlueprintSpec_ModulesNamespace (Blueprint_Spec blueprint)"
  shows "ObservedState_Error (BlueprintStatus_ObservedState (BP_Status st)) = [] \<and>
    (\<forall>r. release_deployed h ns r (BP_World st) \<longrightarrow> release_deployed h ns r (BP_World st')) \<and>
    (\<forall>kv\<in>set kvs. \<forall>r. blueprint_release env blueprint (fst kv) = Ok r \<longrightarrow>
       release_deployed h ns r (BP_World st'))"
  using assms(1,2)
proof (induction kvs arbitrary: st)
  case Nil
  then show ?case by simp
next
  case (Cons kv kvs)
  obtain inst module where kv: "kv = (inst, module)" by (cases kv)
  from Cons.prems(1) kv obtain st1 where
    step: "module_step env ord lib h blueprint True (inst, module) st = Ok st1"
    and rest: "go_fold (module_step env ord lib h blueprint True) kvs st1 = Ok st'"
    by (auto simp: go_bind_Ok_iff)
  note IH = Cons.IH [OF rest Cons.prems(2)]
  from step obtain r st2 where r: "blueprint_release env blueprint inst = Ok r"
    and st1: "st1 = record_release r st2"
    and app: "apply_module env ord lib h blueprint inst module r (st\<lparr>BP_NumReleases := BP_NumReleases st + 1\<rparr>) = Ok st2"
    by (cases rule: module_step_cases) auto
  from apply_module_counts(5) [OF app] obtain err where
    chart: "applyChartResource env ord lib h (BlueprintModule_Chart module)
       (Arguments_StructToMap (labelled_arguments blueprint module)) blueprint r (BP_World st) =
         Ok (err, BP_World st2)"
    and err: "ObservedState_Error (BlueprintStatus_ObservedState (BP_Status st2)) = [] \<longrightarrow> err = None \<and>
          ObservedState_Error (BlueprintStatus_ObservedState (BP_Status st)) = []" by auto
  from IH err have none: "err = None"
    and clean: "ObservedState_Error (BlueprintStatus_ObservedState (BP_Status st)) = []" by (simp_all add: st1)
  note chart' = chart [unfolded none]
  from applyChartResource_deploys(1) [OF chart' logout] have "release_deployed h ns r (BP_World st1)"
    by (simp add: ns_def st1)
  moreover have "\<forall>r. release_deployed h ns r (BP_World st) \<longrightarrow> release_deployed h ns r (BP_World st1)"
    using applyChartResource_deploys(2) [OF chart' logout] by (simp add: st1)
  ultimately show ?case using IH clean r kv by auto
qed

lemma blueprint_deployed:
  assumes ord: "range_order ord"
    and run: "blueprint_reconcile env ord lib h blueprint w = Ok (result, blueprint', w')"
    and upd: "update_required blueprint"
    and clean: "ObservedState_Error (BlueprintStatus_ObservedState (Blueprint_Status blueprint')) = []"
    and fresh: "fBall (fmdom (BlueprintStatus_Releases (Blueprint_Status blueprint))) (current_release env blueprint)"
    and logout: "\<And>host w. fst (Helm_RegistryLogout h host w) = None"
    and current: "current_release env blueprint r"
  shows "release_deployed h (BlueprintSpec_ModulesNamespace (Blueprint_Spec blueprint)) r w'"
proof -
  let ?kvs = "fmrange ord (BlueprintSpec_Modules (Blueprint_Spec blueprint))"
  from run obtain st st1 where
    st: "go_fold (module_step env ord lib h blueprint (update_required blueprint)) ?kvs
      (blueprint_start blueprint w) = Ok st"
    and st1: "st1 = fold (cleanup_step h (BlueprintSpec_ModulesNamespace (Blueprint_Spec blueprint)))
      (fmrange ord (BlueprintStatus_Releases (BP_Status st))) st"
    and w': "w' = BP_World st1"
    and err: "ObservedState_Error (BlueprintStatus_ObservedState (Blueprint_Status blueprint')) =
       ObservedState_Error (BlueprintStatus_ObservedState (BP_Status st1))"
    by (rule blueprint_reconcile_end)
  have "snd kv = BlueprintStatus_ObservedGeneration (BP_Status st)"
    if "kv \<in> set (fmrange ord (BlueprintStatus_Releases (BP_Status st)))" for kv
  proof -
    obtain s v where kv: "kv = (s, v)" by (cases kv)
    with that have "fmlookup (BlueprintStatus_Releases (BP_Status st)) s = Some v" by (simp add: fmrange_set [OF ord])
    with module_loop_releases [OF st, of s] current_release_range [OF ord, of blueprint env s] fresh
    show ?thesis by (auto simp: kv blueprint_start_def fmlookup_dom_iff split: if_splits)
  qed
  then have "st1 = st" unfolding st1 by (rule fold_cleanup_current)
  then show ?thesis
    using module_loop_deploys [OF st [unfolded eqTrueI [OF upd]] _ logout] w' err clean current
      current_release_range [OF ord, of blueprint env r] by auto
qed

end

section \<open>A sample blueprint\<close>

definition sample_arguments :: ModuleArguments where
  "sample_arguments =
     \<lparr>Arguments_Labels = fmempty,
      Arguments_AppSelector = \<lparr>Selector_MatchLabels = fmempty, Selector_MatchExpressions = []\<rparr>,
      Arguments_Copy = None, Arguments_Read = [], Arguments_Write = []\<rparr>"

definition sample_module :: "string \<Rightarrow> BlueprintModule" where
  "sample_module secret =
     \<lparr>BlueprintModule_Name = ''m'',
      BlueprintModule_Chart =
        \<lparr>ChartSpec_Name = ''chart'', ChartSpec_ChartPullSecret = secret, ChartSpec_Values = fmempty\<rparr>,
      BlueprintModule_Arguments = sample_arguments, BlueprintModule_AssetIDs = []\<rparr>"

definition sample_blueprint :: "string \<Rightarrow> (string, int64) fmap \<Rightarrow> Blueprint" where
  "sample_blueprint secret releases = Blueprint_zero
     \<lparr>Blueprint_Meta := (Blueprint_Meta Blueprint_zero)\<lparr>Meta_Generation := 1\<rparr>,
      Blueprint_Spec := \<lparr>BlueprintSpec_Cluster = ''c'', BlueprintSpec_ModulesNamespace = ''ns'',
        BlueprintSpec_Modules = fmupd ''i'' (sample_module secret) fmempty\<rparr>,
      Blueprint_Status := BlueprintStatus_zero\<lparr>BlueprintStatus_Releases := releases\<rparr>\<rparr>"

definition sample_lib :: "(unit, Fake) BlueprintLib" where
  "sample_lib =
     \<lparr>BL_GetSecret = (\<lambda>_ _. Inr \<lparr>Secret_Type = ''kubernetes.io/dockerconfigjson'', Secret_Data = fmempty\<rparr>),
      BL_ParseDomain = (\<lambda>_. Inr ''registry''),
      BL_KeyringLookup = (\<lambda>_ _. ([\<lparr>Cred_Username = ''u'', Cred_Password = ''p''\<rparr>], True)),
      BL_TempDir = (\<lambda>_. Inr ''tmp''), BL_ListModules = (\<lambda>_. Inr []),
      BL_KStatus = (\<lambda>_. Inr (CurrentStatus, [])), BL_LabelsParse = (\<lambda>_. Inl ''no conditions''),
      BL_Matches = (\<lambda>_ _ _. False), BL_GetKind = (\<lambda>_. ''Pod'')\<rparr>"

definition sample_fake :: Fake where
  "sample_fake = NewFake None [fmempty]"

definition sample_run :: "Blueprint \<Rightarrow> Fake \<Rightarrow> Result \<times> Blueprint \<times> Fake" where
  "sample_run blueprint w = ok_value (None, Blueprint_zero, sample_fake)
     (blueprint_reconcile sample_env sorted_list_of_fset sample_lib Fake_helm blueprint w)"

lemma sample_run_Ok:
  assumes "is_ok (blueprint_reconcile sample_env sorted_list_of_fset sample_lib Fake_helm blueprint w)"
  shows "blueprint_reconcile sample_env sorted_list_of_fset sample_lib Fake_helm blueprint w =
    Ok (fst (sample_run blueprint w), fst (snd (sample_run blueprint w)), snd (snd (sample_run blueprint w)))"
  using assms by (cases "blueprint_reconcile sample_env sorted_list_of_fset sample_lib Fake_helm blueprint w")
    (simp_all add: sample_run_def)

section \<open>Properties\<close>

text \<open>
  C22: A reconciliation of a blueprint marks it ready exactly when it has no modules, or the observed
  generation is the current one, so that no chart had to be applied again, and the release of every
  module is deployed with all of its resources ready. It asks to be run again (after two seconds)
  exactly when the blueprint is neither ready nor in error.
\<close>

theorem blueprint_ready:
  assumes "range_order ord"
    and "blueprint_reconcile env ord lib h blueprint w = Ok (result, blueprint', w')"
  shows "(ObservedState_Ready (BlueprintStatus_ObservedState (Blueprint_Status blueprint')) \<longleftrightarrow>
      BlueprintSpec_Modules (Blueprint_Spec blueprint) = fmempty \<or> \<not> update_required blueprint \<and>
      fBall (fmdom (BlueprintSpec_Modules (Blueprint_Spec blueprint))) (module_ready env lib h blueprint w)) \<and>
    result = (if ObservedState_Ready (BlueprintStatus_ObservedState (Blueprint_Status blueprint')) \<or>
      ObservedState_Error (BlueprintStatus_ObservedState (Blueprint_Status blueprint')) \<noteq> [] then None else Some 2)"
  using blueprint_ready_iff [OF assms] by blast

theorem blueprint_ready_witness:
  "\<not> (fBall (fmdom (BlueprintSpec_Modules (Blueprint_Spec (sample_blueprint [] fmempty))))
     (module_ready sample_env sample_lib Fake_helm (sample_blueprint [] fmempty) sample_fake)) \<and>
   fst (sample_run (sample_blueprint [] fmempty) sample_fake) = Some 2"
proof -
  let ?bp = "sample_blueprint [] fmempty"
  have "is_ok (blueprint_reconcile sample_env sorted_list_of_fset sample_lib Fake_helm ?bp sample_fake)"
    by code_simp
  note ready = blueprint_ready [OF range_order_sorted sample_run_Ok [OF this]]
  have "\<not> ObservedState_Ready (BlueprintStatus_ObservedState (Blueprint_Status (fst (snd (sample_run ?bp sample_fake)))))"
    "ObservedState_Error (BlueprintStatus_ObservedState (Blueprint_Status (fst (snd (sample_run ?bp sample_fake))))) = []"
    by code_simp+
  moreover have "\<not> fBall (fmdom (BlueprintSpec_Modules (Blueprint_Spec ?bp)))
     (module_ready sample_env sample_lib Fake_helm ?bp sample_fake)" by code_simp
  ultimately show ?thesis using ready by auto
qed

text \<open>
  C23: A reconciliation of a blueprint accounts for every Helm release in the status. The release of a
  current module is recorded with the current generation. A recorded release of an older generation
  that no module uses was uninstalled and is forgotten, or its uninstalling failed and it stays
  recorded with its generation, so that the next reconciliation tries again. No other release is added
  or forgotten.
\<close>

theorem releases_accounted:
  assumes "range_order ord"
    and "blueprint_reconcile env ord lib h blueprint w = Ok (result, blueprint', w')"
  defines "ns \<equiv> BlueprintSpec_ModulesNamespace (Blueprint_Spec blueprint)"
    and "gen \<equiv> Meta_Generation (Blueprint_Meta blueprint)"
    and "old \<equiv> BlueprintStatus_Releases (Blueprint_Status blueprint)"
    and "new \<equiv> BlueprintStatus_Releases (Blueprint_Status blueprint')"
  shows "if current_release env blueprint r then fmlookup new r = Some gen
    else if fmlookup old r \<in> {None, Some gen} then fmlookup new r = fmlookup old r
    else fmlookup new r = None \<and> uninstalled h ns r \<or>
      fmlookup new r = fmlookup old r \<and> uninstall_failed h ns r"
proof -
  note releases = blueprint_releases(1-3) [OF assms(1,2), of r, folded ns_def gen_def old_def new_def]
  consider "current_release env blueprint r"
    | "\<not> current_release env blueprint r" "fmlookup old r \<in> {None, Some gen}"
    | v where "\<not> current_release env blueprint r" "fmlookup old r = Some v" "v \<noteq> gen"
    by (cases "fmlookup old r") auto
  then show ?thesis
  proof cases
    case 1
    then show ?thesis using releases(1) [OF 1] by simp
  next
    case 2
    then show ?thesis using releases(3) [OF 2] by simp
  next
    case 3
    then show ?thesis using releases(2) [OF 3] by simp
  qed
qed

theorem releases_accounted_witness:
  "fmlookup (BlueprintStatus_Releases (Blueprint_Status
     (fst (snd (sample_run (sample_blueprint [] (fmupd ''old'' 0 fmempty)) sample_fake))))) ''old'' = None \<and>
   uninstalled Fake_helm ''ns'' ''old''"
proof -
  let ?bp = "sample_blueprint [] (fmupd ''old'' 0 fmempty)"
  have "is_ok (blueprint_reconcile sample_env sorted_list_of_fset sample_lib Fake_helm ?bp sample_fake)"
    by code_simp
  note releases = releases_accounted [OF range_order_sorted sample_run_Ok [OF this], of "''old''"]
  have "\<not> current_release sample_env ?bp ''old''" by code_simp
  moreover have "fmlookup (BlueprintStatus_Releases (Blueprint_Status (fst (snd (sample_run ?bp sample_fake))))) ''old'' = None"
    by code_simp
  moreover have "fmlookup (BlueprintStatus_Releases (Blueprint_Status ?bp)) ''old'' = Some 0"
    "Meta_Generation (Blueprint_Meta ?bp) = 1" "BlueprintSpec_ModulesNamespace (Blueprint_Spec ?bp) = ''ns''"
    by (simp_all add: sample_blueprint_def)
  ultimately show ?thesis using releases by (auto split: if_splits)
qed

text \<open>
  C39: The names of Helm releases stay within Helm's bound of 53 characters. Every release that a
  reconciliation newly records belongs to a module of the blueprint; its name is the full name of
  application, namespace and instance when that fits, and otherwise has exactly 53 characters, of which
  the first 47 are those of the full name.
\<close>

theorem release_names_bounded:
  assumes "sha512_size env" and "range_order ord"
    and "blueprint_reconcile env ord lib h blueprint w = Ok (result, blueprint', w')"
    and "fmlookup (BlueprintStatus_Releases (Blueprint_Status blueprint)) r = None"
    and "fmlookup (BlueprintStatus_Releases (Blueprint_Status blueprint')) r \<noteq> None"
  shows "length r \<le> 53 \<and>
    (\<exists>inst full. inst |\<in>| fmdom (BlueprintSpec_Modules (Blueprint_Spec blueprint)) \<and>
       full = fmget [] (Meta_Labels (Blueprint_Meta blueprint)) ApplicationNameLabel @ ''-'' @
         fmget [] (Meta_Labels (Blueprint_Meta blueprint)) ApplicationNamespaceLabel @ ''-'' @ inst \<and>
       (if length full \<le> 53 then r = full else length r = 53 \<and> take 47 r = take 47 full))"
proof -
  have "current_release env blueprint r"
  proof (rule ccontr)
    assume "\<not> current_release env blueprint r"
    from blueprint_releases(3) [OF assms(2,3) this] assms(4,5) show False by simp
  qed
  then obtain inst where inst: "inst |\<in>| fmdom (BlueprintSpec_Modules (Blueprint_Spec blueprint))"
    "blueprint_release env blueprint inst = Ok r" unfolding current_release_def by blast
  define full where "full = fmget [] (Meta_Labels (Blueprint_Meta blueprint)) ApplicationNameLabel @ ''-'' @
    fmget [] (Meta_Labels (Blueprint_Meta blueprint)) ApplicationNamespaceLabel @ ''-'' @ inst"
  have short: "ShortenedName env full 53 5 = Ok r"
    using inst(2) unfolding blueprint_release_def GetReleaseName_def GetReleaseNameByStepName_def
      HelmConformName_def full_def .
  have len: "length r \<le> 53 \<and> (53 < length full \<longrightarrow> length r = 53)"
    by (rule ShortenedName_length [OF assms(1) _ _ short]) simp_all
  have "if length full \<le> 53 then r = full else length r = 53 \<and> take 47 r = take 47 full"
  proof (cases "length full \<le> 53")
    case True
    then show ?thesis using short by (simp add: ShortenedName_def)
  next
    case False
    then have "53 < length full" by simp
    with ShortenedName_prefix [OF short] len False show ?thesis by simp
  qed
  with inst(1) len full_def show ?thesis by blast
qed

definition long_blueprint :: Blueprint where
  "long_blueprint = (sample_blueprint [] fmempty)
     \<lparr>Blueprint_Meta := (Blueprint_Meta Blueprint_zero)\<lparr>Meta_Generation := 1,
        Meta_Labels := fmupd ApplicationNameLabel (replicate 60 CHR ''a'') fmempty\<rparr>\<rparr>"

definition long_release :: string where
  "long_release = replicate 47 CHR ''a'' @ ''-00000''"

theorem release_names_bounded_witness:
  "fmlookup (BlueprintStatus_Releases (Blueprint_Status (fst (snd (sample_run long_blueprint sample_fake))))) long_release \<noteq> None \<and>
   length long_release \<le> 53"
proof -
  have run: "is_ok (blueprint_reconcile sample_env sorted_list_of_fset sample_lib Fake_helm long_blueprint sample_fake)"
    by code_simp
  have size: "sha512_size sample_env" by (simp add: sha512_size_def sample_env_def)
  have old: "fmlookup (BlueprintStatus_Releases (Blueprint_Status long_blueprint)) long_release = None" by code_simp
  have new: "fmlookup (BlueprintStatus_Releases (Blueprint_Status (fst (snd (sample_run long_blueprint sample_fake)))))
      long_release \<noteq> None" by code_simp
  from release_names_bounded [OF size range_order_sorted sample_run_Ok [OF run] old new] new show ?thesis by blast
qed

text \<open>
  C24: Progress of a blueprint, for every Helm implementation that keeps the contract of the
  interface. A reconciliation applied the charts of a new generation without an error, logging out of
  a registry never failed, and no release of an older generation was left. Once every release that was
  deployed has its resources ready, the next reconciliation returns, without a panic, and marks the
  blueprint ready.
\<close>

theorem blueprint_becomes_ready:
  assumes helm: "helmer h" and ord: "range_order ord"
    and run: "blueprint_reconcile env ord lib h blueprint w = Ok (result, blueprint', w')"
    and upd: "update_required blueprint"
    and clean: "ObservedState_Error (BlueprintStatus_ObservedState (Blueprint_Status blueprint')) = []"
    and fresh: "fBall (fmdom (BlueprintStatus_Releases (Blueprint_Status blueprint))) (current_release env blueprint)"
    and logout: "\<And>host w. fst (Helm_RegistryLogout h host w) = None"
    and progress: "\<And>r. release_deployed h (BlueprintSpec_ModulesNamespace (Blueprint_Spec blueprint)) r w' \<Longrightarrow>
      release_deployed h (BlueprintSpec_ModulesNamespace (Blueprint_Spec blueprint)) r w2 \<and>
      fst (checkReleaseStatus env lib h r (BlueprintSpec_ModulesNamespace (Blueprint_Spec blueprint)) w2) = ConditionTrue"
  shows "\<exists>blueprint'' w3. blueprint_reconcile env ord lib h blueprint' w2 = Ok (None, blueprint'', w3) \<and>
    ObservedState_Ready (BlueprintStatus_ObservedState (Blueprint_Status blueprint''))"
proof -
  let ?ns = "BlueprintSpec_ModulesNamespace (Blueprint_Spec blueprint)"
  have same: "Blueprint_Meta blueprint' = Blueprint_Meta blueprint" "Blueprint_Spec blueprint' = Blueprint_Spec blueprint"
    using run by (rule blueprint_reconcile_end, simp)+
  have rel: "blueprint_release env blueprint' = blueprint_release env blueprint"
    "current_release env blueprint' = current_release env blueprint"
    by (simp_all add: fun_eq_iff blueprint_release_def current_release_def same)
  have upd': "\<not> update_required blueprint'"
    using blueprint_releases(4) [OF ord run] by (simp add: update_required_def same)
  have ready: "release_deployed h ?ns r w2 \<and> fst (checkReleaseStatus env lib h r ?ns w2) = ConditionTrue"
    if "current_release env blueprint r" for r
    by (rule progress, rule helmer.blueprint_deployed [OF helm ord run upd clean fresh logout that])
  have "\<exists>x. blueprint_reconcile env ord lib h blueprint' w2 = Ok x"
    by (rule deployed_reconcile_total [OF ord upd']) (use ready in \<open>simp add: rel same\<close>)
  then obtain result2 blueprint'' w3 where
    run2: "blueprint_reconcile env ord lib h blueprint' w2 = Ok (result2, blueprint'', w3)" by auto
  have "module_ready env lib h blueprint' w2 inst"
    if "inst |\<in>| fmdom (BlueprintSpec_Modules (Blueprint_Spec blueprint'))" for inst
  proof -
    obtain r where r: "blueprint_release env blueprint inst = Ok r"
      using GetReleaseName_Ok by (metis blueprint_release_def)
    with that have "current_release env blueprint r" by (auto simp: current_release_def same)
    from ready [OF this] r show ?thesis by (simp add: module_ready_def rel same)
  qed
  with blueprint_ready_iff [OF ord run2] upd' run2 show ?thesis by auto
qed

theorem blueprint_becomes_ready_witness:
  "\<exists>blueprint'' w3. blueprint_reconcile sample_env sorted_list_of_fset sample_lib Fake_helm
       (fst (snd (sample_run (sample_blueprint [] fmempty) sample_fake)))
       (snd (snd (sample_run (sample_blueprint [] fmempty) sample_fake))) = Ok (None, blueprint'', w3) \<and>
     ObservedState_Ready (BlueprintStatus_ObservedState (Blueprint_Status blueprint''))"
proof -
  let ?bp = "sample_blueprint [] fmempty"
  have "is_ok (blueprint_reconcile sample_env sorted_list_of_fset sample_lib Fake_helm ?bp sample_fake)"
    by code_simp
  note run = sample_run_Ok [OF this]
  have upd: "update_required ?bp" by code_simp
  have clean: "ObservedState_Error (BlueprintStatus_ObservedState
    (Blueprint_Status (fst (snd (sample_run ?bp sample_fake))))) = []" by code_simp
  have fresh: "fBall (fmdom (BlueprintStatus_Releases (Blueprint_Status ?bp))) (current_release sample_env ?bp)"
    by (simp add: sample_blueprint_def BlueprintStatus_zero_def)
  have logout: "fst (Helm_RegistryLogout Fake_helm host w) = None" for host w by (simp add: Fake_defs)
  have resources: "Fake_Resources (snd (snd (sample_run ?bp sample_fake))) = [fmempty]" by code_simp
  show ?thesis
  proof (rule blueprint_becomes_ready [OF fake.helmer_axioms range_order_sorted run upd clean fresh logout], intro conjI)
    fix r
    show "fst (checkReleaseStatus sample_env sample_lib Fake_helm r
        (BlueprintSpec_ModulesNamespace (Blueprint_Spec ?bp)) (snd (snd (sample_run ?bp sample_fake)))) = ConditionTrue"
      by (simp add: checkReleaseStatus_True Fake_defs resources checkResourceStatus_def getExpectedResults_def
          find_indicator_def sample_lib_def)
  qed
qed

text \<open>
  When a chart was pulled from a registry that required a login and logging out then fails,
  applying the chart installs nothing and still returns no error: the code wraps the error of the pull,
  which is nil there, instead of the error of the logout.
\<close>

theorem logout_failure_is_silent:
  "is_ok (applyChartResource sample_env sorted_list_of_fset sample_lib
      (Fake_helm\<lparr>Helm_RegistryLogout := (\<lambda>host w. (Some ''logout failed'', w))\<rparr>)
      (BlueprintModule_Chart (sample_module ''secret'')) fmempty (sample_blueprint ''secret'' fmempty) ''r'' sample_fake) \<and>
   ok_value (Some [], NewEmptyFake) (applyChartResource sample_env sorted_list_of_fset sample_lib
      (Fake_helm\<lparr>Helm_RegistryLogout := (\<lambda>host w. (Some ''logout failed'', w))\<rparr>)
      (BlueprintModule_Chart (sample_module ''secret'')) fmempty (sample_blueprint ''secret'' fmempty) ''r'' sample_fake) =
     (None, sample_fake) \<and>
   Fake_Release sample_fake = None"
  by code_simp

end
