(* ===== verification/Taxonomy_Compile.thy ===== *)
theory Taxonomy_Compile
  imports Utils
begin

text \<open>
  \<^verbatim>\<open>src/pkg/taxonomy/model\<close>, \<^verbatim>\<open>src/pkg/taxonomy/compile\<close> and \<^verbatim>\<open>src/pkg/slices/unique.go\<close>: a taxonomy
  document is compiled from a base document and layers, by merging their definitions and rewriting the
  result into a structural schema.

  A schema is a tree; the definitions of a document are a map from names to trees. The code changes the
  nodes in place through pointers: a change of the node a reference points to is a change of the
  definition here, a change of a node below the one at hand a change of the tree. Numbers keep the bit
  pattern of their float64 value, as in \<open>json\<close>. An empty list of alternatives is not distinguished from a
  missing one, and a document has no null in the place of a schema. The text of a JSON value, by which
  the values of an enumeration are sorted, is the parameter \<open>JSON_Text\<close> of the environment.
\<close>

section \<open>Schemas\<close>

record SchemaBase =
  Schema_Type :: string
  Schema_Title :: string
  Schema_Description :: string
  Schema_Default :: "json option"
  Schema_Required :: "string list"
  Schema_MinProps :: "int64 option"
  Schema_MaxProps :: "int64 option"
  Schema_Format :: string
  Schema_Enum :: "json list"
  Schema_MinLength :: "int64 option"
  Schema_MaxLength :: "int64 option"
  Schema_Pattern :: string
  Schema_Min :: "int64 option"
  Schema_Max :: "int64 option"
  Schema_MultipleOf :: "int64 option"
  Schema_ExclusiveMin :: bool
  Schema_ExclusiveMax :: bool
  Schema_MinItems :: "int64 option"
  Schema_MaxItems :: "int64 option"
  Schema_UniqueItems :: bool

text \<open>
  A schema or a reference, with the fields that hold schemas: the properties, the additional properties
  (allowed or not, or a schema), the items, the three lists of alternatives and the negation.
\<close>

datatype SchemaRef = SchemaRef
  (Schema_Ref: string)
  (Schema_Base: SchemaBase)
  (Schema_Properties: "(string, SchemaRef) fmap")
  (Schema_AdditionalProperties: "(bool option \<times> SchemaRef option) option")
  (Schema_Items: "SchemaRef option")
  (Schema_OneOf: "SchemaRef list")
  (Schema_AnyOf: "SchemaRef list")
  (Schema_AllOf: "SchemaRef list")
  (Schema_Not: "SchemaRef option")

type_synonym Definitions = "(string, SchemaRef) fmap"

text \<open>The schema that a document embeds is a schema whose reference is empty.\<close>

record Document =
  Document_Schema :: SchemaRef
  Document_SchemaVersion :: string
  Document_Definitions :: Definitions

definition SchemaBase_zero :: SchemaBase where
  "SchemaBase_zero =
     \<lparr>Schema_Type = [], Schema_Title = [], Schema_Description = [], Schema_Default = None, Schema_Required = [],
      Schema_MinProps = None, Schema_MaxProps = None, Schema_Format = [], Schema_Enum = [], Schema_MinLength = None,
      Schema_MaxLength = None, Schema_Pattern = [], Schema_Min = None, Schema_Max = None, Schema_MultipleOf = None,
      Schema_ExclusiveMin = False, Schema_ExclusiveMax = False, Schema_MinItems = None, Schema_MaxItems = None,
      Schema_UniqueItems = False\<rparr>"

definition plain_schema :: "SchemaBase \<Rightarrow> SchemaRef" where
  "plain_schema b = SchemaRef [] b fmempty None None [] [] [] None"

definition reference :: "string \<Rightarrow> SchemaRef" where
  "reference r = SchemaRef r SchemaBase_zero fmempty None None [] [] [] None"

definition RefName :: "SchemaRef \<Rightarrow> string" where
  "RefName s =
     (if Schema_Ref s \<noteq> [] then rev (takeWhile (\<lambda>c. c \<noteq> CHR ''/'') (rev (Schema_Ref s))) else [])"

definition Deref :: "Definitions \<Rightarrow> SchemaRef \<Rightarrow> SchemaRef option" where
  "Deref defs s = (if Schema_Ref s \<noteq> [] then fmlookup defs (RefName s) else Some s)"

definition IsAllowed :: "(bool option \<times> SchemaRef option) option \<Rightarrow> bool" where
  "IsAllowed a = (case a of Some (Some True, _) \<Rightarrow> True | _ \<Rightarrow> False)"

section \<open>Unique values\<close>

definition unique_Strings :: "string list \<Rightarrow> string list" where
  "unique_Strings xs = remdups_adj (sort xs)"

fun unique_adj :: "('a \<Rightarrow> string) \<Rightarrow> 'a list \<Rightarrow> 'a list" where
  "unique_adj f [] = []"
| "unique_adj f [x] = [x]"
| "unique_adj f (x # y # xs) = (if f x = f y then unique_adj f (x # xs) else x # unique_adj f (y # xs))"

definition UniqueJSONSlice :: "go_env \<Rightarrow> json list \<Rightarrow> json list" where
  "UniqueJSONSlice env xs = unique_adj (JSON_Text env) (sort_key (JSON_Text env) xs)"

section \<open>Merging\<close>

definition maybeOverrideString :: "string \<Rightarrow> string \<Rightarrow> string" where
  "maybeOverrideString dst src = (if src \<noteq> [] then src else dst)"

definition override :: "'a option \<Rightarrow> 'a option \<Rightarrow> 'a option" where
  "override dst src = (if src \<noteq> None then src else dst)"

definition merge_base :: "go_env \<Rightarrow> SchemaBase \<Rightarrow> SchemaBase \<Rightarrow> SchemaBase" where
  "merge_base env dst src =
     dst\<lparr>Schema_Title := maybeOverrideString (Schema_Title dst) (Schema_Title src),
         Schema_Description := maybeOverrideString (Schema_Description dst) (Schema_Description src),
         Schema_Default := override (Schema_Default dst) (Schema_Default src),
         Schema_Required := unique_Strings (Schema_Required dst @ Schema_Required src),
         Schema_MinProps := override (Schema_MinProps dst) (Schema_MinProps src),
         Schema_MaxProps := override (Schema_MaxProps dst) (Schema_MaxProps src),
         Schema_Format := maybeOverrideString (Schema_Format dst) (Schema_Format src),
         Schema_Enum := UniqueJSONSlice env (Schema_Enum dst @ Schema_Enum src),
         Schema_MinLength := override (Schema_MinLength dst) (Schema_MinLength src),
         Schema_MaxLength := override (Schema_MaxLength dst) (Schema_MaxLength src),
         Schema_Pattern := maybeOverrideString (Schema_Pattern dst) (Schema_Pattern src),
         Schema_Min := override (Schema_Min dst) (Schema_Min src),
         Schema_Max := override (Schema_Max dst) (Schema_Max src),
         Schema_MultipleOf := override (Schema_MultipleOf dst) (Schema_MultipleOf src),
         Schema_ExclusiveMin := (if Schema_ExclusiveMin src then True else Schema_ExclusiveMin dst),
         Schema_ExclusiveMax := (if Schema_ExclusiveMax src then True else Schema_ExclusiveMax dst),
         Schema_MinItems := override (Schema_MinItems dst) (Schema_MinItems src),
         Schema_MaxItems := override (Schema_MaxItems dst) (Schema_MaxItems src),
         Schema_UniqueItems := (if Schema_UniqueItems src then True else Schema_UniqueItems dst)\<rparr>"

text \<open>The additional properties, given how to merge a schema into one that may be missing.\<close>

definition merge_additional ::
  "(bool option \<times> SchemaRef option) option \<Rightarrow>
   (bool option \<times> (SchemaRef option \<Rightarrow> SchemaRef) option) option \<Rightarrow> (bool option \<times> SchemaRef option) option" where
  "merge_additional dst src =
     (case src of
        None \<Rightarrow> dst
      | Some (Some allowed, _) \<Rightarrow> Some (Some allowed, None)
      | Some (None, Some merge_schema) \<Rightarrow> Some (None, Some (merge_schema (Option.bind dst snd)))
      | Some (None, None) \<Rightarrow> dst)"

text \<open>\<open>mergeSchemaRef(dst, src)\<close> for a source that is not nil; a nil source leaves the destination.\<close>

primrec merge_into :: "go_env \<Rightarrow> SchemaRef \<Rightarrow> SchemaRef option \<Rightarrow> SchemaRef" where
  "merge_into env (SchemaRef ref b properties additional items oneOf anyOf allOf neg) =
     (\<lambda>dst. case dst of
        None \<Rightarrow> SchemaRef ref b properties additional items oneOf anyOf allOf neg
      | Some d \<Rightarrow>
          SchemaRef (Schema_Ref d) (merge_base env (Schema_Base d) b)
            (Schema_Properties d ++\<^sub>f
               fmmap_keys (\<lambda>k merge_property. merge_property (fmlookup (Schema_Properties d) k))
                 (fmmap (merge_into env) properties))
            (merge_additional (Schema_AdditionalProperties d)
               (map_option (map_prod id (map_option (merge_into env))) additional))
            (case map_option (merge_into env) items of None \<Rightarrow> Schema_Items d | Some f \<Rightarrow> Some (f (Schema_Items d)))
            (Schema_OneOf d @ oneOf) (Schema_AnyOf d @ anyOf) (Schema_AllOf d @ allOf)
            (case map_option (merge_into env) neg of None \<Rightarrow> Schema_Not d | Some f \<Rightarrow> Some (f (Schema_Not d))))"

definition mergeSchemaRef :: "go_env \<Rightarrow> SchemaRef option \<Rightarrow> SchemaRef option \<Rightarrow> SchemaRef option" where
  "mergeSchemaRef env dst src = (case src of None \<Rightarrow> dst | Some s \<Rightarrow> Some (merge_into env s dst))"

definition merge_document :: "go_env \<Rightarrow> Document \<Rightarrow> Definitions \<Rightarrow> Definitions" where
  "merge_document env src dst =
     dst ++\<^sub>f fmmap_keys (\<lambda>k s. merge_into env s (fmlookup dst k)) (Document_Definitions src)"

definition mergeDefinitions :: "go_env \<Rightarrow> Document list \<Rightarrow> Definitions" where
  "mergeDefinitions env documents = fold (merge_document env) documents fmempty"

section \<open>Rewriting\<close>

text \<open>
  The state of the transformer: the definitions, the keys that were visited, and the definitions that
  were replaced by a new node, to which a pointer to the old node does not lead any more.
\<close>

record transformer =
  T_Definitions :: Definitions
  T_Visited :: "string list"
  T_Replaced :: "string list"

definition with_enum :: "(json list \<Rightarrow> json list) \<Rightarrow> SchemaRef \<Rightarrow> SchemaRef" where
  "with_enum f s =
     (case s of SchemaRef ref b p a i o1 n1 l1 neg \<Rightarrow> SchemaRef ref (b\<lparr>Schema_Enum := f (Schema_Enum b)\<rparr>) p a i o1 n1 l1 neg)"

definition with_properties :: "((string, SchemaRef) fmap \<Rightarrow> (string, SchemaRef) fmap) \<Rightarrow> SchemaRef \<Rightarrow> SchemaRef" where
  "with_properties f s =
     (case s of SchemaRef ref b p a i o1 n1 l1 neg \<Rightarrow> SchemaRef ref b (f p) a i o1 n1 l1 neg)"

text \<open>The enumerations that a group of validations has for a property, at any depth.\<close>

fun group_enum :: "string \<Rightarrow> SchemaRef \<Rightarrow> json list" where
  "group_enum propertyName (SchemaRef ref b properties additional items oneOf anyOf allOf neg) =
     (case fmlookup properties propertyName of None \<Rightarrow> [] | Some p \<Rightarrow> Schema_Enum (Schema_Base p)) @
     concat (map (group_enum propertyName) allOf) @ concat (map (group_enum propertyName) anyOf) @
     concat (map (group_enum propertyName) oneOf)"

definition enum_step ::
  "go_env \<Rightarrow> string \<times> SchemaRef \<Rightarrow> SchemaRef \<times> Definitions \<Rightarrow> (SchemaRef \<times> Definitions) go" where
  "enum_step env kv st =
     (case kv of (propertyName, property) \<Rightarrow>
      case st of (schema, defs) \<Rightarrow>
        let found = concat (map (group_enum propertyName)
              (Schema_AllOf schema @ Schema_AnyOf schema @ Schema_OneOf schema));
            extend = with_enum (\<lambda>e. UniqueJSONSlice env (e @ found))
        in if Schema_Ref property \<noteq> []
           then (case fmlookup defs (RefName property) of
                   None \<Rightarrow> Panic ''nil pointer dereference''
                 | Some d \<Rightarrow> Ok (schema, fmupd (RefName property) (extend d) defs))
           else Ok (with_properties (fmupd propertyName (extend property)) schema, defs))"

definition propogateEnum ::
  "go_env \<Rightarrow> range_ord \<Rightarrow> SchemaRef \<Rightarrow> transformer \<Rightarrow> (SchemaRef \<times> transformer) go" where
  "propogateEnum env ord schema t =
     go_bind (go_fold (enum_step env) (fmrange ord (Schema_Properties schema)) (schema, T_Definitions t))
       (\<lambda>(schema', defs). Ok (schema', t\<lparr>T_Definitions := defs\<rparr>))"

definition subtype_name :: "SchemaRef \<Rightarrow> string" where
  "subtype_name v = (if Schema_Ref v \<noteq> [] then RefName v else Schema_Title (Schema_Base v))"

definition subtype_key :: "SchemaRef \<Rightarrow> string" where
  "subtype_key v = (if Schema_Ref v \<noteq> [] then RefName v else [])"

definition is_union :: "string \<Rightarrow> SchemaRef \<Rightarrow> bool" where
  "is_union key schema \<longleftrightarrow>
     \<not> (key = [] \<or> Schema_OneOf schema = [] \<or> fcard (fmdom (Schema_Properties schema)) \<noteq> 1 \<or>
        \<not> IsAllowed (Schema_AdditionalProperties schema)) \<and>
     fmlookup (Schema_Properties schema) ''name'' \<noteq> None \<and>
     list_all (\<lambda>v. \<not> (Schema_Title (Schema_Base v) = [] \<and> Schema_Ref v = [])) (Schema_OneOf schema)"

definition name_option :: "string \<Rightarrow> SchemaRef" where
  "name_option option_name =
     SchemaRef [] (SchemaBase_zero\<lparr>Schema_Required := [''name'', option_name]\<rparr>)
       (fmupd ''name'' (plain_schema (SchemaBase_zero\<lparr>Schema_Enum := [JStr option_name]\<rparr>)) fmempty)
       None None [] [] [] None"

text \<open>The end of the rewriting of a union, once its subtypes have become properties.\<close>

definition structural_union :: "string \<Rightarrow> SchemaRef \<Rightarrow> (string, SchemaRef) fmap \<Rightarrow> SchemaRef" where
  "structural_union key schema properties =
     (let options = map subtype_name (Schema_OneOf schema)
      in case schema of SchemaRef ref b p a i o1 n1 l1 neg \<Rightarrow>
           SchemaRef ref b
             (fmupd ''name'' (reference (''#/definitions/'' @ key @ ''Name'')) properties)
             (map_option (\<lambda>(_, s). (Some False, s)) a) i (map name_option options) n1 l1 neg)"

definition add_name_definition :: "string \<Rightarrow> SchemaRef \<Rightarrow> transformer \<Rightarrow> transformer" where
  "add_name_definition key schema t =
     t\<lparr>T_Definitions := fmupd (key @ ''Name'')
          (plain_schema (SchemaBase_zero\<lparr>Schema_Type := ''string'',
             Schema_Enum := map (\<lambda>v. JStr (subtype_name v)) (Schema_OneOf schema)\<rparr>)) (T_Definitions t),
        T_Replaced := (key @ ''Name'') # T_Replaced t\<rparr>"

lemma size_OneOf [termination_simp]: "Suc (2 * size_list size (Schema_OneOf s)) < 2 * size s"
  by (cases s) simp

text \<open>
  \<open>transformSchema\<close>, with \<open>oneOfRefsTransform\<close> as its first half; \<open>subtypes_loop\<close> is the loop over the
  alternatives.
\<close>

function (sequential) transformSchema ::
  "go_env \<Rightarrow> range_ord \<Rightarrow> string \<Rightarrow> SchemaRef \<Rightarrow> transformer \<Rightarrow> (SchemaRef \<times> transformer) go"
and subtypes_loop ::
  "go_env \<Rightarrow> range_ord \<Rightarrow> SchemaRef list \<Rightarrow> (string, SchemaRef) fmap \<Rightarrow> transformer \<Rightarrow>
     ((string, SchemaRef) fmap \<times> transformer) go" where
  "transformSchema env ord key schema t =
     (if key \<in> set (T_Visited t) then Ok (schema, t)
      else
        let t1 = t\<lparr>T_Visited := key # T_Visited t\<rparr>
        in go_bind
             (if is_union key schema
              then go_bind (subtypes_loop env ord (Schema_OneOf schema) (Schema_Properties schema) t1)
                     (\<lambda>(properties, t2). Ok (structural_union key schema properties, add_name_definition key schema t2))
              else Ok (schema, t1))
             (\<lambda>(schema1, t2). propogateEnum env ord schema1 t2))"
| "subtypes_loop env ord [] properties t = Ok (properties, t)"
| "subtypes_loop env ord (v # vs) properties t =
     go_bind (transformSchema env ord (subtype_key v) v t)
       (\<lambda>(v', t'). subtypes_loop env ord vs (fmupd (subtype_name v) v' properties) t')"
  by pat_completeness auto
termination
  by (relation "measure (\<lambda>x. case x of Inl (_, _, _, s, _) \<Rightarrow> 2 * size s | Inr (_, _, vs, _, _) \<Rightarrow> 2 * size_list size vs + 1)")
    (auto simp: termination_simp)

text \<open>A definition is changed in place; its own enumeration may have been extended through a reference.\<close>

definition transform_definition ::
  "go_env \<Rightarrow> range_ord \<Rightarrow> string \<times> SchemaRef \<Rightarrow> transformer \<Rightarrow> transformer go" where
  "transform_definition env ord kv t =
     (case fmlookup (T_Definitions t) (fst kv) of
        None \<Rightarrow> Ok t
      | Some schema \<Rightarrow>
          go_bind (transformSchema env ord (fst kv) schema (t\<lparr>T_Replaced := []\<rparr>))
            (\<lambda>(schema', t').
               Ok (if fst kv \<in> set (T_Replaced t') then t'
                   else
                     let own = fmget schema' (T_Definitions t') (fst kv)
                     in t'\<lparr>T_Definitions := fmupd (fst kv) (with_enum (\<lambda>_. Schema_Enum (Schema_Base own)) schema')
                          (T_Definitions t')\<rparr>)))"

text \<open>
  \<open>removeComplexValidation\<close> follows the references of the properties and has no record of what it has
  visited; \<open>None\<close> stands for a recursion deeper than the fuel.
\<close>

definition without_alternatives :: "SchemaRef \<Rightarrow> SchemaRef" where
  "without_alternatives s =
     (case s of SchemaRef ref b p a i o1 n1 l1 neg \<Rightarrow> SchemaRef ref b p a i [] [] [] None)"

definition with_items :: "SchemaRef option \<Rightarrow> SchemaRef \<Rightarrow> SchemaRef" where
  "with_items items s =
     (case s of SchemaRef ref b p a i o1 n1 l1 neg \<Rightarrow> SchemaRef ref b p a items o1 n1 l1 neg)"

definition with_additional :: "SchemaRef \<Rightarrow> SchemaRef \<Rightarrow> SchemaRef" where
  "with_additional x s =
     (case s of SchemaRef ref b p a i o1 n1 l1 neg \<Rightarrow>
        SchemaRef ref b p (map_option (\<lambda>(allowed, _). (allowed, Some x)) a) i o1 n1 l1 neg)"

fun option_fold :: "('a \<Rightarrow> 's \<Rightarrow> 's option) \<Rightarrow> 'a list \<Rightarrow> 's \<Rightarrow> 's option" where
  "option_fold f [] s = Some s"
| "option_fold f (x # xs) s = Option.bind (f x s) (option_fold f xs)"

definition clean_property ::
  "(SchemaRef \<Rightarrow> Definitions \<Rightarrow> (SchemaRef \<times> Definitions) option) \<Rightarrow>
   string \<times> SchemaRef \<Rightarrow> SchemaRef \<times> Definitions \<Rightarrow> (SchemaRef \<times> Definitions) option" where
  "clean_property clean kv st =
     (case kv of (k, property) \<Rightarrow>
      case st of (s, d) \<Rightarrow>
        if Schema_Ref property \<noteq> []
        then (case fmlookup d (RefName property) of
                None \<Rightarrow> Some (s, d)
              | Some target \<Rightarrow>
                  map_option (\<lambda>(target', d'). (s, fmupd (RefName property) target' d')) (clean target d))
        else map_option (\<lambda>(p', d'). (with_properties (fmupd k p') s, d')) (clean property d))"

definition clean_items ::
  "(SchemaRef \<Rightarrow> Definitions \<Rightarrow> (SchemaRef \<times> Definitions) option) \<Rightarrow>
   SchemaRef option \<Rightarrow> SchemaRef \<times> Definitions \<Rightarrow> (SchemaRef \<times> Definitions) option" where
  "clean_items clean items st =
     (case items of
        None \<Rightarrow> Some st
      | Some i \<Rightarrow> map_option (\<lambda>(i', d'). (with_items (Some i') (fst st), d')) (clean i (snd st)))"

definition clean_additional ::
  "(SchemaRef \<Rightarrow> Definitions \<Rightarrow> (SchemaRef \<times> Definitions) option) \<Rightarrow>
   (bool option \<times> SchemaRef option) option \<Rightarrow> SchemaRef \<times> Definitions \<Rightarrow> (SchemaRef \<times> Definitions) option" where
  "clean_additional clean additional st =
     (case Option.bind additional snd of
        None \<Rightarrow> Some st
      | Some x \<Rightarrow> map_option (\<lambda>(x', d'). (with_additional x' (fst st), d')) (clean x (snd st)))"

primrec removeComplexValidation ::
  "nat \<Rightarrow> range_ord \<Rightarrow> SchemaRef \<Rightarrow> Definitions \<Rightarrow> (SchemaRef \<times> Definitions) option" where
  "removeComplexValidation 0 ord = (\<lambda>schema defs. None)"
| "removeComplexValidation (Suc n) ord =
     (\<lambda>schema defs.
        Option.bind
          (Option.bind
             (option_fold (clean_property (removeComplexValidation n ord)) (fmrange ord (Schema_Properties schema))
                (without_alternatives schema, defs))
             (clean_items (removeComplexValidation n ord) (Schema_Items schema)))
          (clean_additional (removeComplexValidation n ord) (Schema_AdditionalProperties schema)))"

definition clean_definition ::
  "nat \<Rightarrow> range_ord \<Rightarrow> string \<times> SchemaRef \<Rightarrow> Definitions \<Rightarrow> Definitions option" where
  "clean_definition n ord kv defs =
     (case fmlookup defs (fst kv) of
        None \<Rightarrow> Some defs
      | Some schema \<Rightarrow>
          map_option (\<lambda>(s', d'). fmupd (fst kv) s' d') (removeComplexValidation n ord schema defs))"

text \<open>\<open>transform\<close>: \<open>None\<close> when the recursion of the last step goes deeper than the fuel.\<close>

definition transform_doc ::
  "nat \<Rightarrow> go_env \<Rightarrow> range_ord \<Rightarrow> Document \<Rightarrow> Definitions \<Rightarrow> bool \<Rightarrow> Definitions option go" where
  "transform_doc n env ord base defs codegenTarget =
     go_bind (go_fold (transform_definition env ord) (fmrange ord (Document_Definitions base))
                \<lparr>T_Definitions = defs, T_Visited = [], T_Replaced = []\<rparr>)
       (\<lambda>t. Ok (if codegenTarget
                then option_fold (clean_definition n ord) (fmrange ord (T_Definitions t)) (T_Definitions t)
                else Some (T_Definitions t)))"

definition Documents ::
  "nat \<Rightarrow> go_env \<Rightarrow> range_ord \<Rightarrow> Document \<Rightarrow> Document list \<Rightarrow> bool \<Rightarrow> Document option go" where
  "Documents n env ord base layers codegenTarget =
     go_bind (transform_doc n env ord base (mergeDefinitions env (base # layers)) codegenTarget)
       (\<lambda>defs. Ok (map_option (\<lambda>d. base\<lparr>Document_Definitions := d\<rparr>) defs))"

definition Files ::
  "nat \<Rightarrow> go_env \<Rightarrow> range_ord \<Rightarrow> (string \<Rightarrow> string + Document) \<Rightarrow> string \<Rightarrow> string list \<Rightarrow> bool \<Rightarrow> Document option go" where
  "Files n env ord read_document baseDocPath layerDocPaths codegenTarget =
     (case read_document baseDocPath of
        Inl err \<Rightarrow> Err err
      | Inr base \<Rightarrow>
          (case go_loop (\<lambda>path layers. case read_document path of Inl err \<Rightarrow> Inl err | Inr doc \<Rightarrow> Inr (layers @ [doc]))
                  layerDocPaths [] of
             Inl err \<Rightarrow> Err err
           | Inr layers \<Rightarrow> Documents n env ord base layers codegenTarget))"

section \<open>Layers extend the base\<close>

inductive extends :: "go_env \<Rightarrow> SchemaRef \<Rightarrow> SchemaRef \<Rightarrow> bool" for env where
  extendsI: "Schema_Ref m = Schema_Ref d \<Longrightarrow> Schema_Type (Schema_Base m) = Schema_Type (Schema_Base d) \<Longrightarrow>
    set (Schema_Required (Schema_Base d)) \<subseteq> set (Schema_Required (Schema_Base m)) \<Longrightarrow>
    JSON_Text env ` set (Schema_Enum (Schema_Base d)) \<subseteq> JSON_Text env ` set (Schema_Enum (Schema_Base m)) \<Longrightarrow>
    set (Schema_OneOf d) \<subseteq> set (Schema_OneOf m) \<Longrightarrow> set (Schema_AnyOf d) \<subseteq> set (Schema_AnyOf m) \<Longrightarrow>
    set (Schema_AllOf d) \<subseteq> set (Schema_AllOf m) \<Longrightarrow>
    (\<And>k p. fmlookup (Schema_Properties d) k = Some p \<Longrightarrow>
       \<exists>q. fmlookup (Schema_Properties m) k = Some q \<and> extends env p q) \<Longrightarrow>
    extends env d m"

inductive_cases extendsE: "extends env d m"

lemma set_unique_Strings [simp]: "set (unique_Strings xs) = set xs"
  by (simp add: unique_Strings_def)

lemma text_unique_adj: "f ` set (unique_adj f xs) = f ` set xs"
  by (induction f xs rule: unique_adj.induct) auto

lemma text_UniqueJSONSlice: "JSON_Text env ` set (UniqueJSONSlice env xs) = JSON_Text env ` set xs"
  by (simp add: UniqueJSONSlice_def text_unique_adj)

lemma extends_refl: "extends env s s"
proof (induction s)
  case (SchemaRef ref b p a i o1 n1 l1 neg)
  show ?case
  proof (rule extendsI)
    fix k q
    assume "fmlookup (Schema_Properties (SchemaRef ref b p a i o1 n1 l1 neg)) k = Some q"
    with SchemaRef show "\<exists>q'. fmlookup (Schema_Properties (SchemaRef ref b p a i o1 n1 l1 neg)) k = Some q' \<and> extends env q q'"
      by (auto intro: fmran'I)
  qed simp_all
qed

lemma extends_trans: "extends env a b \<Longrightarrow> extends env b c \<Longrightarrow> extends env a c"
proof (induction arbitrary: c rule: extends.induct)
  case (extendsI m d)
  from extendsI.prems show ?case
  proof (rule extendsE)
    assume c: "Schema_Ref c = Schema_Ref m" "Schema_Type (Schema_Base c) = Schema_Type (Schema_Base m)"
      "set (Schema_Required (Schema_Base m)) \<subseteq> set (Schema_Required (Schema_Base c))"
      "JSON_Text env ` set (Schema_Enum (Schema_Base m)) \<subseteq> JSON_Text env ` set (Schema_Enum (Schema_Base c))"
      "set (Schema_OneOf m) \<subseteq> set (Schema_OneOf c)" "set (Schema_AnyOf m) \<subseteq> set (Schema_AnyOf c)"
      "set (Schema_AllOf m) \<subseteq> set (Schema_AllOf c)"
      "\<And>k p. fmlookup (Schema_Properties m) k = Some p \<Longrightarrow>
         \<exists>q. fmlookup (Schema_Properties c) k = Some q \<and> extends env p q"
    show ?thesis
    proof (rule extends.extendsI)
      fix k p
      assume "fmlookup (Schema_Properties d) k = Some p"
      from extendsI.IH [OF this] obtain q where q: "fmlookup (Schema_Properties m) k = Some q"
        "\<And>c. extends env q c \<Longrightarrow> extends env p c" by blast
      from c(8) [OF q(1)] q(2) show "\<exists>q. fmlookup (Schema_Properties c) k = Some q \<and> extends env p q" by blast
    qed (use extendsI.hyps(1-7) c(1-7) in auto)
  qed
qed

lemma merge_into_Some:
  "merge_into env s (Some d) =
     SchemaRef (Schema_Ref d) (merge_base env (Schema_Base d) (Schema_Base s))
       (Schema_Properties d ++\<^sub>f fmmap_keys (\<lambda>k f. f (fmlookup (Schema_Properties d) k))
          (fmmap (merge_into env) (Schema_Properties s)))
       (merge_additional (Schema_AdditionalProperties d)
          (map_option (map_prod id (map_option (merge_into env))) (Schema_AdditionalProperties s)))
       (case map_option (merge_into env) (Schema_Items s) of None \<Rightarrow> Schema_Items d | Some f \<Rightarrow> Some (f (Schema_Items d)))
       (Schema_OneOf d @ Schema_OneOf s) (Schema_AnyOf d @ Schema_AnyOf s) (Schema_AllOf d @ Schema_AllOf s)
       (case map_option (merge_into env) (Schema_Not s) of None \<Rightarrow> Schema_Not d | Some f \<Rightarrow> Some (f (Schema_Not d)))"
  by (cases s) simp

lemma merge_into_None: "merge_into env s None = s"
  by (cases s) simp

lemma merge_property:
  "fmlookup (Schema_Properties (merge_into env s (Some d))) k =
     (case fmlookup (Schema_Properties s) k of
        None \<Rightarrow> fmlookup (Schema_Properties d) k
      | Some p \<Rightarrow> Some (merge_into env p (fmlookup (Schema_Properties d) k)))"
  unfolding merge_into_Some by (auto simp: fmlookup_dom_iff split: option.splits)

lemma merge_extends: "extends env d (merge_into env s (Some d))"
proof (induction s arbitrary: d)
  case (SchemaRef ref b p a i o1 n1 l1 neg)
  let ?s = "SchemaRef ref b p a i o1 n1 l1 neg"
  show ?case
  proof (rule extendsI)
    fix k q
    assume q: "fmlookup (Schema_Properties d) k = Some q"
    show "\<exists>q'. fmlookup (Schema_Properties (merge_into env ?s (Some d))) k = Some q' \<and> extends env q q'"
      unfolding merge_property
      using q extends_refl by (cases "fmlookup p k") (auto intro: fmran'I SchemaRef)
  qed (auto simp: merge_into_Some merge_base_def text_UniqueJSONSlice image_Un)
qed

lemma merge_document_lookup:
  "fmlookup (merge_document env doc dst) k =
     mergeSchemaRef env (fmlookup dst k) (fmlookup (Document_Definitions doc) k)"
  by (auto simp: merge_document_def mergeSchemaRef_def fmlookup_dom_iff split: option.splits)

lemma merge_document_extends:
  assumes "fmlookup dst k = Some d"
  shows "\<exists>m. fmlookup (merge_document env doc dst) k = Some m \<and> extends env d m"
  using assms merge_extends extends_refl by (auto simp: merge_document_lookup mergeSchemaRef_def split: option.splits)

lemma merge_fold_extends:
  assumes "fmlookup dst k = Some d"
  shows "\<exists>m. fmlookup (fold (merge_document env) docs dst) k = Some m \<and> extends env d m"
  using assms
proof (induction docs arbitrary: dst d)
  case Nil
  then show ?case using extends_refl by auto
next
  case (Cons doc docs)
  from merge_document_extends [OF Cons.prems] obtain m where
    m: "fmlookup (merge_document env doc dst) k = Some m" "extends env d m" by blast
  from Cons.IH [OF m(1)] m(2) show ?case using extends_trans by fastforce
qed


text \<open>A definition of one document only is taken as it is.\<close>

lemma single_definition:
  assumes "fmlookup (Document_Definitions doc) k = Some d"
    and "\<forall>x\<in>set before \<union> set after. fmlookup (Document_Definitions x) k = None"
  shows "fmlookup (mergeDefinitions env (before @ doc # after)) k = Some d"
proof -
  have skip: "fmlookup (fold (merge_document env) docs dst) k = fmlookup dst k"
    if "\<forall>x\<in>set docs. fmlookup (Document_Definitions x) k = None" for docs dst
    using that by (induction docs arbitrary: dst) (simp_all add: merge_document_lookup mergeSchemaRef_def)
  show ?thesis using assms
    by (simp add: mergeDefinitions_def skip merge_document_lookup mergeSchemaRef_def merge_into_None)
qed

section \<open>The recursion through references\<close>

text \<open>The names that a schema refers to from its properties, its items or its additional properties.\<close>

inductive refers :: "SchemaRef \<Rightarrow> string \<Rightarrow> bool" where
  refers_direct: "fmlookup (Schema_Properties s) k = Some p \<Longrightarrow> Schema_Ref p \<noteq> [] \<Longrightarrow> refers s (RefName p)"
| refers_property: "fmlookup (Schema_Properties s) k = Some p \<Longrightarrow> Schema_Ref p = [] \<Longrightarrow> refers p r \<Longrightarrow> refers s r"
| refers_items: "Schema_Items s = Some i \<Longrightarrow> refers i r \<Longrightarrow> refers s r"
| refers_additional: "Schema_AdditionalProperties s = Some (a, Some x) \<Longrightarrow> refers x r \<Longrightarrow> refers s r"

inductive_simps refers_iff: "refers s r"

text \<open>References are acyclic: a definition refers to definitions of a smaller rank only.\<close>

definition ranked :: "(string \<Rightarrow> nat) \<Rightarrow> Definitions \<Rightarrow> bool" where
  "ranked rank defs \<longleftrightarrow>
     (\<forall>k s r. fmlookup defs k = Some s \<longrightarrow> refers s r \<longrightarrow> r |\<in>| fmdom defs \<longrightarrow> rank r < rank k)"

definition simple :: "SchemaRef \<Rightarrow> bool" where
  "simple s \<longleftrightarrow> Schema_OneOf s = [] \<and> Schema_AnyOf s = [] \<and> Schema_AllOf s = [] \<and> Schema_Not s = None"

lemma schema_updates [simp]:
  "Schema_Properties (without_alternatives s) = Schema_Properties s"
  "Schema_Items (without_alternatives s) = Schema_Items s"
  "Schema_AdditionalProperties (without_alternatives s) = Schema_AdditionalProperties s"
  "Schema_Ref (without_alternatives s) = Schema_Ref s"
  "simple (without_alternatives s)"
  "Schema_Properties (with_properties f s) = f (Schema_Properties s)"
  "Schema_Items (with_properties f s) = Schema_Items s"
  "Schema_AdditionalProperties (with_properties f s) = Schema_AdditionalProperties s"
  "Schema_Ref (with_properties f s) = Schema_Ref s"
  "simple (with_properties f s) = simple s"
  "Schema_Properties (with_items i s) = Schema_Properties s"
  "Schema_Items (with_items i s) = i"
  "Schema_AdditionalProperties (with_items i s) = Schema_AdditionalProperties s"
  "Schema_Ref (with_items i s) = Schema_Ref s"
  "simple (with_items i s) = simple s"
  "Schema_Properties (with_additional x s) = Schema_Properties s"
  "Schema_Items (with_additional x s) = Schema_Items s"
  "Schema_AdditionalProperties (with_additional x s) =
     map_option (\<lambda>(allowed, _). (allowed, Some x)) (Schema_AdditionalProperties s)"
  "Schema_Ref (with_additional x s) = Schema_Ref s"
  "simple (with_additional x s) = simple s"
  by (cases s; simp add: without_alternatives_def with_properties_def with_items_def with_additional_def simple_def)+

lemma option_fold_mono:
  assumes "\<And>x st y. f x st = Some y \<Longrightarrow> g x st = Some y" and "option_fold f xs s = Some r"
  shows "option_fold g xs s = Some r"
  using assms(2) by (induction xs arbitrary: s) (auto simp: bind_eq_Some_conv dest: assms(1))

lemma option_fold_invariant:
  assumes "option_fold f xs s = Some s'" and "I s"
    and "\<And>x st st'. x \<in> set xs \<Longrightarrow> f x st = Some st' \<Longrightarrow> I st \<Longrightarrow> I st'"
  shows "I s'"
  using assms
proof (induction xs arbitrary: s)
  case (Cons x xs)
  then obtain s1 where s1: "f x s = Some s1" "option_fold f xs s1 = Some s'" by (auto simp: bind_eq_Some_conv)
  have "I s1" using Cons.prems(3) [OF _ s1(1) Cons.prems(2)] by simp
  with s1(2) show ?case by (rule Cons.IH) (rule Cons.prems(3), simp_all)
qed simp

lemma option_fold_fuel:
  assumes mono: "\<And>n m x st y. f n x st = Some y \<Longrightarrow> n \<le> m \<Longrightarrow> f m x st = Some y"
    and step: "\<And>x st. x \<in> set xs \<Longrightarrow> I st \<Longrightarrow> \<exists>n st'. f (n :: nat) x st = Some st' \<and> I st'"
    and "I st"
  shows "\<exists>n st'. option_fold (f n) xs st = Some st' \<and> I st'"
  using step \<open>I st\<close>
proof (induction xs arbitrary: st)
  case Nil
  then show ?case by simp
next
  case (Cons x xs)
  obtain n st1 where n: "f n x st = Some st1" "I st1" using Cons.prems(1) [of x st] Cons.prems(2) by auto
  obtain m st2 where m: "option_fold (f m) xs st1 = Some st2" "I st2"
    using Cons.IH [OF Cons.prems(1) n(2)] by auto
  have "f (max n m) x st = Some st1" using mono [OF n(1)] by simp
  moreover have "option_fold (f (max n m)) xs st1 = Some st2"
    using option_fold_mono [of "f m" "f (max n m)", OF _ m(1)] mono [of m _ _ _ "max n m"] by simp
  ultimately show ?case using m(2) by (intro exI [of _ "max n m"] exI [of _ st2]) simp
qed

lemma clean_parts_mono:
  assumes "\<And>s d r. f s d = Some r \<Longrightarrow> g s d = Some r"
  shows "clean_property f kv st = Some y \<Longrightarrow> clean_property g kv st = Some y"
    and "clean_items f items st = Some y \<Longrightarrow> clean_items g items st = Some y"
    and "clean_additional f additional st = Some y \<Longrightarrow> clean_additional g additional st = Some y"
  by (auto simp: clean_property_def clean_items_def clean_additional_def dest!: assms
      split: prod.splits option.splits if_splits)

lemma clean_fuel:
  "removeComplexValidation n ord s d = Some r \<Longrightarrow> n \<le> m \<Longrightarrow> removeComplexValidation m ord s d = Some r"
proof (induction n arbitrary: m s d r)
  case 0
  then show ?case by simp
next
  case (Suc n)
  then obtain m' where m: "m = Suc m'" "n \<le> m'" by (cases m) auto
  have le: "removeComplexValidation m' ord s d = Some r" if "removeComplexValidation n ord s d = Some r" for s d r
    by (rule Suc.IH [OF that m(2)])
  note mono = clean_parts_mono [of "removeComplexValidation n ord" "removeComplexValidation m' ord", OF le]
  from Suc.prems(1) obtain st1 st2 where
    st: "option_fold (clean_property (removeComplexValidation n ord)) (fmrange ord (Schema_Properties s))
           (without_alternatives s, d) = Some st1"
      "clean_items (removeComplexValidation n ord) (Schema_Items s) st1 = Some st2"
      "clean_additional (removeComplexValidation n ord) (Schema_AdditionalProperties s) st2 = Some r"
    by (auto simp: bind_eq_Some_conv)
  have "option_fold (clean_property (removeComplexValidation m' ord)) (fmrange ord (Schema_Properties s))
          (without_alternatives s, d) = Some st1"
    by (rule option_fold_mono [OF _ st(1)]) (rule mono(1))
  moreover have "clean_items (removeComplexValidation m' ord) (Schema_Items s) st1 = Some st2"
    by (rule mono(2) [OF _ st(2)])
  moreover have "clean_additional (removeComplexValidation m' ord) (Schema_AdditionalProperties s) st2 = Some r"
    by (rule mono(3) [OF _ st(3)])
  ultimately show ?case unfolding m(1) by simp
qed

text \<open>What is left of a schema after a step of the cleaning, for a recursion that keeps it.\<close>

definition cleaned :: "(string \<Rightarrow> nat) \<Rightarrow> SchemaRef \<Rightarrow> Definitions \<Rightarrow> SchemaRef \<Rightarrow> Definitions \<Rightarrow> bool" where
  "cleaned rank s d s' d' \<longleftrightarrow> Schema_Ref s' = Schema_Ref s \<and> (\<forall>r. refers s' r \<longrightarrow> refers s r) \<and> simple s' \<and>
     ranked rank d' \<and> fmdom d' = fmdom d \<and>
     (\<forall>k x. fmlookup d k = Some x \<longrightarrow> simple x \<longrightarrow> (\<exists>y. fmlookup d' k = Some y \<and> simple y))"

lemma cleaned_update:
  assumes "ranked rank d" and "fmlookup d k = Some s" and "cleaned rank s d s' d'"
  shows "ranked rank (fmupd k s' d')" and "fmdom (fmupd k s' d') = fmdom d"
    and "\<And>j x. fmlookup d j = Some x \<Longrightarrow> simple x \<Longrightarrow> \<exists>y. fmlookup (fmupd k s' d') j = Some y \<and> simple y"
proof -
  have k: "k |\<in>| fmdom d" using assms(2) by (simp add: fmdomI)
  show dom: "fmdom (fmupd k s' d') = fmdom d" using k assms(3) by (auto simp: cleaned_def)
  show "ranked rank (fmupd k s' d')"
    using assms k unfolding ranked_def dom by (auto simp: cleaned_def ranked_def)
  show "\<exists>y. fmlookup (fmupd k s' d') j = Some y \<and> simple y" if "fmlookup d j = Some x" "simple x" for j x
    using assms(3) that by (auto simp: cleaned_def)
qed

text \<open>The state of the loop over the properties.\<close>

definition cleaning :: "(string \<Rightarrow> nat) \<Rightarrow> SchemaRef \<Rightarrow> Definitions \<Rightarrow> SchemaRef \<times> Definitions \<Rightarrow> bool" where
  "cleaning rank s d st \<longleftrightarrow> cleaned rank s d (fst st) (snd st) \<and>
     Schema_Items (fst st) = Schema_Items s \<and> Schema_AdditionalProperties (fst st) = Schema_AdditionalProperties s"

lemma cleaned_trans:
  assumes "cleaned rank s d s1 d1" and "ranked rank d2" and "fmdom d2 = fmdom d1"
    and "\<And>k x. fmlookup d1 k = Some x \<Longrightarrow> simple x \<Longrightarrow> \<exists>y. fmlookup d2 k = Some y \<and> simple y"
    and "Schema_Ref s2 = Schema_Ref s1" and "\<And>r. refers s2 r \<Longrightarrow> refers s r" and "simple s2"
  shows "cleaned rank s d s2 d2"
  using assms unfolding cleaned_def by metis

lemma refers_with_property:
  assumes "refers (with_properties (fmupd k p) s) r" and "Schema_Ref p = []"
  shows "refers s r \<or> refers p r"
  using assms by (subst (asm) refers_iff, subst refers_iff) (auto split: if_splits)

lemma clean_property_total:
  assumes step: "\<And>x N' d1. (fmlookup (Schema_Properties s) k = Some x \<and> Schema_Ref x = [] \<and> N' = N \<or> N' < N) \<Longrightarrow>
      ranked rank d1 \<Longrightarrow> (\<And>r. refers x r \<Longrightarrow> r |\<in>| fmdom d1 \<Longrightarrow> rank r < N') \<Longrightarrow>
      \<exists>n x' d'. removeComplexValidation n ord x d1 = Some (x', d') \<and> cleaned rank x d1 x' d'"
    and p: "fmlookup (Schema_Properties s) k = Some p"
    and bound: "\<And>r. refers s r \<Longrightarrow> r |\<in>| fmdom d \<Longrightarrow> rank r < N"
    and st: "cleaning rank s d st"
  shows "\<exists>n st'. clean_property (removeComplexValidation n ord) (k, p) st = Some st' \<and> cleaning rank s d st'"
proof -
  obtain s1 d1 where st1: "st = (s1, d1)" by (cases st)
  from st have c1: "cleaned rank s d s1 d1" and s1: "Schema_Items s1 = Schema_Items s"
    "Schema_AdditionalProperties s1 = Schema_AdditionalProperties s"
    and d1: "ranked rank d1" "fmdom d1 = fmdom d" and sub: "\<And>r. refers s1 r \<Longrightarrow> refers s r"
    by (auto simp: cleaning_def cleaned_def st1)
  consider (missing) "Schema_Ref p \<noteq> []" "fmlookup d1 (RefName p) = None"
    | (target) target where "Schema_Ref p \<noteq> []" "fmlookup d1 (RefName p) = Some target"
    | (inline) "Schema_Ref p = []" by fastforce
  then show ?thesis
  proof cases
    case missing
    then show ?thesis using st by (auto simp: clean_property_def st1)
  next
    case target
    have in_dom: "RefName p |\<in>| fmdom d1" using target(2) by (simp add: fmdomI)
    have less: "rank (RefName p) < N"
      using bound [OF refers_direct [OF p target(1)]] in_dom d1(2) by simp
    have "\<And>r. refers target r \<Longrightarrow> r |\<in>| fmdom d1 \<Longrightarrow> rank r < rank (RefName p)"
      using d1(1) target(2) unfolding ranked_def by blast
    from step [OF disjI2 [OF less] d1(1) this] obtain n x' d' where
      n: "removeComplexValidation n ord target d1 = Some (x', d')" "cleaned rank target d1 x' d'" by blast
    note u = cleaned_update [OF d1(1) target(2) n(2)]
    have "cleaned rank s d s1 (fmupd (RefName p) x' d')"
      by (rule cleaned_trans [OF c1 u(1,2) u(3)]) (use sub c1 in \<open>auto simp: cleaned_def\<close>)
    then show ?thesis using target n(1) s1
      by (intro exI [of _ n]) (auto simp: clean_property_def st1 cleaning_def)
  next
    case inline
    have "\<And>r. refers p r \<Longrightarrow> r |\<in>| fmdom d1 \<Longrightarrow> rank r < N"
      using bound [OF refers_property [OF p inline]] d1(2) by simp
    with step [of p N d1] p inline d1(1) obtain n x' d' where
      n: "removeComplexValidation n ord p d1 = Some (x', d')" "cleaned rank p d1 x' d'" by blast
    have "cleaned rank s d (with_properties (fmupd k x') s1) d'"
    proof (rule cleaned_trans [OF c1])
      show "refers s r" if "refers (with_properties (fmupd k x') s1) r" for r
        using refers_with_property [OF that] sub n(2) inline refers_property [OF p inline, of r]
        by (auto simp: cleaned_def)
    qed (use n(2) c1 in \<open>auto simp: cleaned_def\<close>)
    then show ?thesis using inline n(1) s1
      by (intro exI [of _ n]) (auto simp: clean_property_def st1 cleaning_def)
  qed
qed

lemma clean_sub_total:
  assumes sub: "\<And>x d1. part = Some x \<Longrightarrow> ranked rank d1 \<Longrightarrow> (\<And>r. refers x r \<Longrightarrow> r |\<in>| fmdom d1 \<Longrightarrow> rank r < N) \<Longrightarrow>
      \<exists>n x' d'. removeComplexValidation n ord x d1 = Some (x', d') \<and> cleaned rank x d1 x' d'"
    and part: "\<And>x r. part = Some x \<Longrightarrow> refers x r \<Longrightarrow> refers s r"
    and bound: "\<And>r. refers s r \<Longrightarrow> r |\<in>| fmdom d \<Longrightarrow> rank r < N"
    and st: "cleaned rank s d (fst st) (snd st)"
    and put: "\<And>x x' r. part = Some x \<Longrightarrow> refers (put x' (fst st)) r \<Longrightarrow> refers (fst st) r \<or> refers x' r"
    and keep: "\<And>x'. Schema_Ref (put x' (fst st)) = Schema_Ref (fst st)" "\<And>x'. simple (put x' (fst st)) = simple (fst st)"
  shows "\<exists>n st'. (case part of None \<Rightarrow> Some st
      | Some x \<Rightarrow> map_option (\<lambda>(x', d'). (put x' (fst st), d')) (removeComplexValidation n ord x (snd st))) = Some st' \<and>
      cleaned rank s d (fst st') (snd st') \<and> (part = None \<longrightarrow> st' = st) \<and> (\<forall>x. part = Some x \<longrightarrow> (\<exists>x'. fst st' = put x' (fst st)))"
proof (cases part)
  case None
  then show ?thesis using st by simp
next
  case (Some x)
  have d: "ranked rank (snd st)" "fmdom (snd st) = fmdom d" using st by (auto simp: cleaned_def)
  have "\<And>r. refers x r \<Longrightarrow> r |\<in>| fmdom (snd st) \<Longrightarrow> rank r < N"
    using bound part [OF Some] d(2) by simp
  from sub [OF Some d(1) this] obtain n x' d' where
    n: "removeComplexValidation n ord x (snd st) = Some (x', d')" "cleaned rank x (snd st) x' d'" by blast
  have "cleaned rank s d (put x' (fst st)) d'"
  proof (rule cleaned_trans [OF st])
    show "refers s r" if "refers (put x' (fst st)) r" for r
      using put [OF Some that] st n(2) part [OF Some] by (auto simp: cleaned_def)
  qed (use n(2) keep st in \<open>auto simp: cleaned_def\<close>)
  then show ?thesis using n(1) Some by (intro exI [of _ n]) auto
qed

lemma refers_without_alternatives: "refers (without_alternatives s) r = refers s r"
  by (subst (1 2) refers_iff) simp

lemma clean_items_fuel:
  "clean_items (removeComplexValidation n ord) items st = Some y \<Longrightarrow> n \<le> m \<Longrightarrow>
   clean_items (removeComplexValidation m ord) items st = Some y"
  by (rule clean_parts_mono(2) [of "removeComplexValidation n ord"]) (rule clean_fuel)

lemma clean_additional_fuel:
  "clean_additional (removeComplexValidation n ord) additional st = Some y \<Longrightarrow> n \<le> m \<Longrightarrow>
   clean_additional (removeComplexValidation m ord) additional st = Some y"
  by (rule clean_parts_mono(3) [of "removeComplexValidation n ord"]) (rule clean_fuel)

lemma clean_property_fuel:
  "clean_property (removeComplexValidation n ord) kv st = Some y \<Longrightarrow> n \<le> m \<Longrightarrow>
   clean_property (removeComplexValidation m ord) kv st = Some y"
  by (rule clean_parts_mono(1) [of "removeComplexValidation n ord"]) (rule clean_fuel)

lemma clean_schema_total:
  assumes ord: "range_order ord"
    and sub: "\<And>x N' d1. (\<exists>k. fmlookup (Schema_Properties s) k = Some x) \<and> N' = N \<or> N' < N \<or>
        Schema_Items s = Some x \<and> N' = N \<or> (\<exists>a. Schema_AdditionalProperties s = Some (a, Some x)) \<and> N' = N \<Longrightarrow>
      ranked rank d1 \<Longrightarrow> (\<And>r. refers x r \<Longrightarrow> r |\<in>| fmdom d1 \<Longrightarrow> rank r < N') \<Longrightarrow>
      \<exists>n x' d'. removeComplexValidation n ord x d1 = Some (x', d') \<and> cleaned rank x d1 x' d'"
    and d: "ranked rank d"
    and bound: "\<And>r. refers s r \<Longrightarrow> r |\<in>| fmdom d \<Longrightarrow> rank r < N"
  shows "\<exists>n s' d'. removeComplexValidation n ord s d = Some (s', d') \<and> cleaned rank s d s' d'"
proof -
  have start: "cleaning rank s d (without_alternatives s, d)"
    using d by (simp add: cleaning_def cleaned_def refers_without_alternatives)
  have "\<exists>n st'. option_fold (clean_property (removeComplexValidation n ord)) (fmrange ord (Schema_Properties s))
          (without_alternatives s, d) = Some st' \<and> cleaning rank s d st'"
  proof (rule option_fold_fuel [where f = "\<lambda>n. clean_property (removeComplexValidation n ord)"])
    fix kv st
    assume kv: "kv \<in> set (fmrange ord (Schema_Properties s))" and st: "cleaning rank s d st"
    obtain k p where [simp]: "kv = (k, p)" by (cases kv)
    have p: "fmlookup (Schema_Properties s) k = Some p" using kv by (simp add: fmrange_set [OF ord])
    show "\<exists>n st'. clean_property (removeComplexValidation n ord) kv st = Some st' \<and> cleaning rank s d st'"
      unfolding \<open>kv = (k, p)\<close> by (rule clean_property_total [OF _ p bound st]) (rule sub, blast+)
  qed (rule clean_property_fuel, assumption+, rule start)
  then obtain n1 st1 where n1: "option_fold (clean_property (removeComplexValidation n1 ord))
      (fmrange ord (Schema_Properties s)) (without_alternatives s, d) = Some st1" and c1: "cleaning rank s d st1" by blast
  have i1: "Schema_Items (fst st1) = Schema_Items s" "Schema_AdditionalProperties (fst st1) = Schema_AdditionalProperties s"
    "cleaned rank s d (fst st1) (snd st1)" using c1 by (auto simp: cleaning_def)
  have "\<exists>n st'. clean_items (removeComplexValidation n ord) (Schema_Items s) st1 = Some st' \<and>
      cleaned rank s d (fst st') (snd st') \<and> (Schema_Items s = None \<longrightarrow> st' = st1) \<and>
      (\<forall>x. Schema_Items s = Some x \<longrightarrow> (\<exists>x'. fst st' = with_items (Some x') (fst st1)))"
    unfolding clean_items_def
  proof (rule clean_sub_total [OF _ _ bound i1(3)])
    show "refers (fst st1) r \<or> refers x' r" if "refers (with_items (Some x') (fst st1)) r" for x' r
      using that by (subst (asm) refers_iff, subst refers_iff) auto
    show "\<exists>n x' d'. removeComplexValidation n ord x d1 = Some (x', d') \<and> cleaned rank x d1 x' d'"
      if "Schema_Items s = Some x" "ranked rank d1" "\<And>r. refers x r \<Longrightarrow> r |\<in>| fmdom d1 \<Longrightarrow> rank r < N" for x d1
      by (rule sub [of x N]) (use that in auto)
  qed (use refers_items in auto)
  then obtain n2 st2 where n2: "clean_items (removeComplexValidation n2 ord) (Schema_Items s) st1 = Some st2"
    and c2: "cleaned rank s d (fst st2) (snd st2)"
    and a2: "Schema_AdditionalProperties (fst st2) = Schema_AdditionalProperties s"
    using i1(2) by (cases "Schema_Items s") auto
  have "\<exists>n st'. clean_additional (removeComplexValidation n ord) (Schema_AdditionalProperties s) st2 = Some st' \<and>
      cleaned rank s d (fst st') (snd st') \<and> (Option.bind (Schema_AdditionalProperties s) snd = None \<longrightarrow> st' = st2) \<and>
      (\<forall>x. Option.bind (Schema_AdditionalProperties s) snd = Some x \<longrightarrow> (\<exists>x'. fst st' = with_additional x' (fst st2)))"
    unfolding clean_additional_def
  proof (rule clean_sub_total [OF _ _ bound c2])
    show "refers (fst st2) r \<or> refers x' r" if "refers (with_additional x' (fst st2)) r" for x' r
      using that by (subst (asm) refers_iff, subst refers_iff) auto
    show "\<exists>n x' d'. removeComplexValidation n ord x d1 = Some (x', d') \<and> cleaned rank x d1 x' d'"
      if "Option.bind (Schema_AdditionalProperties s) snd = Some x" "ranked rank d1"
        "\<And>r. refers x r \<Longrightarrow> r |\<in>| fmdom d1 \<Longrightarrow> rank r < N" for x d1
      by (rule sub [of x N]) (use that in \<open>auto simp: bind_eq_Some_conv\<close>)
  qed (use refers_additional in \<open>auto simp: bind_eq_Some_conv\<close>)
  then obtain n3 st3 where n3: "clean_additional (removeComplexValidation n3 ord) (Schema_AdditionalProperties s) st2 = Some st3"
    and c3: "cleaned rank s d (fst st3) (snd st3)" by blast
  define n where "n = max n1 (max n2 n3)"
  have "option_fold (clean_property (removeComplexValidation n ord)) (fmrange ord (Schema_Properties s))
      (without_alternatives s, d) = Some st1"
    by (rule option_fold_mono [OF _ n1], rule clean_property_fuel, assumption) (simp add: n_def)
  moreover have "clean_items (removeComplexValidation n ord) (Schema_Items s) st1 = Some st2"
    by (rule clean_items_fuel [OF n2]) (simp add: n_def)
  moreover have "clean_additional (removeComplexValidation n ord) (Schema_AdditionalProperties s) st2 = Some st3"
    by (rule clean_additional_fuel [OF n3]) (simp add: n_def)
  ultimately have "removeComplexValidation (Suc n) ord s d = Some st3" by simp
  then show ?thesis using c3 by (intro exI [of _ "Suc n"] exI [of _ "fst st3"] exI [of _ "snd st3"]) simp
qed

lemma removeComplexValidation_total:
  assumes "range_order ord" and "ranked rank d" and "\<And>r. refers s r \<Longrightarrow> r |\<in>| fmdom d \<Longrightarrow> rank r < N"
  shows "\<exists>n s' d'. removeComplexValidation n ord s d = Some (s', d') \<and> cleaned rank s d s' d'"
  using assms(2,3)
proof (induction N arbitrary: s d rule: less_induct)
  case (less N)
  note smaller = less.IH
  from less.prems show ?case
  proof (induction s arbitrary: d)
    case (SchemaRef ref b p a i o1 n1 l1 neg)
    show ?case
    proof (rule clean_schema_total [OF assms(1) _ SchemaRef.prems])
      fix x N' d1
      assume x: "(\<exists>k. fmlookup (Schema_Properties (SchemaRef ref b p a i o1 n1 l1 neg)) k = Some x) \<and> N' = N \<or> N' < N \<or>
          Schema_Items (SchemaRef ref b p a i o1 n1 l1 neg) = Some x \<and> N' = N \<or>
          (\<exists>aa. Schema_AdditionalProperties (SchemaRef ref b p a i o1 n1 l1 neg) = Some (aa, Some x)) \<and> N' = N"
        and d1: "ranked rank d1" "\<And>r. refers x r \<Longrightarrow> r |\<in>| fmdom d1 \<Longrightarrow> rank r < N'"
      show "\<exists>n x' d'. removeComplexValidation n ord x d1 = Some (x', d') \<and> cleaned rank x d1 x' d'"
      proof (cases "N' < N")
        case True
        then show ?thesis using smaller d1 by blast
      next
        case False
        with x have "N' = N" "x \<in> fmran' p \<or> (\<exists>aa. a = Some (aa, Some x)) \<or> i = Some x"
          by (auto intro: fmran'I)
        then show ?thesis using SchemaRef.IH(1-3) d1 by fastforce
      qed
    qed
  qed
qed

definition kept_simple :: "Definitions \<Rightarrow> Definitions \<Rightarrow> bool" where
  "kept_simple d d' \<longleftrightarrow> fmdom d' = fmdom d \<and>
     (\<forall>k x. fmlookup d k = Some x \<longrightarrow> simple x \<longrightarrow> (\<exists>y. fmlookup d' k = Some y \<and> simple y))"

lemma clean_definition_fuel:
  "clean_definition n ord kv d = Some y \<Longrightarrow> n \<le> m \<Longrightarrow> clean_definition m ord kv d = Some y"
  by (auto simp: clean_definition_def split: option.splits dest: clean_fuel)

lemma clean_definition_total:
  assumes "range_order ord" and "ranked rank d"
  shows "\<exists>n d'. clean_definition n ord kv d = Some d' \<and> ranked rank d' \<and> kept_simple d d' \<and>
    (\<forall>y. fmlookup d' (fst kv) = Some y \<longrightarrow> simple y)"
proof (cases "fmlookup d (fst kv)")
  case None
  then show ?thesis using assms by (auto simp: clean_definition_def kept_simple_def)
next
  case (Some s)
  have "\<And>r. refers s r \<Longrightarrow> r |\<in>| fmdom d \<Longrightarrow> rank r < rank (fst kv)"
    using assms(2) Some unfolding ranked_def by blast
  from removeComplexValidation_total [OF assms this] obtain n s' d' where
    n: "removeComplexValidation n ord s d = Some (s', d')" "cleaned rank s d s' d'" by blast
  note u = cleaned_update [OF assms(2) Some n(2)]
  from n(2) have "simple s'" by (simp add: cleaned_def)
  with n(1) Some u show ?thesis
    by (intro exI [of _ n] exI [of _ "fmupd (fst kv) s' d'"]) (auto simp: clean_definition_def kept_simple_def)
qed

lemma clean_definitions_total:
  assumes ord: "range_order ord" and "ranked rank d"
  shows "\<exists>n d'. option_fold (clean_definition n ord) kvs d = Some d' \<and> kept_simple d d' \<and>
    (\<forall>kv\<in>set kvs. \<forall>y. fmlookup d' (fst kv) = Some y \<longrightarrow> simple y)"
  using assms(2)
proof (induction kvs arbitrary: d)
  case Nil
  then show ?case by (simp add: kept_simple_def)
next
  case (Cons kv kvs)
  from clean_definition_total [OF ord Cons.prems, of kv] obtain n d1 where
    n: "clean_definition n ord kv d = Some d1" "ranked rank d1" "kept_simple d d1"
    "\<forall>y. fmlookup d1 (fst kv) = Some y \<longrightarrow> simple y" by blast
  from Cons.IH [OF n(2)] obtain m d2 where
    m: "option_fold (clean_definition m ord) kvs d1 = Some d2" "kept_simple d1 d2"
    "\<forall>kv\<in>set kvs. \<forall>y. fmlookup d2 (fst kv) = Some y \<longrightarrow> simple y" by blast
  have "option_fold (clean_definition (max n m) ord) kvs d1 = Some d2"
    by (rule option_fold_mono [OF _ m(1)], rule clean_definition_fuel, assumption) simp
  then have "option_fold (clean_definition (max n m) ord) (kv # kvs) d = Some d2"
    using clean_definition_fuel [OF n(1), of "max n m"] by simp
  moreover have "kept_simple d d2" using n(3) m(2) unfolding kept_simple_def by metis
  moreover have "simple y" if "fmlookup d2 (fst kv) = Some y" for y
  proof -
    have "fst kv |\<in>| fmdom d1" using that m(2) by (metis fmdomI kept_simple_def)
    then obtain x where "fmlookup d1 (fst kv) = Some x" by (auto simp: fmlookup_dom_iff)
    with n(4) m(2) that show ?thesis unfolding kept_simple_def by force
  qed
  ultimately show ?case using m(3) by auto
qed


section \<open>Samples\<close>

definition text_env :: go_env where
  "text_env =
     \<lparr>LookupEnv = (\<lambda>_. None), NamespaceFile = None, Sum512 = (\<lambda>_. replicate 64 0), LabelSelector_Size = (\<lambda>_. 0),
      NestedString = (\<lambda>_ _. ([], False, None)), NestedFieldNoCopy = (\<lambda>_ _. (None, False, None)),
      JSON_Text = (\<lambda>j. case j of JStr x \<Rightarrow> x | _ \<Rightarrow> [])\<rparr>"

definition object_schema :: "(string \<times> SchemaRef) list \<Rightarrow> SchemaRef" where
  "object_schema ps =
     SchemaRef [] (SchemaBase_zero\<lparr>Schema_Type := ''object''\<rparr>) (fmap_of_list ps) None None [] [] [] None"

definition enum_schema :: "string list \<Rightarrow> SchemaRef" where
  "enum_schema xs = plain_schema (SchemaBase_zero\<lparr>Schema_Type := ''string'', Schema_Enum := map JStr xs\<rparr>)"

definition union_schema :: "string list \<Rightarrow> SchemaRef" where
  "union_schema names =
     SchemaRef [] (SchemaBase_zero\<lparr>Schema_Type := ''object''\<rparr>)
       (fmap_of_list [(''name'', plain_schema (SchemaBase_zero\<lparr>Schema_Type := ''string''\<rparr>))])
       (Some (Some True, None)) None (map (\<lambda>n. reference (''#/definitions/'' @ n)) names) [] [] None"

definition base_document :: Document where
  "base_document =
     \<lparr>Document_Schema = plain_schema SchemaBase_zero, Document_SchemaVersion = ''v1'',
      Document_Definitions = fmap_of_list
        [(''Action'', union_schema [''Redact'']), (''Redact'', object_schema [(''level'', enum_schema [''low''])])]\<rparr>"

definition layer_document :: Document where
  "layer_document =
     \<lparr>Document_Schema = plain_schema SchemaBase_zero, Document_SchemaVersion = [],
      Document_Definitions = fmap_of_list [(''Redact'', object_schema [(''level'', enum_schema [''high''])])]\<rparr>"

lemma text_env_simps [simp]: "JSON_Text text_env (JStr x) = x"
  by (simp add: text_env_def)

definition compiled_document :: Document where
  "compiled_document =
     (case Documents 0 text_env sorted_list_of_fset base_document [layer_document] False of
        Ok (Some doc) \<Rightarrow> doc | _ \<Rightarrow> base_document)"

lemma compiled_document_Ok:
  "Documents 0 text_env sorted_list_of_fset base_document [layer_document] False = Ok (Some compiled_document)"
  unfolding compiled_document_def by code_simp

text \<open>An executable check that the references of a schema satisfy a predicate.\<close>

primrec refs_all :: "(string \<Rightarrow> bool) \<Rightarrow> SchemaRef \<Rightarrow> bool" where
  "refs_all P (SchemaRef ref b properties additional items oneOf anyOf allOf neg) \<longleftrightarrow>
     fmpred (\<lambda>_ ok. ok) (fmmap (\<lambda>p. if Schema_Ref p \<noteq> [] then P (RefName p) else refs_all P p) properties) \<and>
     map_option (refs_all P) items \<noteq> Some False \<and>
     Option.bind (map_option (map_prod id (map_option (refs_all P))) additional) snd \<noteq> Some False"

lemma refs_all_refers: "refers s r \<Longrightarrow> refs_all P s \<Longrightarrow> P r"
proof (induction rule: refers.induct)
  case (refers_direct s k p)
  then show ?case by (cases s) (auto dest: fmpredD)
next
  case (refers_property s k p r)
  then show ?case by (cases s) (auto dest: fmpredD)
next
  case (refers_items s i r)
  then show ?case by (cases s) auto
next
  case (refers_additional s a x r)
  then show ?case by (cases s) auto
qed

lemma ranked_check:
  assumes "fmpred (\<lambda>k. refs_all (\<lambda>r. r |\<in>| fmdom defs \<longrightarrow> rank r < rank k)) defs"
  shows "ranked rank defs"
  unfolding ranked_def
proof (intro allI impI)
  fix k s r
  assume s: "fmlookup defs k = Some s" "refers s r" and r: "r |\<in>| fmdom defs"
  from fmpredD [OF assms s(1)] have "refs_all (\<lambda>r. r |\<in>| fmdom defs \<longrightarrow> rank r < rank k) s" .
  from refs_all_refers [OF s(2) this] r show "rank r < rank k" by simp
qed



text \<open>
  Without the hypothesis on the references the recursion does not end: a definition that refers to
  itself, as the definition of a list or a tree does, exhausts every fuel.
\<close>

definition cyclic_schema :: SchemaRef where
  "cyclic_schema = object_schema [(''next'', reference ''#/definitions/T'')]"

definition cyclic_document :: Document where
  "cyclic_document =
     \<lparr>Document_Schema = plain_schema SchemaBase_zero, Document_SchemaVersion = ''v1'',
      Document_Definitions = fmap_of_list [(''T'', cyclic_schema)]\<rparr>"

lemma cyclic_clean: "removeComplexValidation n sorted_list_of_fset cyclic_schema (Document_Definitions cyclic_document) = None"
proof (induction n)
  case (Suc n)
  have "fmrange sorted_list_of_fset (Schema_Properties cyclic_schema) = [(''next'', reference ''#/definitions/T'')]"
    by code_simp
  moreover have "RefName (reference ''#/definitions/T'') = ''T''" by code_simp
  ultimately show ?case using Suc
    by (simp add: clean_property_def cyclic_document_def reference_def)
qed simp

lemma cyclic_codegen_diverges: "Documents n text_env sorted_list_of_fset cyclic_document [] True = Ok None"
proof -
  have fold: "go_fold (transform_definition text_env sorted_list_of_fset)
      (fmrange sorted_list_of_fset (Document_Definitions cyclic_document))
      \<lparr>T_Definitions = mergeDefinitions text_env [cyclic_document], T_Visited = [], T_Replaced = []\<rparr> =
    Ok \<lparr>T_Definitions = Document_Definitions cyclic_document, T_Visited = [''T''], T_Replaced = []\<rparr>"
    by code_simp
  have range: "fmrange sorted_list_of_fset (Document_Definitions cyclic_document) = [(''T'', cyclic_schema)]"
    by code_simp
  have "clean_definition n sorted_list_of_fset (''T'', cyclic_schema) (Document_Definitions cyclic_document) = None"
    using cyclic_clean [of n] by (simp add: clean_definition_def cyclic_document_def)
  then show ?thesis unfolding Documents_def transform_doc_def fold by (simp add: range)
qed

text \<open>
  A reference among the alternatives of a union marks the definition it names as visited, so that the
  result depends on the order in which the definitions are iterated over: the enumeration of the level
  is filled in only when its definition comes before the union.
\<close>

definition ordered_document :: Document where
  "ordered_document =
     \<lparr>Document_Schema = plain_schema SchemaBase_zero, Document_SchemaVersion = ''v1'',
      Document_Definitions = fmap_of_list
        [(''Action'', union_schema [''Redact'']),
         (''Redact'', SchemaRef [] SchemaBase_zero (fmap_of_list [(''level'', enum_schema [])]) None None []
            [object_schema [(''level'', enum_schema [''low''])]] [] None)]\<rparr>"

definition compiled_level :: "range_ord \<Rightarrow> json list" where
  "compiled_level ord =
     (case Documents 0 text_env ord ordered_document [] False of
        Ok (Some doc) \<Rightarrow>
          (case fmlookup (Document_Definitions doc) ''Redact'' of
             Some s \<Rightarrow>
               (case fmlookup (Schema_Properties s) ''level'' of
                  Some l \<Rightarrow> Schema_Enum (Schema_Base l) | None \<Rightarrow> [])
           | None \<Rightarrow> [])
      | _ \<Rightarrow> [])"

lemma compile_depends_on_order:
  "\<exists>ord ord'. range_order ord \<and> range_order ord' \<and> compiled_level ord = [] \<and> compiled_level ord' = [JStr ''low'']"
proof -
  have "compiled_level sorted_list_of_fset = []" by code_simp
  moreover have "compiled_level (\<lambda>A. rev (sorted_list_of_fset A)) = [JStr ''low'']" by code_simp
  ultimately show ?thesis using range_order_sorted range_order_rev [OF range_order_sorted] by blast
qed

end
