(* ===== verification/Taxonomy_Structural.thy ===== *)
theory Taxonomy_Structural
  imports Taxonomy_Compile
begin

text \<open>
  The conversion of a taxonomy document to the JSON schema type of Kubernetes, the methods
  \<^verbatim>\<open>ToJSONSchemaProps\<close> of \<^verbatim>\<open>src/pkg/taxonomy/model\<close> and \<^verbatim>\<open>ToFlatJSONSchemaProps\<close>, and the check for
  a structural schema, \<^verbatim>\<open>src/pkg/taxonomy/validate/structural.go\<close>, whose validator is a parameter.

  The flat conversion replaces a reference by what it refers to, without a bound on the depth; the model
  takes fuel, and \<open>None\<close> is the value of a conversion that needs more. A nil pointer is \<open>Ok None\<close>; where
  the code dereferences it there is a panic.
\<close>

section \<open>Conversion\<close>

text \<open>The fields that are copied as they are keep their names, in \<open>Props_Base\<close>.\<close>

datatype JSONSchemaProps = JSONSchemaProps
  (Props_Ref: "string option")
  (Props_Schema: string)
  (Props_Base: SchemaBase)
  (Props_Items: "JSONSchemaProps option")
  (Props_AllOf: "JSONSchemaProps list")
  (Props_OneOf: "JSONSchemaProps list")
  (Props_AnyOf: "JSONSchemaProps list")
  (Props_Not: "JSONSchemaProps option")
  (Props_Properties: "(string, JSONSchemaProps) fmap")
  (Props_Additional: "(bool \<times> JSONSchemaProps option) option")
  (Props_Definitions: "(string, JSONSchemaProps) fmap")

type_synonym converted_schema = "JSONSchemaProps option go option"

definition fuel_bind :: "'a go option \<Rightarrow> ('a \<Rightarrow> 'b go option) \<Rightarrow> 'b go option" where
  "fuel_bind m f =
     (case m of None \<Rightarrow> None | Some (Ok a) \<Rightarrow> f a | Some (Err e) \<Rightarrow> Some (Err e) | Some (Panic e) \<Rightarrow> Some (Panic e))"

definition props_of :: "(SchemaRef \<Rightarrow> converted_schema) \<Rightarrow> SchemaRef option \<Rightarrow> converted_schema" where
  "props_of f s = (case s of None \<Rightarrow> Some (Ok None) | Some x \<Rightarrow> f x)"

primrec SchemaRefs_ToJSONSchemaProps ::
  "(SchemaRef \<Rightarrow> converted_schema) \<Rightarrow> SchemaRef list \<Rightarrow> JSONSchemaProps list go option" where
  "SchemaRefs_ToJSONSchemaProps f [] = Some (Ok [])"
| "SchemaRefs_ToJSONSchemaProps f (s # ss) =
     fuel_bind (f s) (\<lambda>p.
       case p of
         None \<Rightarrow> Some (Panic ''nil pointer dereference'')
       | Some x \<Rightarrow> fuel_bind (SchemaRefs_ToJSONSchemaProps f ss) (\<lambda>xs. Some (Ok (x # xs))))"

definition Schemas_ToJSONSchemaProps ::
  "range_ord \<Rightarrow> (SchemaRef \<Rightarrow> converted_schema) \<Rightarrow> (string, SchemaRef) fmap \<Rightarrow> (string, JSONSchemaProps) fmap go option" where
  "Schemas_ToJSONSchemaProps ord f schemas =
     (let entries = fmrange ord schemas
      in fuel_bind (SchemaRefs_ToJSONSchemaProps f (map snd entries))
           (\<lambda>xs. Some (Ok (fmap_of_list (zip (map fst entries) xs)))))"

definition AdditionalPropertiesType_ToJSONSchemaProps ::
  "(SchemaRef \<Rightarrow> converted_schema) \<Rightarrow> (bool option \<times> SchemaRef option) option \<Rightarrow>
   (bool \<times> JSONSchemaProps option) option go option" where
  "AdditionalPropertiesType_ToJSONSchemaProps f a =
     (case a of
        None \<Rightarrow> Some (Ok None)
      | Some (_, Some s) \<Rightarrow> fuel_bind (f s) (\<lambda>p. Some (Ok (Some (True, p))))
      | Some (Some _, None) \<Rightarrow> Some (Ok None)
      | Some (None, None) \<Rightarrow> Some (Ok (Some (False, None))))"

definition Schema_ToJSONSchemaProps :: "range_ord \<Rightarrow> (SchemaRef \<Rightarrow> converted_schema) \<Rightarrow> SchemaRef \<Rightarrow> converted_schema" where
  "Schema_ToJSONSchemaProps ord f schema =
     fuel_bind (props_of f (Schema_Items schema)) (\<lambda>items.
     fuel_bind (SchemaRefs_ToJSONSchemaProps f (Schema_AllOf schema)) (\<lambda>allOf.
     fuel_bind (SchemaRefs_ToJSONSchemaProps f (Schema_OneOf schema)) (\<lambda>oneOf.
     fuel_bind (SchemaRefs_ToJSONSchemaProps f (Schema_AnyOf schema)) (\<lambda>anyOf.
     fuel_bind (props_of f (Schema_Not schema)) (\<lambda>negated.
     fuel_bind (Schemas_ToJSONSchemaProps ord f (Schema_Properties schema)) (\<lambda>properties.
     fuel_bind (AdditionalPropertiesType_ToJSONSchemaProps f (Schema_AdditionalProperties schema)) (\<lambda>additional.
       Some (Ok (Some (JSONSchemaProps None [] (Schema_Base schema) items allOf oneOf anyOf negated properties
                         additional fmempty))))))))))"

definition reference_props :: "string \<Rightarrow> JSONSchemaProps" where
  "reference_props r = JSONSchemaProps (Some r) [] SchemaBase_zero None [] [] [] None fmempty None fmempty"

primrec SchemaRef_ToJSONSchemaProps :: "nat \<Rightarrow> range_ord \<Rightarrow> Definitions option \<Rightarrow> SchemaRef \<Rightarrow> converted_schema" where
  "SchemaRef_ToJSONSchemaProps 0 ord flattenBy = (\<lambda>s. None)"
| "SchemaRef_ToJSONSchemaProps (Suc n) ord flattenBy =
     (\<lambda>s. case flattenBy of
            Some defs \<Rightarrow>
              if Schema_Ref s \<noteq> []
              then props_of (SchemaRef_ToJSONSchemaProps n ord flattenBy) (Deref defs s)
              else Schema_ToJSONSchemaProps ord (SchemaRef_ToJSONSchemaProps n ord flattenBy) s
          | None \<Rightarrow>
              if Schema_Ref s \<noteq> []
              then Some (Ok (Some (reference_props (Schema_Ref s))))
              else Schema_ToJSONSchemaProps ord (SchemaRef_ToJSONSchemaProps n ord flattenBy) s)"

definition Document_ToJSONSchemaProps :: "nat \<Rightarrow> range_ord \<Rightarrow> Document \<Rightarrow> converted_schema" where
  "Document_ToJSONSchemaProps n ord d =
     (let f = SchemaRef_ToJSONSchemaProps n ord None
      in fuel_bind (Schema_ToJSONSchemaProps ord f (Document_Schema d)) (\<lambda>p.
         case p of
           None \<Rightarrow> Some (Panic ''nil pointer dereference'')
         | Some (JSONSchemaProps r _ b items allOf oneOf anyOf negated properties additional _) \<Rightarrow>
             fuel_bind (Schemas_ToJSONSchemaProps ord f (Document_Definitions d)) (\<lambda>definitions.
               Some (Ok (Some (JSONSchemaProps r (Document_SchemaVersion d) b items allOf oneOf anyOf negated
                                 properties additional definitions))))))"

definition ToFlatJSONSchemaProps :: "nat \<Rightarrow> range_ord \<Rightarrow> Document \<Rightarrow> converted_schema" where
  "ToFlatJSONSchemaProps n ord d =
     (let f = SchemaRef_ToJSONSchemaProps n ord (Some (Document_Definitions d))
      in fuel_bind (Schema_ToJSONSchemaProps ord f (Document_Schema d)) (\<lambda>p.
         case p of
           None \<Rightarrow> Some (Panic ''nil pointer dereference'')
         | Some (JSONSchemaProps r _ b items allOf oneOf anyOf negated _ additional definitions) \<Rightarrow>
             fuel_bind (Schemas_ToJSONSchemaProps ord f (Document_Definitions d)) (\<lambda>properties.
               Some (Ok (Some (JSONSchemaProps r (Document_SchemaVersion d) (b\<lparr>Schema_Type := ''object''\<rparr>) items
                                 allOf oneOf anyOf negated properties additional definitions))))))"

text \<open>
  The custom resource definition that is handed to the validator of Kubernetes has fixed names and the
  flat schema; the validator gives the errors as one.
\<close>

definition IsStructuralSchema ::
  "nat \<Rightarrow> range_ord \<Rightarrow> (string \<Rightarrow> string + Document) \<Rightarrow> (JSONSchemaProps option \<Rightarrow> string option) \<Rightarrow> string \<Rightarrow>
   string option go option" where
  "IsStructuralSchema n ord read_document validate_crd path =
     (case read_document path of
        Inl err \<Rightarrow> Some (Ok (Some err))
      | Inr document \<Rightarrow> fuel_bind (ToFlatJSONSchemaProps n ord document) (\<lambda>p. Some (Ok (validate_crd p))))"

text \<open>
  The JSON methods of the additional properties, over a decoder and an encoder of schemas: a boolean is
  tried first, and null is taken for a missing boolean.
\<close>

definition AdditionalPropertiesType_UnmarshalJSON ::
  "(json \<Rightarrow> string + SchemaRef option) \<Rightarrow> json \<Rightarrow> string + (bool option \<times> SchemaRef option)" where
  "AdditionalPropertiesType_UnmarshalJSON decode data =
     (case data of
        JBool b \<Rightarrow> Inr (Some b, None)
      | JNull \<Rightarrow> Inr (None, None)
      | _ \<Rightarrow> (case decode data of Inl err \<Rightarrow> Inl err | Inr s \<Rightarrow> Inr (None, s)))"

definition AdditionalPropertiesType_MarshalJSON ::
  "(SchemaRef \<Rightarrow> json) \<Rightarrow> bool option \<times> SchemaRef option \<Rightarrow> json" where
  "AdditionalPropertiesType_MarshalJSON encode a =
     (case a of (Some b, _) \<Rightarrow> JBool b | (None, Some s) \<Rightarrow> encode s | (None, None) \<Rightarrow> JNull)"

section \<open>Termination\<close>

definition children :: "SchemaRef \<Rightarrow> SchemaRef set" where
  "children s = fmran' (Schema_Properties s) \<union> set_option (Option.bind (Schema_AdditionalProperties s) snd) \<union>
     set_option (Schema_Items s) \<union> set (Schema_OneOf s) \<union> set (Schema_AnyOf s) \<union> set (Schema_AllOf s) \<union> set_option (Schema_Not s)"

text \<open>The names that occur in a schema, and documents in which they are defined and acyclic.\<close>

inductive mentions :: "SchemaRef \<Rightarrow> string \<Rightarrow> bool" where
  mentions_self: "Schema_Ref s \<noteq> [] \<Longrightarrow> mentions s (RefName s)"
| mentions_child: "Schema_Ref s = [] \<Longrightarrow> c \<in> children s \<Longrightarrow> mentions c r \<Longrightarrow> mentions s r"

definition grounded :: "(string \<Rightarrow> nat) \<Rightarrow> Definitions \<Rightarrow> bool" where
  "grounded rank defs \<longleftrightarrow>
     (\<forall>k s r. fmlookup defs k = Some s \<longrightarrow> mentions s r \<longrightarrow> r |\<in>| fmdom defs \<and> rank r < rank k)"

inductive flat :: "JSONSchemaProps \<Rightarrow> bool" where
  flatI: "Props_Ref p = None \<Longrightarrow>
    (\<And>c. c \<in> set_option (Props_Items p) \<union> set (Props_AllOf p) \<union> set (Props_OneOf p) \<union> set (Props_AnyOf p) \<union>
       set_option (Props_Not p) \<union> fmran' (Props_Properties p) \<union> set_option (Option.bind (Props_Additional p) snd) \<union>
       fmran' (Props_Definitions p) \<Longrightarrow> flat c) \<Longrightarrow> flat p"

lemma fuel_bind_Ok_iff: "fuel_bind m f = Some (Ok b) \<longleftrightarrow> (\<exists>a. m = Some (Ok a) \<and> f a = Some (Ok b))"
  by (auto simp: fuel_bind_def split: option.splits go.splits)

text \<open>More fuel does not change a result.\<close>

definition below :: "(SchemaRef \<Rightarrow> converted_schema) \<Rightarrow> (SchemaRef \<Rightarrow> converted_schema) \<Rightarrow> bool" where
  "below f g \<longleftrightarrow> (\<forall>s r. f s = Some r \<longrightarrow> g s = Some r)"

lemma fuel_bind_below:
  assumes "fuel_bind m k = Some r" and "\<And>x. m = Some x \<Longrightarrow> m' = Some x" and "\<And>a y. k a = Some y \<Longrightarrow> k' a = Some y"
  shows "fuel_bind m' k' = Some r"
  using assms by (auto simp: fuel_bind_def split: option.splits go.splits)

lemma props_of_below: "below f g \<Longrightarrow> props_of f s = Some r \<Longrightarrow> props_of g s = Some r"
  by (auto simp: props_of_def below_def split: option.splits)

lemma refs_below:
  assumes "below f g"
  shows "SchemaRefs_ToJSONSchemaProps f ss = Some r \<Longrightarrow> SchemaRefs_ToJSONSchemaProps g ss = Some r"
proof (induction ss arbitrary: r)
  case (Cons s ss)
  show ?case unfolding SchemaRefs_ToJSONSchemaProps.simps
  proof (rule fuel_bind_below [OF Cons.prems [unfolded SchemaRefs_ToJSONSchemaProps.simps]])
    show "g s = Some x" if "f s = Some x" for x using that assms by (simp add: below_def)
    show "(case a of None \<Rightarrow> Some (Panic ''nil pointer dereference'')
        | Some x \<Rightarrow> fuel_bind (SchemaRefs_ToJSONSchemaProps g ss) (\<lambda>xs. Some (Ok (x # xs)))) = Some y"
      if "(case a of None \<Rightarrow> Some (Panic ''nil pointer dereference'')
        | Some x \<Rightarrow> fuel_bind (SchemaRefs_ToJSONSchemaProps f ss) (\<lambda>xs. Some (Ok (x # xs)))) = Some y" for a y
      using that by (cases a) (auto elim!: fuel_bind_below dest: Cons.IH)
  qed
qed simp

lemma schemas_below:
  "below f g \<Longrightarrow> Schemas_ToJSONSchemaProps ord f m = Some r \<Longrightarrow> Schemas_ToJSONSchemaProps ord g m = Some r"
  unfolding Schemas_ToJSONSchemaProps_def Let_def by (erule fuel_bind_below) (rule refs_below)

lemma additional_below:
  "below f g \<Longrightarrow> AdditionalPropertiesType_ToJSONSchemaProps f a = Some r \<Longrightarrow>
   AdditionalPropertiesType_ToJSONSchemaProps g a = Some r"
  by (auto simp: AdditionalPropertiesType_ToJSONSchemaProps_def below_def elim!: fuel_bind_below split: option.splits)

lemma schema_below:
  "below f g \<Longrightarrow> Schema_ToJSONSchemaProps ord f s = Some r \<Longrightarrow> Schema_ToJSONSchemaProps ord g s = Some r"
  unfolding Schema_ToJSONSchemaProps_def
  by (erule fuel_bind_below, erule (1) props_of_below refs_below schemas_below additional_below)+

lemma ref_below: "n \<le> m \<Longrightarrow> below (SchemaRef_ToJSONSchemaProps n ord fl) (SchemaRef_ToJSONSchemaProps m ord fl)"
proof (induction n arbitrary: m)
  case 0
  then show ?case by (simp add: below_def)
next
  case (Suc n)
  then obtain k where m: "m = Suc k" "n \<le> k" by (cases m) auto
  note b = Suc.IH [OF m(2)]
  show ?case unfolding m(1) below_def
    by (cases fl) (use props_of_below [OF b] schema_below [OF b] in \<open>auto split: if_splits\<close>)
qed

text \<open>A conversion that ends with a schema without references, from some amount of fuel on.\<close>

definition flattens :: "(nat \<Rightarrow> 'a go option) \<Rightarrow> ('a \<Rightarrow> bool) \<Rightarrow> bool" where
  "flattens f P \<longleftrightarrow> (\<exists>a. P a \<and> (\<forall>\<^sub>F n in sequentially. f n = Some (Ok a)))"

lemma flattens_const: "P a \<Longrightarrow> flattens (\<lambda>n. Some (Ok a)) P"
  by (auto simp: flattens_def)

lemma flattens_bind:
  assumes "flattens f P" and "\<And>a. P a \<Longrightarrow> flattens (\<lambda>n. g n a) Q"
  shows "flattens (\<lambda>n. fuel_bind (f n) (g n)) Q"
proof -
  from assms(1) obtain a where a: "P a" "\<forall>\<^sub>F n in sequentially. f n = Some (Ok a)" by (auto simp: flattens_def)
  from assms(2) [OF a(1)] obtain b where b: "Q b" "\<forall>\<^sub>F n in sequentially. g n a = Some (Ok b)" by (auto simp: flattens_def)
  from a(2) b(2) have "\<forall>\<^sub>F n in sequentially. fuel_bind (f n) (g n) = Some (Ok b)"
    by eventually_elim (simp add: fuel_bind_def)
  with b(1) show ?thesis by (auto simp: flattens_def)
qed

definition flat_pointer :: "JSONSchemaProps option \<Rightarrow> bool" where
  "flat_pointer p = (\<exists>x. p = Some x \<and> flat x)"

lemma flattens_props_of:
  "(\<And>x. s = Some x \<Longrightarrow> flattens (\<lambda>n. f n x) flat_pointer) \<Longrightarrow>
   flattens (\<lambda>n. props_of (f n) s) (\<lambda>p. \<forall>x\<in>set_option p. flat x)"
  by (cases s) (auto simp: props_of_def flattens_def flat_pointer_def)

lemma flattens_refs:
  "(\<And>s. s \<in> set ss \<Longrightarrow> flattens (\<lambda>n. f n s) flat_pointer) \<Longrightarrow>
   flattens (\<lambda>n. SchemaRefs_ToJSONSchemaProps (f n) ss) (\<lambda>ps. length ps = length ss \<and> (\<forall>p\<in>set ps. flat p))"
proof (induction ss)
  case Nil
  then show ?case by (simp add: flattens_const)
next
  case (Cons s ss)
  have rest: "flattens (\<lambda>n. SchemaRefs_ToJSONSchemaProps (f n) ss) (\<lambda>ps. length ps = length ss \<and> (\<forall>p\<in>set ps. flat p))"
    using Cons by simp
  show ?case unfolding SchemaRefs_ToJSONSchemaProps.simps
  proof (rule flattens_bind [where P = flat_pointer])
    fix a assume "flat_pointer a"
    then obtain x where x: "a = Some x" "flat x" by (auto simp: flat_pointer_def)
    show "flattens (\<lambda>n. case a of None \<Rightarrow> Some (Panic ''nil pointer dereference'')
        | Some x \<Rightarrow> fuel_bind (SchemaRefs_ToJSONSchemaProps (f n) ss) (\<lambda>xs. Some (Ok (x # xs))))
      (\<lambda>ps. length ps = length (s # ss) \<and> (\<forall>p\<in>set ps. flat p))"
      unfolding x(1) option.case by (rule flattens_bind [OF rest], rule flattens_const) (use x(2) in auto)
  qed (use Cons.prems in simp)
qed

lemma flattens_schemas:
  assumes "range_order ord" and "\<And>s. s \<in> fmran' m \<Longrightarrow> flattens (\<lambda>n. f n s) flat_pointer"
  shows "flattens (\<lambda>n. Schemas_ToJSONSchemaProps ord (f n) m) (\<lambda>r. fmdom r = fmdom m \<and> (\<forall>p\<in>fmran' r. flat p))"
  unfolding Schemas_ToJSONSchemaProps_def Let_def
proof (rule flattens_bind [OF flattens_refs])
  let ?es = "fmrange ord m"
  show "flattens (\<lambda>n. f n s) flat_pointer" if "s \<in> set (map snd ?es)" for s
  proof -
    from that obtain k where "fmlookup m k = Some s" by (auto simp: fmrange_set [OF assms(1)])
    then show ?thesis by (intro assms(2) fmran'I)
  qed
  fix ps assume ps: "length ps = length (map snd ?es) \<and> (\<forall>p\<in>set ps. flat p)"
  have fst: "map fst (zip (map fst ?es) ps) = map fst ?es" using ps by simp
  have "fmdom (fmap_of_list (zip (map fst ?es) ps)) = fset_of_list (map fst (zip (map fst ?es) ps))"
    by (rule fmdom_fmap_of_list)
  also have "\<dots> = fset_of_list (map fst ?es)" by (simp only: fst)
  also have "\<dots> = fmdom m" unfolding fmrange_fst [OF assms(1)]
    by (rule fset_eqI) (simp add: range_orderD [OF assms(1)] fset_of_list_elem)
  finally have "fmdom (fmap_of_list (zip (map fst ?es) ps)) = fmdom m" .
  moreover have "flat p" if p: "p \<in> fmran' (fmap_of_list (zip (map fst ?es) ps))" for p
  proof -
    from p obtain k where "map_of (zip (map fst ?es) ps) k = Some p" by (auto simp: fmlookup_ran'_iff fmlookup_of_list)
    then have "p \<in> set ps" by (intro set_zip_rightD [OF map_of_SomeD])
    with ps show ?thesis by blast
  qed
  ultimately show "flattens (\<lambda>n. Some (Ok (fmap_of_list (zip (map fst ?es) ps))))
      (\<lambda>r. fmdom r = fmdom m \<and> (\<forall>p\<in>fmran' r. flat p))"
    by (intro flattens_const) simp
qed

lemma flattens_additional:
  assumes "\<And>a x. additional = Some (a, Some x) \<Longrightarrow> flattens (\<lambda>n. f n x) flat_pointer"
  shows "flattens (\<lambda>n. AdditionalPropertiesType_ToJSONSchemaProps (f n) additional)
    (\<lambda>r. \<forall>x\<in>set_option (Option.bind r snd). flat x)"
proof (cases "Option.bind additional snd")
  case None
  then consider "additional = None" | "additional = Some (None, None)" | x where "additional = Some (Some x, None)"
    by (cases additional) fastforce+
  then show ?thesis by cases (simp_all add: AdditionalPropertiesType_ToJSONSchemaProps_def flattens_const)
next
  case (Some x)
  then obtain a where a: "additional = Some (a, Some x)" by (auto simp: bind_eq_Some_conv)
  have "AdditionalPropertiesType_ToJSONSchemaProps (f n) additional =
      fuel_bind (f n x) (\<lambda>p. Some (Ok (Some (True, p))))" for n
    by (simp add: a AdditionalPropertiesType_ToJSONSchemaProps_def split: option.splits)
  moreover have "flattens (\<lambda>n. fuel_bind (f n x) (\<lambda>p. Some (Ok (Some (True, p)))))
      (\<lambda>r. \<forall>x\<in>set_option (Option.bind r snd). flat x)"
    by (rule flattens_bind [OF assms [OF a]], rule flattens_const) (auto simp: flat_pointer_def)
  ultimately show ?thesis by simp
qed

lemma flat_parts:
  assumes "\<forall>x\<in>set_option items. flat x" and "length allOf = k1 \<and> (\<forall>p\<in>set allOf. flat p)"
    and "length oneOf = k2 \<and> (\<forall>p\<in>set oneOf. flat p)" and "length anyOf = k3 \<and> (\<forall>p\<in>set anyOf. flat p)"
    and "\<forall>x\<in>set_option negated. flat x" and "fmdom properties = names \<and> (\<forall>p\<in>fmran' properties. flat p)"
    and "\<forall>x\<in>set_option (Option.bind additional snd). flat x"
  shows "flat_pointer (Some (JSONSchemaProps None [] b items allOf oneOf anyOf negated properties additional fmempty))"
proof -
  let ?p = "JSONSchemaProps None [] b items allOf oneOf anyOf negated properties additional fmempty"
  have "flat ?p"
  proof (rule flatI)
    fix c
    assume c: "c \<in> set_option (Props_Items ?p) \<union>
      set (Props_AllOf ?p) \<union>
      set (Props_OneOf ?p) \<union>
      set (Props_AnyOf ?p) \<union>
      set_option (Props_Not ?p) \<union>
      fmran' (Props_Properties ?p) \<union>
      set_option (Option.bind (Props_Additional ?p) snd) \<union>
      fmran' (Props_Definitions ?p)"
    then consider "c \<in> set_option items" | "c \<in> set allOf" | "c \<in> set oneOf" | "c \<in> set anyOf" | "c \<in> set_option negated"
      | "c \<in> fmran' properties" | "c \<in> set_option (Option.bind additional snd)"
      unfolding JSONSchemaProps.sel by (auto simp del: set_bind_option)
    then show "flat c" by cases (use assms in blast)+
  qed simp
  then show ?thesis by (simp add: flat_pointer_def)
qed

lemma flattens_schema:
  assumes "range_order ord" and sub: "\<And>c. c \<in> children s \<Longrightarrow> flattens (\<lambda>n. f n c) flat_pointer"
  shows "flattens (\<lambda>n. Schema_ToJSONSchemaProps ord (f n) s) flat_pointer"
proof -
  have items: "flattens (\<lambda>n. props_of (f n) (Schema_Items s)) (\<lambda>p. \<forall>x\<in>set_option p. flat x)"
    by (rule flattens_props_of, rule sub) (simp add: children_def)
  have refs: "flattens (\<lambda>n. SchemaRefs_ToJSONSchemaProps (f n) ss) (\<lambda>ps. length ps = length ss \<and> (\<forall>p\<in>set ps. flat p))"
    if "set ss \<subseteq> children s" for ss
    by (rule flattens_refs, rule sub) (use that in blast)
  have lists: "set (Schema_AllOf s) \<subseteq> children s" "set (Schema_OneOf s) \<subseteq> children s" "set (Schema_AnyOf s) \<subseteq> children s"
    by (auto simp: children_def)
  have negated: "flattens (\<lambda>n. props_of (f n) (Schema_Not s)) (\<lambda>p. \<forall>x\<in>set_option p. flat x)"
    by (rule flattens_props_of, rule sub) (simp add: children_def)
  have properties: "flattens (\<lambda>n. Schemas_ToJSONSchemaProps ord (f n) (Schema_Properties s))
      (\<lambda>r. fmdom r = fmdom (Schema_Properties s) \<and> (\<forall>p\<in>fmran' r. flat p))"
    by (rule flattens_schemas [OF assms(1)], rule sub) (simp add: children_def)
  have additional: "flattens (\<lambda>n. AdditionalPropertiesType_ToJSONSchemaProps (f n) (Schema_AdditionalProperties s))
      (\<lambda>r. \<forall>x\<in>set_option (Option.bind r snd). flat x)"
    by (rule flattens_additional, rule sub) (simp add: children_def)
  show ?thesis unfolding Schema_ToJSONSchemaProps_def
    by (rule flattens_bind [OF items], rule flattens_bind [OF refs [OF lists(1)]], rule flattens_bind [OF refs [OF lists(2)]],
        rule flattens_bind [OF refs [OF lists(3)]], rule flattens_bind [OF negated], rule flattens_bind [OF properties],
        rule flattens_bind [OF additional], rule flattens_const, rule flat_parts)
qed

text \<open>
  A schema whose references are defined and acyclic is flattened: with enough fuel the conversion ends
  without a panic, and no reference is left.
\<close>

lemma flattens_Suc:
  assumes "flattens f P" and "\<And>n. g (Suc n) = f n"
  shows "flattens g P"
proof -
  from assms(1) obtain a where a: "P a" "\<forall>\<^sub>F n in sequentially. f n = Some (Ok a)" by (auto simp: flattens_def)
  then have "\<forall>\<^sub>F n in sequentially. g (Suc n) = Some (Ok a)" by (simp add: assms(2))
  then have "\<forall>\<^sub>F n in sequentially. g n = Some (Ok a)" by (rule eventually_sequentially_Suc [of "\<lambda>n. g n = Some (Ok a)", THEN iffD1])
  with a(1) show ?thesis by (auto simp: flattens_def)
qed

lemma schema_flattens:
  assumes "range_order ord" and "grounded rank defs" and "\<And>r. mentions s r \<Longrightarrow> r |\<in>| fmdom defs \<and> rank r < N"
  shows "flattens (\<lambda>n. SchemaRef_ToJSONSchemaProps n ord (Some defs) s) flat_pointer"
  using assms(3)
proof (induction N arbitrary: s rule: less_induct)
  case (less N)
  note smaller = less.IH
  from less.prems show ?case
  proof (induction s)
    case (SchemaRef ref b p a i o1 n1 l1 neg)
    let ?s = "SchemaRef ref b p a i o1 n1 l1 neg"
    show ?case
    proof (cases "ref = []")
      case True
      have "flattens (\<lambda>n. SchemaRef_ToJSONSchemaProps n ord (Some defs) c) flat_pointer" if c: "c \<in> children ?s" for c
      proof -
        have m: "r |\<in>| fmdom defs \<and> rank r < N" if "mentions c r" for r
          by (rule SchemaRef.prems, rule mentions_child [OF _ c that]) (simp add: True)
        consider "c \<in> fmran' p" | aa where "a = Some (aa, Some c)" | "i = Some c" | "c \<in> set o1" | "c \<in> set n1" | "c \<in> set l1"
          | "neg = Some c"
          using c by (auto simp: children_def bind_eq_Some_conv)
        then show ?thesis
        proof cases
          case 1
          then show ?thesis by (rule SchemaRef.IH(1) [OF _ m])
        next
          case 2
          then show ?thesis by (intro SchemaRef.IH(2) [of "(aa, Some c)" "Some c", OF _ _ _ m]) (auto simp: prod_set_simps)
        next
          case 3
          then show ?thesis by (intro SchemaRef.IH(3) [OF _ m]) simp
        next
          case 4
          then show ?thesis by (rule SchemaRef.IH(4) [OF _ m])
        next
          case 5
          then show ?thesis by (rule SchemaRef.IH(5) [OF _ m])
        next
          case 6
          then show ?thesis by (rule SchemaRef.IH(6) [OF _ m])
        next
          case 7
          then show ?thesis by (intro SchemaRef.IH(7) [OF _ m]) simp
        qed
      qed
      then have "flattens (\<lambda>n. Schema_ToJSONSchemaProps ord (SchemaRef_ToJSONSchemaProps n ord (Some defs)) ?s) flat_pointer"
        by (rule flattens_schema [OF assms(1)])
      then show ?thesis by (rule flattens_Suc) (simp add: True)
    next
      case False
      have d: "RefName ?s |\<in>| fmdom defs" "rank (RefName ?s) < N"
        using SchemaRef.prems [OF mentions_self] False by auto
      then obtain t where t: "fmlookup defs (RefName ?s) = Some t" by (auto simp: fmlookup_dom_iff)
      have "flattens (\<lambda>n. SchemaRef_ToJSONSchemaProps n ord (Some defs) t) flat_pointer"
        by (rule smaller [OF d(2)]) (use assms(2) t in \<open>auto simp: grounded_def\<close>)
      then show ?thesis by (rule flattens_Suc) (use False t in \<open>simp add: Deref_def props_of_def\<close>)
    qed
  qed
qed

lemma document_flattens:
  assumes ord: "range_order ord" and defs: "grounded rank (Document_Definitions d)"
    and top: "\<And>c r. c \<in> children (Document_Schema d) \<Longrightarrow> mentions c r \<Longrightarrow> r |\<in>| fmdom (Document_Definitions d)"
  shows "\<exists>n p. ToFlatJSONSchemaProps n ord d = Some (Ok (Some p)) \<and> flat p \<and>
    fmdom (Props_Properties p) = fmdom (Document_Definitions d)"
proof -
  let ?f = "\<lambda>n. SchemaRef_ToJSONSchemaProps n ord (Some (Document_Definitions d))"
  obtain N where N: "\<forall>r\<in>fset (fmdom (Document_Definitions d)). rank r < N"
    using finite_nat_set_iff_bounded [of "rank ` fset (fmdom (Document_Definitions d))"] by auto
  have c: "flattens (\<lambda>n. ?f n s) flat_pointer"
    if "\<And>r. mentions s r \<Longrightarrow> r |\<in>| fmdom (Document_Definitions d)" for s
    by (rule schema_flattens [OF ord defs, of s N]) (use that N in auto)
  have "flattens (\<lambda>n. Schema_ToJSONSchemaProps ord (?f n) (Document_Schema d)) flat_pointer"
    by (rule flattens_schema [OF ord], rule c, rule top)
  then obtain p where p: "flat p"
    "\<forall>\<^sub>F n in sequentially. Schema_ToJSONSchemaProps ord (?f n) (Document_Schema d) = Some (Ok (Some p))"
    by (auto simp: flattens_def flat_pointer_def)
  have "flattens (\<lambda>n. Schemas_ToJSONSchemaProps ord (?f n) (Document_Definitions d))
      (\<lambda>r. fmdom r = fmdom (Document_Definitions d) \<and> (\<forall>p\<in>fmran' r. flat p))"
    by (rule flattens_schemas [OF ord], rule c) (use defs in \<open>auto simp: grounded_def fmlookup_ran'_iff\<close>)
  then obtain m where m: "fmdom m = fmdom (Document_Definitions d)" "\<forall>p\<in>fmran' m. flat p"
    "\<forall>\<^sub>F n in sequentially. Schemas_ToJSONSchemaProps ord (?f n) (Document_Definitions d) = Some (Ok m)"
    by (auto simp: flattens_def)
  from p(2) m(3) obtain n where
    n: "Schema_ToJSONSchemaProps ord (?f n) (Document_Schema d) = Some (Ok (Some p))"
      "Schemas_ToJSONSchemaProps ord (?f n) (Document_Definitions d) = Some (Ok m)"
    using eventually_happens' [OF sequentially_bot eventually_conj] by blast
  obtain r u b items allOf oneOf anyOf negated q additional definitions where
    e: "p = JSONSchemaProps r u b items allOf oneOf anyOf negated q additional definitions" by (cases p)
  let ?r = "JSONSchemaProps r (Document_SchemaVersion d) (b\<lparr>Schema_Type := ''object''\<rparr>) items allOf oneOf anyOf negated m
      additional definitions"
  have "ToFlatJSONSchemaProps n ord d = Some (Ok (Some ?r))"
    using n by (simp add: ToFlatJSONSchemaProps_def fuel_bind_def e)
  moreover have "flat ?r" using p(1) m(2) unfolding e by (subst flat.simps, subst (asm) flat.simps) auto
  ultimately show ?thesis using m(1) by fastforce
qed

text \<open>A boolean or a schema survives encoding, if schemas are encoded as objects and survive it.\<close>

lemma additional_roundtrip:
  assumes "\<And>s. \<exists>m. encode s = JObj m" and "\<And>s. decode (encode s) = Inr (Some s)" and "fst a = None \<or> snd a = None"
  shows "AdditionalPropertiesType_UnmarshalJSON decode (AdditionalPropertiesType_MarshalJSON encode a) = Inr a"
proof -
  obtain b s where a: "a = (b, s)" by (cases a)
  show ?thesis
  proof (cases b)
    case (Some x)
    then show ?thesis using assms(3) a
      by (simp add: AdditionalPropertiesType_UnmarshalJSON_def AdditionalPropertiesType_MarshalJSON_def)
  next
    case None
    show ?thesis
    proof (cases s)
      case (Some y)
      obtain m where m: "encode y = JObj m" using assms(1) by blast
      with assms(2) [of y] show ?thesis using Some \<open>b = None\<close> a
        by (simp add: AdditionalPropertiesType_UnmarshalJSON_def AdditionalPropertiesType_MarshalJSON_def)
    qed (simp add: AdditionalPropertiesType_UnmarshalJSON_def AdditionalPropertiesType_MarshalJSON_def a None)
  qed
qed

text \<open>On a definition that refers to itself the conversion never ends.\<close>

lemma cyclic_flatten_diverges:
  assumes "Schema_Ref s \<noteq> []" and "fmlookup defs (RefName s) = Some s"
  shows "SchemaRef_ToJSONSchemaProps n ord (Some defs) s = None"
  using assms by (induction n) (auto simp: Deref_def props_of_def)

end
