(* ===== verification/Razee.thy ===== *)
theory Razee
  imports Multicluster
begin

text \<open>
  \<^verbatim>\<open>src/pkg/multicluster/razee/razee_cluster_manager.go\<close>: the cluster manager over Razee, which deploys
  a blueprint by a subscription of a cluster's group to a version of a channel.

  The Satellite Config service behind the client is the parameter record \<open>SatCon\<close> over the type \<open>'w\<close> of
  its state. A call gives a pointer beside an error; a pointer that is dereferenced although it is nil
  is a panic. The YAML encoder and the decoder of \<^verbatim>\<open>multi_cluster_manager.go\<close>, which only calls the
  Kubernetes codec, are parameters as well.
\<close>

section \<open>The service\<close>

record razee_Cluster =
  RC_ClusterID :: string
  RC_Name :: string

record razee_Group =
  RG_UUID :: string
  RG_Clusters :: "razee_Cluster list"

record razee_Version =
  RV_UUID :: string
  RV_Name :: string

record razee_Channel =
  RCh_UUID :: string
  RCh_Versions :: "razee_Version list"
  RCh_Subscriptions :: "string list"

type_synonym 'a pointer = "'a option \<times> string option"

text \<open>
  The calls of the client. The subscriptions of a channel are given by their UUIDs; what adds something
  gives its UUID, what removes something whether it succeeded.
\<close>

record 'w SatCon =
  Sat_GroupByName :: "string \<Rightarrow> string \<Rightarrow> 'w \<Rightarrow> razee_Group pointer"
  Sat_ClustersByOrgID :: "string \<Rightarrow> 'w \<Rightarrow> string + razee_Cluster list"
  Sat_ClusterByName :: "string \<Rightarrow> string \<Rightarrow> 'w \<Rightarrow> razee_Cluster pointer"
  Sat_ResourceContent :: "string \<Rightarrow> string \<Rightarrow> string \<Rightarrow> 'w \<Rightarrow> string pointer"
  Sat_ChannelByName :: "string \<Rightarrow> string \<Rightarrow> 'w \<Rightarrow> razee_Channel pointer"
  Sat_AddGroup :: "string \<Rightarrow> string \<Rightarrow> 'w \<Rightarrow> string pointer \<times> 'w"
  Sat_GroupClusters :: "string \<Rightarrow> string \<Rightarrow> string list \<Rightarrow> 'w \<Rightarrow> string option \<times> 'w"
  Sat_AddChannel :: "string \<Rightarrow> string \<Rightarrow> 'w \<Rightarrow> string pointer \<times> 'w"
  Sat_RemoveChannel :: "string \<Rightarrow> string \<Rightarrow> 'w \<Rightarrow> bool pointer \<times> 'w"
  Sat_AddChannelVersion :: "string \<Rightarrow> string \<Rightarrow> string \<Rightarrow> string \<Rightarrow> 'w \<Rightarrow> string pointer \<times> 'w"
  Sat_RemoveChannelVersion :: "string \<Rightarrow> string \<Rightarrow> 'w \<Rightarrow> bool pointer \<times> 'w"
  Sat_AddSubscription :: "string \<Rightarrow> string \<Rightarrow> string \<Rightarrow> string \<Rightarrow> string list \<Rightarrow> 'w \<Rightarrow> string option \<times> 'w"
  Sat_SetSubscription :: "string \<Rightarrow> string \<Rightarrow> string \<Rightarrow> 'w \<Rightarrow> string option \<times> 'w"
  Sat_RemoveSubscription :: "string \<Rightarrow> string \<Rightarrow> 'w \<Rightarrow> bool pointer \<times> 'w"
  Sat_Me :: "'w \<Rightarrow> string pointer"

record razee_codec =
  Codec_Marshal :: "Blueprint \<Rightarrow> string + string"
  Codec_DecodeConfigMap :: "string \<Rightarrow> string + (string, string) fmap"
  Codec_DecodeBlueprint :: "string \<Rightarrow> Blueprint \<times> string option"

record razeeClusterManager =
  Razee_orgID :: string
  Razee_clusterGroup :: string

text \<open>Returning an error and otherwise dereferencing the pointer.\<close>

definition use_pointer :: "'a pointer \<times> 'w \<Rightarrow> ((string + 'a) \<times> 'w) go" where
  "use_pointer r =
     (case r of
        ((_, Some err), w) \<Rightarrow> Ok (Inl err, w)
      | ((Some a, None), w) \<Rightarrow> Ok (Inr a, w)
      | ((None, None), w) \<Rightarrow> Panic ''nil pointer dereference'')"

section \<open>Names\<close>

abbreviation clusterMetadataConfigMapSL :: string where
  "clusterMetadataConfigMapSL \<equiv> ''/api/v1/namespaces/fybrik-system/configmaps/cluster-metadata''"

definition createBluePrintSelfLink :: "string \<Rightarrow> string \<Rightarrow> string" where
  "createBluePrintSelfLink namespace name =
     ''/apis/app.fybrik.io/v1alpha1/namespaces/'' @ namespace @ ''/blueprints/'' @ name"

definition getGroupName :: "string \<Rightarrow> string" where
  "getGroupName cluster = ''fybrik-'' @ cluster"

definition channelName :: "string \<Rightarrow> string \<Rightarrow> string" where
  "channelName cluster name = ''fybrik.io-'' @ cluster @ ''-'' @ name"

text \<open>\<open>strconv.Itoa\<close>\<close>

fun nat_digits :: "nat \<Rightarrow> string" where
  "nat_digits n = (if n < 10 then [char_of (48 + n)] else nat_digits (n div 10) @ [char_of (48 + n mod 10)])"

declare nat_digits.simps [simp del]

definition strconv_Itoa :: "int \<Rightarrow> string" where
  "strconv_Itoa i = (if i < 0 then CHR ''-'' # nat_digits (nat (- i)) else nat_digits (nat i))"

section \<open>Operations\<close>

definition cluster_metadata ::
  "'w SatCon \<Rightarrow> razee_codec \<Rightarrow> string \<Rightarrow> 'w \<Rightarrow> razee_Cluster \<Rightarrow> Cluster list \<Rightarrow> string + Cluster list" where
  "cluster_metadata con codec orgID w c clusters =
     (case Sat_ResourceContent con orgID (RC_ClusterID c) clusterMetadataConfigMapSL w of
        (_, Some err) \<Rightarrow> Inl err
      | (None, None) \<Rightarrow> Inr clusters
      | (Some content, None) \<Rightarrow>
          (case Codec_DecodeConfigMap codec content of
             Inl err \<Rightarrow> Inl err
           | Inr cmcm \<Rightarrow> Inr (clusters @ [CreateCluster cmcm])))"

definition razee_GetClusters ::
  "'w SatCon \<Rightarrow> razee_codec \<Rightarrow> razeeClusterManager \<Rightarrow> 'w \<Rightarrow> (string + Cluster list) go" where
  "razee_GetClusters con codec r w =
     go_bind
       (if Razee_clusterGroup r \<noteq> []
        then go_bind (use_pointer (Sat_GroupByName con (Razee_orgID r) (Razee_clusterGroup r) w, w))
               (\<lambda>(grp, _). Ok (case grp of Inl err \<Rightarrow> Inl err | Inr g \<Rightarrow> Inr (RG_Clusters g)))
        else Ok (Sat_ClustersByOrgID con (Razee_orgID r) w))
       (\<lambda>razeeClusters.
          Ok (case razeeClusters of
                Inl err \<Rightarrow> Inl err
              | Inr cs \<Rightarrow> go_loop (cluster_metadata con codec (Razee_orgID r) w) cs []))"

definition razee_GetBlueprint ::
  "'w SatCon \<Rightarrow> razee_codec \<Rightarrow> razeeClusterManager \<Rightarrow> 'w \<Rightarrow> string \<Rightarrow> string \<Rightarrow> string \<Rightarrow>
     (Blueprint option \<times> string option) go" where
  "razee_GetBlueprint con codec r w clusterName namespace name =
     go_bind (use_pointer (Sat_ClusterByName con (Razee_orgID r) clusterName w, w))
       (\<lambda>(cluster, _).
          case cluster of
            Inl err \<Rightarrow> Ok (None, Some err)
          | Inr c \<Rightarrow>
              (case Sat_ResourceContent con (Razee_orgID r) (RC_ClusterID c) (createBluePrintSelfLink namespace name) w of
                 (_, Some err) \<Rightarrow> Ok (None, Some err)
               | (None, None) \<Rightarrow> Ok (None, None)
               | (Some content, None) \<Rightarrow>
                   if content = [] then Ok (None, None)
                   else
                     (case Codec_DecodeBlueprint codec content of
                        (blueprint, err) \<Rightarrow>
                          if Meta_Namespace (Blueprint_Meta blueprint) = [] then Ok (None, None)
                          else Ok (Some blueprint, err))))"

text \<open>The loop for the highest version; the sum of an \<open>int\<close> wraps around.\<close>

definition version_step :: "razee_Version \<Rightarrow> int \<Rightarrow> string + int" where
  "version_step version m =
     (case strconv_Atoi (RV_Name version) of
        Inl err \<Rightarrow> Inl (''cannot parse version name '' @ RV_Name version)
      | Inr v \<Rightarrow> Inr (if m < v then v else m))"

definition next_version :: "int \<Rightarrow> string" where
  "next_version m = strconv_Itoa (sint (word_of_int (m + 1) :: int64))"

definition razee_UpdateBlueprint ::
  "'w SatCon \<Rightarrow> razee_codec \<Rightarrow> razeeClusterManager \<Rightarrow> string \<Rightarrow> Blueprint \<Rightarrow> 'w \<Rightarrow> (string option \<times> 'w) go" where
  "razee_UpdateBlueprint con codec r cluster blueprint w =
     (let name = channelName cluster (Meta_Name (Blueprint_Meta blueprint))
      in case Codec_Marshal codec blueprint of
           Inl err \<Rightarrow> Ok (Some err, w)
         | Inr content \<Rightarrow>
             (case Sat_ChannelByName con (Razee_orgID r) name w of
                (_, Some err) \<Rightarrow> Ok (Some (''cannot fetch channel info for channel '' @ [CHR 0x27] @ name @ [CHR 0x27]), w)
              | (None, None) \<Rightarrow> Panic ''nil pointer dereference''
              | (Some channelInfo, None) \<Rightarrow>
                  (case go_loop version_step (RCh_Versions channelInfo) 0 of
                     Inl err \<Rightarrow> Ok (Some err, w)
                   | Inr m \<Rightarrow>
                       (case RCh_Subscriptions channelInfo of
                          [subscriptionUUID] \<Rightarrow>
                            go_bind (use_pointer (Sat_AddChannelVersion con (Razee_orgID r) (RCh_UUID channelInfo)
                                       (next_version m) content w))
                              (\<lambda>(versionUUID, w1).
                                 case versionUUID of
                                   Inl err \<Rightarrow> Ok (Some err, w1)
                                 | Inr vu \<Rightarrow> Ok (Sat_SetSubscription con (Razee_orgID r) subscriptionUUID vu w1))
                        | _ \<Rightarrow> Ok (Some ''found more or less than one subscription'', w)))))"

text \<open>Removing what was added, after an error: the outcome is only logged.\<close>

definition roll_back :: "bool pointer \<times> 'w \<Rightarrow> 'w go" where
  "roll_back r = go_bind (use_pointer r) (\<lambda>(_, w). Ok w)"

definition create_channel ::
  "'w SatCon \<Rightarrow> string \<Rightarrow> string \<Rightarrow> string \<Rightarrow> string \<Rightarrow> 'w \<Rightarrow> (string option \<times> 'w) go" where
  "create_channel con orgID groupName name content w =
     go_bind (use_pointer (Sat_AddChannel con orgID name w))
       (\<lambda>(channel, w1).
          case channel of
            Inl err \<Rightarrow> Ok (Some err, w1)
          | Inr channelUUID \<Rightarrow>
              go_bind (use_pointer (Sat_AddChannelVersion con orgID channelUUID ''0'' content w1))
                (\<lambda>(version, w2).
                   case version of
                     Inl err \<Rightarrow>
                       go_bind (roll_back (Sat_RemoveChannel con orgID channelUUID w2)) (\<lambda>w3. Ok (Some err, w3))
                   | Inr versionUUID \<Rightarrow>
                       (case Sat_AddSubscription con orgID name channelUUID versionUUID [groupName] w2 of
                          (None, w3) \<Rightarrow> Ok (None, w3)
                        | (Some err, w3) \<Rightarrow>
                            go_bind (roll_back (Sat_RemoveChannelVersion con orgID versionUUID w3))
                              (\<lambda>w4. go_bind (roll_back (Sat_RemoveChannel con orgID channelUUID w4))
                                (\<lambda>w5. Ok (Some err, w5))))))"

definition group_UUID :: "'w SatCon \<Rightarrow> string \<Rightarrow> string \<Rightarrow> 'w \<Rightarrow> ((string + string) \<times> 'w) go" where
  "group_UUID con orgID groupName w =
     (case Sat_GroupByName con orgID groupName w of
        (grp, err) \<Rightarrow>
          if err \<noteq> None \<and> err \<noteq> Some (''Cannot destructure property '' @ [CHR 0x27] @ ''req_id'' @ [CHR 0x27] @ '' of '' @
               [CHR 0x27] @ ''context'' @ [CHR 0x27] @ '' as it is undefined.'')
          then Ok (Inl (the err), w)
          else
            (case grp of
               None \<Rightarrow> use_pointer (Sat_AddGroup con orgID groupName w)
             | Some g \<Rightarrow> Ok (Inr (RG_UUID g), w)))"

definition razee_CreateBlueprint ::
  "'w SatCon \<Rightarrow> razee_codec \<Rightarrow> razeeClusterManager \<Rightarrow> string \<Rightarrow> Blueprint \<Rightarrow> 'w \<Rightarrow> (string option \<times> 'w) go" where
  "razee_CreateBlueprint con codec r cluster blueprint w =
     (let groupName = getGroupName cluster;
          name = channelName cluster (Meta_Name (Blueprint_Meta blueprint))
      in case Codec_Marshal codec blueprint of
           Inl err \<Rightarrow> Ok (Some err, w)
         | Inr content \<Rightarrow>
             (case Sat_ClusterByName con (Razee_orgID r) cluster w of
                (_, Some err) \<Rightarrow> Ok (Some (with_message ''error while fetching cluster by name'' err), w)
              | (None, None) \<Rightarrow>
                  Ok (Some (''no cluster found for orgID '' @ Razee_orgID r @ '' and cluster name '' @ cluster), w)
              | (Some rCluster, None) \<Rightarrow>
                  go_bind (group_UUID con (Razee_orgID r) groupName w)
                    (\<lambda>(grp, w1).
                       case grp of
                         Inl err \<Rightarrow> Ok (Some err, w1)
                       | Inr groupUUID \<Rightarrow>
                           (case Sat_GroupClusters con (Razee_orgID r) groupUUID [RC_ClusterID rCluster] w1 of
                              (Some err, w2) \<Rightarrow> Ok (Some err, w2)
                            | (None, w2) \<Rightarrow>
                                (case Sat_ChannelByName con (Razee_orgID r) name w2 of
                                   (existingChannel, err) \<Rightarrow>
                                     if err \<noteq> None \<and> \<not> strings_HasPrefix (the err) ''Query channelByName error.''
                                     then Ok (err, w2)
                                     else if existingChannel \<noteq> None
                                     then razee_UpdateBlueprint con codec r cluster blueprint w2
                                     else create_channel con (Razee_orgID r) groupName name content w2)))))"

text \<open>The loops of the deletion: an error ends them.\<close>

definition remove_step :: "(string \<Rightarrow> 'w \<Rightarrow> bool pointer \<times> 'w) \<Rightarrow> string \<Rightarrow> string option \<times> 'w \<Rightarrow> (string option \<times> 'w) go" where
  "remove_step remove uuid st =
     (case st of
        (Some err, w) \<Rightarrow> Ok (Some err, w)
      | (None, w) \<Rightarrow>
          go_bind (use_pointer (remove uuid w))
            (\<lambda>(success, w'). Ok (case success of Inl err \<Rightarrow> (Some err, w') | Inr _ \<Rightarrow> (None, w'))))"

definition razee_DeleteBlueprint ::
  "'w SatCon \<Rightarrow> razeeClusterManager \<Rightarrow> string \<Rightarrow> string \<Rightarrow> string \<Rightarrow> 'w \<Rightarrow> (string option \<times> 'w) go" where
  "razee_DeleteBlueprint con r cluster namespace name w =
     go_bind (use_pointer (Sat_ChannelByName con (Razee_orgID r) (channelName cluster name) w, w))
       (\<lambda>(channel, _).
          case channel of
            Inl err \<Rightarrow> Ok (Some err, w)
          | Inr ch \<Rightarrow>
              go_bind (go_fold (remove_step (Sat_RemoveSubscription con (Razee_orgID r))) (RCh_Subscriptions ch) (None, w))
                (\<lambda>st. go_bind (go_fold (remove_step (Sat_RemoveChannelVersion con (Razee_orgID r)))
                                 (map RV_UUID (RCh_Versions ch)) st)
                  (remove_step (Sat_RemoveChannel con (Razee_orgID r)) (RCh_UUID ch))))"

text \<open>
  The three constructors; the authentication's error and that of the client are parameters.
  \<open>NewRazeeLocalClusterManager\<close> and \<open>NewRazeeOAuthClusterManager\<close> ignore the error of \<open>client.New\<close>.
\<close>

definition razee_login :: "'w SatCon \<Rightarrow> 'w \<Rightarrow> string \<Rightarrow> string + razeeClusterManager" where
  "razee_login con w clusterGroup =
     (case Sat_Me con w of
        (_, Some err) \<Rightarrow> Inl err
      | (None, None) \<Rightarrow> Inl ''could not retrieve login information of Razee''
      | (Some orgId, None) \<Rightarrow> Inr \<lparr>Razee_orgID = orgId, Razee_clusterGroup = clusterGroup\<rparr>)"

definition NewRazeeLocalClusterManager ::
  "string option \<Rightarrow> 'w SatCon \<Rightarrow> 'w \<Rightarrow> string \<Rightarrow> string + razeeClusterManager" where
  "NewRazeeLocalClusterManager auth_error con w clusterGroup =
     (case auth_error of Some err \<Rightarrow> Inl err | None \<Rightarrow> razee_login con w clusterGroup)"

definition NewRazeeOAuthClusterManager ::
  "string option \<Rightarrow> 'w SatCon \<Rightarrow> 'w \<Rightarrow> string \<Rightarrow> string + razeeClusterManager" where
  "NewRazeeOAuthClusterManager auth_error con w clusterGroup =
     (case auth_error of Some err \<Rightarrow> Inl err | None \<Rightarrow> razee_login con w clusterGroup)"

definition NewSatConfClusterManager ::
  "unit pointer \<Rightarrow> string option \<Rightarrow> 'w SatCon \<Rightarrow> 'w \<Rightarrow> string \<Rightarrow> string + razeeClusterManager" where
  "NewSatConfClusterManager iamClient client_error con w clusterGroup =
     (case iamClient of
        (_, Some err) \<Rightarrow> Inl err
      | (None, None) \<Rightarrow> Inl ''the IAMClient returned nil for IBM Cloud Satellite Config''
      | (Some _, None) \<Rightarrow>
          (case client_error of Some err \<Rightarrow> Inl err | None \<Rightarrow> razee_login con w clusterGroup))"

section \<open>Version names\<close>

lemma digit_char: "d < 10 \<Longrightarrow> is_digit (char_of (48 + d)) \<and> digit_value (char_of (48 + d)) = int d"
  by (simp add: is_digit_def digit_value_def less_eq_char_def)

lemma nat_digits_value:
  "list_all is_digit (nat_digits n) \<and> nat_digits n \<noteq> [] \<and> digits_value (nat_digits n) = int n"
proof (induction n rule: nat_digits.induct)
  case (1 n)
  show ?case
  proof (cases "n < 10")
    case True
    then show ?thesis using digit_char [OF True] by (simp add: nat_digits.simps [of n] digits_value_def)
  next
    case False
    have d: "n mod 10 < 10" by simp
    have "int n = 10 * int (n div 10) + int (n mod 10)" by presburger
    with 1 [OF False] digit_char [OF d] False show ?thesis
      by (subst (1 2 3) nat_digits.simps) (simp add: digits_value_def)
  qed
qed

lemma nat_digits_sign: "hd (nat_digits n) \<noteq> CHR ''-'' \<and> hd (nat_digits n) \<noteq> CHR ''+''"
proof -
  have "is_digit (hd (nat_digits n))" using nat_digits_value [of n] by (cases "nat_digits n") auto
  then show ?thesis by (auto simp: is_digit_def less_eq_char_def)
qed

lemma strconv_Atoi_Itoa:
  assumes "- (2 ^ 63) \<le> i" and "i < 2 ^ 63"
  shows "strconv_Atoi (strconv_Itoa i) = Inr i"
  using assms nat_digits_value [of "nat i"] nat_digits_value [of "nat (- i)"] nat_digits_sign [of "nat i"]
  by (cases "i < 0") (auto simp: strconv_Atoi_def strconv_Itoa_def Let_def)

text \<open>The name given to a new version can be read back by the next update.\<close>

lemma next_version_parses: "\<exists>v. strconv_Atoi (next_version m) = Inr v"
proof -
  let ?w = "word_of_int (m + 1) :: int64"
  have "- (2 ^ 63) \<le> sint ?w" "sint ?w < 2 ^ 63" using sint_ge [of ?w] sint_lt [of ?w] by simp_all
  then show ?thesis unfolding next_version_def by (blast dest: strconv_Atoi_Itoa)
qed

section \<open>What the service promises\<close>

text \<open>
  The channels of an organisation by name: their versions (UUID, name and content) and their
  subscriptions (UUID, the UUID of the version and the groups).
\<close>

record sat_channel =
  SC_UUID :: string
  SC_Versions :: "(string \<times> string \<times> string) list"
  SC_Subscriptions :: "(string \<times> string \<times> string list) list"

type_synonym sat_view = "string \<Rightarrow> sat_channel option"

definition on_channel :: "string \<Rightarrow> (sat_channel \<Rightarrow> sat_channel option) \<Rightarrow> sat_view \<Rightarrow> sat_view" where
  "on_channel uuid f m = (\<lambda>n. case m n of None \<Rightarrow> None | Some c \<Rightarrow> if SC_UUID c = uuid then f c else Some c)"

definition on_all :: "(sat_channel \<Rightarrow> sat_channel) \<Rightarrow> sat_view \<Rightarrow> sat_view" where
  "on_all f m = (\<lambda>n. map_option f (m n))"

definition add_version :: "string \<Rightarrow> string \<Rightarrow> string \<Rightarrow> sat_channel \<Rightarrow> sat_channel" where
  "add_version vu name content c = c\<lparr>SC_Versions := SC_Versions c @ [(vu, name, content)]\<rparr>"

definition add_subscription :: "string \<Rightarrow> string \<Rightarrow> string list \<Rightarrow> sat_channel \<Rightarrow> sat_channel" where
  "add_subscription su vu groups c = c\<lparr>SC_Subscriptions := SC_Subscriptions c @ [(su, vu, groups)]\<rparr>"

definition set_subscription :: "string \<Rightarrow> string \<Rightarrow> sat_channel \<Rightarrow> sat_channel" where
  "set_subscription su vu c =
     c\<lparr>SC_Subscriptions := map (\<lambda>(u, v, g). (u, if u = su then vu else v, g)) (SC_Subscriptions c)\<rparr>"

definition remove_version :: "string \<Rightarrow> sat_channel \<Rightarrow> sat_channel" where
  "remove_version vu c = c\<lparr>SC_Versions := filter (\<lambda>v. fst v \<noteq> vu) (SC_Versions c)\<rparr>"

definition remove_subscription :: "string \<Rightarrow> sat_channel \<Rightarrow> sat_channel" where
  "remove_subscription su c = c\<lparr>SC_Subscriptions := filter (\<lambda>s. fst s \<noteq> su) (SC_Subscriptions c)\<rparr>"

text \<open>A channel is read as it is stored.\<close>

definition channel_of :: "sat_channel \<Rightarrow> razee_Channel" where
  "channel_of c =
     \<lparr>RCh_UUID = SC_UUID c, RCh_Versions = map (\<lambda>(u, n, _). \<lparr>RV_UUID = u, RV_Name = n\<rparr>) (SC_Versions c),
      RCh_Subscriptions = map fst (SC_Subscriptions c)\<rparr>"

definition sat_reads :: "'w SatCon \<Rightarrow> string \<Rightarrow> ('w \<Rightarrow> sat_view) \<Rightarrow> bool" where
  "sat_reads con org view \<longleftrightarrow>
     (\<forall>name w. fst (Sat_ChannelByName con org name w) \<in> {None, map_option channel_of (view w name)})"

text \<open>A call that fails changes no channel.\<close>

definition sat_failures :: "'w SatCon \<Rightarrow> string \<Rightarrow> ('w \<Rightarrow> sat_view) \<Rightarrow> bool" where
  "sat_failures con org view \<longleftrightarrow>
     (\<forall>name w p e w'. Sat_AddChannel con org name w = ((p, Some e), w') \<longrightarrow> view w' = view w) \<and>
     (\<forall>u n c w p e w'. Sat_AddChannelVersion con org u n c w = ((p, Some e), w') \<longrightarrow> view w' = view w) \<and>
     (\<forall>n u v g w e w'. Sat_AddSubscription con org n u v g w = (Some e, w') \<longrightarrow> view w' = view w)"

text \<open>Groups are not channels.\<close>

definition sat_groups :: "'w SatCon \<Rightarrow> string \<Rightarrow> ('w \<Rightarrow> sat_view) \<Rightarrow> bool" where
  "sat_groups con org view \<longleftrightarrow>
     (\<forall>name w. view (snd (Sat_AddGroup con org name w)) = view w) \<and>
     (\<forall>u cs w. view (snd (Sat_GroupClusters con org u cs w)) = view w)"

definition sat_adds :: "'w SatCon \<Rightarrow> string \<Rightarrow> ('w \<Rightarrow> sat_view) \<Rightarrow> bool" where
  "sat_adds con org view \<longleftrightarrow>
     (\<forall>name w u w'. Sat_AddChannel con org name w = ((Some u, None), w') \<longrightarrow>
        view w' = (view w)(name \<mapsto> \<lparr>SC_UUID = u, SC_Versions = [], SC_Subscriptions = []\<rparr>) \<and>
        (\<forall>n c. view w n = Some c \<longrightarrow> SC_UUID c \<noteq> u)) \<and>
     (\<forall>u n content w vu w'. Sat_AddChannelVersion con org u n content w = ((Some vu, None), w') \<longrightarrow>
        view w' = on_channel u (\<lambda>c. Some (add_version vu n content c)) (view w) \<and>
        (\<forall>m c. view w m = Some c \<longrightarrow> vu \<notin> fst ` set (SC_Versions c))) \<and>
     (\<forall>n u vu g w w'. Sat_AddSubscription con org n u vu g w = (None, w') \<longrightarrow>
        (\<exists>su. view w' = on_channel u (\<lambda>c. Some (add_subscription su vu g c)) (view w)))"

definition sat_changes :: "'w SatCon \<Rightarrow> string \<Rightarrow> ('w \<Rightarrow> sat_view) \<Rightarrow> bool" where
  "sat_changes con org view \<longleftrightarrow>
     (\<forall>su vu w w'. Sat_SetSubscription con org su vu w = (None, w') \<longrightarrow>
        view w' = on_all (set_subscription su vu) (view w)) \<and>
     (\<forall>u w p w'. Sat_RemoveChannel con org u w = ((p, None), w') \<longrightarrow> view w' = on_channel u (\<lambda>_. None) (view w)) \<and>
     (\<forall>vu w p w'. Sat_RemoveChannelVersion con org vu w = ((p, None), w') \<longrightarrow>
        view w' = on_all (remove_version vu) (view w)) \<and>
     (\<forall>su w p w'. Sat_RemoveSubscription con org su w = ((p, None), w') \<longrightarrow>
        view w' = on_all (remove_subscription su) (view w))"

definition sat_contract :: "'w SatCon \<Rightarrow> string \<Rightarrow> ('w \<Rightarrow> sat_view) \<Rightarrow> bool" where
  "sat_contract con org view \<longleftrightarrow> sat_reads con org view \<and> sat_failures con org view \<and> sat_groups con org view \<and>
     sat_adds con org view \<and> sat_changes con org view"

lemma sat_contractD:
  assumes "sat_contract con org view"
  shows "fst (Sat_ChannelByName con org name w) \<in> {None, map_option channel_of (view w name)}"
    and "Sat_AddChannel con org name w = ((p, Some e), w') \<Longrightarrow> view w' = view w"
    and "Sat_AddChannelVersion con org u n c w = ((p, Some e), w') \<Longrightarrow> view w' = view w"
    and "Sat_AddSubscription con org n u v g w = (Some e, w') \<Longrightarrow> view w' = view w"
    and "view (snd (Sat_AddGroup con org name w)) = view w"
    and "view (snd (Sat_GroupClusters con org u cs w)) = view w"
    and "Sat_AddChannel con org name w = ((Some u, None), w') \<Longrightarrow>
      view w' = (view w)(name \<mapsto> \<lparr>SC_UUID = u, SC_Versions = [], SC_Subscriptions = []\<rparr>) \<and>
      (\<forall>n c. view w n = Some c \<longrightarrow> SC_UUID c \<noteq> u)"
    and "Sat_AddChannelVersion con org u n c w = ((Some vu, None), w') \<Longrightarrow>
      view w' = on_channel u (\<lambda>ch. Some (add_version vu n c ch)) (view w) \<and>
      (\<forall>m c. view w m = Some c \<longrightarrow> vu \<notin> fst ` set (SC_Versions c))"
    and "Sat_AddSubscription con org n u vu g w = (None, w') \<Longrightarrow>
      \<exists>su. view w' = on_channel u (\<lambda>c. Some (add_subscription su vu g c)) (view w)"
    and "Sat_SetSubscription con org su vu w = (None, w') \<Longrightarrow> view w' = on_all (set_subscription su vu) (view w)"
    and "Sat_RemoveChannel con org u w = ((b, None), w') \<Longrightarrow> view w' = on_channel u (\<lambda>_. None) (view w)"
    and "Sat_RemoveChannelVersion con org vu w = ((b, None), w') \<Longrightarrow> view w' = on_all (remove_version vu) (view w)"
    and "Sat_RemoveSubscription con org su w = ((b, None), w') \<Longrightarrow>
      view w' = on_all (remove_subscription su) (view w)"
  using assms unfolding sat_contract_def sat_reads_def sat_failures_def sat_groups_def sat_adds_def sat_changes_def
  by (blast | simp)+

lemma channel_view:
  assumes "sat_contract con org view" and "Sat_ChannelByName con org name w = (Some ch, e)"
  shows "\<exists>c. view w name = Some c \<and> ch = channel_of c"
  using sat_contractD(1) [OF assms(1), of name w] assms(2) by (cases "view w name") auto

text \<open>Taking back what was just added leaves the channels as they were.\<close>

lemma undo_channel:
  assumes "\<forall>n c. m n = Some c \<longrightarrow> SC_UUID c \<noteq> u" and "m name = None" and "SC_UUID c = u"
  shows "on_channel u (\<lambda>_. None) (m(name \<mapsto> c)) = m"
  using assms by (auto simp: on_channel_def fun_eq_iff split: option.splits)

lemma undo_version:
  assumes "\<forall>n c. m n = Some c \<longrightarrow> vu \<notin> fst ` set (SC_Versions c)"
  shows "on_all (remove_version vu) (m(name \<mapsto> add_version vu n content c)) =
    m(name \<mapsto> remove_version vu c)"
proof -
  have "map_option (remove_version vu) (m k) = m k" for k
  proof (cases "m k")
    case (Some c)
    with assms have "vu \<notin> fst ` set (SC_Versions c)" by blast
    then have "filter (\<lambda>v. fst v \<noteq> vu) (SC_Versions c) = SC_Versions c" by (auto simp: filter_id_conv)
    then show ?thesis using Some by (simp add: remove_version_def)
  qed simp
  then show ?thesis by (auto simp: on_all_def fun_eq_iff remove_version_def add_version_def)
qed

lemma on_channel_new:
  assumes "\<forall>n c. m n = Some c \<longrightarrow> SC_UUID c \<noteq> u" and "SC_UUID c = u"
  shows "on_channel u f (m(name \<mapsto> c)) = (if f c = None then (m(name := None)) else m(name \<mapsto> the (f c)))"
  using assms by (auto simp: on_channel_def fun_eq_iff split: option.splits)

lemma use_pointer_Ok:
  assumes "use_pointer r = Ok (x, w)"
  shows "(\<exists>p e. r = ((p, Some e), w) \<and> x = Inl e) \<or> (\<exists>a. r = ((Some a, None), w) \<and> x = Inr a)"
  using assms by (cases r) (auto simp: use_pointer_def split: option.splits)

lemma use_pointer_iff:
  "use_pointer r = Ok (x, w) \<longleftrightarrow>
     (\<exists>p e. r = ((p, Some e), w) \<and> x = Inl e) \<or> (\<exists>a. r = ((Some a, None), w) \<and> x = Inr a)"
  by (rule iffI, erule use_pointer_Ok) (auto simp: use_pointer_def split: option.split)

lemma roll_back_Ok:
  assumes "roll_back r = Ok w" and "snd (fst r) = None"
  shows "\<exists>a. r = ((Some a, None), w)"
  using assms by (auto simp: roll_back_def go_bind_Ok_iff dest: use_pointer_Ok)

section \<open>Creation is all or nothing\<close>

lemma group_UUID_view:
  assumes "sat_contract con org view" and "group_UUID con org groupName w = Ok (x, w')"
  shows "view w' = view w"
proof -
  have "view (snd (Sat_AddGroup con org groupName w)) = view w" by (rule sat_contractD(5) [OF assms(1)])
  with assms(2) show ?thesis
    by (auto simp: group_UUID_def split: prod.splits if_splits option.splits dest!: use_pointer_Ok)
qed

text \<open>The channel of a blueprint that was just deployed to a group.\<close>

definition deployed_channel :: "string \<Rightarrow> string \<Rightarrow> string \<Rightarrow> string \<Rightarrow> string \<Rightarrow> sat_channel" where
  "deployed_channel u vu su content groupName =
     \<lparr>SC_UUID = u, SC_Versions = [(vu, ''0'', content)], SC_Subscriptions = [(su, vu, [groupName])]\<rparr>"

lemma create_channel_transaction:
  assumes con: "sat_contract con org view"
    and removal: "\<And>u w. snd (fst (Sat_RemoveChannel con org u w)) = None"
      "\<And>u w. snd (fst (Sat_RemoveChannelVersion con org u w)) = None"
    and fresh: "view w name = None"
    and run: "create_channel con org groupName name content w = Ok (err, w')"
  shows "case err of
      Some _ \<Rightarrow> view w' = view w
    | None \<Rightarrow> \<exists>u vu su. view w' = (view w)(name \<mapsto> deployed_channel u vu su content groupName)"
proof -
  let ?c = "\<lambda>u. \<lparr>SC_UUID = u, SC_Versions = [], SC_Subscriptions = []\<rparr>"
  from run obtain channel w1 where ch: "use_pointer (Sat_AddChannel con org name w) = Ok (channel, w1)"
    by (auto simp: create_channel_def go_bind_Ok_iff)
  from use_pointer_Ok [OF ch] consider
    (failed) p e where "Sat_AddChannel con org name w = ((p, Some e), w1)" "channel = Inl e"
    | (added) u where "Sat_AddChannel con org name w = ((Some u, None), w1)" "channel = Inr u" by blast
  then show ?thesis
  proof cases
    case failed
    with run ch sat_contractD(2) [OF con failed(1)] show ?thesis by (auto simp: create_channel_def)
  next
    case (added u)
    from sat_contractD(7) [OF con added(1)] have v1: "view w1 = (view w)(name \<mapsto> ?c u)"
      and u: "\<forall>n c. view w n = Some c \<longrightarrow> SC_UUID c \<noteq> u" by auto
    from run ch added(2) obtain version w2 where
      ver: "use_pointer (Sat_AddChannelVersion con org u ''0'' content w1) = Ok (version, w2)"
      by (auto simp: create_channel_def go_bind_Ok_iff)
    from use_pointer_Ok [OF ver] consider
      (no_version) p e where "Sat_AddChannelVersion con org u ''0'' content w1 = ((p, Some e), w2)" "version = Inl e"
      | (versioned) vu where "Sat_AddChannelVersion con org u ''0'' content w1 = ((Some vu, None), w2)" "version = Inr vu"
      by blast
    then show ?thesis
    proof cases
      case (no_version p e)
      with run ch added(2) ver obtain w3 where
        undone: "roll_back (Sat_RemoveChannel con org u w2) = Ok w3" and err: "err = Some e" "w' = w3"
        by (auto simp: create_channel_def go_bind_Ok_iff)
      from roll_back_Ok [OF undone removal(1)] obtain a where "Sat_RemoveChannel con org u w2 = ((Some a, None), w3)" ..
      from sat_contractD(11) [OF con this] have "view w3 = view w"
        using sat_contractD(3) [OF con no_version(1)] v1 undo_channel [OF u fresh, of "?c u"] by simp
      with err show ?thesis by simp
    next
      case (versioned vu)
      note added_version = sat_contractD(8) [OF con versioned(1)]
      have v2: "view w2 = (view w)(name \<mapsto> add_version vu ''0'' content (?c u))"
        using added_version [THEN conjunct1] on_channel_new [OF u, of "?c u"] v1 by simp
      have vu: "\<forall>n c. view w n = Some c \<longrightarrow> vu \<notin> fst ` set (SC_Versions c)"
      proof (intro allI impI)
        fix n c
        assume "view w n = Some c"
        with fresh v1 have "view w1 n = Some c" by auto
        with added_version [THEN conjunct2] show "vu \<notin> fst ` set (SC_Versions c)" by blast
      qed
      obtain serr w3 where sub: "Sat_AddSubscription con org name u vu [groupName] w2 = (serr, w3)" by fastforce
      show ?thesis
      proof (cases serr)
        case None
        with run ch added(2) ver versioned(2) sub have "err = None" "w' = w3"
          by (auto simp: create_channel_def)
        moreover from sat_contractD(9) [OF con sub [unfolded None]] obtain su where
          "view w3 = on_channel u (\<lambda>c. Some (add_subscription su vu [groupName] c)) (view w2)" by blast
        ultimately show ?thesis using v2 on_channel_new [OF u, of "add_version vu ''0'' content (?c u)"]
          by (auto simp: add_version_def add_subscription_def deployed_channel_def)
      next
        case (Some e)
        with run ch added(2) ver versioned(2) sub obtain w4 w5 where
          undone: "roll_back (Sat_RemoveChannelVersion con org vu w3) = Ok w4"
            "roll_back (Sat_RemoveChannel con org u w4) = Ok w5" and err: "err = Some e" "w' = w5"
          by (auto simp: create_channel_def go_bind_Ok_iff)
        from roll_back_Ok [OF undone(1) removal(2)] obtain a where
          "Sat_RemoveChannelVersion con org vu w3 = ((Some a, None), w4)" ..
        from sat_contractD(12) [OF con this] sat_contractD(4) [OF con sub [unfolded Some]] v2 undo_version [OF vu]
        have v4: "view w4 = (view w)(name \<mapsto> remove_version vu (?c u))" by simp
        from roll_back_Ok [OF undone(2) removal(1)] obtain b where
          "Sat_RemoveChannel con org u w4 = ((Some b, None), w5)" ..
        from sat_contractD(11) [OF con this] v4 undo_channel [OF u fresh, of "remove_version vu (?c u)"]
        have "view w5 = view w" by (simp add: remove_version_def)
        with err show ?thesis by simp
      qed
    qed
  qed
qed


section \<open>Updates and deletions\<close>

text \<open>The subscription of a channel points to a version with the given content.\<close>

definition delivers :: "sat_channel \<Rightarrow> string \<Rightarrow> bool" where
  "delivers c content \<longleftrightarrow> (\<exists>su vu g n. SC_Subscriptions c = [(su, vu, g)] \<and> (vu, n, content) \<in> set (SC_Versions c))"

text \<open>An update that returns without an error has the cluster's subscription deliver the blueprint.\<close>

lemma razee_update_delivers:
  assumes con: "sat_contract con (Razee_orgID r) view"
    and run: "razee_UpdateBlueprint con codec r cluster b w = Ok (None, w')"
  shows "\<exists>content c. Codec_Marshal codec b = Inr content \<and>
    view w' (channelName cluster (Meta_Name (Blueprint_Meta b))) = Some c \<and> delivers c content"
proof -
  let ?org = "Razee_orgID r" and ?name = "channelName cluster (Meta_Name (Blueprint_Meta b))"
  obtain content where content: "Codec_Marshal codec b = Inr content"
    using run by (cases "Codec_Marshal codec b") (auto simp: razee_UpdateBlueprint_def)
  obtain p e where pe: "Sat_ChannelByName con ?org ?name w = (p, e)" by fastforce
  obtain ch where ch: "Sat_ChannelByName con ?org ?name w = (Some ch, None)"
    using run content pe by (cases p; cases e) (auto simp: razee_UpdateBlueprint_def)
  obtain m where m: "go_loop version_step (RCh_Versions ch) 0 = Inr m"
    using run content ch by (cases "go_loop version_step (RCh_Versions ch) 0") (auto simp: razee_UpdateBlueprint_def)
  from run content ch m obtain su vu w1 where su: "RCh_Subscriptions ch = [su]"
    and ver: "Sat_AddChannelVersion con ?org (RCh_UUID ch) (next_version m) content w = ((Some vu, None), w1)"
    and set_sub: "Sat_SetSubscription con ?org su vu w1 = (None, w')"
    by (auto simp: razee_UpdateBlueprint_def go_bind_Ok_iff use_pointer_iff split: list.splits)
  from channel_view [OF con ch] obtain c where c: "view w ?name = Some c" "ch = channel_of c" by blast
  then obtain v g where sub: "SC_Subscriptions c = [(su, v, g)]"
    using su by (auto simp: channel_of_def)
  from sat_contractD(8) [OF con ver] have
    "view w1 ?name = Some (add_version vu (next_version m) content c)"
    using c by (simp add: on_channel_def channel_of_def)
  with sat_contractD(10) [OF con set_sub] have
    "view w' ?name = Some (set_subscription su vu (add_version vu (next_version m) content c))"
    by (simp add: on_all_def)
  then show ?thesis using content sub by (auto simp: delivers_def set_subscription_def add_version_def)
qed

text \<open>A channel that lost its subscription can neither be updated nor created again.\<close>

lemma razee_stuck:
  assumes "Codec_Marshal codec b = Inr content"
    and "Sat_ChannelByName con (Razee_orgID r) (channelName cluster (Meta_Name (Blueprint_Meta b))) w = (Some ch, None)"
    and "go_loop version_step (RCh_Versions ch) 0 = Inr m" and "RCh_Subscriptions ch = []"
  shows "razee_UpdateBlueprint con codec r cluster b w = Ok (Some ''found more or less than one subscription'', w)"
  using assms by (simp add: razee_UpdateBlueprint_def)

lemma remove_fold:
  assumes con: "\<And>u w p w'. remove u w = ((p, None), w') \<Longrightarrow> view w' = on_all (f u) (view w)"
    and keep: "\<And>u c. SC_UUID (f u c) = SC_UUID c"
    and "go_fold (remove_step remove) us (None, w) = Ok (None, w')" and "view w name = Some c"
  shows "\<exists>c'. view w' name = Some c' \<and> SC_UUID c' = SC_UUID c"
  using assms(3,4)
proof (induction us arbitrary: w c)
  case Nil
  then show ?case by simp
next
  case (Cons u us)
  have stop: "go_fold (remove_step remove) xs (Some e, w) = Ok (Some e, w)" for xs e w
    by (induction xs) (simp_all add: remove_step_def)
  from Cons.prems(1) obtain st where
    st: "remove_step remove u (None, w) = Ok st" "go_fold (remove_step remove) us st = Ok (None, w')"
    by (auto simp: go_bind_Ok_iff)
  then obtain w1 where w1: "st = (None, w1)" using stop by (cases st; cases "fst st") auto
  with st(1) obtain a where "remove u w = ((Some a, None), w1)"
    by (auto simp: remove_step_def go_bind_Ok_iff use_pointer_iff)
  from con [OF this] Cons.prems(2) have "view w1 name = Some (f u c)" by (simp add: on_all_def)
  from Cons.IH [OF _ this] st(2) w1 keep show ?case by simp
qed

text \<open>A deletion that returns without an error has removed the channel of the blueprint.\<close>

lemma razee_delete_removes:
  assumes con: "sat_contract con (Razee_orgID r) view"
    and run: "razee_DeleteBlueprint con r cluster namespace name w = Ok (None, w')"
  shows "view w' (channelName cluster name) = None"
proof -
  let ?org = "Razee_orgID r" and ?name = "channelName cluster name"
  from run obtain ch st1 st2 where
    ch: "Sat_ChannelByName con ?org ?name w = (Some ch, None)"
    and st1: "go_fold (remove_step (Sat_RemoveSubscription con ?org)) (RCh_Subscriptions ch) (None, w) = Ok st1"
    and st2: "go_fold (remove_step (Sat_RemoveChannelVersion con ?org)) (map RV_UUID (RCh_Versions ch)) st1 = Ok st2"
    and last_step: "remove_step (Sat_RemoveChannel con ?org) (RCh_UUID ch) st2 = Ok (None, w')"
    by (auto simp: razee_DeleteBlueprint_def go_bind_Ok_iff use_pointer_iff)
  from last_step obtain w2 a where w2: "st2 = (None, w2)"
    and gone: "Sat_RemoveChannel con ?org (RCh_UUID ch) w2 = ((Some a, None), w')"
    by (auto simp: remove_step_def go_bind_Ok_iff use_pointer_iff split: prod.splits option.splits)
  have stop: "go_fold (remove_step f) xs (Some e, v) = Ok (Some e, v)" for f :: "string \<Rightarrow> 'a \<Rightarrow> bool pointer \<times> 'a" and xs e v
    by (induction xs) (simp_all add: remove_step_def)
  obtain w1 where w1: "st1 = (None, w1)" using st2 w2 stop by (cases st1; cases "fst st1") auto
  from channel_view [OF con ch] obtain c where c: "view w ?name = Some c" "ch = channel_of c" by blast
  have "\<exists>c'. view w1 ?name = Some c' \<and> SC_UUID c' = SC_UUID c"
    by (rule remove_fold [of _ view remove_subscription, OF _ _ st1 [unfolded w1] c(1)])
      (erule sat_contractD(13) [OF con], simp add: remove_subscription_def)
  then obtain c1 where c1: "view w1 ?name = Some c1" "SC_UUID c1 = SC_UUID c" by blast
  have "\<exists>c'. view w2 ?name = Some c' \<and> SC_UUID c' = SC_UUID c1"
    by (rule remove_fold [of _ view remove_version, OF _ _ st2 [unfolded w1 w2] c1(1)])
      (erule sat_contractD(12) [OF con], simp add: remove_version_def)
  then obtain c2 where c2: "view w2 ?name = Some c2" "SC_UUID c2 = SC_UUID c" using c1(2) by auto
  from sat_contractD(11) [OF con gone] c2 c(2) show ?thesis by (simp add: on_channel_def channel_of_def)
qed

section \<open>A service that keeps the contract\<close>

type_synonym sat_store = "(string, sat_channel) fmap"

definition store_on :: "string \<Rightarrow> (sat_channel \<Rightarrow> sat_channel) \<Rightarrow> sat_store \<Rightarrow> sat_store" where
  "store_on uuid f w = fmmap (\<lambda>c. if SC_UUID c = uuid then f c else c) w"

definition store_satcon :: "sat_store SatCon" where
  "store_satcon =
     \<lparr>Sat_GroupByName = (\<lambda>_ _ _. (None, None)),
      Sat_ClustersByOrgID = (\<lambda>_ _. Inr []),
      Sat_ClusterByName = (\<lambda>_ name _. (Some \<lparr>RC_ClusterID = name, RC_Name = name\<rparr>, None)),
      Sat_ResourceContent = (\<lambda>_ _ _ _. (None, None)),
      Sat_ChannelByName = (\<lambda>_ name w. (map_option channel_of (fmlookup w name), None)),
      Sat_AddGroup = (\<lambda>_ name w. ((Some name, None), w)),
      Sat_GroupClusters = (\<lambda>_ _ _ w. (None, w)),
      Sat_AddChannel = (\<lambda>_ name w. if fmpred (\<lambda>_ c. SC_UUID c \<noteq> name) w
         then ((Some name, None), fmupd name \<lparr>SC_UUID = name, SC_Versions = [], SC_Subscriptions = []\<rparr> w)
         else ((None, Some ''exists''), w)),
      Sat_RemoveChannel = (\<lambda>_ u w. ((Some True, None),
         fmfilter (\<lambda>n. case fmlookup w n of Some c \<Rightarrow> SC_UUID c \<noteq> u | None \<Rightarrow> True) w)),
      Sat_AddChannelVersion = (\<lambda>_ u n content w. let vu = u @ n in
         if fmpred (\<lambda>_ c. vu \<notin> fst ` set (SC_Versions c)) w
         then ((Some vu, None), store_on u (add_version vu n content) w) else ((None, Some ''exists''), w)),
      Sat_RemoveChannelVersion = (\<lambda>_ vu w. ((Some True, None), fmmap (remove_version vu) w)),
      Sat_AddSubscription = (\<lambda>_ n u vu g w. (None, store_on u (add_subscription n vu g) w)),
      Sat_SetSubscription = (\<lambda>_ su vu w. (None, fmmap (set_subscription su vu) w)),
      Sat_RemoveSubscription = (\<lambda>_ su w. ((Some True, None), fmmap (remove_subscription su) w)),
      Sat_Me = (\<lambda>_. (Some ''org'', None))\<rparr>"

lemma store_on_view: "fmlookup (store_on u f w) = on_channel u (\<lambda>c. Some (f c)) (fmlookup w)"
  by (auto simp: store_on_def on_channel_def fun_eq_iff split: option.splits)

lemma store_satcon_lawful: "sat_contract store_satcon org fmlookup"
proof -
  have "fmlookup (fmmap f w) = on_all f (fmlookup w)" for f :: "sat_channel \<Rightarrow> sat_channel" and w
    by (auto simp: on_all_def fun_eq_iff)
  moreover have "fmlookup (fmfilter (\<lambda>n. case fmlookup w n of Some c \<Rightarrow> SC_UUID c \<noteq> u | None \<Rightarrow> True) w) =
      on_channel u (\<lambda>_. None) (fmlookup w)" for u and w :: sat_store
    by (auto simp: on_channel_def fun_eq_iff split: option.splits)
  ultimately show ?thesis
    by (auto simp: sat_contract_def sat_reads_def sat_failures_def sat_groups_def sat_adds_def sat_changes_def
        store_satcon_def store_on_view Let_def dest: fmpredD split: if_splits)
qed

definition plain_codec :: razee_codec where
  "plain_codec =
     \<lparr>Codec_Marshal = (\<lambda>b. Inr (Meta_Name (Blueprint_Meta b))), Codec_DecodeConfigMap = (\<lambda>_. Inr fmempty),
      Codec_DecodeBlueprint = (\<lambda>_. (Blueprint_zero, None))\<rparr>"

definition sample_razee :: razeeClusterManager where
  "sample_razee = \<lparr>Razee_orgID = ''org'', Razee_clusterGroup = []\<rparr>"

definition created_store :: sat_store where
  "created_store = fmupd ''fybrik.io-c-'' (deployed_channel ''fybrik.io-c-'' ''fybrik.io-c-0'' ''fybrik.io-c-'' [] ''fybrik-c'') fmempty"


end
