(* ===== verification/Policy_Connector.thy ===== *)
theory Policy_Connector
  imports Policy_Interface
begin

text \<open>
  \<^verbatim>\<open>src/pkg/connectors/policymanager/clients\<close>: the clients of policy managers. The messages of the gRPC
  service are records with the fields of the generated Go structs; a nested message is an option, since
  the pointer may be nil, and an enumeration is a 32-bit integer. The generated client of the service is
  a parameter, the function from a request to its answer. A random identifier is a parameter as well.
\<close>

section \<open>Messages\<close>

type_synonym int32 = "32 word"

abbreviation AccessOperation_READ :: int32 where
  "AccessOperation_READ \<equiv> 1"

abbreviation AccessOperation_WRITE :: int32 where
  "AccessOperation_WRITE \<equiv> 3"

abbreviation EnforcementAction_UNKNOWN :: int32 where
  "EnforcementAction_UNKNOWN \<equiv> 0"

abbreviation EnforcementAction_DATASET :: int32 where
  "EnforcementAction_DATASET \<equiv> 1"

abbreviation EnforcementAction_COLUMN :: int32 where
  "EnforcementAction_COLUMN \<equiv> 2"

record pb_DatasetIdentifier =
  pb_DatasetId :: string

record pb_AccessOperation =
  pb_Type :: int32
  pb_Destination :: string

record pb_DatasetContext =
  pb_Dataset :: "pb_DatasetIdentifier option"
  pb_Operation :: "pb_AccessOperation option"

record pb_ApplicationDetails =
  pb_ProcessingGeography :: string
  pb_Properties :: "(string, string) fmap"

record pb_ApplicationContext =
  pb_CredentialPath :: string
  pb_AppInfo :: "pb_ApplicationDetails option"
  pb_Datasets :: "pb_DatasetContext list"
  pb_GeneralOperations :: "pb_AccessOperation list"

record pb_EnforcementAction =
  pb_ActionName :: string
  pb_ActionId :: string
  pb_Level :: int32
  pb_Args :: "(string, string) fmap"

record pb_Policy =
  pb_PolicyId :: string
  pb_PolicyName :: string
  pb_Description :: string
  pb_PolicyType :: string
  pb_Hierarchy :: "string list"

record pb_OperationDecision =
  pb_DecisionOperation :: "pb_AccessOperation option"
  pb_EnforcementActions :: "pb_EnforcementAction list"
  pb_UsedPolicies :: "pb_Policy list"

record pb_DatasetDecision =
  pb_DecisionDataset :: "pb_DatasetIdentifier option"
  pb_Decisions :: "pb_OperationDecision list"

record pb_ComponentVersion =
  pb_ComponentName :: string
  pb_ComponentId :: string
  pb_Version :: string

record pb_PoliciesDecisions =
  pb_ComponentVersions :: "pb_ComponentVersion list"
  pb_DatasetDecisions :: "pb_DatasetDecision list"
  pb_GeneralDecisions :: "pb_OperationDecision list"

text \<open>The generated getters, which accept nil.\<close>

definition GetDatasetId :: "pb_DatasetIdentifier option \<Rightarrow> string" where
  "GetDatasetId d = (case d of None \<Rightarrow> [] | Some x \<Rightarrow> pb_DatasetId x)"

definition GetType :: "pb_AccessOperation option \<Rightarrow> int32" where
  "GetType op1 = (case op1 of None \<Rightarrow> 0 | Some x \<Rightarrow> pb_Type x)"

definition GetDestination :: "pb_AccessOperation option \<Rightarrow> string" where
  "GetDestination op1 = (case op1 of None \<Rightarrow> [] | Some x \<Rightarrow> pb_Destination x)"

definition GetProcessingGeography :: "pb_ApplicationDetails option \<Rightarrow> string" where
  "GetProcessingGeography d = (case d of None \<Rightarrow> [] | Some x \<Rightarrow> pb_ProcessingGeography x)"

definition GetProperties :: "pb_ApplicationDetails option \<Rightarrow> (string, string) fmap" where
  "GetProperties d = (case d of None \<Rightarrow> fmempty | Some x \<Rightarrow> pb_Properties x)"

section \<open>Requests\<close>

text \<open>One iteration over the datasets; every dataset overwrites what the one before set.\<close>

definition dataset_step ::
  "pb_DatasetContext \<Rightarrow> RequestAction \<times> Resource \<Rightarrow> RequestAction \<times> Resource" where
  "dataset_step d st =
     (case st of (action, resource) \<Rightarrow>
        let operation = pb_Operation d;
            action = action\<lparr>RequestAction_Destination := GetDestination operation\<rparr>;
            operationType = GetType operation;
            action = (if operationType = AccessOperation_READ
                      then action\<lparr>RequestAction_ActionType := policymanager_READ\<rparr> else action);
            action = (if operationType = AccessOperation_WRITE
                      then action\<lparr>RequestAction_ActionType := policymanager_WRITE\<rparr> else action)
        in (action, resource\<lparr>Resource_ID := GetDatasetId (pb_Dataset d)\<rparr>))"

definition ConvertGrpcReqToOpenAPIReq :: "pb_ApplicationContext \<Rightarrow> GetPolicyDecisionsRequest \<times> string" where
  "ConvertGrpcReqToOpenAPIReq input =
     (let (action, resource) = fold dataset_step (pb_Datasets input)
            (\<lparr>RequestAction_ActionType = [], RequestAction_ProcessingLocation = [], RequestAction_Destination = []\<rparr>,
             \<lparr>Resource_ID = [], Resource_Metadata = None\<rparr>);
          action = action\<lparr>RequestAction_ProcessingLocation := GetProcessingGeography (pb_AppInfo input)\<rparr>;
          properties = GetProperties (pb_AppInfo input);
          reqContext = fmupd ''role'' (JStr (fmget [] properties ''role''))
            (fmupd ''intent'' (JStr (fmget [] properties ''intent'')) fmempty)
      in (\<lparr>PolicyRequest_Context = \<lparr>RequestContext_Properties = \<lparr>Items = Some reqContext\<rparr>\<rparr>,
           PolicyRequest_Action = action, PolicyRequest_Resource = resource\<rparr>,
          pb_CredentialPath input))"

text \<open>An entry of the request's context is passed on if it is a string.\<close>

definition context_property ::
  "(string, json) fmap \<Rightarrow> string \<Rightarrow> (string, string) fmap \<Rightarrow> (string, string) fmap" where
  "context_property context key properties =
     (case fmlookup context key of Some (JStr v) \<Rightarrow> fmupd key v properties | _ \<Rightarrow> properties)"

definition ConvertOpenAPIReqToGrpcReq :: "GetPolicyDecisionsRequest \<Rightarrow> string \<Rightarrow> pb_ApplicationContext" where
  "ConvertOpenAPIReqToGrpcReq input creds =
     (let action = PolicyRequest_Action input;
          context = items_of (Items (RequestContext_Properties (PolicyRequest_Context input)));
          properties = context_property context ''role'' (context_property context ''intent'' fmempty);
          appInfo = \<lparr>pb_ProcessingGeography = RequestAction_ProcessingLocation action, pb_Properties = properties\<rparr>;
          actionType = RequestAction_ActionType action;
          grpcActionType = (if actionType = policymanager_READ then AccessOperation_READ
                            else if actionType = policymanager_WRITE then AccessOperation_WRITE
                            else AccessOperation_READ)
      in \<lparr>pb_CredentialPath = creds, pb_AppInfo = Some appInfo,
          pb_Datasets =
            [\<lparr>pb_Dataset = Some \<lparr>pb_DatasetId = Resource_ID (PolicyRequest_Resource input)\<rparr>,
              pb_Operation = Some \<lparr>pb_Type = grpcActionType, pb_Destination = RequestAction_Destination action\<rparr>\<rparr>],
          pb_GeneralOperations = []\<rparr>)"

section \<open>Answers\<close>

text \<open>
  \<open>strings.EqualFold\<close> for a first argument without the letters k and s, the only ASCII letters that have
  a non-ASCII case variant.
\<close>

definition ascii_lower :: "char \<Rightarrow> char" where
  "ascii_lower c =
     (let n = of_char c :: nat in if 65 \<le> n \<and> n \<le> 90 then char_of (n + 32) else c)"

definition strings_EqualFold :: "string \<Rightarrow> string \<Rightarrow> bool" where
  "strings_EqualFold s t \<longleftrightarrow> map ascii_lower s = map ascii_lower t"

type_synonym enforcement = "pb_EnforcementAction list \<times> pb_Policy list"

definition used_policy :: "string \<Rightarrow> pb_Policy" where
  "used_policy description =
     \<lparr>pb_PolicyId = [], pb_PolicyName = [], pb_Description = description, pb_PolicyType = [], pb_Hierarchy = []\<rparr>"

definition enforce_column :: "string \<Rightarrow> string \<Rightarrow> json \<Rightarrow> enforcement \<Rightarrow> enforcement go" where
  "enforce_column name policy col st =
     (case st of (actions, policies) \<Rightarrow>
        (case col of
           JStr c \<Rightarrow>
             Ok (actions @ [\<lparr>pb_ActionName = name, pb_ActionId = name @ ''-ID'', pb_Level = EnforcementAction_COLUMN,
                              pb_Args = fmupd ''column_name'' c fmempty\<rparr>],
                 policies @ [used_policy policy])
         | _ \<Rightarrow> Panic ''interface conversion''))"

text \<open>The three blocks for actions on columns differ in the name they look for and the name they send.\<close>

definition enforce_columns :: "string \<Rightarrow> string \<Rightarrow> ResultItem \<Rightarrow> enforcement \<Rightarrow> enforcement go" where
  "enforce_columns wanted name item st =
     (if strings_EqualFold wanted (Action_Name (ResultItem_Action item))
      then (case Items (Action_AdditionalProperties (ResultItem_Action item)) of
              None \<Rightarrow> Ok st
            | Some additionalProperties \<Rightarrow>
                (case fmlookup additionalProperties ''columns'' of
                   Some (JArr colNames) \<Rightarrow> go_fold (enforce_column name (ResultItem_Policy item)) colNames st
                 | _ \<Rightarrow> Ok st))
      else Ok st)"

definition dataset_action :: "string \<Rightarrow> pb_EnforcementAction" where
  "dataset_action name =
     \<lparr>pb_ActionName = name, pb_ActionId = name @ ''-ID'', pb_Level = EnforcementAction_DATASET, pb_Args = fmempty\<rparr>"

definition enforce_item :: "ResultItem \<Rightarrow> enforcement \<Rightarrow> enforcement go" where
  "enforce_item item st =
     (let name = Action_Name (ResultItem_Action item)
      in go_bind (enforce_columns ''redact'' ''redact'' item st)
           (\<lambda>st1. go_bind (enforce_columns ''remove'' ''removed'' item st1)
             (\<lambda>st2. go_bind (enforce_columns ''encrypt'' ''encrypted'' item st2)
               (\<lambda>(actions, policies).
                  let (actions, policies) =
                        (if strings_EqualFold ''deny'' name
                         then (actions @ [dataset_action ''Deny''], policies @ [used_policy (ResultItem_Policy item)])
                         else (actions, policies));
                      actions = (if strings_EqualFold ''allow'' name then actions @ [dataset_action ''Allow''] else actions)
                  in Ok (actions, policies)))))"

definition ConvertOpenAPIRespToGrpcResp ::
  "GetPolicyDecisionsResponse \<Rightarrow> string \<Rightarrow> pb_AccessOperation option \<Rightarrow> pb_PoliciesDecisions go" where
  "ConvertOpenAPIRespToGrpcResp out datasetID op1 =
     go_bind (go_fold enforce_item (PolicyResponse_Result out) ([], []))
       (\<lambda>(enforcementActions, usedPolicies).
          Ok \<lparr>pb_ComponentVersions = [],
              pb_DatasetDecisions =
                [\<lparr>pb_DecisionDataset = Some \<lparr>pb_DatasetId = datasetID\<rparr>,
                  pb_Decisions =
                    [\<lparr>pb_DecisionOperation = op1, pb_EnforcementActions = enforcementActions,
                      pb_UsedPolicies = usedPolicies\<rparr>]\<rparr>],
              pb_GeneralDecisions = []\<rparr>)"

definition Action_zero :: Action where
  "Action_zero = \<lparr>Action_Name = [], Action_AdditionalProperties = \<lparr>Items = None\<rparr>\<rparr>"

text \<open>The JSON object of an action on columns; it stays empty for a name that is not known.\<close>

definition column_object :: "string \<Rightarrow> (string, string) fmap \<Rightarrow> (string, json) fmap" where
  "column_object name args =
     (let action = fmempty;
          action = (if name = ''redact''
                    then let colName = (case fmlookup args ''column_name'' of Some c \<Rightarrow> c | None \<Rightarrow> fmget [] args ''column'')
                         in fmupd ''columns'' (JArr [JStr colName]) (fmupd ''name'' (JStr ''redact'') action)
                    else action);
          action = (if name = ''encrypt''
                    then fmupd ''columns'' (JArr [JStr (fmget [] args ''column_name'')]) (fmupd ''name'' (JStr ''encrypt'') action)
                    else action);
          action = (if name = ''remove''
                    then fmupd ''columns'' (JArr [JStr (fmget [] args ''column_name'')]) (fmupd ''name'' (JStr ''remove'') action)
                    else action)
      in action)"

definition result_action :: "pb_EnforcementAction \<Rightarrow> Action go" where
  "result_action enfAction =
     (let name = pb_ActionName enfAction;
          level = pb_Level enfAction
      in go_bind (if level = EnforcementAction_COLUMN
                  then Action_UnmarshalJSON (JObj (column_object name (pb_Args enfAction))) else Ok Action_zero)
           (\<lambda>action.
              Ok (if (level = EnforcementAction_DATASET \<or> level = EnforcementAction_UNKNOWN) \<and> name = ''Deny''
                  then Action_zero\<lparr>Action_Name := ''Deny''\<rparr> else action)))"

text \<open>The loop over the actions of a decision, the index \<open>k\<close> included.\<close>

fun result_loop :: "pb_Policy list \<Rightarrow> nat \<Rightarrow> pb_EnforcementAction list \<Rightarrow> ResultItem list \<Rightarrow> ResultItem list go" where
  "result_loop usedPolicies k [] respResult = Ok respResult"
| "result_loop usedPolicies k (enfAction # rest) respResult =
     go_bind (result_action enfAction)
       (\<lambda>action.
          let item = \<lparr>ResultItem_Policy = (if k < length usedPolicies then pb_Description (usedPolicies ! k) else []),
                      ResultItem_Action = action\<rparr>
          in result_loop usedPolicies (Suc k) rest
               (if pb_ActionName enfAction \<noteq> ''Allow'' then respResult @ [item] else respResult))"

definition decision_step :: "pb_OperationDecision \<Rightarrow> ResultItem list \<Rightarrow> ResultItem list go" where
  "decision_step decision respResult =
     result_loop (pb_UsedPolicies decision) 0 (pb_EnforcementActions decision) respResult"

definition ConvertGrpcRespToOpenAPIResp :: "string \<Rightarrow> pb_PoliciesDecisions \<Rightarrow> GetPolicyDecisionsResponse go" where
  "ConvertGrpcRespToOpenAPIResp decisionID result =
     go_bind (go_fold (\<lambda>datasetDecision. go_fold decision_step (pb_Decisions datasetDecision))
                (pb_DatasetDecisions result) [])
       (\<lambda>respResult. Ok \<lparr>PolicyResponse_DecisionID = decisionID, PolicyResponse_Result = respResult\<rparr>)"

section \<open>The clients\<close>

definition grpc_GetPoliciesDecisions ::
  "(pb_ApplicationContext \<Rightarrow> string + pb_PoliciesDecisions) \<Rightarrow> string \<Rightarrow> GetPolicyDecisionsRequest \<Rightarrow> string \<Rightarrow>
     GetPolicyDecisionsResponse go" where
  "grpc_GetPoliciesDecisions client decisionID input creds =
     (case client (ConvertOpenAPIReqToGrpcReq input creds) of
        Inl err \<Rightarrow> Err err
      | Inr result \<Rightarrow> ConvertGrpcRespToOpenAPIResp decisionID result)"

definition openapi_GetPoliciesDecisions ::
  "string \<Rightarrow> (string \<Rightarrow> GetPolicyDecisionsRequest \<Rightarrow> string + GetPolicyDecisionsResponse) \<Rightarrow>
     GetPolicyDecisionsRequest \<Rightarrow> string \<Rightarrow> string + GetPolicyDecisionsResponse" where
  "openapi_GetPoliciesDecisions name execute input creds =
     (case execute creds input of
        Inl err \<Rightarrow> Inl (with_message (''get policies decisions from '' @ name @ '' failed'') err)
      | Inr resp \<Rightarrow> Inr resp)"

section \<open>Merging decisions\<close>

definition operation_key :: "pb_OperationDecision \<Rightarrow> (int32 \<times> string) go" where
  "operation_key d =
     (case pb_DecisionOperation d of
        None \<Rightarrow> Panic ''nil pointer dereference''
      | Some op1 \<Rightarrow> Ok (pb_Type op1, pb_Destination op1))"

definition group_operation ::
  "pb_OperationDecision \<Rightarrow> (int32 \<times> string) list \<times> (int32 \<times> string, pb_OperationDecision) fmap \<Rightarrow>
     ((int32 \<times> string) list \<times> (int32 \<times> string, pb_OperationDecision) fmap) go" where
  "group_operation d st =
     (case st of (keys, groups) \<Rightarrow>
        go_bind (operation_key d)
          (\<lambda>key.
             let (keys, groups) =
                   (case fmlookup groups key of
                      None \<Rightarrow> (keys @ [key],
                        fmupd key \<lparr>pb_DecisionOperation = pb_DecisionOperation d, pb_EnforcementActions = [],
                                   pb_UsedPolicies = []\<rparr> groups)
                    | Some _ \<Rightarrow> (keys, groups));
                 g = the (fmlookup groups key)
             in Ok (keys, fmupd key (g\<lparr>pb_EnforcementActions := pb_EnforcementActions g @ pb_EnforcementActions d,
                                       pb_UsedPolicies := pb_UsedPolicies g @ pb_UsedPolicies d\<rparr>) groups)))"

definition compactOperationDecisions :: "pb_OperationDecision list \<Rightarrow> pb_OperationDecision list go" where
  "compactOperationDecisions input =
     (if input = [] then Ok []
      else go_bind (go_fold group_operation input ([], fmempty))
             (\<lambda>(keys, groups). Ok (map (\<lambda>key. the (fmlookup groups key)) keys)))"

definition group_dataset ::
  "pb_DatasetDecision \<Rightarrow> string list \<times> (string, pb_DatasetDecision) fmap \<Rightarrow>
     (string list \<times> (string, pb_DatasetDecision) fmap) go" where
  "group_dataset d st =
     (case st of (keys, groups) \<Rightarrow>
        (case pb_DecisionDataset d of
           None \<Rightarrow> Panic ''nil pointer dereference''
         | Some ds \<Rightarrow>
             let key = pb_DatasetId ds;
                 (keys, groups) =
                   (case fmlookup groups key of
                      None \<Rightarrow> (keys @ [key],
                        fmupd key \<lparr>pb_DecisionDataset = pb_DecisionDataset d, pb_Decisions = []\<rparr> groups)
                    | Some _ \<Rightarrow> (keys, groups));
                 g = the (fmlookup groups key)
             in Ok (keys, fmupd key (g\<lparr>pb_Decisions := pb_Decisions g @ pb_Decisions d\<rparr>) groups)))"

definition compactPolicyDecisions :: "pb_PoliciesDecisions \<Rightarrow> pb_PoliciesDecisions go" where
  "compactPolicyDecisions input =
     go_bind (compactOperationDecisions (pb_GeneralDecisions input))
       (\<lambda>general.
          go_bind (go_fold group_dataset (pb_DatasetDecisions input) ([], fmempty))
            (\<lambda>(keys, groups).
               go_bind (go_fold (\<lambda>key decisions.
                          let datasetDecision = the (fmlookup groups key)
                          in go_bind (compactOperationDecisions (pb_Decisions datasetDecision))
                               (\<lambda>ds. Ok (decisions @ [datasetDecision\<lparr>pb_Decisions := ds\<rparr>]))) keys [])
                 (\<lambda>decisions.
                    Ok \<lparr>pb_ComponentVersions = pb_ComponentVersions input, pb_DatasetDecisions = decisions,
                        pb_GeneralDecisions = general\<rparr>)))"

definition MergePoliciesDecisions :: "pb_PoliciesDecisions list \<Rightarrow> pb_PoliciesDecisions go" where
  "MergePoliciesDecisions input =
     compactPolicyDecisions
       \<lparr>pb_ComponentVersions = concat (map pb_ComponentVersions input),
        pb_DatasetDecisions = concat (map pb_DatasetDecisions input),
        pb_GeneralDecisions = concat (map pb_GeneralDecisions input)\<rparr>"

section \<open>Requests arrive as they were sent\<close>

definition string_entry :: "(string, json) fmap \<Rightarrow> string \<Rightarrow> string" where
  "string_entry m key = (case fmlookup m key of Some (JStr v) \<Rightarrow> v | _ \<Rightarrow> [])"

lemma context_property_get:
  "fmget [] (context_property m key props) k = (if k = key \<and> (\<exists>v. fmlookup m key = Some (JStr v))
     then string_entry m key else fmget [] props k)"
  by (auto simp: context_property_def string_entry_def split: option.splits json.splits)


section \<open>Answers\<close>

text \<open>What an item of an answer becomes on the wire, each action beside its policy.\<close>

definition columns_of :: "ResultItem \<Rightarrow> json list" where
  "columns_of item =
     (case Items (Action_AdditionalProperties (ResultItem_Action item)) of
        None \<Rightarrow> []
      | Some m \<Rightarrow> (case fmlookup m ''columns'' of Some (JArr cols) \<Rightarrow> cols | _ \<Rightarrow> []))"

definition column_action :: "string \<Rightarrow> string \<Rightarrow> pb_EnforcementAction" where
  "column_action name c =
     \<lparr>pb_ActionName = name, pb_ActionId = name @ ''-ID'', pb_Level = EnforcementAction_COLUMN,
      pb_Args = fmupd ''column_name'' c fmempty\<rparr>"

fun json_string :: "json \<Rightarrow> string" where
  "json_string (JStr s) = s"
| "json_string _ = []"

fun is_string :: "json \<Rightarrow> bool" where
  "is_string (JStr s) = True"
| "is_string _ = False"

lemma enforce_columns_eq:
  "enforce_columns wanted name item st =
     (if strings_EqualFold wanted (Action_Name (ResultItem_Action item))
      then go_fold (enforce_column name (ResultItem_Policy item)) (columns_of item) st else Ok st)"
  by (auto simp: enforce_columns_def columns_of_def split: option.splits json.splits)

lemma enforce_column_fold:
  "list_all is_string cols \<Longrightarrow> go_fold (enforce_column name policy) cols (as, ps) =
     Ok (as @ map (\<lambda>c. column_action name (json_string c)) cols, ps @ map (\<lambda>_. used_policy policy) cols)"
proof (induction cols arbitrary: as ps)
  case (Cons c cols)
  then show ?case by (cases c) (simp_all add: enforce_column_def column_action_def)
qed simp

lemma folded_names:
  "strings_EqualFold ''redact'' ''redact''" "\<not> strings_EqualFold ''remove'' ''redact''"
  "\<not> strings_EqualFold ''encrypt'' ''redact''" "\<not> strings_EqualFold ''deny'' ''redact''"
  "\<not> strings_EqualFold ''allow'' ''redact''"
  "\<not> strings_EqualFold ''redact'' ''Deny''" "\<not> strings_EqualFold ''remove'' ''Deny''"
  "\<not> strings_EqualFold ''encrypt'' ''Deny''" "strings_EqualFold ''deny'' ''Deny''"
  "\<not> strings_EqualFold ''allow'' ''Deny''"
  "strings_EqualFold ''remove'' ''remove''" "\<not> strings_EqualFold ''redact'' ''remove''"
  by code_simp+

text \<open>The answers that the gRPC service has a name for: denials, and redactions of columns.\<close>

definition wire_item :: "ResultItem \<Rightarrow> bool" where
  "wire_item item \<longleftrightarrow> Action_Name (ResultItem_Action item) = ''Deny'' \<or>
     Action_Name (ResultItem_Action item) = ''redact'' \<and> list_all is_string (columns_of item)"

definition wire_actions :: "ResultItem \<Rightarrow> (pb_EnforcementAction \<times> pb_Policy) list" where
  "wire_actions item =
     (if Action_Name (ResultItem_Action item) = ''Deny''
      then [(dataset_action ''Deny'', used_policy (ResultItem_Policy item))]
      else map (\<lambda>c. (column_action ''redact'' (json_string c), used_policy (ResultItem_Policy item))) (columns_of item))"

lemma enforce_wire_item:
  assumes "wire_item item"
  shows "enforce_item item (as, ps) = Ok (as @ map fst (wire_actions item), ps @ map snd (wire_actions item))"
  using assms
  by (auto simp: wire_item_def enforce_item_def enforce_columns_eq folded_names enforce_column_fold wire_actions_def
      Let_def comp_def)

lemma enforce_wire_items:
  assumes "list_all wire_item items"
  shows "go_fold enforce_item items (as, ps) =
    Ok (as @ map fst (concat (map wire_actions items)), ps @ map snd (concat (map wire_actions items)))"
  using assms by (induction items arbitrary: as ps) (simp_all add: enforce_wire_item)

text \<open>What comes back: one item for each column, with the policy of the original one.\<close>

definition redact_column :: "string \<Rightarrow> Action" where
  "redact_column c =
     \<lparr>Action_Name = ''redact'', Action_AdditionalProperties =
        \<lparr>Items = Some (fmupd ''columns'' (JArr [JStr c]) fmempty)\<rparr>\<rparr>"

definition returned_items :: "ResultItem \<Rightarrow> ResultItem list" where
  "returned_items item =
     (if Action_Name (ResultItem_Action item) = ''Deny''
      then [item\<lparr>ResultItem_Action := Action_zero\<lparr>Action_Name := ''Deny''\<rparr>\<rparr>]
      else map (\<lambda>c. item\<lparr>ResultItem_Action := redact_column (json_string c)\<rparr>) (columns_of item))"

lemma result_action_redact: "result_action (column_action ''redact'' c) = Ok (redact_column c)"
proof -
  let ?m = "fmupd ''columns'' (JArr [JStr c]) (fmupd ''name'' (JStr ''redact'') fmempty)"
  have "fmdrop ''name'' ?m = fmupd ''columns'' (JArr [JStr c]) fmempty" by (intro fmap_ext) simp
  moreover have "fmupd ''columns'' (JArr [JStr c]) fmempty \<noteq> fmempty"
    by (metis fmempty_lookup fmupd_lookup option.distinct(1))
  ultimately have "rest_items ?m = Some (fmupd ''columns'' (JArr [JStr c]) fmempty)"
    by (simp add: rest_items_def)
  then show ?thesis
    by (simp add: result_action_def column_action_def column_object_def Action_UnmarshalJSON_def redact_column_def)
qed

lemma result_action_deny: "result_action (dataset_action ''Deny'') = Ok (Action_zero\<lparr>Action_Name := ''Deny''\<rparr>)"
  by (simp add: result_action_def dataset_action_def)

text \<open>The loop over aligned actions and policies.\<close>

lemma result_loop_aligned:
  assumes "\<forall>(a, p)\<in>set xs. result_action a = Ok (f a) \<and> pb_ActionName a \<noteq> ''Allow''"
  shows "result_loop (ps @ map snd xs) (length ps) (map fst xs) acc =
    Ok (acc @ map (\<lambda>(a, p). \<lparr>ResultItem_Policy = pb_Description p, ResultItem_Action = f a\<rparr>) xs)"
  using assms
proof (induction xs arbitrary: ps acc)
  case (Cons x xs)
  obtain a p where x: "x = (a, p)" by (cases x)
  from Cons.IH [of "ps @ [p]"] Cons.prems x show ?case by simp
qed simp

definition ok_action :: "pb_EnforcementAction \<Rightarrow> Action" where
  "ok_action a = (case result_action a of Ok x \<Rightarrow> x | _ \<Rightarrow> Action_zero)"

lemma action_names [simp]: "pb_ActionName (dataset_action n) = n" "pb_ActionName (column_action n c) = n"
  by (simp_all add: dataset_action_def column_action_def)

lemma wire_actions_ok:
  "(a, p) \<in> set (wire_actions item) \<Longrightarrow> result_action a = Ok (ok_action a) \<and> pb_ActionName a \<noteq> ''Allow''"
  by (auto simp: wire_actions_def ok_action_def result_action_redact result_action_deny split: if_splits)

lemma returned_wire_actions:
  "map (\<lambda>(a, p). \<lparr>ResultItem_Policy = pb_Description p, ResultItem_Action = ok_action a\<rparr>) (wire_actions item) =
     returned_items item"
  by (simp add: wire_actions_def returned_items_def ok_action_def result_action_redact result_action_deny used_policy_def)

text \<open>
  C35: An answer that denies the access or redacts columns survives the way over gRPC: what the client
  reads is the same list of items, in their order and with their policies, where a redaction of several
  columns has become one item for each column.
\<close>

theorem policy_answer_roundtrip:
  assumes "list_all wire_item (PolicyResponse_Result out)"
  shows "go_bind (ConvertOpenAPIRespToGrpcResp out datasetID op1) (ConvertGrpcRespToOpenAPIResp decisionID) =
    Ok \<lparr>PolicyResponse_DecisionID = decisionID,
        PolicyResponse_Result = concat (map returned_items (PolicyResponse_Result out))\<rparr>"
proof -
  let ?xs = "concat (map wire_actions (PolicyResponse_Result out))"
  have "\<forall>(a, p)\<in>set ?xs. result_action a = Ok (ok_action a) \<and> pb_ActionName a \<noteq> ''Allow''"
    using wire_actions_ok by fastforce
  from result_loop_aligned [OF this, of "[]" "[]"]
  have "result_loop (map snd ?xs) 0 (map fst ?xs) [] = Ok (concat (map returned_items (PolicyResponse_Result out)))"
    by (simp add: map_concat returned_wire_actions comp_def)
  then show ?thesis
    by (simp add: ConvertOpenAPIRespToGrpcResp_def ConvertGrpcRespToOpenAPIResp_def enforce_wire_items [OF assms]
        decision_step_def)
qed

section \<open>Answers without a name\<close>

lemma result_loop_Ok:
  "result_loop ps k as acc = Ok r \<Longrightarrow> a \<in> set as \<Longrightarrow> \<exists>x. result_action a = Ok x"
  by (induction ps k as acc rule: result_loop.induct) (auto simp: go_bind_Ok_iff Let_def)

lemma result_action_removed: "result_action (column_action ''removed'' c) = Panic ''interface conversion''"
  by (simp add: result_action_def column_action_def column_object_def Action_UnmarshalJSON_def)

lemma enforce_column_grows:
  "enforce_column name policy c (as, ps) = Ok (as', ps') \<Longrightarrow>
     set as \<subseteq> set as' \<and> (\<exists>s. c = JStr s \<and> column_action name s \<in> set as')"
  by (cases c) (auto simp: enforce_column_def column_action_def)

lemma enforce_column_fold_grows:
  "go_fold (enforce_column name policy) cols (as, ps) = Ok (as', ps') \<Longrightarrow>
     set as \<subseteq> set as' \<and> (\<forall>c\<in>set cols. \<exists>s. column_action name s \<in> set as')"
proof (induction cols arbitrary: as ps)
  case (Cons c cols)
  then obtain as1 ps1 where 1: "enforce_column name policy c (as, ps) = Ok (as1, ps1)"
    "go_fold (enforce_column name policy) cols (as1, ps1) = Ok (as', ps')" by (auto simp: go_bind_Ok_iff)
  from enforce_column_grows [OF 1(1)] Cons.IH [OF 1(2)] show ?case by auto
qed simp

lemma enforce_columns_grows:
  "enforce_columns wanted name item (as, ps) = Ok (as', ps') \<Longrightarrow> set as \<subseteq> set as'"
  using enforce_column_fold_grows by (fastforce simp: enforce_columns_eq split: if_splits)

lemma enforce_item_E:
  assumes "enforce_item item (as, ps) = Ok (as', ps')"
  obtains as1 ps1 as2 ps2 as3 ps3 where "enforce_columns ''redact'' ''redact'' item (as, ps) = Ok (as1, ps1)"
    "enforce_columns ''remove'' ''removed'' item (as1, ps1) = Ok (as2, ps2)"
    "enforce_columns ''encrypt'' ''encrypted'' item (as2, ps2) = Ok (as3, ps3)" "set as3 \<subseteq> set as'"
  using assms that by (fastforce simp: enforce_item_def go_bind_Ok_iff Let_def split: if_splits)

lemma enforce_item_grows: "enforce_item item (as, ps) = Ok (as', ps') \<Longrightarrow> set as \<subseteq> set as'"
  by (elim enforce_item_E) (meson enforce_columns_grows subset_trans)

lemma enforce_item_removed:
  assumes "enforce_item item (as, ps) = Ok (as', ps')"
    and "Action_Name (ResultItem_Action item) = ''remove''" and "columns_of item \<noteq> []"
  shows "\<exists>c. column_action ''removed'' c \<in> set as'"
  using assms(1)
proof (cases rule: enforce_item_E)
  case (1 as1 ps1 as2 ps2 as3 ps3)
  then have "go_fold (enforce_column ''removed'' (ResultItem_Policy item)) (columns_of item) (as1, ps1) = Ok (as2, ps2)"
    by (simp add: enforce_columns_eq assms(2) folded_names)
  from enforce_column_fold_grows [OF this] assms(3) obtain c where "column_action ''removed'' c \<in> set as2"
    by (cases "columns_of item") auto
  with enforce_columns_grows [OF 1(3)] 1(4) show ?thesis by blast
qed

lemma enforce_items_removed:
  assumes "go_fold enforce_item items (as, ps) = Ok (as', ps')" and "item \<in> set items"
    and "Action_Name (ResultItem_Action item) = ''remove''" and "columns_of item \<noteq> []"
  shows "set as \<subseteq> set as' \<and> (\<exists>c. column_action ''removed'' c \<in> set as')"
  using assms(1,2)
proof (induction items arbitrary: as ps)
  case (Cons i items)
  then obtain as1 ps1 where 1: "enforce_item i (as, ps) = Ok (as1, ps1)"
    "go_fold enforce_item items (as1, ps1) = Ok (as', ps')" by (auto simp: go_bind_Ok_iff)
  have rest: "set as1 \<subseteq> set as'"
  proof (rule go_fold_invariant [where P = "\<lambda>st. set as1 \<subseteq> set (fst st)", OF _ _ 1(2), simplified])
    fix x s s'
    show "set as1 \<subseteq> set (fst s) \<Longrightarrow> enforce_item x s = Ok s' \<Longrightarrow> set as1 \<subseteq> set (fst s')"
      using enforce_item_grows by (metis prod.collapse subset_trans)
  qed
  show ?case
  proof (cases "i = item")
    case True
    with enforce_item_removed [OF 1(1)] assms(3,4) rest enforce_item_grows [OF 1(1)] show ?thesis by blast
  next
    case False
    with Cons.IH [OF 1(2)] Cons.prems(2) enforce_item_grows [OF 1(1)] show ?thesis by auto
  qed
qed simp

text \<open>
  A column that is to be removed cannot be asked for over gRPC. The service sends the action as
  \<open>removed\<close>, the client only knows \<open>remove\<close>, builds an action without a name and panics while decoding it.
\<close>

theorem removed_columns_panic:
  assumes "ConvertOpenAPIRespToGrpcResp out datasetID op1 = Ok decisions"
    and "item \<in> set (PolicyResponse_Result out)" and "Action_Name (ResultItem_Action item) = ''remove''"
    and "columns_of item \<noteq> []"
  shows "\<nexists>resp. ConvertGrpcRespToOpenAPIResp decisionID decisions = Ok resp"
proof
  assume "\<exists>resp. ConvertGrpcRespToOpenAPIResp decisionID decisions = Ok resp"
  then obtain resp where resp: "ConvertGrpcRespToOpenAPIResp decisionID decisions = Ok resp" ..
  from assms(1) obtain as ps where fold: "go_fold enforce_item (PolicyResponse_Result out) ([], []) = Ok (as, ps)"
    and decisions: "pb_DatasetDecisions decisions =
      [\<lparr>pb_DecisionDataset = Some \<lparr>pb_DatasetId = datasetID\<rparr>, pb_Decisions =
         [\<lparr>pb_DecisionOperation = op1, pb_EnforcementActions = as, pb_UsedPolicies = ps\<rparr>]\<rparr>]"
    by (auto simp: ConvertOpenAPIRespToGrpcResp_def go_bind_Ok_iff)
  from enforce_items_removed [OF fold assms(2-4)] obtain c where c: "column_action ''removed'' c \<in> set as" by blast
  from resp decisions obtain r where "result_loop ps 0 as [] = Ok r"
    by (auto simp: ConvertGrpcRespToOpenAPIResp_def decision_step_def go_bind_Ok_iff)
  from result_loop_Ok [OF this c] result_action_removed show False by simp
qed

section \<open>Merged decisions\<close>

text \<open>
  The specification of the grouping: the keys in the order of their first decision, each with the
  actions and the policies of all of its decisions in their order.
\<close>

definition keyed :: "pb_OperationDecision list \<Rightarrow> bool" where
  "keyed ds \<longleftrightarrow> list_all (\<lambda>d. pb_DecisionOperation d \<noteq> None) ds"

definition key_of :: "pb_OperationDecision \<Rightarrow> int32 \<times> string" where
  "key_of d = (GetType (pb_DecisionOperation d), GetDestination (pb_DecisionOperation d))"

definition of_key :: "int32 \<times> string \<Rightarrow> pb_OperationDecision list \<Rightarrow> pb_OperationDecision list" where
  "of_key k ds = filter (\<lambda>d. key_of d = k) ds"

definition merged :: "pb_OperationDecision list \<Rightarrow> pb_OperationDecision \<Rightarrow> bool" where
  "merged ds d \<longleftrightarrow>
     pb_EnforcementActions d = concat (map pb_EnforcementActions (of_key (key_of d) ds)) \<and>
     pb_UsedPolicies d = concat (map pb_UsedPolicies (of_key (key_of d) ds))"

definition grouped ::
  "pb_OperationDecision list \<Rightarrow> (int32 \<times> string) list \<times> (int32 \<times> string, pb_OperationDecision) fmap \<Rightarrow> bool" where
  "grouped ds st \<longleftrightarrow> distinct (fst st) \<and> set (fst st) = key_of ` set ds \<and> fset (fmdom (snd st)) = set (fst st) \<and>
     (\<forall>k g. fmlookup (snd st) k = Some g \<longrightarrow> key_of g = k \<and> merged ds g)"

lemma grouped_lookup:
  assumes "grouped ds (keys, groups)"
  shows "fmlookup groups k = None \<longleftrightarrow> k \<notin> key_of ` set ds"
    and "fmlookup groups k = Some g \<Longrightarrow> key_of g = k \<and> merged ds g"
    and "k \<in> set keys \<Longrightarrow> \<exists>g. fmlookup groups k = Some g"
proof -
  note g = assms [unfolded grouped_def fst_conv snd_conv]
  have dom: "k |\<in>| fmdom groups \<longleftrightarrow> k \<in> key_of ` set ds" "k |\<in>| fmdom groups \<longleftrightarrow> k \<in> set keys"
    using g by simp_all
  show "fmlookup groups k = Some g \<Longrightarrow> key_of g = k \<and> merged ds g" using g by blast
  show "fmlookup groups k = None \<longleftrightarrow> k \<notin> key_of ` set ds" "k \<in> set keys \<Longrightarrow> \<exists>g. fmlookup groups k = Some g"
    unfolding dom [symmetric] by (auto simp: fmlookup_dom_iff)
qed

lemma operation_key_eq: "pb_DecisionOperation d \<noteq> None \<Longrightarrow> operation_key d = Ok (key_of d)"
  by (auto simp: operation_key_def key_of_def GetType_def GetDestination_def)

lemma of_key_snoc: "of_key k (ds @ [d]) = of_key k ds @ (if key_of d = k then [d] else [])"
  by (simp add: of_key_def)

lemma of_key_fresh: "k \<notin> key_of ` set ds \<Longrightarrow> of_key k ds = []"
  by (auto simp: of_key_def filter_empty_conv)

lemma group_operation_grouped:
  assumes "grouped ds (keys, groups)" and "pb_DecisionOperation d \<noteq> None"
  shows "\<exists>st. group_operation d (keys, groups) = Ok st \<and> grouped (ds @ [d]) st"
proof (cases "fmlookup groups (key_of d)")
  case None
  then have fresh: "key_of d \<notin> key_of ` set ds"
    using grouped_lookup(1) [OF assms(1)] by blast
  let ?g = "\<lparr>pb_DecisionOperation = pb_DecisionOperation d, pb_EnforcementActions = pb_EnforcementActions d,
    pb_UsedPolicies = pb_UsedPolicies d\<rparr>"
  have "group_operation d (keys, groups) = Ok (keys @ [key_of d], fmupd (key_of d) ?g groups)"
    using None by (simp add: group_operation_def operation_key_eq [OF assms(2)] Let_def)
  moreover have "grouped (ds @ [d]) (keys @ [key_of d], fmupd (key_of d) ?g groups)"
    using assms(1) fresh of_key_fresh [OF fresh]
    by (auto simp: grouped_def merged_def of_key_snoc key_of_def split: if_splits)
  ultimately show ?thesis by blast
next
  case (Some g)
  then have old: "key_of d \<in> key_of ` set ds" "key_of g = key_of d" "merged ds g"
    using grouped_lookup(1,2) [OF assms(1), of "key_of d"] by auto
  let ?g = "g\<lparr>pb_EnforcementActions := pb_EnforcementActions g @ pb_EnforcementActions d,
    pb_UsedPolicies := pb_UsedPolicies g @ pb_UsedPolicies d\<rparr>"
  have "group_operation d (keys, groups) = Ok (keys, fmupd (key_of d) ?g groups)"
    using Some by (simp add: group_operation_def operation_key_eq [OF assms(2)] Let_def)
  moreover have "grouped (ds @ [d]) (keys, fmupd (key_of d) ?g groups)"
    using assms(1) old
    by (auto simp: grouped_def merged_def of_key_snoc key_of_def split: if_splits)
  ultimately show ?thesis by blast
qed

lemma group_fold_grouped:
  assumes "grouped done (keys, groups)" and "keyed ds"
  shows "\<exists>st. go_fold group_operation ds (keys, groups) = Ok st \<and> grouped (done @ ds) st"
  using assms
proof (induction ds arbitrary: keys groups "done")
  case (Cons d ds)
  from Cons.prems(2) have d: "pb_DecisionOperation d \<noteq> None" and ds: "keyed ds" by (auto simp: keyed_def)
  from group_operation_grouped [OF Cons.prems(1) d] obtain keys1 groups1 where
    1: "group_operation d (keys, groups) = Ok (keys1, groups1)" "grouped (done @ [d]) (keys1, groups1)" by auto
  from Cons.IH [OF 1(2) ds] 1(1) show ?case by simp
qed auto

text \<open>
  Merging loses and invents no decision. Decisions on operations are merged to one decision for each
  type and destination, in the order of their first appearance, and each merged decision has the actions
  and the policies of all decisions it stands for, in their order.
\<close>

theorem compactOperationDecisions_merges:
  assumes "keyed ds"
  shows "\<exists>out. compactOperationDecisions ds = Ok out \<and> distinct (map key_of out) \<and>
    key_of ` set out = key_of ` set ds \<and> list_all (merged ds) out"
proof (cases "ds = []")
  case True
  then show ?thesis by (simp add: compactOperationDecisions_def)
next
  case False
  have "grouped [] ([], fmempty)" by (simp add: grouped_def)
  from group_fold_grouped [OF this assms] obtain keys groups where
    fold: "go_fold group_operation ds ([], fmempty) = Ok (keys, groups)" and g: "grouped ds (keys, groups)" by auto
  let ?out = "map (\<lambda>k. the (fmlookup groups k)) keys"
  have keys: "key_of (the (fmlookup groups k)) = k \<and> merged ds (the (fmlookup groups k))" if "k \<in> set keys" for k
    using grouped_lookup(2,3) [OF g, of k] that by auto
  then have "map key_of ?out = keys" by (simp add: map_idI)
  then have "distinct (map key_of ?out)" "key_of ` set ?out = key_of ` set ds"
    using g by (simp add: grouped_def, metis (no_types) fst_conv grouped_def list.set_map)
  moreover have "list_all (merged ds) ?out" using keys by (simp add: list_all_iff)
  ultimately show ?thesis using fold False by (auto simp: compactOperationDecisions_def)
qed

section \<open>Witnesses\<close>

definition answer_item :: "string \<Rightarrow> string \<Rightarrow> string list \<Rightarrow> ResultItem" where
  "answer_item policy name cols =
     \<lparr>ResultItem_Policy = policy, ResultItem_Action = \<lparr>Action_Name = name, Action_AdditionalProperties =
        \<lparr>Items = Some (fmupd ''columns'' (JArr (map JStr cols)) fmempty)\<rparr>\<rparr>\<rparr>"

definition answer :: "ResultItem list \<Rightarrow> GetPolicyDecisionsResponse" where
  "answer items = \<lparr>PolicyResponse_DecisionID = ''1'', PolicyResponse_Result = items\<rparr>"

theorem policy_answer_roundtrip_witness:
  "go_bind (ConvertOpenAPIRespToGrpcResp (answer [answer_item ''p1'' ''redact'' [''SSN'', ''name''],
      answer_item ''p2'' ''Deny'' []]) ''d'' None) (ConvertGrpcRespToOpenAPIResp ''2'') =
    Ok \<lparr>PolicyResponse_DecisionID = ''2'', PolicyResponse_Result =
      [\<lparr>ResultItem_Policy = ''p1'', ResultItem_Action = redact_column ''SSN''\<rparr>,
       \<lparr>ResultItem_Policy = ''p1'', ResultItem_Action = redact_column ''name''\<rparr>,
       \<lparr>ResultItem_Policy = ''p2'', ResultItem_Action = Action_zero\<lparr>Action_Name := ''Deny''\<rparr>\<rparr>]\<rparr>"
proof -
  let ?out = "answer [answer_item ''p1'' ''redact'' [''SSN'', ''name''], answer_item ''p2'' ''Deny'' []]"
  have "list_all wire_item (PolicyResponse_Result ?out)"
    by (simp add: answer_def answer_item_def wire_item_def columns_of_def)
  from policy_answer_roundtrip [OF this] show ?thesis
    by (simp add: answer_def answer_item_def returned_items_def columns_of_def)
qed

theorem removed_columns_panic_witness:
  "\<exists>decisions. ConvertOpenAPIRespToGrpcResp (answer [answer_item ''p1'' ''remove'' [''SSN'']]) ''d'' None = Ok decisions \<and>
     (\<nexists>resp. ConvertGrpcRespToOpenAPIResp ''2'' decisions = Ok resp)"
proof -
  let ?out = "answer [answer_item ''p1'' ''remove'' [''SSN'']]"
  have names: "\<not> strings_EqualFold ''encrypt'' ''remove''" "\<not> strings_EqualFold ''deny'' ''remove''"
    "\<not> strings_EqualFold ''allow'' ''remove''" by code_simp+
  obtain decisions where run: "ConvertOpenAPIRespToGrpcResp ?out ''d'' None = Ok decisions"
    by (simp add: answer_def answer_item_def ConvertOpenAPIRespToGrpcResp_def enforce_item_def enforce_columns_def
        enforce_column_def folded_names names Let_def)
  moreover have "answer_item ''p1'' ''remove'' [''SSN''] \<in> set (PolicyResponse_Result ?out)" by (simp add: answer_def)
  moreover have "Action_Name (ResultItem_Action (answer_item ''p1'' ''remove'' [''SSN''])) = ''remove''"
    "columns_of (answer_item ''p1'' ''remove'' [''SSN'']) \<noteq> []"
    by (simp_all add: answer_item_def columns_of_def)
  ultimately show ?thesis using removed_columns_panic by blast
qed

definition read_decision :: "string \<Rightarrow> pb_OperationDecision" where
  "read_decision name =
     \<lparr>pb_DecisionOperation = Some \<lparr>pb_Type = AccessOperation_READ, pb_Destination = []\<rparr>,
      pb_EnforcementActions = [dataset_action name], pb_UsedPolicies = []\<rparr>"

lemma distinct_singleton: "distinct xs \<Longrightarrow> set xs = {x} \<Longrightarrow> xs = [x]"
  by (cases xs; cases "tl xs") auto

theorem compactOperationDecisions_merges_witness:
  "\<exists>d. compactOperationDecisions [read_decision ''Deny'', read_decision ''log''] = Ok [d] \<and>
     map pb_ActionName (pb_EnforcementActions d) = [''Deny'', ''log'']"
proof -
  let ?ds = "[read_decision ''Deny'', read_decision ''log'']"
  have "keyed ?ds" by (simp add: keyed_def read_decision_def)
  from compactOperationDecisions_merges [OF this] obtain out where
    out: "compactOperationDecisions ?ds = Ok out" "distinct (map key_of out)" "key_of ` set out = key_of ` set ?ds"
    "list_all (merged ?ds) out" by blast
  have keys: "key_of (read_decision n) = (AccessOperation_READ, [])" for n
    by (simp add: key_of_def read_decision_def GetType_def GetDestination_def)
  then have "set (map key_of out) = {(AccessOperation_READ, [])}" using out(3) by auto
  with out(2) have "map key_of out = [(AccessOperation_READ, [])]" by (rule distinct_singleton)
  then obtain d where d: "out = [d]" "key_of d = (AccessOperation_READ, [])" by auto
  with out(4) keys have "pb_EnforcementActions d = [dataset_action ''Deny'', dataset_action ''log'']"
    by (simp add: merged_def of_key_def) (simp add: read_decision_def)
  with out(1) d(1) show ?thesis by simp
qed

end
