(* ===== verification/Catalog_Connector.thy ===== *)
theory Catalog_Connector
  imports Policy_Connector
begin

text \<open>
  The clients of data catalogs, \<^verbatim>\<open>src/pkg/connectors/datacatalog/clients\<close>, the two connectors of the
  repository, \<^verbatim>\<open>src/connectors/katalog/pkg/connector\<close> and \<^verbatim>\<open>src/connectors/opa/connector.go\<close>, and
  the mock-ups of a catalog and of a policy manager, \<^verbatim>\<open>src/manager/controllers/mockup\<close>. The generated
  clients and the servers they reach are parameters.
\<close>

section \<open>Messages\<close>

abbreviation DataStore_S3 :: int32 where
  "DataStore_S3 \<equiv> 2"

abbreviation DataStore_DB2 :: int32 where
  "DataStore_DB2 \<equiv> 3"

abbreviation DataStore_KAFKA :: int32 where
  "DataStore_KAFKA \<equiv> 4"

record pb_DataComponentMetadata =
  pb_ComponentType :: string
  pb_NamedMetadata :: "(string, string) fmap"
  pb_Tags :: "string list"

record pb_DatasetMetadata =
  pb_DatasetNamedMetadata :: "(string, string) fmap"
  pb_DatasetTags :: "string list"
  pb_ComponentsMetadata :: "(string, pb_DataComponentMetadata option) fmap"

record pb_Db2DataStore =
  pb_Url :: string
  pb_Database :: string
  pb_Table :: string
  pb_Port :: string
  pb_Ssl :: string

record pb_S3DataStore =
  pb_Endpoint :: string
  pb_Bucket :: string
  pb_ObjectKey :: string
  pb_Region :: string

record pb_KafkaDataStore =
  pb_TopicName :: string
  pb_BootstrapServers :: string
  pb_SchemaRegistry :: string
  pb_KeyDeserializer :: string
  pb_ValueDeserializer :: string
  pb_SecurityProtocol :: string
  pb_SaslMechanism :: string
  pb_SslTruststore :: string
  pb_SslTruststorePassword :: string

record pb_DataStore =
  pb_StoreType :: int32
  pb_StoreName :: string
  pb_Db2 :: "pb_Db2DataStore option"
  pb_S3 :: "pb_S3DataStore option"
  pb_Kafka :: "pb_KafkaDataStore option"

record pb_CredentialsInfo =
  pb_VaultSecretPath :: string

record pb_DatasetDetails =
  pb_DetailsName :: string
  pb_DataOwner :: string
  pb_DataStoreInfo :: "pb_DataStore option"
  pb_DataFormat :: string
  pb_Geo :: string
  pb_Metadata :: "pb_DatasetMetadata option"
  pb_Credentials :: "pb_CredentialsInfo option"

record pb_CatalogDatasetRequest =
  pb_RequestCredentialPath :: string
  pb_RequestDatasetId :: string

record pb_CatalogDatasetInfo =
  pb_InfoDatasetId :: string
  pb_Details :: "pb_DatasetDetails option"

text \<open>
  \<open>json.Marshal\<close> of a store, whose fields are all strings that are left out when empty, and
  \<open>json.Unmarshal\<close> into an interface: an object of the fields that are set, null for nil.
\<close>

definition omitempty :: "(string \<times> string) list \<Rightarrow> json" where
  "omitempty fs = JObj (fmap_of_list (map (\<lambda>(k, v). (k, JStr v)) (filter (\<lambda>(k, v). v \<noteq> []) fs)))"

definition S3_json :: "pb_S3DataStore option \<Rightarrow> json" where
  "S3_json s = (case s of None \<Rightarrow> JNull
   | Some x \<Rightarrow> omitempty [(''endpoint'', pb_Endpoint x), (''bucket'', pb_Bucket x), (''object_key'', pb_ObjectKey x),
       (''region'', pb_Region x)])"

definition Db2_json :: "pb_Db2DataStore option \<Rightarrow> json" where
  "Db2_json s = (case s of None \<Rightarrow> JNull
   | Some x \<Rightarrow> omitempty [(''url'', pb_Url x), (''database'', pb_Database x), (''table'', pb_Table x),
       (''port'', pb_Port x), (''ssl'', pb_Ssl x)])"

definition Kafka_json :: "pb_KafkaDataStore option \<Rightarrow> json" where
  "Kafka_json s = (case s of None \<Rightarrow> JNull
   | Some x \<Rightarrow> omitempty [(''topic_name'', pb_TopicName x), (''bootstrap_servers'', pb_BootstrapServers x),
       (''schema_registry'', pb_SchemaRegistry x), (''key_deserializer'', pb_KeyDeserializer x),
       (''value_deserializer'', pb_ValueDeserializer x), (''security_protocol'', pb_SecurityProtocol x),
       (''sasl_mechanism'', pb_SaslMechanism x), (''ssl_truststore'', pb_SslTruststore x),
       (''ssl_truststore_password'', pb_SslTruststorePassword x)])"

section \<open>The gRPC client\<close>

definition ConvertDataCatalogOpenAPIReqToGrpcReq :: "GetAssetRequest \<Rightarrow> string \<Rightarrow> pb_CatalogDatasetRequest" where
  "ConvertDataCatalogOpenAPIReqToGrpcReq input creds =
     \<lparr>pb_RequestCredentialPath = creds, pb_RequestDatasetId = GetAssetRequest_AssetID input\<rparr>"

text \<open>A list of tags as a map in which every tag is true.\<close>

definition tag_map :: "string list \<Rightarrow> (string, json) fmap" where
  "tag_map tags = fold (\<lambda>t m. fmupd t (JBool True) m) tags fmempty"

definition resource_column :: "string \<times> pb_DataComponentMetadata option \<Rightarrow> ResourceColumn list" where
  "resource_column kv =
     (case snd kv of
        None \<Rightarrow> []
      | Some compMetaData \<Rightarrow>
          [\<lparr>ResourceColumn_Name = fst kv,
            ResourceColumn_Tags = Some \<lparr>Tags_Properties = \<lparr>Items = Some (tag_map (pb_Tags compMetaData))\<rparr>\<rparr>\<rparr>])"

definition store_connection :: "pb_DataStore \<Rightarrow> Connection" where
  "store_connection ds =
     (let named = (\<lambda>n j. \<lparr>Connection_Name = n, Connection_AdditionalProperties = \<lparr>Items = Some (fmupd n j fmempty)\<rparr>\<rparr>)
      in if pb_StoreType ds = DataStore_S3 then named ''s3'' (S3_json (pb_S3 ds))
         else if pb_StoreType ds = DataStore_KAFKA then named ''kafka'' (Kafka_json (pb_Kafka ds))
         else if pb_StoreType ds = DataStore_DB2 then named ''db2'' (Db2_json (pb_Db2 ds))
         else \<lparr>Connection_Name = ''local'', Connection_AdditionalProperties = \<lparr>Items = Some fmempty\<rparr>\<rparr>)"

abbreviation nil_dereference :: "'a go" where
  "nil_dereference \<equiv> Panic ''nil pointer dereference''"

definition ConvertDataCatalogGrpcRespToOpenAPIResp ::
  "range_ord \<Rightarrow> pb_CatalogDatasetInfo option \<Rightarrow> GetAssetResponse go" where
  "ConvertDataCatalogGrpcRespToOpenAPIResp ord result =
     (case Option.bind result pb_Details of
        None \<Rightarrow> nil_dereference
      | Some details \<Rightarrow>
          (case pb_Metadata details of
             None \<Rightarrow> nil_dereference
           | Some metadata \<Rightarrow>
               (case pb_DataStoreInfo details of
                  None \<Rightarrow> nil_dereference
                | Some ds \<Rightarrow>
                    (case pb_Credentials details of
                       None \<Rightarrow> nil_dereference
                     | Some creds \<Rightarrow>
                         Ok \<lparr>GetAssetResponse_ResourceMetadata =
                               \<lparr>ResourceMetadata_Name = pb_DetailsName details,
                                ResourceMetadata_Owner = pb_DataOwner details,
                                ResourceMetadata_Geography = pb_Geo details,
                                ResourceMetadata_Tags =
                                  Some \<lparr>Tags_Properties = \<lparr>Items = Some (tag_map (pb_DatasetTags metadata))\<rparr>\<rparr>,
                                ResourceMetadata_Columns =
                                  concat (map resource_column (fmrange ord (pb_ComponentsMetadata metadata)))\<rparr>,
                             GetAssetResponse_Details =
                               \<lparr>ResourceDetails_Connection = store_connection ds,
                                ResourceDetails_DataFormat = pb_DataFormat details\<rparr>,
                             GetAssetResponse_Credentials = pb_VaultSecretPath creds\<rparr>))))"

text \<open>The generated client gives the answer or a status code with a message; it gives nil with an error.\<close>

abbreviation codes_InvalidArgument :: int32 where
  "codes_InvalidArgument \<equiv> 3"

definition grpc_GetAssetInfo ::
  "range_ord \<Rightarrow> (pb_CatalogDatasetRequest \<Rightarrow> int32 \<times> string + pb_CatalogDatasetInfo) \<Rightarrow> GetAssetRequest \<Rightarrow> string \<Rightarrow>
     GetAssetResponse go" where
  "grpc_GetAssetInfo ord client input creds =
     (case client (ConvertDataCatalogOpenAPIReqToGrpcReq input creds) of
        Inl (code, msg) \<Rightarrow>
          if code = codes_InvalidArgument then Err InvalidAssetID
          else ConvertDataCatalogGrpcRespToOpenAPIResp ord None
      | Inr result \<Rightarrow> ConvertDataCatalogGrpcRespToOpenAPIResp ord (Some result))"

section \<open>The OpenAPI client\<close>

definition openapi_GetAssetInfo ::
  "string \<Rightarrow> (string \<Rightarrow> GetAssetRequest \<Rightarrow> string + GetAssetResponse) \<Rightarrow> GetAssetRequest \<Rightarrow> string \<Rightarrow>
     string + GetAssetResponse" where
  "openapi_GetAssetInfo name execute input creds =
     (case execute creds input of
        Inl err \<Rightarrow> Inl (with_message (''get asset info from '' @ name @ '' failed'') err)
      | Inr resp \<Rightarrow> Inr resp)"

datatype catalog_client = OpenAPI_client | Grpc_client

definition NewDataCatalog :: "string \<Rightarrow> string option \<Rightarrow> string + catalog_client" where
  "NewDataCatalog catalogConnectorAddress dial_error =
     (if strings_HasPrefix catalogConnectorAddress ''http'' then Inr OpenAPI_client
      else (case dial_error of
              Some err \<Rightarrow> Inl (with_message ''failed to create GRPC data catalog client'' err)
            | None \<Rightarrow> Inr Grpc_client))"

section \<open>The katalog connector\<close>

text \<open>
  A handler writes replies, in the order of the calls, and may panic after it has written some. A reply
  is a status and a body.
\<close>

datatype 'a body = Body_Error string | Body 'a

record 'a handled =
  Replies :: "(nat \<times> 'a body) list"
  Panicked :: "string option"

abbreviation reply :: "nat \<Rightarrow> 'a body \<Rightarrow> 'a handled" where
  "reply status b \<equiv> \<lparr>Replies = [(status, b)], Panicked = None\<rparr>"

text \<open>\<open>strings.SplitN\<close> at the first slash, in at most two parts\<close>

definition split_first :: "string \<Rightarrow> string list" where
  "split_first s =
     (let namespace = takeWhile (\<lambda>c. c \<noteq> CHR ''/'') s
      in if CHR ''/'' \<in> set s then [namespace, drop (Suc (length namespace)) s] else [s])"

record AssetSpec =
  AssetSpec_Details :: ResourceDetails
  AssetSpec_Metadata :: ResourceMetadata
  AssetSpec_SecretRef :: string

text \<open>The request, or the error of parsing it, and the client of the API server are arguments.\<close>

definition katalog_getAssetInfo ::
  "(NamespacedName \<Rightarrow> string + AssetSpec) \<Rightarrow> string + GetAssetRequest \<Rightarrow> GetAssetResponse handled" where
  "katalog_getAssetInfo get request =
     (case request of
        Inl err \<Rightarrow> reply 400 (Body_Error err)
      | Inr req \<Rightarrow>
          let splittedID = split_first (GetAssetRequest_AssetID req);
              early = (if length splittedID \<noteq> 2
                       then [(400, Body_Error (''request has an invalid asset ID '' @ GetAssetRequest_AssetID req @
                               '' (must be in namespace/name format)''))] else [])
          in case splittedID of
               [namespace, name] \<Rightarrow>
                 (case get \<lparr>NN_Name = name, NN_Namespace = namespace\<rparr> of
                    Inl err \<Rightarrow> reply 500 (Body_Error err)
                  | Inr asset \<Rightarrow>
                      reply 200 (Body \<lparr>GetAssetResponse_ResourceMetadata = AssetSpec_Metadata asset,
                        GetAssetResponse_Details = AssetSpec_Details asset,
                        GetAssetResponse_Credentials = PathForReadingKubeSecret namespace (AssetSpec_SecretRef asset)\<rparr>))
             | _ \<Rightarrow> \<lparr>Replies = early, Panicked = Some ''index out of range''\<rparr>)"

section \<open>The OPA connector\<close>

definition trim_right :: "string \<Rightarrow> string" where
  "trim_right s = rev (dropWhile (\<lambda>c. c = CHR ''/'') (rev s))"

definition trim_left :: "string \<Rightarrow> string" where
  "trim_left s = dropWhile (\<lambda>c. c = CHR ''/'') s"

abbreviation policyEndpoint :: string where
  "policyEndpoint \<equiv> ''/v1/data/dataapi/authz/verdict''"

text \<open>
  The catalog's client, the OPA server with its retries, and the decoding of its answer are parameters.
\<close>

definition opa_GetPoliciesDecisions ::
  "string \<Rightarrow> (GetAssetRequest \<Rightarrow> string \<Rightarrow> string + GetAssetResponse) \<Rightarrow>
     (string \<Rightarrow> GetPolicyDecisionsRequest \<Rightarrow> string + (nat \<times> string)) \<Rightarrow>
     (string \<Rightarrow> string + GetPolicyDecisionsResponse) \<Rightarrow> string + GetPolicyDecisionsRequest \<Rightarrow> string \<Rightarrow>
     GetPolicyDecisionsResponse handled" where
  "opa_GetPoliciesDecisions opaServerURL catalog post decode request creds =
     (case request of
        Inl err \<Rightarrow> reply 400 (Body_Error err)
      | Inr req \<Rightarrow>
          (case catalog \<lparr>GetAssetRequest_AssetID = Resource_ID (PolicyRequest_Resource req),
                         GetAssetRequest_OperationType = datacatalog_READ\<rparr> creds of
             Inl err \<Rightarrow> reply 500 (Body_Error err)
           | Inr assetInfo \<Rightarrow>
               let req1 = req\<lparr>PolicyRequest_Resource := (PolicyRequest_Resource req)
                     \<lparr>Resource_Metadata := Some (GetAssetResponse_ResourceMetadata assetInfo)\<rparr>\<rparr>;
                   endpoint = trim_right opaServerURL @ ''/'' @ trim_left policyEndpoint
               in case post endpoint req1 of
                    Inl err \<Rightarrow> reply 500 (Body_Error err)
                  | Inr (status, answer_text) \<Rightarrow>
                      if status \<noteq> 200 then reply status (Body_Error answer_text)
                      else (case decode answer_text of
                              Inl err \<Rightarrow> reply 500 (Body_Error err)
                            | Inr response \<Rightarrow> reply 200 (Body response))))"

section \<open>The mock-ups\<close>

definition deserializeToTaxonomyAction :: "(string, json) fmap \<Rightarrow> Action go" where
  "deserializeToTaxonomyAction action = Action_UnmarshalJSON (JObj action)"

definition mock_item :: "(string, json) fmap \<Rightarrow> ResultItem list go" where
  "mock_item action =
     go_bind (deserializeToTaxonomyAction action)
       (\<lambda>a. Ok [\<lparr>ResultItem_Policy = [], ResultItem_Action = a\<rparr>])"

definition mock_deny :: "(string, json) fmap" where
  "mock_deny = fmupd ''Deny'' (JObj fmempty) (fmupd ''name'' (JStr ''Deny'') fmempty)"

definition mock_redact :: "(string, json) fmap" where
  "mock_redact = fmupd ''RedactAction'' (JObj (fmupd ''columns'' (JArr [JStr ''SSN'']) fmempty))
     (fmupd ''name'' (JStr ''RedactAction'') fmempty)"

definition Mock_GetPoliciesDecisions ::
  "string \<Rightarrow> GetPolicyDecisionsRequest \<Rightarrow> string \<Rightarrow> GetPolicyDecisionsResponse go" where
  "Mock_GetPoliciesDecisions decisionID input creds =
     (let datasetID = Resource_ID (PolicyRequest_Resource input);
          destination = RequestAction_Destination (PolicyRequest_Action input)
      in case split_first datasetID of
           [_, assetID] \<Rightarrow>
             go_bind
               (if assetID = ''allow-dataset'' then Ok []
                else if assetID = ''deny-dataset'' then mock_item mock_deny
                else if assetID = ''allow-theshire''
                then (if destination \<noteq> ''theshire'' then mock_item mock_deny else Ok [])
                else if assetID = ''deny-theshire''
                then (if destination = ''theshire'' then mock_item mock_deny else Ok [])
                else mock_item mock_redact)
               (\<lambda>respResult. Ok \<lparr>PolicyResponse_DecisionID = decisionID, PolicyResponse_Result = respResult\<rparr>)
         | _ \<Rightarrow> Panic (''Invalid dataset ID for mock: '' @ datasetID))"

type_synonym DataCatalogDummy = "(string, GetAssetResponse) fmap"

definition Dummy_GetAssetInfo :: "DataCatalogDummy \<Rightarrow> GetAssetRequest \<Rightarrow> string \<Rightarrow> GetAssetResponse go" where
  "Dummy_GetAssetInfo dataDetails input creds =
     (let datasetID = GetAssetRequest_AssetID input
      in case split_first datasetID of
           [catalogID, _] \<Rightarrow>
             (case fmlookup dataDetails catalogID of
                Some details \<Rightarrow> Ok details
              | None \<Rightarrow> Err InvalidAssetID)
         | _ \<Rightarrow> Panic (''Invalid dataset ID for mock: '' @ datasetID))"

definition mock_connection :: "string \<Rightarrow> (string \<times> string) list \<Rightarrow> Connection" where
  "mock_connection name fs =
     \<lparr>Connection_Name = name, Connection_AdditionalProperties =
        \<lparr>Items = Some (fmupd name (JObj (fmap_of_list (map (\<lambda>(k, v). (k, JStr v)) fs))) fmempty)\<rparr>\<rparr>"

definition mock_asset :: "string \<Rightarrow> Connection \<Rightarrow> DataFormat \<Rightarrow> GetAssetResponse" where
  "mock_asset geography connection format =
     \<lparr>GetAssetResponse_ResourceMetadata =
        \<lparr>ResourceMetadata_Name = ''xxx'', ResourceMetadata_Owner = [], ResourceMetadata_Geography = geography,
         ResourceMetadata_Tags = Some \<lparr>Tags_Properties = \<lparr>Items = Some (fmupd ''PI'' (JBool True) fmempty)\<rparr>\<rparr>,
         ResourceMetadata_Columns = []\<rparr>,
      GetAssetResponse_Details =
        \<lparr>ResourceDetails_Connection = connection, ResourceDetails_DataFormat = format\<rparr>,
      GetAssetResponse_Credentials = ''dummy''\<rparr>"

definition NewTestCatalog :: DataCatalogDummy where
  "NewTestCatalog =
     (let s3Connection = mock_connection ''s3''
            [(''endpoint'', ''s3.eu-gb.cloud-object-storage.appdomain.cloud''), (''bucket'', ''fybrik-test-bucket''),
             (''object_key'', ''small.csv'')];
          db2Connection = mock_connection ''db2''
            [(''database'', ''test-db''), (''table'', ''test-table''),
             (''url'', ''dashdb-txn-sbox-yp-lon02-02.services.eu-gb.bluemix.net''), (''port'', ''5000''),
             (''ssl'', ''false'')];
          kafkaConnection = mock_connection ''kafka''
            [(''topic_name'', ''topic''), (''security_protocol'', ''SASL_SSL''), (''sasl_mechanism'', ''SCRAM-SHA-512''),
             (''ssl_truststore'', ''xyz123''), (''ssl_truststore_password'', ''xyz123''),
             (''schema_registry'', ''kafka-registry''), (''bootstrap_servers'', ''http://kafka-servers''),
             (''key_deserializer'', ''io.confluent.kafka.serializers.json.KafkaJsonSchemaDeserializer''),
             (''value_deserializer'', ''io.confluent.kafka.serializers.json.KafkaJsonSchemaDeserializer'')];
          geo = ''theshire''
      in fmupd ''kafka'' (mock_asset geo kafkaConnection ''json'')
          (fmupd ''db2'' (mock_asset geo db2Connection [])
            (fmupd ''s3-csv'' (mock_asset geo s3Connection ''csv'')
              (fmupd ''s3'' (mock_asset geo s3Connection ''parquet'')
                (fmupd ''s3-external'' (mock_asset ''neverland'' s3Connection ''csv'') fmempty)))))"

section \<open>What the catalog's answers become\<close>

definition complete_info :: "pb_CatalogDatasetInfo \<Rightarrow> bool" where
  "complete_info info \<longleftrightarrow>
     (case pb_Details info of
        None \<Rightarrow> False
      | Some d \<Rightarrow> pb_Metadata d \<noteq> None \<and> pb_DataStoreInfo d \<noteq> None \<and> pb_Credentials d \<noteq> None)"

lemma converted_iff:
  "(\<exists>resp. ConvertDataCatalogGrpcRespToOpenAPIResp ord (Some info) = Ok resp) \<longleftrightarrow> complete_info info"
  by (auto simp: ConvertDataCatalogGrpcRespToOpenAPIResp_def complete_info_def split: option.splits)

lemma tag_map_lookup: "fmlookup (tag_map tags) t = (if t \<in> set tags then Some (JBool True) else None)"
proof -
  have "fmlookup (fold (\<lambda>t m. fmupd t (JBool True) m) tags m) t =
      (if t \<in> set tags then Some (JBool True) else fmlookup m t)" for m
    by (induction tags arbitrary: m) auto
  then show ?thesis by (simp add: tag_map_def)
qed

text \<open>Every tag of a column of the catalog reaches the metadata on which policies are evaluated.\<close>

lemma converted_columns:
  assumes "range_order ord" and "ConvertDataCatalogGrpcRespToOpenAPIResp ord (Some info) = Ok resp"
    and "pb_Details info = Some d" and "pb_Metadata d = Some md"
  shows "(\<exists>col tags. col \<in> set (ResourceMetadata_Columns (GetAssetResponse_ResourceMetadata resp)) \<and>
      ResourceColumn_Name col = c \<and> ResourceColumn_Tags col = Some tags \<and>
      fmlookup (items_of (Items (Tags_Properties tags))) t = Some (JBool True)) \<longleftrightarrow>
    (\<exists>cm. fmlookup (pb_ComponentsMetadata md) c = Some (Some cm) \<and> t \<in> set (pb_Tags cm))"
proof -
  have cols: "ResourceMetadata_Columns (GetAssetResponse_ResourceMetadata resp) =
      concat (map resource_column (fmrange ord (pb_ComponentsMetadata md)))"
    using assms(2-4) by (auto simp: ConvertDataCatalogGrpcRespToOpenAPIResp_def split: option.splits)
  have "col \<in> set (concat (map resource_column (fmrange ord (pb_ComponentsMetadata md)))) \<longleftrightarrow>
      (\<exists>c v. fmlookup (pb_ComponentsMetadata md) c = Some v \<and> col \<in> set (resource_column (c, v)))" for col
    by (simp add: Bex_def fmrange_set [OF assms(1)] split_paired_Ex)
  moreover have "(\<exists>c v. fmlookup (pb_ComponentsMetadata md) c = Some v \<and> col \<in> set (resource_column (c, v))) \<longleftrightarrow>
    (\<exists>c cm. fmlookup (pb_ComponentsMetadata md) c = Some (Some cm) \<and>
      col = \<lparr>ResourceColumn_Name = c,
             ResourceColumn_Tags = Some \<lparr>Tags_Properties = \<lparr>Items = Some (tag_map (pb_Tags cm))\<rparr>\<rparr>\<rparr>)" for col
    by (auto simp: resource_column_def split: option.splits)
  ultimately have mem: "col \<in> set (concat (map resource_column (fmrange ord (pb_ComponentsMetadata md)))) \<longleftrightarrow>
    (\<exists>c cm. fmlookup (pb_ComponentsMetadata md) c = Some (Some cm) \<and>
      col = \<lparr>ResourceColumn_Name = c,
             ResourceColumn_Tags = Some \<lparr>Tags_Properties = \<lparr>Items = Some (tag_map (pb_Tags cm))\<rparr>\<rparr>\<rparr>)" for col by presburger
  show ?thesis unfolding cols mem
    by (auto simp: tag_map_lookup split: if_splits)
      (rule exI, rule conjI, (rule exI)+, rule conjI, assumption, rule refl, simp add: tag_map_lookup)
qed

text \<open>
  An error of the catalog other than an invalid identifier is not looked at; the answer, which is nil
  then, is read and the client panics.
\<close>

lemma catalog_error_panics:
  assumes "client (ConvertDataCatalogOpenAPIReqToGrpcReq input creds) = Inl (code, msg)"
    and "code \<noteq> codes_InvalidArgument"
  shows "grpc_GetAssetInfo ord client input creds = nil_dereference"
  using assms by (simp add: grpc_GetAssetInfo_def ConvertDataCatalogGrpcRespToOpenAPIResp_def)

section \<open>The connectors\<close>

lemma split_first_two:
  "split_first s = [a, b] \<longleftrightarrow> s = a @ CHR ''/'' # b \<and> CHR ''/'' \<notin> set a"
proof
  assume s: "split_first s = [a, b]"
  then have mem: "CHR ''/'' \<in> set s" and a: "a = takeWhile (\<lambda>c. c \<noteq> CHR ''/'') s"
    and b: "b = drop (Suc (length a)) s"
    by (auto simp: split_first_def Let_def split: if_splits)
  have "dropWhile (\<lambda>c. c \<noteq> CHR ''/'') s = CHR ''/'' # b"
    unfolding b a using mem
    by (induction s) (auto simp: dropWhile_eq_drop)
  then show "s = a @ CHR ''/'' # b \<and> CHR ''/'' \<notin> set a"
    using takeWhile_dropWhile_id [of "\<lambda>c. c \<noteq> CHR ''/''" s] a set_takeWhileD by metis
next
  assume s: "s = a @ CHR ''/'' # b \<and> CHR ''/'' \<notin> set a"
  then have "takeWhile (\<lambda>c. c \<noteq> CHR ''/'') s = a" by (auto simp: takeWhile_append2 takeWhile_tail)
  with s show "split_first s = [a, b]" by (simp add: split_first_def)
qed

text \<open>An identifier without a slash is answered as a bad request, after which the handler panics.\<close>

lemma katalog_invalid_id_panics:
  assumes "CHR ''/'' \<notin> set (GetAssetRequest_AssetID req)"
  shows "Panicked (katalog_getAssetInfo get (Inr req)) = Some ''index out of range'' \<and>
    map fst (Replies (katalog_getAssetInfo get (Inr req))) = [400]"
  using assms by (simp add: katalog_getAssetInfo_def split_first_def)

lemma katalog_answers:
  assumes "GetAssetRequest_AssetID req = ns @ CHR ''/'' # name" and "CHR ''/'' \<notin> set ns"
    and "get \<lparr>NN_Name = name, NN_Namespace = ns\<rparr> = Inr asset"
  shows "katalog_getAssetInfo get (Inr req) =
    reply 200 (Body \<lparr>GetAssetResponse_ResourceMetadata = AssetSpec_Metadata asset,
      GetAssetResponse_Details = AssetSpec_Details asset,
      GetAssetResponse_Credentials = PathForReadingKubeSecret ns (AssetSpec_SecretRef asset)\<rparr>)"
  using assms split_first_two [of "GetAssetRequest_AssetID req" ns name] by (simp add: katalog_getAssetInfo_def)

text \<open>
  C36: The OPA connector decides on what the catalog knows. Whatever metadata a request brings along, an
  answer with a decision is the answer of OPA to the request with the metadata that the catalog has for
  the requested asset.
\<close>

theorem opa_decides_on_catalog_metadata:
  assumes "Replies (opa_GetPoliciesDecisions url catalog post decode (Inr req) creds) = [(200, Body response)]"
  shows "\<exists>info text. catalog \<lparr>GetAssetRequest_AssetID = Resource_ID (PolicyRequest_Resource req),
        GetAssetRequest_OperationType = datacatalog_READ\<rparr> creds = Inr info \<and>
    post (trim_right url @ ''/'' @ trim_left policyEndpoint)
      (req\<lparr>PolicyRequest_Resource := (PolicyRequest_Resource req)
         \<lparr>Resource_Metadata := Some (GetAssetResponse_ResourceMetadata info)\<rparr>\<rparr>) = Inr (200, text) \<and>
    decode text = Inr response"
  using assms
  by (auto simp: opa_GetPoliciesDecisions_def Let_def split: sum.splits prod.splits if_splits)

definition plain_request :: GetPolicyDecisionsRequest where
  "plain_request =
     \<lparr>PolicyRequest_Context = \<lparr>RequestContext_Properties = \<lparr>Items = None\<rparr>\<rparr>,
      PolicyRequest_Action = \<lparr>RequestAction_ActionType = policymanager_READ, RequestAction_ProcessingLocation = [],
        RequestAction_Destination = []\<rparr>,
      PolicyRequest_Resource = \<lparr>Resource_ID = ''s3/deny-dataset'', Resource_Metadata = None\<rparr>\<rparr>"

text \<open>The test catalog and the mock policy manager behind the connector.\<close>

definition mock_catalog :: "GetAssetRequest \<Rightarrow> string \<Rightarrow> string + GetAssetResponse" where
  "mock_catalog input creds =
     (case Dummy_GetAssetInfo NewTestCatalog input creds of Ok a \<Rightarrow> Inr a | Err e \<Rightarrow> Inl e | Panic e \<Rightarrow> Inl e)"

theorem opa_decides_on_catalog_metadata_witness:
  "\<exists>info. mock_catalog \<lparr>GetAssetRequest_AssetID = ''s3/deny-dataset'', GetAssetRequest_OperationType = datacatalog_READ\<rparr> [] =
       Inr info"
proof -
  let ?post = "\<lambda>url req. Inr (if Resource_Metadata (PolicyRequest_Resource req) = None then 500 else 200, [])"
  let ?decode = "\<lambda>text. Inr \<lparr>PolicyResponse_DecisionID = text, PolicyResponse_Result = []\<rparr>"
  have "split_first ''s3/deny-dataset'' = [''s3'', ''deny-dataset'']" by (simp add: split_first_def)
  then obtain info where info: "mock_catalog \<lparr>GetAssetRequest_AssetID = ''s3/deny-dataset'',
      GetAssetRequest_OperationType = datacatalog_READ\<rparr> [] = Inr info"
    by (simp add: mock_catalog_def Dummy_GetAssetInfo_def NewTestCatalog_def Let_def)
  have "Replies (opa_GetPoliciesDecisions ''http://opa'' mock_catalog ?post ?decode (Inr plain_request) []) =
      [(200, Body \<lparr>PolicyResponse_DecisionID = [], PolicyResponse_Result = []\<rparr>)]"
    using info by (simp add: opa_GetPoliciesDecisions_def plain_request_def Let_def)
  from opa_decides_on_catalog_metadata [OF this] show ?thesis by (auto simp: plain_request_def)
qed

end
