(* ===== verification/Manager_Main.thy ===== *)
theory Manager_Main
  imports Razee Catalog_Connector Validation
begin

text \<open>
  The start of the manager, \<^verbatim>\<open>src/manager/main.go\<close>: the flags, the choice of the cluster manager and of
  the clients from the environment, and the order in which the controllers are set up; and the
  preparation of the configuration policies, \<^verbatim>\<open>src/pkg/adminconfig/compile.go\<close>. What the libraries do
  is given by the outcome of each call.
\<close>

section \<open>Choices from the environment\<close>

text \<open>The product of the conversion is that of 64-bit durations in nanoseconds.\<close>

definition getConnectionTimeout :: "go_env \<Rightarrow> string + int64" where
  "getConnectionTimeout env =
     (case strconv_Atoi (Getenv env ''CONNECTION_TIMEOUT'') of
        Inl err \<Rightarrow> Inl (with_message ''Atoi conversion of CONNECTION_TIMEOUT failed'' err)
      | Inr timeOutInSeconds \<Rightarrow> Inr (word_of_int timeOutInSeconds * 1000000000))"

text \<open>The constructor that is called, with its arguments.\<close>

datatype cluster_manager_choice =
    Choose_RazeeLocal string string string string
  | Choose_SatConf string string
  | Choose_RazeeOAuth string string string
  | Choose_Local string

definition newClusterManager :: "go_env \<Rightarrow> cluster_manager_choice" where
  "newClusterManager env =
     (let multiClusterGroup = Getenv env ''MULTICLUSTER_GROUP'';
          razeeURL = strings_TrimSpace (Getenv env ''RAZEE_URL'')
      in case LookupEnv env ''RAZEE_USER'' of
           Some user \<Rightarrow>
             Choose_RazeeLocal (strings_TrimSpace razeeURL) (strings_TrimSpace user)
               (strings_TrimSpace (Getenv env ''RAZEE_PASSWORD'')) multiClusterGroup
         | None \<Rightarrow>
             (case LookupEnv env ''IAM_API_KEY'' of
                Some apiKey \<Rightarrow> Choose_SatConf (strings_TrimSpace apiKey) multiClusterGroup
              | None \<Rightarrow>
                  (case LookupEnv env ''API_KEY'' of
                     Some apiKey \<Rightarrow>
                       Choose_RazeeOAuth (strings_TrimSpace razeeURL) (strings_TrimSpace apiKey) multiClusterGroup
                   | None \<Rightarrow> Choose_Local (GetSystemNamespace env))))"

text \<open>The clients; \<open>dial\<close> gives the error of connecting to an address over gRPC with a timeout.\<close>

definition newDataCatalog :: "go_env \<Rightarrow> (string \<Rightarrow> int64 \<Rightarrow> string option) \<Rightarrow> string + catalog_client" where
  "newDataCatalog env dial =
     (case getConnectionTimeout env of
        Inl err \<Rightarrow> Inl err
      | Inr connectionTimeout \<Rightarrow>
          let connectorURL = Getenv env ''CATALOG_CONNECTOR_URL''
          in NewDataCatalog connectorURL (dial connectorURL connectionTimeout))"

datatype policy_client = OpenAPI_policies string string | Grpc_policies string string

definition newPolicyManager :: "go_env \<Rightarrow> (string \<Rightarrow> int64 \<Rightarrow> string option) \<Rightarrow> string + policy_client" where
  "newPolicyManager env dial =
     (case getConnectionTimeout env of
        Inl err \<Rightarrow> Inl err
      | Inr connectionTimeout \<Rightarrow>
          let mainPolicyManagerName = Getenv env ''MAIN_POLICY_MANAGER_NAME'';
              mainPolicyManagerURL = Getenv env ''MAIN_POLICY_MANAGER_CONNECTOR_URL''
          in if strings_HasPrefix mainPolicyManagerURL ''http''
             then Inr (OpenAPI_policies mainPolicyManagerName mainPolicyManagerURL)
             else (case dial mainPolicyManagerURL connectionTimeout of
                     Some err \<Rightarrow> Inl (with_message (''NewGrpcPolicyManager failed when connecting to '' @ mainPolicyManagerURL) err)
                   | None \<Rightarrow> Inr (Grpc_policies mainPolicyManagerName mainPolicyManagerURL)))"

section \<open>The configuration policies\<close>

datatype file_result = File string | File_NotExist | File_Error string

abbreviation RegoPolicyDirectory :: string where
  "RegoPolicyDirectory \<equiv> ''/tmp/adminconfig/''"

abbreviation InfrastructureInfo :: string where
  "InfrastructureInfo \<equiv> ''infrastructure.json''"

definition strings_HasSuffix :: "string \<Rightarrow> string \<Rightarrow> bool" where
  "strings_HasSuffix s t \<longleftrightarrow> suffix t s"

definition read_module ::
  "(string \<Rightarrow> file_result) \<Rightarrow> string \<Rightarrow> (string, string) fmap \<Rightarrow> string + (string, string) fmap" where
  "read_module read_file name modules =
     (if \<not> strings_HasSuffix name ''.rego'' then Inr modules
      else
        (case read_file (RegoPolicyDirectory @ name) of
           File content \<Rightarrow> Inr (fmupd name content modules)
         | File_NotExist \<Rightarrow> Inl ''file does not exist''
         | File_Error err \<Rightarrow> Inl err))"

text \<open>The file system, the Rego compiler and the JSON decoder are arguments.\<close>

definition PrepareQuery ::
  "string + string list \<Rightarrow> (string \<Rightarrow> file_result) \<Rightarrow> ((string, string) fmap \<Rightarrow> string + 'm) \<Rightarrow>
     (string \<Rightarrow> string + (string, json) fmap) \<Rightarrow> ('m \<Rightarrow> (string, json) fmap \<Rightarrow> string + 'q) \<Rightarrow> string + 'q" where
  "PrepareQuery files read_file compile_modules unmarshal prepare =
     (case files of
        Inl err \<Rightarrow> Inl err
      | Inr names \<Rightarrow>
          (case go_loop (read_module read_file) names fmempty of
             Inl err \<Rightarrow> Inl err
           | Inr modules \<Rightarrow>
               (case compile_modules modules of
                  Inl err \<Rightarrow> Inl (with_message (''couldn'' @ [CHR 0x27] @ ''t compile modules'') err)
                | Inr compiler \<Rightarrow>
                    (case read_file (RegoPolicyDirectory @ InfrastructureInfo) of
                       File_NotExist \<Rightarrow> prepare compiler fmempty
                     | File_Error err \<Rightarrow> Inl err
                     | File content \<Rightarrow>
                         (case unmarshal content of
                            Inl err \<Rightarrow> Inl (with_message (''couldn'' @ [CHR 0x27] @ ''t parse Json'') err)
                          | Inr store \<Rightarrow> prepare compiler store)))))"

section \<open>Setting up the controllers\<close>

record Flags =
  Flag_Application :: bool
  Flag_Blueprint :: bool
  Flag_Plotter :: bool
  Flag_All :: bool

datatype setup_part =
  Set_Application | Set_ApplicationWebhook | Set_ModuleWebhook | Set_Module | Set_Plotter | Set_Blueprint | Set_Start

text \<open>The errors of the library calls, nil where there is none.\<close>

record Startup =
  Up_NewManager :: "string option"
  Up_ClusterManager :: "cluster_manager_choice \<Rightarrow> string option"
  Up_Dial :: "string \<Rightarrow> int64 \<Rightarrow> string option"
  Up_PrepareQuery :: "string option"
  Up_Setup :: "setup_part \<Rightarrow> string option"

definition error_of :: "string + 'a \<Rightarrow> string option" where
  "error_of r = (case r of Inl err \<Rightarrow> Some err | Inr _ \<Rightarrow> None)"

definition part :: "Startup \<Rightarrow> setup_part \<Rightarrow> string option \<times> setup_part list" where
  "part up p = (Up_Setup up p, [p])"

definition application_steps :: "go_env \<Rightarrow> Startup \<Rightarrow> (string option \<times> setup_part list) list" where
  "application_steps env up =
     [(error_of (newPolicyManager env (Up_Dial up)), []), (error_of (newDataCatalog env (Up_Dial up)), []),
      (Up_PrepareQuery up, []), part up Set_Application] @
     (if Getenv env ''ENABLE_WEBHOOKS'' \<noteq> ''false''
      then [part up Set_ApplicationWebhook, part up Set_ModuleWebhook] else []) @
     [part up Set_Module]"

definition run_steps :: "go_env \<Rightarrow> Startup \<Rightarrow> bool \<Rightarrow> bool \<Rightarrow> bool \<Rightarrow> (string option \<times> setup_part list) list" where
  "run_steps env up enableApplicationController enableBlueprintController enablePlotterController =
     [(Up_NewManager up, [])] @
     (if enableApplicationController \<or> enablePlotterController
      then [(Up_ClusterManager up (newClusterManager env), [])] else []) @
     (if enableApplicationController then application_steps env up else []) @
     (if enablePlotterController then [part up Set_Plotter] else []) @
     (if enableBlueprintController then [part up Set_Blueprint] else []) @
     [part up Set_Start]"

text \<open>The exit code and what was set up; the first error ends the run.\<close>

definition setup_step ::
  "string option \<times> setup_part list \<Rightarrow> setup_part list \<Rightarrow> setup_part list + setup_part list" where
  "setup_step s started = (if fst s \<noteq> None then Inl started else Inr (started @ snd s))"

definition run ::
  "go_env \<Rightarrow> Startup \<Rightarrow> bool \<Rightarrow> bool \<Rightarrow> bool \<Rightarrow> nat \<times> setup_part list" where
  "run env up enableApplicationController enableBlueprintController enablePlotterController =
     (case go_loop setup_step
             (run_steps env up enableApplicationController enableBlueprintController enablePlotterController) [] of
        Inl started \<Rightarrow> (1, started)
      | Inr started \<Rightarrow> (0, started))"

definition main :: "go_env \<Rightarrow> Startup \<Rightarrow> Flags \<Rightarrow> nat \<times> setup_part list" where
  "main env up flags =
     (let app = Flag_Application flags \<or> Flag_All flags;
          blueprint = Flag_Blueprint flags \<or> Flag_All flags;
          plotter = Flag_Plotter flags \<or> Flag_All flags
      in if \<not> app \<and> \<not> plotter \<and> \<not> blueprint then (1, [])
         else run env up app blueprint plotter)"

section \<open>Lemmas\<close>

lemma run_loop:
  "go_loop setup_step steps acc = Inr started \<longleftrightarrow>
     (\<forall>s\<in>set steps. fst s = None) \<and> started = acc @ concat (map snd steps)"
  by (induction steps arbitrary: acc) (auto simp: setup_step_def)

lemma run_succeeds_iff:
  "run env up a b p = (0, started) \<longleftrightarrow>
     (\<forall>s\<in>set (run_steps env up a b p). fst s = None) \<and> started = concat (map snd (run_steps env up a b p))"
  using run_loop [of "run_steps env up a b p" "[]" started] unfolding run_def by (auto split: sum.splits)

text \<open>
  No resource escapes validation: a manager that was started with the Application controller has set up
  the webhooks, or the controllers validate the resources themselves.
\<close>

lemma validated_somewhere:
  assumes "run env up True b p = (0, started)"
  shows "Set_ApplicationWebhook \<in> set started \<and> Set_ModuleWebhook \<in> set started \<or> \<not> webhooks_enabled env"
proof -
  from assms have "started = concat (map snd (run_steps env up True b p))" by (simp add: run_succeeds_iff)
  then show ?thesis
    by (cases "Getenv env ''ENABLE_WEBHOOKS'' = ''true''")
      (simp_all add: run_steps_def application_steps_def part_def webhooks_enabled_def)
qed

lemma main_needs_a_controller:
  assumes "main env up flags = (0, started)"
  shows "Set_Application \<in> set started \<or> Set_Plotter \<in> set started \<or> Set_Blueprint \<in> set started"
proof -
  define a b p where "a = (Flag_Application flags \<or> Flag_All flags)" and "b = (Flag_Blueprint flags \<or> Flag_All flags)"
    and "p = (Flag_Plotter flags \<or> Flag_All flags)"
  with assms have some: "a \<or> p \<or> b" and run: "run env up a b p = (0, started)"
    by (simp_all add: main_def Let_def split: if_splits)
  from run have started: "started = concat (map snd (run_steps env up a b p))" by (simp add: run_succeeds_iff)
  from some consider a | p | b by blast
  then show ?thesis
  proof cases
    case 1
    then have "Set_Application \<in> set started"
      unfolding started by (simp add: run_steps_def application_steps_def part_def)
    then show ?thesis by simp
  next
    case 2
    then have "Set_Plotter \<in> set started" unfolding started by (simp add: run_steps_def part_def)
    then show ?thesis by simp
  next
    case 3
    then have "Set_Blueprint \<in> set started" unfolding started by (simp add: run_steps_def part_def)
    then show ?thesis by simp
  qed
qed

lemma read_module_lookup:
  assumes "go_loop (read_module read_file) names modules = Inr modules'"
  shows "fmlookup modules' n =
    (if n \<in> set names \<and> strings_HasSuffix n ''.rego''
     then (case read_file (RegoPolicyDirectory @ n) of File content \<Rightarrow> Some content | _ \<Rightarrow> None)
     else fmlookup modules n)"
  using assms
proof (induction names arbitrary: modules)
  case (Cons name names)
  from Cons.prems obtain m1 where m1: "read_module read_file name modules = Inr m1"
    and rest: "go_loop (read_module read_file) names m1 = Inr modules'" by (auto split: sum.splits)
  from Cons.IH [OF rest] m1 show ?case
    by (auto simp: read_module_def split: if_splits file_result.splits)
qed simp

text \<open>A timeout of more than 9223372036 seconds is a negative duration.\<close>

definition timeout_env :: "string \<Rightarrow> go_env" where
  "timeout_env t =
     \<lparr>LookupEnv = (\<lambda>k. if k = ''CONNECTION_TIMEOUT'' then Some t else None), NamespaceFile = None,
      Sum512 = (\<lambda>_. replicate 64 0), LabelSelector_Size = (\<lambda>_. 0), NestedString = (\<lambda>_ _. ([], False, None)),
      NestedFieldNoCopy = (\<lambda>_ _. (None, False, None)), JSON_Text = (\<lambda>_. [])\<rparr>"

lemma timeout_overflow:
  "\<exists>d. getConnectionTimeout (timeout_env ''9223372037'') = Inr d \<and> sint d < 0"
  by (rule exI [of _ "word_of_int (9223372037 * 1000000000)"]) code_simp

end
