(* ===== verification/Module_Dependencies.thy ===== *)
theory Module_Dependencies
  imports API_Types
begin

text \<open>
  The dependencies between modules: \<open>CheckDependencies\<close> of
  \<^verbatim>\<open>src/manager/controllers/app/select_modules.go\<close> and its two callers. The recursion follows the
  dependencies without a record of what it has visited, so it is a partial function whose value \<open>None\<close>
  stands for a call that does not return.
\<close>

section \<open>Definitions\<close>

text \<open>
  The loop over the dependencies of a module, with the recursive call inlined: what it appends to
  \<open>found\<close> and \<open>missing\<close>.
\<close>

partial_function (option) dependencies_loop ::
  "(string, FybrikModule) fmap \<Rightarrow> Dependency list \<Rightarrow> (FybrikModule list \<times> string list) option" where
  "dependencies_loop moduleMap dependencies =
     (case dependencies of
        [] \<Rightarrow> Some ([], [])
      | dependency # rest \<Rightarrow>
          if Dependency_Type dependency \<noteq> Dependency_Module then dependencies_loop moduleMap rest
          else
            (case fmlookup moduleMap (Dependency_Name dependency) of
               None \<Rightarrow>
                 Option.bind (dependencies_loop moduleMap rest)
                   (\<lambda>(found, missing). Some (found, Dependency_Name dependency # missing))
             | Some m \<Rightarrow>
                 Option.bind (dependencies_loop moduleMap (ModuleSpec_Dependencies (Module_Spec m)))
                   (\<lambda>(additionalDependencies, notFound).
                      Option.bind (dependencies_loop moduleMap rest)
                        (\<lambda>(found, missing). Some (m # additionalDependencies @ found, notFound @ missing)))))"

declare dependencies_loop.simps [code]

definition CheckDependencies ::
  "FybrikModule \<Rightarrow> (string, FybrikModule) fmap \<Rightarrow> (FybrikModule list \<times> string list) option" where
  "CheckDependencies m moduleMap = dependencies_loop moduleMap (ModuleSpec_Dependencies (Module_Spec m))"

definition SupportsDependencies :: "FybrikModule \<Rightarrow> (string, FybrikModule) fmap \<Rightarrow> bool option" where
  "SupportsDependencies m moduleMap =
     map_option (\<lambda>(_, missingModules). missingModules = []) (CheckDependencies m moduleMap)"

definition GetDependencies ::
  "FybrikModule \<Rightarrow> (string, FybrikModule) fmap \<Rightarrow> (FybrikModule list \<times> string option) option" where
  "GetDependencies m moduleMap =
     map_option (\<lambda>(dependencies, missingModules).
         (dependencies,
          if missingModules \<noteq> [] then Some (''Module '' @ Module_Name m @ '' has missing dependencies'') else None))
       (CheckDependencies m moduleMap)"

section \<open>What the dependencies are\<close>

text \<open>The names of modules that a list of dependencies needs, directly or through other modules.\<close>

inductive needs :: "(string, FybrikModule) fmap \<Rightarrow> Dependency list \<Rightarrow> string \<Rightarrow> bool" for mm where
  needs_direct: "d \<in> set ds \<Longrightarrow> Dependency_Type d = Dependency_Module \<Longrightarrow> needs mm ds (Dependency_Name d)"
| needs_through: "d \<in> set ds \<Longrightarrow> Dependency_Type d = Dependency_Module \<Longrightarrow>
    fmlookup mm (Dependency_Name d) = Some m \<Longrightarrow> needs mm (ModuleSpec_Dependencies (Module_Spec m)) n \<Longrightarrow> needs mm ds n"

inductive_simps needs_iff: "needs mm ds n"

lemma needs_Nil [simp]: "\<not> needs mm [] n"
  by (subst needs_iff) simp

lemma needs_Cons:
  "needs mm (d # ds) n \<longleftrightarrow>
     Dependency_Type d = Dependency_Module \<and>
       (n = Dependency_Name d \<or>
        (\<exists>m. fmlookup mm (Dependency_Name d) = Some m \<and> needs mm (ModuleSpec_Dependencies (Module_Spec m)) n)) \<or>
     needs mm ds n"
  by (subst (1 3) needs_iff) auto

text \<open>The dependencies are acyclic: a module needs modules of a smaller rank only.\<close>

definition acyclic_modules :: "(string \<Rightarrow> nat) \<Rightarrow> (string, FybrikModule) fmap \<Rightarrow> bool" where
  "acyclic_modules rank mm \<longleftrightarrow>
     (\<forall>k m. fmlookup mm k = Some m \<longrightarrow>
        list_all (\<lambda>d. Dependency_Type d = Dependency_Module \<longrightarrow> rank (Dependency_Name d) < rank k)
          (ModuleSpec_Dependencies (Module_Spec m)))"

definition resolved :: "(string, FybrikModule) fmap \<Rightarrow> Dependency list \<Rightarrow> FybrikModule list \<times> string list \<Rightarrow> bool" where
  "resolved mm ds r \<longleftrightarrow>
     (\<forall>m. m \<in> set (fst r) \<longleftrightarrow> (\<exists>n. needs mm ds n \<and> fmlookup mm n = Some m)) \<and>
     (\<forall>n. n \<in> set (snd r) \<longleftrightarrow> needs mm ds n \<and> fmlookup mm n = None)"

lemma resolved_Nil: "resolved mm [] ([], [])"
  by (simp add: resolved_def)

lemma resolved_other: "Dependency_Type d \<noteq> Dependency_Module \<Longrightarrow> resolved mm ds r \<Longrightarrow> resolved mm (d # ds) r"
  by (simp add: resolved_def needs_Cons)

lemma resolved_missing:
  assumes "Dependency_Type d = Dependency_Module" and "fmlookup mm (Dependency_Name d) = None" and "resolved mm ds (f, ms)"
  shows "resolved mm (d # ds) (f, Dependency_Name d # ms)"
  using assms by (auto simp: resolved_def needs_Cons)

lemma resolved_found:
  assumes "Dependency_Type d = Dependency_Module" and "fmlookup mm (Dependency_Name d) = Some m"
    and "resolved mm (ModuleSpec_Dependencies (Module_Spec m)) (f1, ms1)" and "resolved mm ds (f2, ms2)"
  shows "resolved mm (d # ds) (m # f1 @ f2, ms1 @ ms2)"
  using assms by (auto simp: resolved_def needs_Cons)

lemma dependencies_loop_total:
  assumes acyclic: "acyclic_modules rank mm"
    and "list_all (\<lambda>d. Dependency_Type d = Dependency_Module \<longrightarrow> rank (Dependency_Name d) < N) ds"
  shows "\<exists>r. dependencies_loop mm ds = Some r \<and> resolved mm ds r"
  using assms(2)
proof (induction N arbitrary: ds rule: less_induct)
  case (less N)
  note smaller = less.IH
  from less.prems show ?case
  proof (induction ds)
    case Nil
    show ?case by (subst dependencies_loop.simps) (simp add: resolved_Nil)
  next
    case (Cons d ds)
    then obtain f ms where rest: "dependencies_loop mm ds = Some (f, ms)" "resolved mm ds (f, ms)" by auto
    consider (other) "Dependency_Type d \<noteq> Dependency_Module"
      | (missing) "Dependency_Type d = Dependency_Module" "fmlookup mm (Dependency_Name d) = None"
      | (found) m where "Dependency_Type d = Dependency_Module" "fmlookup mm (Dependency_Name d) = Some m" by fastforce
    then show ?case
    proof cases
      case other
      with rest show ?thesis by (subst dependencies_loop.simps) (simp add: resolved_other)
    next
      case missing
      with rest show ?thesis by (subst dependencies_loop.simps) (simp add: resolved_missing)
    next
      case (found m)
      have less_N: "rank (Dependency_Name d) < N" using Cons.prems found(1) by simp
      have "list_all (\<lambda>d'. Dependency_Type d' = Dependency_Module \<longrightarrow> rank (Dependency_Name d') < rank (Dependency_Name d))
          (ModuleSpec_Dependencies (Module_Spec m))"
        using acyclic found(2) unfolding acyclic_modules_def by blast
      from smaller [OF less_N this] obtain f1 ms1 where
        inner: "dependencies_loop mm (ModuleSpec_Dependencies (Module_Spec m)) = Some (f1, ms1)"
        "resolved mm (ModuleSpec_Dependencies (Module_Spec m)) (f1, ms1)" by auto
      with rest found show ?thesis by (subst dependencies_loop.simps) (simp add: resolved_found)
    qed
  qed
qed

lemma rank_bound:
  "list_all (\<lambda>d. Dependency_Type d = Dependency_Module \<longrightarrow>
     rank (Dependency_Name d) < Suc (sum_list (map (\<lambda>d. rank (Dependency_Name d)) ds))) ds"
proof -
  have "rank (Dependency_Name d) \<le> sum_list (map (\<lambda>d. rank (Dependency_Name d)) ds)" if "d \<in> set ds" for d
    using that by (intro member_le_sum_list) auto
  then show ?thesis by (auto simp: list_all_iff less_Suc_eq_le)
qed

text \<open>
  On acyclic modules the check returns, with exactly the registered modules that are needed and the
  names of those that are not registered.
\<close>

theorem CheckDependencies_complete:
  assumes "acyclic_modules rank mm"
  shows "\<exists>found missing. CheckDependencies m mm = Some (found, missing) \<and>
    (\<forall>x. x \<in> set found \<longleftrightarrow> (\<exists>n. needs mm (ModuleSpec_Dependencies (Module_Spec m)) n \<and> fmlookup mm n = Some x)) \<and>
    (\<forall>n. n \<in> set missing \<longleftrightarrow> needs mm (ModuleSpec_Dependencies (Module_Spec m)) n \<and> fmlookup mm n = None)"
proof -
  from dependencies_loop_total [OF assms rank_bound] obtain r where
    "dependencies_loop mm (ModuleSpec_Dependencies (Module_Spec m)) = Some r"
    "resolved mm (ModuleSpec_Dependencies (Module_Spec m)) r" by blast
  then show ?thesis unfolding CheckDependencies_def resolved_def by (cases r) auto
qed

lemma SupportsDependencies_iff:
  assumes "acyclic_modules rank mm"
  shows "SupportsDependencies m mm =
    Some (\<forall>n. needs mm (ModuleSpec_Dependencies (Module_Spec m)) n \<longrightarrow> fmlookup mm n \<noteq> None)"
proof -
  from dependencies_loop_total [OF assms rank_bound] obtain r where
    r: "CheckDependencies m mm = Some r" "resolved mm (ModuleSpec_Dependencies (Module_Spec m)) r"
    unfolding CheckDependencies_def by blast
  then have "snd r = [] \<longleftrightarrow> (\<forall>n. needs mm (ModuleSpec_Dependencies (Module_Spec m)) n \<longrightarrow> fmlookup mm n \<noteq> None)"
    unfolding resolved_def by (metis (no_types, lifting) empty_iff empty_set list.set_intros(1) neq_Nil_conv)
  then show ?thesis using r(1) by (simp add: SupportsDependencies_def case_prod_beta)
qed

text \<open>A module that depends on itself makes the check run forever.\<close>

lemma self_dependency_diverges:
  assumes "fmlookup mm k = Some m"
    and "ModuleSpec_Dependencies (Module_Spec m) = [\<lparr>Dependency_Type = Dependency_Module, Dependency_Name = k\<rparr>]"
  shows "CheckDependencies m mm = None"
proof -
  have "mm' = mm \<and> ds = ModuleSpec_Dependencies (Module_Spec m) \<longrightarrow> False"
    if "dependencies_loop mm' ds = Some r" for mm' ds r
    by (rule dependencies_loop.raw_induct [OF _ that]) (auto simp: assms bind_eq_Some_conv, blast)
  then show ?thesis unfolding CheckDependencies_def by (cases "dependencies_loop mm (ModuleSpec_Dependencies (Module_Spec m))") auto
qed

end
