(* ===== verification/Vault.thy ===== *)
theory Vault
  imports Utils
begin

text \<open>
  \<^verbatim>\<open>src/pkg/vault\<close>: the interface to a secret store, the connection to a HashiCorp Vault server and the
  dummy used in tests. The client of the server is the parameter record \<open>VaultClient\<close>; the JSON encoder
  is the parameter \<open>marshal\<close>, which may fail.
\<close>

section \<open>The interface\<close>

record 'w VaultInterface =
  V_LinkPolicyToIdentity :: "string \<Rightarrow> string \<Rightarrow> string \<Rightarrow> string \<Rightarrow> string \<Rightarrow> string \<Rightarrow> 'w \<Rightarrow> string option \<times> 'w"
  V_RemovePolicyFromIdentity :: "string \<Rightarrow> string \<Rightarrow> string \<Rightarrow> 'w \<Rightarrow> string option \<times> 'w"
  V_WritePolicy :: "string \<Rightarrow> string \<Rightarrow> 'w \<Rightarrow> string option \<times> 'w"
  V_DeletePolicy :: "string \<Rightarrow> 'w \<Rightarrow> string option \<times> 'w"
  V_Mount :: "string \<Rightarrow> 'w \<Rightarrow> string option \<times> 'w"
  V_DeleteSecret :: "string \<Rightarrow> 'w \<Rightarrow> string option \<times> 'w"
  V_GetSecret :: "string \<Rightarrow> 'w \<Rightarrow> string \<times> string option"
  V_AddSecret :: "string \<Rightarrow> (string, json) fmap \<Rightarrow> 'w \<Rightarrow> string option \<times> 'w"

text \<open>
  What a secret store promises: a secret that was added is read back in its JSON form, a deleted secret
  cannot be read, and neither touches another path.
\<close>

locale vault_store =
  fixes v :: "'w VaultInterface" and marshal :: "json \<Rightarrow> string + string"
  assumes get_add: "V_AddSecret v path creds w = (None, w') \<Longrightarrow> marshal (JObj creds) = Inr txt \<Longrightarrow>
      V_GetSecret v path w' = (txt, None)"
    and get_delete: "V_DeleteSecret v path w = (None, w') \<Longrightarrow> snd (V_GetSecret v path w') \<noteq> None"
    and frame_add: "p \<noteq> path \<Longrightarrow> V_GetSecret v p (snd (V_AddSecret v path creds w)) = V_GetSecret v p w"
    and frame_delete: "p \<noteq> path \<Longrightarrow> V_GetSecret v p (snd (V_DeleteSecret v path w)) = V_GetSecret v p w"
begin

text \<open>A secret survives whatever is done to other paths.\<close>

fun run_secrets :: "(string \<times> (string, json) fmap option) list \<Rightarrow> 'w \<Rightarrow> 'w" where
  "run_secrets [] w = w"
| "run_secrets ((p, Some creds) # ops) w = run_secrets ops (snd (V_AddSecret v p creds w))"
| "run_secrets ((p, None) # ops) w = run_secrets ops (snd (V_DeleteSecret v p w))"

lemma get_after_others:
  assumes "path \<notin> fst ` set ops"
  shows "V_GetSecret v path (run_secrets ops w) = V_GetSecret v path w"
  using assms by (induction ops w rule: run_secrets.induct) (auto simp: frame_add frame_delete)

lemma secret_survives:
  assumes "V_AddSecret v path creds w = (None, w')" and "marshal (JObj creds) = Inr txt" and "path \<notin> fst ` set ops"
  shows "V_GetSecret v path (run_secrets ops w') = (txt, None)"
  using get_after_others [OF assms(3)] get_add [OF assms(1,2)] by simp

end

section \<open>The dummy\<close>

type_synonym Dummy = "(string, string) fmap"

definition NewDummyConnection :: Dummy where
  "NewDummyConnection = fmempty"

definition Dummy_DeleteSecret :: "string \<Rightarrow> Dummy \<Rightarrow> string option \<times> Dummy" where
  "Dummy_DeleteSecret vaultPath c = (None, fmdrop vaultPath c)"

definition Dummy_GetSecret :: "string \<Rightarrow> Dummy \<Rightarrow> string \<times> string option" where
  "Dummy_GetSecret vaultPath c =
     (case fmlookup c vaultPath of Some s \<Rightarrow> (s, None) | None \<Rightarrow> ([], Some ''could not find key''))"

text \<open>\<open>AddSecretFromStruct\<close> has the same body, with the JSON form of a struct.\<close>

definition Dummy_AddSecretFromStruct :: "(json \<Rightarrow> string + string) \<Rightarrow> string \<Rightarrow> json \<Rightarrow> Dummy \<Rightarrow> string option \<times> Dummy" where
  "Dummy_AddSecretFromStruct marshal path creds c =
     (case marshal creds of Inl err \<Rightarrow> (Some err, c) | Inr txt \<Rightarrow> (None, fmupd path txt c))"

definition Dummy_AddSecret :: "(json \<Rightarrow> string + string) \<Rightarrow> string \<Rightarrow> (string, json) fmap \<Rightarrow> Dummy \<Rightarrow> string option \<times> Dummy" where
  "Dummy_AddSecret marshal path credentials c =
     (case marshal (JObj credentials) of Inl err \<Rightarrow> (Some err, c) | Inr txt \<Rightarrow> (None, fmupd path txt c))"

definition Dummy_vault :: "(json \<Rightarrow> string + string) \<Rightarrow> Dummy VaultInterface" where
  "Dummy_vault marshal =
     \<lparr>V_LinkPolicyToIdentity = (\<lambda>_ _ _ _ _ _ c. (None, c)), V_RemovePolicyFromIdentity = (\<lambda>_ _ _ c. (None, c)),
      V_WritePolicy = (\<lambda>_ _ c. (None, c)), V_DeletePolicy = (\<lambda>_ c. (None, c)), V_Mount = (\<lambda>_ c. (None, c)),
      V_DeleteSecret = Dummy_DeleteSecret, V_GetSecret = Dummy_GetSecret, V_AddSecret = Dummy_AddSecret marshal\<rparr>"

interpretation dummy: vault_store "Dummy_vault marshal" marshal for marshal
  by unfold_locales
    (auto simp: Dummy_vault_def Dummy_AddSecret_def Dummy_GetSecret_def Dummy_DeleteSecret_def split: sum.splits)

section \<open>The connection\<close>

text \<open>
  The logical client may be nil. A read gives the data of the secret, which may be nil, or an error.
\<close>

record 'w VaultClient =
  VC_Logical :: bool
  VC_Write :: "string \<Rightarrow> (string, json) fmap \<Rightarrow> 'w \<Rightarrow> string option \<times> 'w"
  VC_Read :: "string \<Rightarrow> 'w \<Rightarrow> string + (string, json) fmap option"
  VC_Delete :: "string \<Rightarrow> 'w \<Rightarrow> string option \<times> 'w"
  VC_PutPolicy :: "string \<Rightarrow> string \<Rightarrow> 'w \<Rightarrow> string option \<times> 'w"
  VC_DeletePolicy :: "string \<Rightarrow> 'w \<Rightarrow> string option \<times> 'w"
  VC_NewRequest :: "string \<Rightarrow> string option"
  VC_Post :: "string \<Rightarrow> string \<Rightarrow> string \<Rightarrow> 'w \<Rightarrow> string option \<times> 'w"

record 'w VaultConnection =
  Conn_Client :: "'w VaultClient"
  Conn_Address :: string
  Conn_Token :: string

definition NewConnection :: "string + 'w VaultClient \<Rightarrow> string \<Rightarrow> string \<Rightarrow> string + 'w VaultConnection" where
  "NewConnection client addr token =
     (case client of
        Inl err \<Rightarrow> Inl (with_message ''error creating vault client'' err)
      | Inr c \<Rightarrow>
          if token = [] then Inl ''cannot authenticate with vault: no vault token found''
          else Inr \<lparr>Conn_Client = c, Conn_Address = addr, Conn_Token = token\<rparr>)"

text \<open>Wrapping the error of a call.\<close>

definition wrapped :: "string \<Rightarrow> string option \<times> 'w \<Rightarrow> string option \<times> 'w" where
  "wrapped msg r = (map_option (with_message msg) (fst r), snd r)"

definition Conn_LinkPolicyToIdentity ::
  "'w VaultConnection \<Rightarrow> string \<Rightarrow> string \<Rightarrow> string \<Rightarrow> string \<Rightarrow> string \<Rightarrow> string \<Rightarrow> 'w \<Rightarrow> string option \<times> 'w" where
  "Conn_LinkPolicyToIdentity c identity policyName boundedNamespace serviceAccount auth ttl w =
     (let identityPath = ''auth/'' @ auth @ ''/'' @ identity
      in if \<not> VC_Logical (Conn_Client c)
         then (Some (''no logical client received when linking policy '' @ policyName @ '' to idenity '' @ identity), w)
         else wrapped (''error linking policy '' @ policyName @ '' to identity '' @ identity)
                (VC_Write (Conn_Client c) identityPath
                   (fmap_of_list [(''user_claim'', JStr ''sub''), (''role_type'', JStr auth),
                      (''bound_service_account_names'', JStr serviceAccount),
                      (''bound_service_account_namespaces'', JStr boundedNamespace),
                      (''policies'', JStr policyName), (''ttl'', JStr ttl)]) w))"

definition Conn_RemovePolicyFromIdentity ::
  "'w VaultConnection \<Rightarrow> string \<Rightarrow> string \<Rightarrow> string \<Rightarrow> 'w \<Rightarrow> string option \<times> 'w" where
  "Conn_RemovePolicyFromIdentity c identity policyName auth w =
     (let identityPath = ''auth/'' @ auth @ ''/'' @ identity
      in if \<not> VC_Logical (Conn_Client c)
         then (Some (''no logical client received when deleting policy '' @ policyName @ '' from idenity '' @ identity), w)
         else wrapped (''error deleting policy '' @ policyName @ '' from identity '' @ identity)
                (VC_Delete (Conn_Client c) identityPath w))"

definition Conn_WritePolicy :: "'w VaultConnection \<Rightarrow> string \<Rightarrow> string \<Rightarrow> 'w \<Rightarrow> string option \<times> 'w" where
  "Conn_WritePolicy c policyName policy w =
     wrapped (''error writing policy name '' @ policyName @ '' with rules: '' @ policy)
       (VC_PutPolicy (Conn_Client c) policyName policy w)"

definition Conn_DeletePolicy :: "'w VaultConnection \<Rightarrow> string \<Rightarrow> 'w \<Rightarrow> string option \<times> 'w" where
  "Conn_DeletePolicy c policyName w =
     wrapped (''error deleting policy '' @ policyName) (VC_DeletePolicy (Conn_Client c) policyName w)"

definition Conn_DeleteSecret :: "'w VaultConnection \<Rightarrow> string \<Rightarrow> 'w \<Rightarrow> string option \<times> 'w" where
  "Conn_DeleteSecret c vaultPath w =
     (if \<not> VC_Logical (Conn_Client c) then (Some ''no logical client received when deleting credentials from vault'', w)
      else wrapped (''error deleting credentials from vault for '' @ vaultPath) (VC_Delete (Conn_Client c) vaultPath w))"

text \<open>When the encoding fails the nil error of the read is wrapped, which gives nil.\<close>

definition Conn_GetSecret :: "(json \<Rightarrow> string + string) \<Rightarrow> 'w VaultConnection \<Rightarrow> string \<Rightarrow> 'w \<Rightarrow> string \<times> string option" where
  "Conn_GetSecret marshal c vaultPath w =
     (if \<not> VC_Logical (Conn_Client c) then ([], Some ''no logical client received when retrieving credentials from vault'')
      else
        (case VC_Read (Conn_Client c) vaultPath w of
           Inl err \<Rightarrow> ([], Some (with_message (''error reading credentials from vault for '' @ vaultPath) err))
         | Inr None \<Rightarrow> ([], Some (''no data received for credentials from vault for '' @ vaultPath))
         | Inr (Some d) \<Rightarrow> (case marshal (JObj d) of Inl jsonErr \<Rightarrow> ([], None) | Inr txt \<Rightarrow> (txt, None))))"

definition Conn_AddSecret :: "'w VaultConnection \<Rightarrow> string \<Rightarrow> (string, json) fmap \<Rightarrow> 'w \<Rightarrow> string option \<times> 'w" where
  "Conn_AddSecret c path credentials w =
     (if \<not> VC_Logical (Conn_Client c) then (Some ''no logical client received when adding secrets to vault'', w)
      else wrapped (''error adding credentials to vault to '' @ path) (VC_Write (Conn_Client c) path credentials w))"

text \<open>
  A struct is encoded to text and decoded to a map; \<open>encode\<close> is the outcome of the two, an error when the
  JSON form of the struct is not an object.
\<close>

definition Conn_AddSecretFromStruct ::
  "(json \<Rightarrow> string + string) \<Rightarrow> 'w VaultConnection \<Rightarrow> string \<Rightarrow> json \<Rightarrow> 'w \<Rightarrow> string option \<times> 'w" where
  "Conn_AddSecretFromStruct marshal c path creds w =
     (case marshal creds of
        Inl err \<Rightarrow> (Some err, w)
      | Inr _ \<Rightarrow>
          (case creds of
             JObj m \<Rightarrow> Conn_AddSecret c path m w
           | JNull \<Rightarrow> Conn_AddSecret c path fmempty w
           | _ \<Rightarrow> (Some ''json: cannot unmarshal'', w)))"

definition Conn_Mount :: "'w VaultConnection \<Rightarrow> string \<Rightarrow> 'w \<Rightarrow> string option \<times> 'w" where
  "Conn_Mount c path w =
     (let url = Conn_Address c @ path
      in case VC_NewRequest (Conn_Client c) url of
           Some err \<Rightarrow> (Some (with_message (''error creating request to mount vault for '' @ url) err), w)
         | None \<Rightarrow> wrapped (''error mounting vault for '' @ url)
             (VC_Post (Conn_Client c) url (Conn_Token c) ''{\"type\":\"kv-v1\"}'' w))"

definition Conn_vault :: "(json \<Rightarrow> string + string) \<Rightarrow> 'w VaultConnection \<Rightarrow> 'w VaultInterface" where
  "Conn_vault marshal c =
     \<lparr>V_LinkPolicyToIdentity = Conn_LinkPolicyToIdentity c, V_RemovePolicyFromIdentity = Conn_RemovePolicyFromIdentity c,
      V_WritePolicy = Conn_WritePolicy c, V_DeletePolicy = Conn_DeletePolicy c, V_Mount = Conn_Mount c,
      V_DeleteSecret = Conn_DeleteSecret c, V_GetSecret = Conn_GetSecret marshal c, V_AddSecret = Conn_AddSecret c\<rparr>"

text \<open>\<open>InitConnection\<close>: the dummy when the environment asks to run without Vault.\<close>

datatype 'w vault_choice = Use_Dummy | Use_Vault "'w VaultConnection"

definition InitConnection :: "go_env \<Rightarrow> string + 'w VaultClient \<Rightarrow> string \<Rightarrow> string \<Rightarrow> string + 'w vault_choice" where
  "InitConnection env client addr token =
     (if Getenv env ''RUN_WITHOUT_VAULT'' = ''1'' then Inr Use_Dummy
      else (case NewConnection client addr token of Inl err \<Rightarrow> Inl err | Inr c \<Rightarrow> Inr (Use_Vault c)))"

text \<open>
  What a key-value engine promises: a secret is read as it was written, until it is deleted.
\<close>

definition kv_contract :: "'w VaultClient \<Rightarrow> bool" where
  "kv_contract c \<longleftrightarrow>
     (\<forall>p d w w'. VC_Write c p d w = (None, w') \<longrightarrow> VC_Read c p w' = Inr (Some d)) \<and>
     (\<forall>p w w'. VC_Delete c p w = (None, w') \<longrightarrow> VC_Read c p w' = Inr None) \<and>
     (\<forall>p q d w. p \<noteq> q \<longrightarrow> VC_Read c p (snd (VC_Write c q d w)) = VC_Read c p w) \<and>
     (\<forall>p q w. p \<noteq> q \<longrightarrow> VC_Read c p (snd (VC_Delete c q w)) = VC_Read c p w)"

lemma snd_wrapped [simp]: "snd (wrapped msg r) = snd r"
  by (simp add: wrapped_def)

lemma wrapped_None: "wrapped msg r = (None, w) \<longleftrightarrow> r = (None, w)"
  by (cases r) (auto simp: wrapped_def)

lemma connection_refines:
  assumes "kv_contract (Conn_Client c)"
  shows "vault_store (Conn_vault marshal c) marshal"
  using assms
  by unfold_locales
    (auto simp: Conn_vault_def Conn_AddSecret_def Conn_GetSecret_def Conn_DeleteSecret_def kv_contract_def wrapped_None
      split: if_splits)

text \<open>A secret that cannot be encoded is reported as an empty secret, without an error.\<close>

lemma unreadable_secret_is_silent:
  assumes "VC_Logical (Conn_Client c)" and "VC_Read (Conn_Client c) path w = Inr (Some d)" and "marshal (JObj d) = Inl e"
  shows "Conn_GetSecret marshal c path w = ([], None)"
  using assms by (simp add: Conn_GetSecret_def)

end
