(* ===== verification/Rest_Server.thy ===== *)
theory Rest_Server
  imports Utils API_Types
begin

text \<open>
  The sample REST server for data users, \<^verbatim>\<open>src/samples/rest-server/datauser\<close>: its client of the API
  server (\<^verbatim>\<open>k8sclient.go\<close>) and its handlers for applications, credentials and the environment. The
  API server is the parameter record \<open>RestAPI\<close>; the body of a request is given decoded, or as the error
  of the decoder.
\<close>

section \<open>The client\<close>

record UserSecret =
  US_Name :: string
  US_Namespace :: string
  US_Type :: string
  US_Data :: "(string, string) fmap"
  US_StringData :: "(string, string) fmap"

record 'w RestAPI =
  Rest_GetApp :: "NamespacedName \<Rightarrow> 'w \<Rightarrow> string + FybrikApplication"
  Rest_ListApps :: "string \<Rightarrow> 'w \<Rightarrow> string + FybrikApplication list"
  Rest_CreateApp :: "FybrikApplication \<Rightarrow> 'w \<Rightarrow> (string + FybrikApplication) \<times> 'w"
  Rest_UpdateApp :: "FybrikApplication \<Rightarrow> 'w \<Rightarrow> (string + FybrikApplication) \<times> 'w"
  Rest_DeleteApp :: "FybrikApplication \<Rightarrow> 'w \<Rightarrow> string option \<times> 'w"
  Rest_GetSecret :: "NamespacedName \<Rightarrow> 'w \<Rightarrow> string + UserSecret"
  Rest_CreateSecret :: "UserSecret \<Rightarrow> 'w \<Rightarrow> (string + UserSecret) \<times> 'w"
  Rest_UpdateSecret :: "UserSecret \<Rightarrow> 'w \<Rightarrow> (string + UserSecret) \<times> 'w"
  Rest_DeleteSecret :: "UserSecret \<Rightarrow> 'w \<Rightarrow> string option \<times> 'w"

record 'w RestClient =
  KC_API :: "'w RestAPI"
  KC_namespace :: string

definition GetCurrentNamespace :: "string option \<Rightarrow> string" where
  "GetCurrentNamespace namespace_file =
     (case namespace_file of
        Some data \<Rightarrow> (let ns = strings_TrimSpace data in if length ns > 0 then ns else ''default'')
      | None \<Rightarrow> ''default'')"

definition K8sInit :: "string option \<Rightarrow> string + 'w RestAPI \<Rightarrow> string + 'w RestClient" where
  "K8sInit namespace_file client =
     (case client of
        Inl err \<Rightarrow> Inl (''failed to create client: '' @ err)
      | Inr api \<Rightarrow> Inr \<lparr>KC_API = api, KC_namespace = GetCurrentNamespace namespace_file\<rparr>)"

definition CreateApplication ::
  "'w RestClient \<Rightarrow> FybrikApplication \<Rightarrow> 'w \<Rightarrow> (string + FybrikApplication) \<times> 'w" where
  "CreateApplication f obj w = Rest_CreateApp (KC_API f) obj w"

text \<open>The name that is passed is not used: the key is that of the object.\<close>

definition UpdateApplication ::
  "'w RestClient \<Rightarrow> string \<Rightarrow> FybrikApplication \<Rightarrow> 'w \<Rightarrow> (string + FybrikApplication) \<times> 'w" where
  "UpdateApplication f name obj w =
     (case Rest_GetApp (KC_API f) \<lparr>NN_Name = Meta_Name (App_Meta obj), NN_Namespace = Meta_Namespace (App_Meta obj)\<rparr> w of
        Inl err \<Rightarrow> (Inl err, w)
      | Inr result \<Rightarrow> Rest_UpdateApp (KC_API f) (result\<lparr>App_Spec := App_Spec obj\<rparr>) w)"

definition GetApplication :: "'w RestClient \<Rightarrow> string \<Rightarrow> 'w \<Rightarrow> string + FybrikApplication" where
  "GetApplication f name w = Rest_GetApp (KC_API f) \<lparr>NN_Name = name, NN_Namespace = KC_namespace f\<rparr> w"

definition DeleteApplication :: "'w RestClient \<Rightarrow> string \<Rightarrow> 'w \<Rightarrow> string option \<times> 'w" where
  "DeleteApplication f name w =
     (case Rest_GetApp (KC_API f) \<lparr>NN_Name = name, NN_Namespace = KC_namespace f\<rparr> w of
        Inl err \<Rightarrow> (Some err, w)
      | Inr result \<Rightarrow> Rest_DeleteApp (KC_API f) result w)"

definition ListApplications :: "'w RestClient \<Rightarrow> 'w \<Rightarrow> string + FybrikApplication list" where
  "ListApplications f w = Rest_ListApps (KC_API f) (KC_namespace f) w"

definition CreateOrUpdateSecret :: "'w RestClient \<Rightarrow> UserSecret \<Rightarrow> 'w \<Rightarrow> (string + UserSecret) \<times> 'w" where
  "CreateOrUpdateSecret f obj w =
     (case Rest_GetSecret (KC_API f) \<lparr>NN_Name = US_Name obj, NN_Namespace = US_Namespace obj\<rparr> w of
        Inr existing \<Rightarrow>
          Rest_UpdateSecret (KC_API f)
            (existing\<lparr>US_Data := US_Data existing ++\<^sub>f US_Data obj,
                      US_StringData := US_StringData existing ++\<^sub>f US_StringData obj\<rparr>) w
      | Inl err \<Rightarrow> Rest_CreateSecret (KC_API f) obj w)"

definition DeleteSecret :: "'w RestClient \<Rightarrow> string \<Rightarrow> 'w \<Rightarrow> string option \<times> 'w" where
  "DeleteSecret f name w =
     (case Rest_GetSecret (KC_API f) \<lparr>NN_Name = name, NN_Namespace = KC_namespace f\<rparr> w of
        Inl err \<Rightarrow> (Some err, w)
      | Inr result \<Rightarrow> Rest_DeleteSecret (KC_API f) result w)"

definition GetSecret :: "'w RestClient \<Rightarrow> string \<Rightarrow> 'w \<Rightarrow> string + UserSecret" where
  "GetSecret f name w = Rest_GetSecret (KC_API f) \<lparr>NN_Name = name, NN_Namespace = KC_namespace f\<rparr> w"

section \<open>Handlers\<close>

text \<open>
  A handler is given the client, a global variable that \<^verbatim>\<open>main.go\<close> sets before the server starts. A handler that finds
  it nil replies with status 500, does not return, and dereferences it. The two globals \<^verbatim>\<open>dmaClient\<close> and
  \<^verbatim>\<open>k8sClient\<close> hold the same client.
\<close>

record ErrResponse =
  Err_HTTPStatusCode :: nat
  Err_StatusText :: string
  Err_ErrorText :: string

datatype 'a rendered = Rendered ErrResponse | Rendered_JSON 'a

record 'a served =
  Served :: "(nat \<times> 'a rendered) list"
  Crashed :: "string option"

definition ErrConfigProblem :: "string \<Rightarrow> ErrResponse" where
  "ErrConfigProblem err =
     \<lparr>Err_HTTPStatusCode = 500, Err_StatusText = ''Configuration problem.'', Err_ErrorText = err\<rparr>"

definition ErrInvalidRequest :: "string \<Rightarrow> ErrResponse" where
  "ErrInvalidRequest err =
     \<lparr>Err_HTTPStatusCode = 400, Err_StatusText = ''Invalid request.'', Err_ErrorText = err\<rparr>"

definition SysErrRender :: "string \<Rightarrow> ErrResponse" where
  "SysErrRender err =
     \<lparr>Err_HTTPStatusCode = 500, Err_StatusText = ''System Error: '', Err_ErrorText = err\<rparr>"

definition ErrRender :: "string \<Rightarrow> ErrResponse" where
  "ErrRender err =
     \<lparr>Err_HTTPStatusCode = 422, Err_StatusText = ''Error rendering response.'', Err_ErrorText = err\<rparr>"

definition Render :: "ErrResponse \<Rightarrow> nat \<times> 'a rendered" where
  "Render e = (Err_HTTPStatusCode e, Rendered e)"

abbreviation render_error :: "ErrResponse \<Rightarrow> 'a served" where
  "render_error e \<equiv> \<lparr>Served = [Render e], Crashed = None\<rparr>"

abbreviation render_JSON :: "nat \<Rightarrow> 'a \<Rightarrow> 'a served" where
  "render_JSON status v \<equiv> \<lparr>Served = [(status, Rendered_JSON v)], Crashed = None\<rparr>"

definition no_client :: "string \<Rightarrow> 'a served" where
  "no_client msg = \<lparr>Served = [Render (ErrConfigProblem msg)], Crashed = Some ''nil pointer dereference''\<rparr>"

text \<open>The application of a reply to a deletion is the zero value, here \<open>None\<close>.\<close>

record DMASuccessResponse =
  DMA_UniqueID :: string
  DMA_Application :: "FybrikApplication option"
  DMA_Message :: string

definition ListFybrikApplications :: "'w RestClient option \<Rightarrow> 'w \<Rightarrow> FybrikApplication list served" where
  "ListFybrikApplications client w =
     (case client of
        None \<Rightarrow> no_client ''no dmaClient set''
      | Some f \<Rightarrow> (case ListApplications f w of Inl err \<Rightarrow> render_error (ErrRender err) | Inr apps \<Rightarrow> render_JSON 200 apps))"

definition GetFybrikApplication :: "'w RestClient option \<Rightarrow> string \<Rightarrow> 'w \<Rightarrow> FybrikApplication served" where
  "GetFybrikApplication client fybrikapplicationID w =
     (case client of
        None \<Rightarrow> no_client ''no dmaClient set''
      | Some f \<Rightarrow>
          (case GetApplication f fybrikapplicationID w of Inl err \<Rightarrow> render_error (ErrRender err) | Inr dma \<Rightarrow> render_JSON 200 dma))"

definition UpdateFybrikApplication ::
  "'w RestClient option \<Rightarrow> string \<Rightarrow> string + FybrikApplication \<Rightarrow> 'w \<Rightarrow> DMASuccessResponse served \<times> 'w" where
  "UpdateFybrikApplication client fybrikapplicationID body w =
     (case client of
        None \<Rightarrow>
          (case body of
             Inl err \<Rightarrow> (\<lparr>Served = [Render (ErrConfigProblem ''no dmaClient set''), Render (ErrInvalidRequest err)], Crashed = None\<rparr>, w)
           | Inr _ \<Rightarrow> (no_client ''no dmaClient set'', w))
      | Some f \<Rightarrow>
          (case body of
             Inl err \<Rightarrow> (render_error (ErrInvalidRequest err), w)
           | Inr dmaStruct \<Rightarrow>
               (case UpdateApplication f fybrikapplicationID
                       (dmaStruct\<lparr>App_Meta := (App_Meta dmaStruct)\<lparr>Meta_Namespace := KC_namespace f\<rparr>\<rparr>) w of
                  (Inl err, w') \<Rightarrow> (render_error (ErrRender err), w')
                | (Inr dma, w') \<Rightarrow>
                    (render_JSON 200 \<lparr>DMA_UniqueID = Meta_Name (App_Meta dma), DMA_Application = Some dma,
                                     DMA_Message = ''Updated!!''\<rparr>, w'))))"

definition DeleteFybrikApplication ::
  "'w RestClient option \<Rightarrow> string \<Rightarrow> 'w \<Rightarrow> DMASuccessResponse served \<times> 'w" where
  "DeleteFybrikApplication client fybrikapplicationID w =
     (case client of
        None \<Rightarrow> (no_client ''no dmaClient set'', w)
      | Some f \<Rightarrow>
          (case DeleteApplication f fybrikapplicationID w of
             (Some err, w') \<Rightarrow> (render_error (ErrRender err), w')
           | (None, w') \<Rightarrow>
               (render_JSON 200 \<lparr>DMA_UniqueID = fybrikapplicationID, DMA_Application = None, DMA_Message = ''Deleted!!''\<rparr>, w')))"

definition CreateFybrikApplication ::
  "'w RestClient option \<Rightarrow> string + FybrikApplication \<Rightarrow> 'w \<Rightarrow> DMASuccessResponse served \<times> 'w" where
  "CreateFybrikApplication client body w =
     (case body of
        Inl err \<Rightarrow> (render_error (ErrInvalidRequest err), w)
      | Inr dmaStruct \<Rightarrow>
          (case client of
             None \<Rightarrow> (no_client ''no dmaClient set'', w)
           | Some f \<Rightarrow>
               (case CreateApplication f
                       (dmaStruct\<lparr>App_Meta := (App_Meta dmaStruct)\<lparr>Meta_Namespace := KC_namespace f\<rparr>\<rparr>) w of
                  (Inl err, w') \<Rightarrow> (render_error (ErrRender err), w')
                | (Inr dma, w') \<Rightarrow>
                    (render_JSON 201 \<lparr>DMA_UniqueID = ''123'', DMA_Application = Some dma, DMA_Message = ''Created!!''\<rparr>, w'))))"

record UserCredentials =
  UC_SecretName :: string
  UC_System :: string
  UC_Credentials :: "(string, string) fmap"

record CredsSuccessResponse =
  Creds_Secret :: string
  Creds_Name :: string
  Creds_Message :: string

definition GetCredentials :: "'w RestClient option \<Rightarrow> string \<Rightarrow> 'w \<Rightarrow> (string, string) fmap served" where
  "GetCredentials client secretName w =
     (case client of
        None \<Rightarrow> no_client ''no k8sClient set''
      | Some f \<Rightarrow> (case GetSecret f secretName w of Inl err \<Rightarrow> render_error (ErrRender err) | Inr secret \<Rightarrow> render_JSON 200 (US_Data secret)))"

definition DeleteCredentials :: "'w RestClient option \<Rightarrow> string \<Rightarrow> 'w \<Rightarrow> CredsSuccessResponse served \<times> 'w" where
  "DeleteCredentials client secretName w =
     (case client of
        None \<Rightarrow> (no_client ''no client set'', w)
      | Some f \<Rightarrow>
          (case DeleteSecret f secretName w of
             (Some err, w') \<Rightarrow> (render_error (ErrRender err), w')
           | (None, w') \<Rightarrow> (render_JSON 200 \<lparr>Creds_Secret = [], Creds_Name = secretName, Creds_Message = ''Deleted!!''\<rparr>, w')))"

text \<open>The credentials with the name of the system as a prefix.\<close>

definition prefixed :: "range_ord \<Rightarrow> UserCredentials \<Rightarrow> (string, string) fmap" where
  "prefixed ord creds =
     fold (\<lambda>(key, v) m. fmupd (UC_System creds @ ''_'' @ key) v m) (fmrange ord (UC_Credentials creds)) fmempty"

definition StoreCredentials ::
  "range_ord \<Rightarrow> 'w RestClient option \<Rightarrow> string + UserCredentials \<Rightarrow> 'w \<Rightarrow> CredsSuccessResponse served \<times> 'w" where
  "StoreCredentials ord client body w =
     (case client of
        None \<Rightarrow>
          (case body of
             Inl err \<Rightarrow> (\<lparr>Served = [Render (ErrConfigProblem ''no k8sClient set''), Render (ErrInvalidRequest err)], Crashed = None\<rparr>, w)
           | Inr _ \<Rightarrow> (no_client ''no k8sClient set'', w))
      | Some f \<Rightarrow>
          (case body of
             Inl err \<Rightarrow> (render_error (ErrInvalidRequest err), w)
           | Inr userCredentials \<Rightarrow>
               (case CreateOrUpdateSecret f
                       \<lparr>US_Name = UC_SecretName userCredentials, US_Namespace = KC_namespace f, US_Type = ''Opaque'',
                        US_Data = prefixed ord userCredentials, US_StringData = fmempty\<rparr> w of
                  (Inl err, w') \<Rightarrow> (render_error (ErrConfigProblem err), w')
                | (Inr secret, w') \<Rightarrow>
                    (render_JSON 201 \<lparr>Creds_Secret = [], Creds_Name = US_Name secret, Creds_Message = ''Created!!''\<rparr>, w'))))"

record EnvironmentInfo =
  Env_Namespace :: string
  Env_Geography :: string
  Env_Systems :: "(string, string list) fmap"
  Env_DataSetIDFormat :: string

definition GetEnvInfo :: "go_env \<Rightarrow> EnvironmentInfo served" where
  "GetEnvInfo env =
     render_JSON 200 \<lparr>Env_Namespace = GetCurrentNamespace (NamespaceFile env), Env_Geography = Getenv env ''GEOGRAPHY'',
      Env_Systems = fmupd ''Egeria'' [''username''] fmempty,
      Env_DataSetIDFormat = ''{\"ServerName\":\"---\",\"AssetGuid\":\"---\"}''\<rparr>"

section \<open>Lemmas\<close>

text \<open>Every entry of the credentials is stored under the name of its system.\<close>

lemma prefixed_lookup:
  assumes "range_order ord"
  shows "fmlookup (prefixed ord creds) (UC_System creds @ ''_'' @ key) = fmlookup (UC_Credentials creds) key"
proof -
  let ?p = "\<lambda>key. UC_System creds @ ''_'' @ key"
  have step: "fmlookup (fold (\<lambda>(key, v) m. fmupd (?p key) v m) kvs m) (?p key) =
      (case map_of kvs key of Some v \<Rightarrow> Some v | None \<Rightarrow> fmlookup m (?p key))" if "distinct (map fst kvs)" for kvs m
    using that
  proof (induction kvs arbitrary: m)
    case (Cons kv kvs)
    have "map_of kvs (fst kv) = None" using Cons.prems by (simp add: map_of_eq_None_iff)
    with Cons show ?case by (cases kv) (auto split: option.splits)
  qed simp
  have d: "distinct (map fst (fmrange ord (UC_Credentials creds)))" by (rule fmrange_distinct_fst [OF assms])
  have "map_of (fmrange ord (UC_Credentials creds)) key = fmlookup (UC_Credentials creds) key"
  proof (cases "fmlookup (UC_Credentials creds) key")
    case (Some v)
    then show ?thesis using d by (simp add: fmrange_set [OF assms])
  next
    case None
    then have "key \<notin> fst ` set (fmrange ord (UC_Credentials creds))"
      using fmrange_set [OF assms, of key _ "UC_Credentials creds"] by force
    then show ?thesis using None by (simp add: map_of_eq_None_iff)
  qed
  then show ?thesis unfolding prefixed_def using step [OF d] by (auto split: option.splits)
qed

text \<open>Storing credentials for one system keeps those of the others in the same secret.\<close>

lemma stored_credentials:
  assumes "range_order ord"
    and "Rest_GetSecret (KC_API f) \<lparr>NN_Name = UC_SecretName creds, NN_Namespace = KC_namespace f\<rparr> w = Inr existing"
    and "Rest_UpdateSecret (KC_API f) = (\<lambda>s w. (Inr s, put s))"
    and "StoreCredentials ord (Some f) (Inr creds) w = (h, w')"
  shows "\<exists>s. w' = put s \<and>
    (\<forall>key v. fmlookup (UC_Credentials creds) key = Some v \<longrightarrow> fmlookup (US_Data s) (UC_System creds @ ''_'' @ key) = Some v) \<and>
    (\<forall>k v. fmlookup (US_Data existing) k = Some v \<longrightarrow> k |\<notin>| fmdom (prefixed ord creds) \<longrightarrow> fmlookup (US_Data s) k = Some v)"
  using assms(2-4) prefixed_lookup [OF assms(1), of creds]
  by (auto simp: StoreCredentials_def CreateOrUpdateSecret_def fmlookup_dom_iff)

text \<open>
  An update acts on the application that its body names, whatever the identifier in the address is.
\<close>

lemma update_ignores_address:
  "UpdateFybrikApplication client name body w = UpdateFybrikApplication client name' body w"
proof (cases client)
  case (Some f)
  have "UpdateApplication f name = UpdateApplication f name'" by (simp add: fun_eq_iff UpdateApplication_def)
  with Some show ?thesis by (simp add: UpdateFybrikApplication_def cong: sum.case_cong)
qed (simp add: UpdateFybrikApplication_def)

end
