(* ===== verification/Spec2Isabelle.thy ===== *)
theory Spec2Isabelle
  imports Application_Claims Blueprint_Progress Taxonomy_Structural Manager_Main Module_Dependencies Vault Rest_Server
begin

text \<open>
  The control plane of Fybrik. A user declares in a FybrikApplication which data a workload needs; the
  control plane asks a data catalog and a policy manager about the data, chooses modules that read,
  copy, write and transform it as the policies demand, and deploys them on one or several clusters.

  \<^bold>\<open>Parts and how they interact.\<close> Three controllers hand resources to each other. The application
  controller turns a FybrikApplication into a Plotter. The plotter controller turns a Plotter into one
  Blueprint per cluster. The blueprint controller installs the modules of a Blueprint as Helm releases.
  Readiness and errors flow back the same way. Around them stand the module controller and the
  webhooks, which validate resources, the connectors, which answer questions about data and policies,
  the cluster managers, the Vault client, the taxonomy compiler, the start-up of the manager process and
  a sample REST server.

  \<^bold>\<open>Shared theories.\<close>
  \<^item> \<open>Go_Prelude\<close>: maps, slices, errors, panics and loops of Go.
  \<^item> \<open>Model_Types\<close> (\<^verbatim>\<open>src/pkg/model\<close>, \<^verbatim>\<open>src/pkg/serde\<close>) and \<open>API_Types\<close>
    (\<^verbatim>\<open>src/manager/apis/app/v1alpha1\<close>): one record per struct. JSON methods round-trip.
  \<^item> \<open>Utils\<close> (\<^verbatim>\<open>src/manager/controllers/utils\<close>, \<^verbatim>\<open>src/pkg/environment\<close>): configuration and names.
  \<^item> \<open>K8s_Client\<close>: \<open>UpdateStatus\<close> and \<open>UpdateFinalizers\<close> of \<^verbatim>\<open>utils.go\<close> with their retries. A successful
    update has stored what was computed.

  \<^bold>\<open>From an application to a plotter.\<close>
  \<^item> \<open>Policy_Interface\<close> (\<^verbatim>\<open>policy_compiler_interface.go\<close>): the lookup of governance actions.
  \<^item> \<open>Admin_Config\<close> (\<^verbatim>\<open>src/pkg/adminconfig\<close>): \<open>Evaluate\<close> gives exactly what all rules allow together, or
    reports a conflict.
  \<^item> \<open>Select_Modules\<close> (\<^verbatim>\<open>select_modules.go\<close>): \<open>FindPaths\<close> returns exactly the valid data paths within the
    bound; on each of them every required action is performed, clusters and storage regions obey the
    restrictions, and required capabilities are deployed. \<open>Module_Dependencies\<close>: the dependencies of a
    module are complete where they are acyclic.
  \<^item> \<open>Storage\<close> (\<^verbatim>\<open>storage_provisioning.go\<close>, \<^verbatim>\<open>storage.go\<close>): the locale \<open>provision\<close> and its two
    implementations.
  \<^item> \<open>Plotter_Generator\<close> (\<^verbatim>\<open>plotter_generator.go\<close>): the generated flows refer only to known assets and
    templates and carry the required actions.
  \<^item> \<open>App_Conditions\<close> (\<^verbatim>\<open>fybrikapplication_conditions.go\<close>): updates of conditions never panic, and
    \<open>isReady\<close> means what it says.
  \<^item> \<open>Resource_Gen\<close> (\<^verbatim>\<open>resource_gen.go\<close>): the locale \<open>context_interface\<close>, kept by the plotter interface.
  \<^item> \<open>Application_Controller\<close> (\<^verbatim>\<open>fybrikapplication_controller.go\<close>, \<^verbatim>\<open>data_catalog_interface.go\<close>) with its
    lemmas in \<open>Application_Progress\<close> and the results of a whole reconciliation in \<open>Application_Claims\<close>:
    a recorded plotter is governed by the decisions, readiness is never reported too early, it is
    reached once the plotter is ready, and finalizers go last.

  \<^bold>\<open>From a plotter to Helm releases.\<close>
  \<^item> \<open>Blueprint_Mgr\<close> (\<^verbatim>\<open>blueprint_mgr.go\<close>): uniting instances loses and invents no argument.
  \<^item> \<open>Multicluster\<close> (\<^verbatim>\<open>src/pkg/multicluster\<close>): the locale \<open>cluster_manager\<close>; the dummy and the local manager
    keep it. \<open>Razee\<close> (\<^verbatim>\<open>razee_cluster_manager.go\<close>): creation is transactional.
  \<^item> \<open>Plotter_Controller\<close> and \<open>Plotter_Reconcile\<close> (\<^verbatim>\<open>plotter_controller.go\<close>): one reconciliation without
    errors brings the clusters to the wanted blueprints; readiness and finalizers are safe.
  \<^item> \<open>Helm\<close> (\<^verbatim>\<open>src/pkg/helm/helm.go\<close>): the locale \<open>helmer\<close>, kept by the fake implementation.
  \<^item> \<open>Blueprint_Controller\<close> and \<open>Blueprint_Progress\<close> (\<^verbatim>\<open>blueprint_controller.go\<close>): when a blueprint is ready,
    that it becomes so, that every release is accounted for, and that release names fit Helm.

  \<^bold>\<open>Around the controllers.\<close>
  \<^item> \<open>Validation\<close> (webhooks, \<^verbatim>\<open>resource.go\<close>, \<^verbatim>\<open>fybrikmodule_controller.go\<close>): a stored module carries the
    verdict on its current generation.
  \<^item> \<open>Policy_Connector\<close> and \<open>Catalog_Connector\<close> (\<^verbatim>\<open>src/pkg/connectors\<close>, \<^verbatim>\<open>src/connectors\<close>,
    \<^verbatim>\<open>src/manager/controllers/mockup\<close>): conversions to and from gRPC round-trip where they can, and OPA
    decides on the metadata of the catalog.
  \<^item> \<open>Taxonomy_Compile\<close> and \<open>Taxonomy_Structural\<close> (\<^verbatim>\<open>src/pkg/taxonomy\<close>): layers only extend the base, and
    compilation and flattening end on acyclic documents.
  \<^item> \<open>Vault\<close> (\<^verbatim>\<open>src/pkg/vault\<close>): the locale \<open>vault_store\<close>, kept by the dummy; the connection to Vault is
    related to it over a lawful key-value store.
  \<^item> \<open>Manager_Main\<close> (\<^verbatim>\<open>src/manager/main.go\<close>, \<^verbatim>\<open>compile.go\<close>): which failures end the start-up, and that
    applications are validated by the webhook or by the controllers.
  \<^item> \<open>Rest_Server\<close> (\<^verbatim>\<open>src/samples/rest-server\<close>): the handlers of applications and credentials.

  \<^bold>\<open>Reading the model.\<close> An operation that changes its surroundings takes a world of type \<open>'w\<close> and returns
  the new one beside its result. Code outside the repository (the API server, the Helm library, the Rego
  engine, JSON and YAML codecs, remote services) is a record of functions over that world; what its
  documentation promises is a named predicate that appears as a hypothesis, and each hypothesis is shown
  to be satisfiable by a concrete instance. An error is a string; a panic is a value of the type \<open>go\<close> or
  a field of a reply. The order in which Go visits a map is the parameter \<open>ord\<close>, and the theorems hold
  for every order.

  \<^bold>\<open>Bounds.\<close> The search for data paths is bounded by the configured limit, as in the code; the model
  recurses on it, so nothing is cut off beyond what the code cuts off. Helm release names have at most
  53 characters. The recursion of the taxonomy compiler through references takes fuel; the theorem on
  its termination shows that the rank of an acyclic document is enough, and running out of fuel is a
  value of its own. The dependencies of modules are a partial function, whose missing value is
  divergence. Machine integers that the code multiplies or compares keep their width of 64 bits.

  \<^bold>\<open>Not modelled.\<close> Generated code (deep copies, protocol buffers beyond the messages, OpenAPI clients)
  and the registration of API types, which have no behaviour of their own; logging; the command lines,
  routes and main programs of the connectors and of the taxonomy tool; the registration of controllers
  with the controller library; the reading of taxonomy files; helpers and services used by tests only.
  Concurrent reconciliations of the same resource do not occur, because the controller library
  serialises them; conflicting writes by others appear as errors of the API server. Nil and empty slices
  and maps are identified except where the code tells them apart.
\<close>

end
